(* ===== verification/Prelude.thy ===== *)
theory Prelude
  imports Main "HOL-Library.Word" "HOL-Library.Multiset"
begin

section \<open>Shared vocabulary\<close>

text \<open>
  What every component of the development uses: the names of Go's unsigned
  integer types, pointers and heaps for the values the engine shares through
  Go pointers, loops over slices that keep an invariant, and the contract of
  \<^verbatim>\<open>sort.Slice\<close>.  Nothing in this theory models a file of the
  repository by itself.
\<close>

named_theorems crowns \<open>operations that move crowns by solvent transfers\<close>
named_theorems in_range \<open>quantities that stay in their documented range\<close>
named_theorems frame \<open>fields an operation leaves alone\<close>

subsection \<open>Fixed-width integers\<close>

type_synonym uint8 = "8 word"
type_synonym uint16 = "16 word"
type_synonym uint32 = "32 word"
type_synonym uint64 = "64 word"

lemma unat_plus_le: "unat ((a::'a::len word) + b) \<le> unat a + unat b"
  by (simp add: unat_word_ariths)

lemma unat_minus_le: "b \<le> (a::'a::len word) \<Longrightarrow> unat (a - b) = unat a - unat b"
  by (simp add: unat_sub word_le_nat_alt)

subsection \<open>Pointers and heaps\<close>

text \<open>
  Agents and settlements are shared through pointers: the slice
  \<^verbatim>\<open>Simulation.Agents\<close> and the per-settlement slices of
  \<^verbatim>\<open>SettlementAgents\<close> hold the same objects.  A heap maps pointers
  to objects; an assignment through a pointer is \<open>upd\<close>.
\<close>

type_synonym ptr = nat

definition upd :: "ptr \<Rightarrow> ('a \<Rightarrow> 'a) \<Rightarrow> (ptr \<Rightarrow> 'a) \<Rightarrow> ptr \<Rightarrow> 'a" where
  "upd p f h = h(p := f (h p))"

lemma upd_apply [simp]: "upd p f h q = (if q = p then f (h p) else h q)"
  by (simp add: upd_def)

lemma upd_same_field: "(\<And>x. g (f x) = g x) \<Longrightarrow> g (upd p f h q) = g (h q)"
  by simp

subsection \<open>Loops over slices\<close>

text \<open>
  A Go loop \<^verbatim>\<open>for _, x := range xs\<close> without early exit is
  \<open>fold step xs\<close>.  Whatever one step keeps, the loop keeps.
\<close>

locale loop_invariant =
  fixes step :: "'x \<Rightarrow> 's \<Rightarrow> 's" and inv :: "'s \<Rightarrow> bool"
  assumes step_inv: "inv s \<Longrightarrow> inv (step x s)"
begin

lemma loop_inv: "inv s \<Longrightarrow> inv (fold step xs s)"
  by (induction xs arbitrary: s) (auto intro: step_inv)

end

text \<open>A loop whose steps keep a quantity keeps it as a whole.\<close>

locale loop_frame =
  fixes step :: "'x \<Rightarrow> 's \<Rightarrow> 's" and obs :: "'s \<Rightarrow> 'v"
  assumes step_obs: "obs (step x s) = obs s"
begin

lemma loop_obs: "obs (fold step xs s) = obs s"
  by (induction xs arbitrary: s) (auto simp: step_obs)

end

lemma fold_rel:
  assumes "\<And>s. R s s" and "\<And>s t u. R s t \<Longrightarrow> R t u \<Longrightarrow> R s u"
    and "\<And>x s. x \<in> set xs \<Longrightarrow> R s (f x s)"
  shows "R s (fold f xs s)"
  using assms(3)
proof (induction xs arbitrary: s)
  case Nil
  show ?case by (simp add: assms(1))
next
  case (Cons x xs)
  have "R s (f x s)" using Cons.prems by simp
  moreover have "R (f x s) (fold f xs (f x s))"
    by (rule Cons.IH) (use Cons.prems in auto)
  ultimately show ?case by (auto intro: assms(2))
qed

text \<open>
  A loop with \<^verbatim>\<open>break\<close>: the body returns \<open>None\<close> where the Go code
  breaks, and the next state otherwise (\<^verbatim>\<open>continue\<close> returns the state
  as it is).
\<close>

fun for_break :: "('x \<Rightarrow> 's \<Rightarrow> 's option) \<Rightarrow> 'x list \<Rightarrow> 's \<Rightarrow> 's" where
  "for_break f [] s = s"
| "for_break f (x # xs) s = (case f x s of None \<Rightarrow> s | Some s' \<Rightarrow> for_break f xs s')"

lemma for_break_rel:
  assumes "\<And>s. R s s" and "\<And>s t u. R s t \<Longrightarrow> R t u \<Longrightarrow> R s u"
    and "\<And>x s s'. x \<in> set xs \<Longrightarrow> I s \<Longrightarrow> f x s = Some s' \<Longrightarrow> R s s' \<and> I s'" and "I s"
  shows "R s (for_break f xs s) \<and> I (for_break f xs s)"
  using assms(3,4)
proof (induction xs arbitrary: s)
  case (Cons x xs)
  show ?case
  proof (cases "f x s")
    case (Some s')
    then have "R s s'" "I s'" using Cons.prems by (auto dest: Cons.prems(1) [of x])
    moreover have "R s' (for_break f xs s') \<and> I (for_break f xs s')"
      by (rule Cons.IH) (use Cons.prems \<open>I s'\<close> in auto)
    ultimately show ?thesis using Some by (auto intro: assms(2))
  qed (use Cons.prems assms(1) in auto)
qed (use assms(1) in auto)

lemma fold_rel_inv:
  assumes "\<And>s. R s s" and "\<And>s t u. R s t \<Longrightarrow> R t u \<Longrightarrow> R s u"
    and "\<And>x s. x \<in> set xs \<Longrightarrow> I s \<Longrightarrow> R s (f x s) \<and> I (f x s)" and "I s"
  shows "R s (fold f xs s) \<and> I (fold f xs s)"
  using assms(3,4)
proof (induction xs arbitrary: s)
  case (Cons x xs)
  have "R s (f x s)" "I (f x s)" using Cons.prems by auto
  moreover have "R (f x s) (fold f xs (f x s)) \<and> I (fold f xs (f x s))"
    by (rule Cons.IH) (use Cons.prems \<open>I (f x s)\<close> in auto)
  ultimately show ?case by (auto intro: assms(2))
qed (use assms(1) in auto)

subsection \<open>Sorting\<close>

text \<open>
  \<^verbatim>\<open>sort.Slice(xs, less)\<close> is documented to leave a permutation of
  \<^verbatim>\<open>xs\<close> that is ordered by \<^verbatim>\<open>less\<close> and not to be stable.
  The order among equal elements is therefore left to the argument
  \<open>srt\<close> of the definitions that sort; this is its contract.
\<close>

locale slice_sort =
  fixes srt :: "'a list \<Rightarrow> 'a list" and less :: "'a \<Rightarrow> 'a \<Rightarrow> bool"
  assumes mset_srt: "mset (srt xs) = mset xs"
    and srt_sorted: "sorted_wrt (\<lambda>x y. \<not> less y x) (srt xs)"
begin

lemma set_srt [simp]: "set (srt xs) = set xs"
  using mset_srt [of xs] by (metis mset_eq_setD)

lemma length_srt [simp]: "length (srt xs) = length xs"
  using mset_srt [of xs] by (metis size_mset)

lemma srt_take_dominates:
  assumes "x \<in> set (take n (srt xs))" and "y \<in> set (drop n (srt xs))"
  shows "\<not> less y x"
proof -
  have "sorted_wrt (\<lambda>x y. \<not> less y x) (take n (srt xs) @ drop n (srt xs))"
    using srt_sorted [of xs] by simp
  then show ?thesis using assms unfolding sorted_wrt_append by blast
qed

end

text \<open>
  Go's \<^verbatim>\<open>sort.Slice\<close> sorts short slices (at most twelve elements) by
  insertion sort; it meets the contract for every key of a linear order.
\<close>

definition sort_by :: "('a \<Rightarrow> 'k::linorder) \<Rightarrow> 'a list \<Rightarrow> 'a list" where
  "sort_by k xs = sort_key k xs"

lemma sort_by_slice_sort: "slice_sort (sort_by k) (\<lambda>x y. k x < k y)"
proof
  fix xs :: "'a list"
  show "mset (sort_by k xs) = mset xs" by (simp add: sort_by_def)
  have "sorted (map k (sort_by k xs))" by (simp add: sort_by_def)
  then show "sorted_wrt (\<lambda>x y. \<not> k y < k x) (sort_by k xs)"
    by (simp add: sorted_wrt_map not_less)
qed

interpretation by_key: slice_sort "sort_by k" "\<lambda>x y. k x < k y" for k :: "'a \<Rightarrow> 'k::linorder"
  by (rule sort_by_slice_sort)

text \<open>Descending sorts, \<^verbatim>\<open>less = key(i) > key(j)\<close>, likewise.\<close>

definition sort_desc :: "('a \<Rightarrow> 'k::linorder) \<Rightarrow> 'a list \<Rightarrow> 'a list" where
  "sort_desc k xs = rev (sort_key k xs)"

lemma sort_desc_slice_sort: "slice_sort (sort_desc k) (\<lambda>x y. k y < k x)"
proof
  fix xs :: "'a list"
  show "mset (sort_desc k xs) = mset xs" by (simp add: sort_desc_def)
  have "sorted (map k (sort_key k xs))" by simp
  then show "sorted_wrt (\<lambda>x y. \<not> k x < k y) (sort_desc k xs)"
    by (simp add: sort_desc_def sorted_wrt_rev sorted_wrt_map not_less)
qed

interpretation by_key_desc: slice_sort "sort_desc k" "\<lambda>x y. k y < k x" for k :: "'a \<Rightarrow> 'k::linorder"
  by (rule sort_desc_slice_sort)

subsection \<open>First matching element\<close>

text \<open>A search loop that returns the first element with a property.\<close>

fun find_first :: "('a \<Rightarrow> bool) \<Rightarrow> 'a list \<Rightarrow> 'a option" where
  "find_first P [] = None"
| "find_first P (x # xs) = (if P x then Some x else find_first P xs)"

lemma find_first_Some: "find_first P xs = Some x \<Longrightarrow> x \<in> set xs \<and> P x"
  by (induction xs) (auto split: if_splits)

lemma find_first_None: "find_first P xs = None \<longleftrightarrow> (\<forall>x \<in> set xs. \<not> P x)"
  by (induction xs) auto

end
