(* ===== verification/Go_Float.thy ===== *)
theory Go_Float
  imports Complex_Main "HOL-Library.Log_Nat" "HOL-Library.Word" Prelude
begin


section \<open>Go's floating-point numbers\<close>

text \<open>
  \<^verbatim>\<open>float64\<close> and \<^verbatim>\<open>float32\<close> with the arithmetic Go gives
  them: every operation is the exact rational result rounded to the nearest
  representable number, ties to even, with gradual underflow.  A format is
  a precision and a least exponent: 53 bits and \<open>-1074\<close> for
  \<^verbatim>\<open>float64\<close>, 24 bits and \<open>-149\<close> for
  \<^verbatim>\<open>float32\<close>.  The numbers are the finite values of the format;
  the exponent is not bounded above, so overflow to an infinity is not
  modelled, and neither are NaN and the sign of zero.  Division by zero is
  0 here, as in HOL, and not an infinity: the definitions that divide either
  guard the divisor as the source does or say why it is positive.  Go
  may fuse a product and a sum on some targets; the model is the unfused
  arithmetic of amd64, the target of the deployment scripts.
\<close>

subsection \<open>Binary exponent and rounding to an integer\<close>

definition ilog2 :: "rat \<Rightarrow> int" where
  "ilog2 x = (let (n, d) = quotient_of x; k = bitlen n - bitlen d
              in if 2 powi k \<le> x then k else k - 1)"

lemma bitlen_powi_bounds:
  assumes "0 < (n::int)"
  shows "2 powi (bitlen n - 1) \<le> (of_int n :: rat)" and "of_int n < (2 powi bitlen n :: rat)"
proof -
  have b: "0 < bitlen n"
    using assms bitlen_nonneg [of n] bitlen_eq_zero_iff [of n] by linarith
  have *: "2 ^ nat (bitlen n - 1) \<le> n" "n < 2 ^ nat (bitlen n)"
    using bitlen_bounds [OF assms] by auto
  have "(of_int (2 ^ nat (bitlen n - 1)) :: rat) \<le> of_int n"
    using *(1) by (simp only: of_int_le_iff)
  then show "2 powi (bitlen n - 1) \<le> (of_int n :: rat)"
    using b by (simp add: power_int_def)
  have "(of_int n :: rat) < of_int (2 ^ nat (bitlen n))"
    using *(2) by (simp only: of_int_less_iff)
  then show "of_int n < (2 powi bitlen n :: rat)"
    using b by (simp add: power_int_def)
qed

lemma ilog2_bounds:
  assumes "0 < x"
  shows "2 powi ilog2 x \<le> x" and "x < 2 powi (ilog2 x + 1)"
proof -
  obtain n d where q: "quotient_of x = (n, d)" by (cases "quotient_of x")
  have d: "0 < d" using q by (rule quotient_of_denom_pos)
  have x: "x = of_int n / of_int d" using q by (rule quotient_of_div)
  have n: "0 < n" using assms d by (simp add: x zero_less_divide_iff)
  let ?k = "bitlen n - bitlen d"
  have lo: "2 powi (?k - 1) \<le> x"
  proof -
    have "2 powi (?k - 1) * of_int d \<le> (2 powi (?k - 1) * 2 powi bitlen d :: rat)"
      using bitlen_powi_bounds(2) [OF d] by (intro mult_left_mono) auto
    also have "\<dots> = 2 powi (bitlen n - 1)"
      by (simp add: power_int_add [symmetric])
    also have "\<dots> \<le> of_int n" by (rule bitlen_powi_bounds(1) [OF n])
    finally show ?thesis using d by (simp add: x pos_le_divide_eq)
  qed
  have hi: "x < 2 powi (?k + 1)"
  proof -
    have "(of_int n :: rat) < 2 powi bitlen n" by (rule bitlen_powi_bounds(2) [OF n])
    also have "\<dots> = 2 powi (?k + 1) * 2 powi (bitlen d - 1)"
      by (simp add: power_int_add [symmetric])
    also have "\<dots> \<le> 2 powi (?k + 1) * of_int d"
      using bitlen_powi_bounds(1) [OF d] by (intro mult_left_mono) auto
    finally show ?thesis using d by (simp add: x pos_divide_less_eq)
  qed
  show "2 powi ilog2 x \<le> x" and "x < 2 powi (ilog2 x + 1)"
    using lo hi by (auto simp: ilog2_def q not_le Let_def)
qed

lemma powi2_mono: "a \<le> b \<Longrightarrow> (2::rat) powi a \<le> 2 powi b"
  by (rule power_int_increasing) auto

lemma powi2_less_iff: "(2::rat) powi a < 2 powi b \<longleftrightarrow> a < b"
  by (metis linorder_not_le powi2_mono power_int_strict_increasing one_less_numeral_iff semiring_norm(76))

lemma ilog2_mono: "0 < x \<Longrightarrow> x \<le> y \<Longrightarrow> ilog2 x \<le> ilog2 y"
proof -
  assume "0 < x" "x \<le> y"
  then have "2 powi ilog2 x < (2::rat) powi (ilog2 y + 1)"
    using ilog2_bounds(1) [of x] ilog2_bounds(2) [of y] by linarith
  then show ?thesis by (simp add: powi2_less_iff)
qed

lemma ilog2_less: "0 < x \<Longrightarrow> x < 2 powi k \<Longrightarrow> ilog2 x < k"
  using ilog2_bounds(1) [of x] powi2_less_iff [of "ilog2 x" k] by linarith

lemma ilog2_ge: "2 powi k \<le> x \<Longrightarrow> k \<le> ilog2 x"
  using ilog2_bounds(2) [of x] powi2_less_iff [of k "ilog2 x + 1"] zero_less_power_int [of "2::rat" k] by linarith

definition round_half_even :: "rat \<Rightarrow> int" where
  "round_half_even x = (let n = \<lfloor>x\<rfloor>; r = x - of_int n
     in if r < 1 / 2 then n else if 1 / 2 < r then n + 1
        else if even n then n else n + 1)"

lemma round_half_even_of_int [simp]: "round_half_even (of_int n) = n"
  by (simp add: round_half_even_def)

lemma round_half_even_ge_floor: "\<lfloor>x\<rfloor> \<le> round_half_even x"
  by (simp add: round_half_even_def Let_def)

lemma round_half_even_le_floor: "round_half_even x \<le> \<lfloor>x\<rfloor> + 1"
  by (simp add: round_half_even_def Let_def)

lemma round_half_even_mono: "x \<le> y \<Longrightarrow> round_half_even x \<le> round_half_even y"
proof (cases "\<lfloor>x\<rfloor> = \<lfloor>y\<rfloor>")
  case True
  assume "x \<le> y"
  then show ?thesis by (simp add: round_half_even_def Let_def True)
next
  case False
  assume "x \<le> y"
  then have "\<lfloor>x\<rfloor> + 1 \<le> \<lfloor>y\<rfloor>" using False floor_mono [of x y] by linarith
  then show ?thesis using round_half_even_ge_floor [of y] round_half_even_le_floor [of x] by linarith
qed

lemma round_half_even_le: "x \<le> of_int n \<Longrightarrow> round_half_even x \<le> n"
  using round_half_even_mono [of x "of_int n"] by simp

lemma round_half_even_ge: "of_int n \<le> x \<Longrightarrow> n \<le> round_half_even x"
  using round_half_even_mono [of "of_int n" x] by simp

lemma round_half_even_err: "\<bar>of_int (round_half_even x) - x\<bar> \<le> 1 / 2"
proof -
  have "of_int \<lfloor>x\<rfloor> \<le> x" "x < of_int \<lfloor>x\<rfloor> + 1" by linarith+
  then show ?thesis by (auto simp: round_half_even_def Let_def)
qed

subsection \<open>Rounding to a format\<close>

definition ulp_exp :: "nat \<Rightarrow> int \<Rightarrow> rat \<Rightarrow> int" where
  "ulp_exp p emin x = max (ilog2 x - int p + 1) emin"

definition rnd_pos :: "nat \<Rightarrow> int \<Rightarrow> rat \<Rightarrow> rat" where
  "rnd_pos p emin x = (let u = ulp_exp p emin x
     in of_int (round_half_even (x / 2 powi u)) * 2 powi u)"

definition rnd :: "nat \<Rightarrow> int \<Rightarrow> rat \<Rightarrow> rat" where
  "rnd p emin x = (if x = 0 then 0 else if x < 0 then - rnd_pos p emin (- x) else rnd_pos p emin x)"

lemma powi2_of_int: "0 \<le> k \<Longrightarrow> (2::rat) powi k = of_int (2 ^ nat k)"
  by (simp add: power_int_def)

lemma powi2_pos [simp]: "0 < (2::rat) powi k"
  by (rule zero_less_power_int) simp

lemma rnd_pos_grid:
  assumes x: "x = of_int m * 2 powi e" and "ulp_exp p emin x \<le> e"
  shows "rnd_pos p emin x = x"
proof -
  let ?u = "ulp_exp p emin x"
  have "x / 2 powi ?u = of_int m * 2 powi (e - ?u)"
    by (simp add: x power_int_diff)
  also have "\<dots> = of_int (m * 2 ^ nat (e - ?u))"
    using assms(2) by (simp add: powi2_of_int)
  finally have "x / 2 powi ?u = of_int (m * 2 ^ nat (e - ?u))" .
  moreover from this have "round_half_even (x / 2 powi ?u) = m * 2 ^ nat (e - ?u)"
    by (simp only: round_half_even_of_int)
  ultimately show ?thesis
    unfolding rnd_pos_def Let_def by (metis nonzero_divide_eq_eq powi2_pos less_numeral_extra(3))
qed

lemma rnd_pos_exact:
  assumes x: "x = of_int m * 2 powi e" and pos: "0 < x" and m: "m \<le> 2 ^ p" and p: "0 < p"
    and e: "emin \<le> e"
  shows "rnd_pos p emin x = x"
proof (cases "m = 2 ^ p")
  case True
  have x': "x = of_int 1 * 2 powi (e + int p)"
    by (simp add: x True power_int_add)
  have "ilog2 x < e + int p + 1"
    by (rule ilog2_less [OF pos]) (simp add: x' powi2_less_iff)
  then have "ulp_exp p emin x \<le> e + int p"
    using p e by (simp add: ulp_exp_def)
  with x' show ?thesis by (rule rnd_pos_grid)
next
  case False
  with m have "m < 2 ^ p" by simp
  then have "(of_int m :: rat) < of_int (2 ^ p)" by (simp only: of_int_less_iff)
  then have "x < 2 powi int p * 2 powi e"
    by (simp add: x power_int_def)
  then have "x < 2 powi (int p + e)" by (simp add: power_int_add)
  with pos have "ilog2 x < int p + e" by (rule ilog2_less)
  then have "ulp_exp p emin x \<le> e" using e by (simp add: ulp_exp_def)
  with x show ?thesis by (rule rnd_pos_grid)
qed

lemma rnd_pos_form:
  assumes "0 < x" "0 < p"
  obtains m where "rnd_pos p emin x = of_int m * 2 powi ulp_exp p emin x"
    and "0 \<le> m" and "m \<le> 2 ^ p"
proof
  let ?u = "ulp_exp p emin x" and ?m = "round_half_even (x / 2 powi ulp_exp p emin x)"
  show "rnd_pos p emin x = of_int ?m * 2 powi ?u" by (simp add: rnd_pos_def Let_def)
  show "0 \<le> ?m" using assms by (intro round_half_even_ge) simp
  have "x < 2 powi (ilog2 x + 1)" using assms(1) by (rule ilog2_bounds)
  also have "\<dots> \<le> 2 powi (int p + ?u)" by (rule powi2_mono) (simp add: ulp_exp_def)
  finally have "x / 2 powi ?u < 2 powi int p"
    by (simp add: power_int_add pos_divide_less_eq)
  then show "?m \<le> 2 ^ p" by (intro round_half_even_le) (simp add: power_int_def)
qed

lemma rnd_pos_nonneg: "0 < x \<Longrightarrow> 0 < p \<Longrightarrow> 0 \<le> rnd_pos p emin x"
  by (erule (1) rnd_pos_form [where emin = emin]) simp

lemma emin_le_ulp_exp [simp]: "emin \<le> ulp_exp p emin x"
  by (simp add: ulp_exp_def)

lemma rnd_pos_idem:
  assumes "0 < x" "0 < p" "0 < rnd_pos p emin x"
  shows "rnd_pos p emin (rnd_pos p emin x) = rnd_pos p emin x"
proof -
  obtain m where "rnd_pos p emin x = of_int m * 2 powi ulp_exp p emin x" "m \<le> 2 ^ p"
    using assms(1,2) by (rule rnd_pos_form)
  then show ?thesis using assms(2,3) by (intro rnd_pos_exact) auto
qed

lemma rnd_pos_mono:
  assumes "0 < x" "x \<le> y" "0 < p"
  shows "rnd_pos p emin x \<le> rnd_pos p emin y"
proof -
  let ?u = "ulp_exp p emin x" and ?v = "ulp_exp p emin y"
  have y: "0 < y" using assms by simp
  have il: "ilog2 x \<le> ilog2 y" using assms(1,2) by (rule ilog2_mono)
  show ?thesis
  proof (cases "?u = ?v")
    case True
    have "x / 2 powi ?v \<le> y / 2 powi ?v" using assms by (simp add: divide_right_mono)
    then show ?thesis
      unfolding rnd_pos_def Let_def True by (simp add: round_half_even_mono)
  next
    case False
    then have uv: "?u < ?v" using il by (auto simp: ulp_exp_def max_def split: if_splits)
    then have v: "?v = ilog2 y - int p + 1" and lt: "ilog2 x < ilog2 y"
      by (auto simp: ulp_exp_def max_def split: if_splits)
    let ?B = "(2::rat) powi ilog2 y"
    have "x < 2 powi (ilog2 x + 1)" using assms(1) by (rule ilog2_bounds)
    also have "\<dots> \<le> ?B" using lt by (intro powi2_mono) simp
    finally have xB: "x \<le> ?B" by simp
    have yB: "?B \<le> y" using y by (rule ilog2_bounds)
    have *: "?B / 2 powi w = of_int (2 ^ nat (ilog2 y - w))" if "w \<le> ?v" for w
      using that assms(3) v by (simp add: power_int_diff [symmetric] powi2_of_int)
    have "round_half_even (x / 2 powi ?u) \<le> 2 ^ nat (ilog2 y - ?u)"
      using divide_right_mono [OF xB, of "2 powi ?u"] uv by (intro round_half_even_le) (simp add: *)
    then have "rnd_pos p emin x \<le> of_int (2 ^ nat (ilog2 y - ?u)) * 2 powi ?u"
      unfolding rnd_pos_def Let_def by (intro mult_right_mono) (simp_all only: of_int_le_iff, simp)
    also have "\<dots> = ?B" using uv by (subst * [symmetric]) simp_all
    also have "?B = of_int (2 ^ nat (ilog2 y - ?v)) * 2 powi ?v" by (subst * [symmetric]) simp_all
    also have "\<dots> \<le> rnd_pos p emin y"
      unfolding rnd_pos_def Let_def
      using divide_right_mono [OF yB, of "2 powi ?v"]
      by (intro mult_right_mono) (simp_all only: of_int_le_iff, intro round_half_even_ge, simp_all add: *)
    finally show ?thesis .
  qed
qed

lemma rnd_0 [simp]: "rnd p emin 0 = 0"
  by (simp add: rnd_def)

lemma rnd_uminus [simp]: "rnd p emin (- x) = - rnd p emin x"
  by (simp add: rnd_def)

lemma rnd_mono: "0 < p \<Longrightarrow> x \<le> y \<Longrightarrow> rnd p emin x \<le> rnd p emin y"
  using rnd_pos_mono [of x y p emin] rnd_pos_mono [of "- y" "- x" p emin]
    rnd_pos_nonneg [of y p emin] rnd_pos_nonneg [of "- x" p emin]
  by (auto simp: rnd_def)

lemma rnd_idem [simp]: "0 < p \<Longrightarrow> rnd p emin (rnd p emin x) = rnd p emin x"
  using rnd_pos_idem [of x p emin] rnd_pos_idem [of "- x" p emin]
    rnd_pos_nonneg [of x p emin] rnd_pos_nonneg [of "- x" p emin]
  by (auto simp: rnd_def)

lemma rnd_exact:
  assumes x: "x = of_int m * 2 powi e" and m: "\<bar>m\<bar> \<le> 2 ^ p" and p: "0 < p" and e: "emin \<le> e"
  shows "rnd p emin x = x"
proof -
  have "rnd_pos p emin x = x" if "0 < x"
    using x that m p e by (intro rnd_pos_exact [of _ m e]) auto
  moreover have "rnd_pos p emin (- x) = - x" if "x < 0"
    using x that m p e by (intro rnd_pos_exact [of _ "- m" e]) auto
  ultimately show ?thesis by (auto simp: rnd_def)
qed

lemma rnd_form:
  assumes "0 < p"
  obtains m e where "rnd p emin x = of_int m * 2 powi e" "\<bar>m\<bar> \<le> 2 ^ p" "emin \<le> e"
proof -
  consider "x = 0" | "0 < x" | "0 < - x" by linarith
  then show ?thesis
  proof cases
    case 1
    then show ?thesis using that [of 0 emin] by simp
  next
    case 2
    then obtain m where "rnd_pos p emin x = of_int m * 2 powi ulp_exp p emin x" "0 \<le> m" "m \<le> 2 ^ p"
      using assms by (rule rnd_pos_form)
    with 2 show ?thesis using that [of m "ulp_exp p emin x"] by (simp add: rnd_def)
  next
    case 3
    then obtain m where "rnd_pos p emin (- x) = of_int m * 2 powi ulp_exp p emin (- x)" "0 \<le> m" "m \<le> 2 ^ p"
      using assms by (rule rnd_pos_form)
    with 3 show ?thesis using that [of "- m" "ulp_exp p emin (- x)"] by (simp add: rnd_def)
  qed
qed

text \<open>
  A certificate for one rounding: a significand of full precision that is
  nearer than half a unit in the last place.
\<close>

lemma ilog2_eqI: "2 powi k \<le> x \<Longrightarrow> x < 2 powi (k + 1) \<Longrightarrow> ilog2 x = k"
  using ilog2_ge [of k x] ilog2_less [of x "k + 1"] powi2_pos [of k] by linarith

lemma round_half_even_near: "\<bar>x - of_int n\<bar> < 1 / 2 \<Longrightarrow> round_half_even x = n"
proof -
  assume "\<bar>x - of_int n\<bar> < 1 / 2"
  moreover have "\<bar>of_int (round_half_even x) - x\<bar> \<le> 1 / 2" by (rule round_half_even_err)
  ultimately have "\<bar>of_int (round_half_even x) - of_int n :: rat\<bar> < 1" by linarith
  then have "(of_int \<bar>round_half_even x - n\<bar> :: rat) < of_int 1" by simp
  then show ?thesis by (simp only: of_int_less_iff)
qed

lemma rnd_certificate:
  assumes m: "2 ^ p < 2 * m" "m < 2 ^ p" and e: "emin \<le> e" and p: "0 < p"
    and near: "\<bar>x - of_int m * 2 powi e\<bar> < 2 powi e / 2"
  shows "rnd p emin x = of_int m * 2 powi e"
proof -
  let ?y = "x / 2 powi e"
  have "?y - of_int m = (x - of_int m * 2 powi e) / 2 powi e" by (simp add: diff_divide_distrib)
  then have "\<bar>?y - of_int m\<bar> = \<bar>x - of_int m * 2 powi e\<bar> / 2 powi e" by simp
  also have "\<dots> < 1 / 2" using near by (simp add: field_simps)
  finally have y: "\<bar>?y - of_int m\<bar> < 1 / 2" .
  have q: "2 ^ p = 2 * (2 ^ (p - 1) :: int)" using p by (metis power_eq_if neq0_conv)
  have "2 ^ (p - 1) + 1 \<le> m" "m \<le> 2 ^ p - 1" using m by (simp_all add: q)
  then have "(of_int (2 ^ (p - 1) + 1) :: rat) \<le> of_int m" "(of_int m :: rat) \<le> of_int (2 ^ p - 1)"
    by (simp_all only: of_int_le_iff)
  then have "(2 ^ (p - 1) :: rat) + 1 \<le> of_int m" "(of_int m :: rat) \<le> 2 ^ p - 1" by simp_all
  then have "2 ^ (p - 1) \<le> ?y" "?y < 2 ^ p" using y by linarith+
  then have "2 powi (e + int p - 1) \<le> x" "x < 2 powi (e + int p - 1 + 1)"
    using p by (auto simp: field_simps power_int_add power_int_diff of_nat_diff
      power_int_of_nat [symmetric] simp del: power_int_of_nat)
  then have "ilog2 x = e + int p - 1" and x: "0 < x"
    by (auto intro: ilog2_eqI less_le_trans [OF powi2_pos])
  then have u: "ulp_exp p emin x = e" using e by (simp add: ulp_exp_def)
  have "round_half_even ?y = m" using y by (rule round_half_even_near)
  then show ?thesis using x by (simp add: rnd_def rnd_pos_def u)
qed

subsection \<open>The types\<close>

typedef (overloaded) ('p::len, 'e::len) flt = "{x. rnd LENGTH('p) (- int LENGTH('e)) x = x}"
  morphisms rat_of_flt Abs_flt
  by (rule exI [of _ 0]) simp

setup_lifting type_definition_flt

type_synonym f64 = "(53, 1074) flt"
type_synonym f32 = "(24, 149) flt"

lift_definition lit :: "rat \<Rightarrow> ('p::len, 'e::len) flt" is
  "\<lambda>x. rnd LENGTH('p) (- int LENGTH('e)) x" by simp

instantiation flt :: (len, len) linorder
begin
lift_definition less_eq_flt :: "('a, 'b) flt \<Rightarrow> ('a, 'b) flt \<Rightarrow> bool" is "(\<le>)" .
lift_definition less_flt :: "('a, 'b) flt \<Rightarrow> ('a, 'b) flt \<Rightarrow> bool" is "(<)" .
instance by standard (transfer; auto)+

end

instantiation flt :: (len, len) "{zero, one, plus, minus, uminus, times, inverse, equal}"
begin

lift_definition zero_flt :: "('a, 'b) flt" is 0 by simp
definition one_flt :: "('a, 'b) flt" where "one_flt = lit 1"
definition plus_flt :: "('a, 'b) flt \<Rightarrow> ('a, 'b) flt \<Rightarrow> ('a, 'b) flt" where
  "x + y = lit (rat_of_flt x + rat_of_flt y)"
definition minus_flt :: "('a, 'b) flt \<Rightarrow> ('a, 'b) flt \<Rightarrow> ('a, 'b) flt" where
  "x - y = lit (rat_of_flt x - rat_of_flt y)"
definition uminus_flt :: "('a, 'b) flt \<Rightarrow> ('a, 'b) flt" where
  "- x = lit (- rat_of_flt x)"
definition times_flt :: "('a, 'b) flt \<Rightarrow> ('a, 'b) flt \<Rightarrow> ('a, 'b) flt" where
  "x * y = lit (rat_of_flt x * rat_of_flt y)"
definition divide_flt :: "('a, 'b) flt \<Rightarrow> ('a, 'b) flt \<Rightarrow> ('a, 'b) flt" where
  "x div y = lit (rat_of_flt x / rat_of_flt y)"
definition inverse_flt :: "('a, 'b) flt \<Rightarrow> ('a, 'b) flt" where
  "inverse x = lit (1 / rat_of_flt x)"
definition equal_flt :: "('a, 'b) flt \<Rightarrow> ('a, 'b) flt \<Rightarrow> bool" where
  "equal_flt x y \<longleftrightarrow> rat_of_flt x = rat_of_flt y"
instance by standard (simp add: equal_flt_def rat_of_flt_inject)

end

subsection \<open>Conversions\<close>

text \<open>
  \<^verbatim>\<open>float64(x)\<close>, \<^verbatim>\<open>float32(x)\<close> from the other format;
  \<^verbatim>\<open>float64(n)\<close> from an integer; \<^verbatim>\<open>int(x)\<close> and
  \<^verbatim>\<open>uint64(x)\<close> truncate towards zero.  Go leaves the result of an
  out-of-range conversion to the implementation; here it wraps.
\<close>

definition flt_conv :: "('a::len, 'b::len) flt \<Rightarrow> ('c::len, 'd::len) flt" where
  "flt_conv x = lit (rat_of_flt x)"

abbreviation float64 :: "f32 \<Rightarrow> f64" where "float64 \<equiv> flt_conv"
abbreviation float32 :: "f64 \<Rightarrow> f32" where "float32 \<equiv> flt_conv"

definition flt_of_int :: "int \<Rightarrow> ('a::len, 'b::len) flt" where
  "flt_of_int n = lit (of_int n)"

abbreviation flt_of_word :: "'w::len word \<Rightarrow> ('a::len, 'b::len) flt" where
  "flt_of_word w \<equiv> flt_of_int (uint w)"

definition int_of_flt :: "('a::len, 'b::len) flt \<Rightarrow> int" where
  "int_of_flt x = (if 0 \<le> rat_of_flt x then \<lfloor>rat_of_flt x\<rfloor> else \<lceil>rat_of_flt x\<rceil>)"

definition word_of_flt :: "('a::len, 'b::len) flt \<Rightarrow> 'w::len word" where
  "word_of_flt x = word_of_int (int_of_flt x)"

subsection \<open>Order and rounding\<close>

lemma rat_of_flt_lit: "rat_of_flt (lit x :: ('a::len, 'b::len) flt) = rnd LENGTH('a) (- int LENGTH('b)) x"
  by (rule lit.rep_eq)

lemma rnd_rat_of_flt [simp]:
  "rnd LENGTH('a) (- int LENGTH('b)) (rat_of_flt (x :: ('a::len, 'b::len) flt)) = rat_of_flt x"
  using rat_of_flt [of x] by simp

lemma lit_rat_of_flt [simp]: "lit (rat_of_flt x) = x"
  by (simp add: rat_of_flt_inject [symmetric] rat_of_flt_lit)

lemma rat_of_flt_0 [simp]: "rat_of_flt 0 = 0"
  by (rule zero_flt.rep_eq)

lemma lit_0 [simp]: "lit 0 = 0"
  by (simp add: rat_of_flt_inject [symmetric] rat_of_flt_lit)

lemma rat_of_flt_1 [simp]: "rat_of_flt 1 = 1"
proof -
  have "rnd LENGTH('a) (- int LENGTH('b)) 1 = 1"
    by (rule rnd_exact [where m = 1 and e = 0]) auto
  then show ?thesis by (simp add: one_flt_def rat_of_flt_lit)
qed

lemma lit_1 [simp]: "lit 1 = 1"
  by (simp add: one_flt_def)

lemma flt_le_iff: "x \<le> y \<longleftrightarrow> rat_of_flt x \<le> rat_of_flt y"
  by (rule less_eq_flt.rep_eq)

lemma flt_less_iff: "x < y \<longleftrightarrow> rat_of_flt x < rat_of_flt y"
  by (rule less_flt.rep_eq)

lemma lit_mono: "x \<le> y \<Longrightarrow> lit x \<le> lit y"
  by (simp add: flt_le_iff rat_of_flt_lit rnd_mono)

lemma lit_le: "x \<le> rat_of_flt y \<Longrightarrow> lit x \<le> y"
  by (metis lit_mono lit_rat_of_flt)

lemma le_lit: "rat_of_flt x \<le> y \<Longrightarrow> x \<le> lit y"
  by (metis lit_mono lit_rat_of_flt)

lemmas powi_eval = power_int_def power_divide

lemma rat_of_lit_eqI:
  assumes "2 ^ LENGTH('a) < 2 * m" "m < 2 ^ LENGTH('a)" "- int LENGTH('b) \<le> e"
    and "\<bar>x - of_int m * 2 powi e\<bar> < 2 powi e / 2"
  shows "rat_of_flt (lit x :: ('a::len, 'b::len) flt) = of_int m * 2 powi e"
  unfolding rat_of_flt_lit using assms by (intro rnd_certificate) auto

lemma zero_le_lit: "0 \<le> x \<Longrightarrow> 0 \<le> lit x"
  by (rule le_lit) simp

lemma lit_le_one: "x \<le> 1 \<Longrightarrow> lit x \<le> 1"
  by (rule lit_le) simp

lemma zero_le_one_flt [simp]: "0 \<le> (1 :: ('a::len, 'b::len) flt)" "0 < (1 :: ('a::len, 'b::len) flt)"
  by (simp_all add: flt_le_iff flt_less_iff)

subsection \<open>Arithmetic\<close>

lemma flt_add_mono: "a \<le> b \<Longrightarrow> c \<le> d \<Longrightarrow> a + c \<le> b + (d :: ('a::len, 'b::len) flt)"
  unfolding plus_flt_def by (rule lit_mono) (simp add: flt_le_iff add_mono)

lemma flt_add_0 [simp]: "x + 0 = (x :: ('a::len, 'b::len) flt)" "0 + x = x"
  by (simp_all add: plus_flt_def)

lemma flt_add_increase: "0 \<le> d \<Longrightarrow> x \<le> x + (d :: ('a::len, 'b::len) flt)"
  using flt_add_mono [of x x 0 d] by simp

lemma flt_add_decrease: "d \<le> 0 \<Longrightarrow> x + d \<le> (x :: ('a::len, 'b::len) flt)"
  using flt_add_mono [of x x d 0] by simp

lemma flt_add_nonneg: "0 \<le> x \<Longrightarrow> 0 \<le> y \<Longrightarrow> 0 \<le> x + (y :: ('a::len, 'b::len) flt)"
  using flt_add_increase [of y x] by simp

lemma flt_diff_mono: "a \<le> b \<Longrightarrow> d \<le> c \<Longrightarrow> a - c \<le> b - (d :: ('a::len, 'b::len) flt)"
  unfolding minus_flt_def by (rule lit_mono) (simp add: flt_le_iff diff_mono)

lemma flt_diff_0 [simp]: "x - 0 = (x :: ('a::len, 'b::len) flt)"
  by (simp add: minus_flt_def)

lemma flt_diff_self [simp]: "x - x = (0 :: ('a::len, 'b::len) flt)"
  by (simp add: minus_flt_def)

lemma flt_diff_decrease: "0 \<le> d \<Longrightarrow> x - d \<le> (x :: ('a::len, 'b::len) flt)"
  using flt_diff_mono [of x x 0 d] by simp

lemma flt_diff_nonneg: "y \<le> x \<Longrightarrow> 0 \<le> x - (y :: ('a::len, 'b::len) flt)"
  using flt_diff_mono [of y x y y] by simp

lemma rat_of_flt_uminus [simp]: "rat_of_flt (- x) = - rat_of_flt (x :: ('a::len, 'b::len) flt)"
  by (simp add: uminus_flt_def rat_of_flt_lit)

lemma flt_uminus_uminus [simp]: "- (- x) = (x :: ('a::len, 'b::len) flt)"
  by (simp add: rat_of_flt_inject [symmetric])

lemma flt_neg_le_iff [simp]: "- x \<le> - y \<longleftrightarrow> y \<le> (x :: ('a::len, 'b::len) flt)"
  by (simp add: flt_le_iff)

lemma flt_neg_le_0 [simp]: "- x \<le> 0 \<longleftrightarrow> 0 \<le> (x :: ('a::len, 'b::len) flt)"
  by (simp add: flt_le_iff)

lemma flt_0_le_neg [simp]: "0 \<le> - x \<longleftrightarrow> (x :: ('a::len, 'b::len) flt) \<le> 0"
  by (simp add: flt_le_iff)

lemma flt_mult_nonneg: "0 \<le> x \<Longrightarrow> 0 \<le> y \<Longrightarrow> 0 \<le> x * (y :: ('a::len, 'b::len) flt)"
  unfolding times_flt_def by (rule zero_le_lit) (simp add: flt_le_iff)

lemma flt_mult_right_mono: "a \<le> b \<Longrightarrow> 0 \<le> c \<Longrightarrow> a * c \<le> b * (c :: ('a::len, 'b::len) flt)"
  unfolding times_flt_def by (rule lit_mono) (simp add: flt_le_iff mult_right_mono)

lemma flt_mult_left_mono: "a \<le> b \<Longrightarrow> 0 \<le> c \<Longrightarrow> c * a \<le> c * (b :: ('a::len, 'b::len) flt)"
  unfolding times_flt_def by (rule lit_mono) (simp add: flt_le_iff mult_left_mono)

lemma flt_mult_mono:
  "a \<le> b \<Longrightarrow> c \<le> d \<Longrightarrow> 0 \<le> b \<Longrightarrow> 0 \<le> c \<Longrightarrow> a * c \<le> b * (d :: ('a::len, 'b::len) flt)"
  unfolding times_flt_def by (rule lit_mono) (simp add: flt_le_iff mult_mono)

lemma flt_mult_1 [simp]: "x * 1 = (x :: ('a::len, 'b::len) flt)" "1 * x = x"
  by (simp_all add: times_flt_def)

lemma flt_mult_0 [simp]: "x * 0 = (0 :: ('a::len, 'b::len) flt)" "0 * x = (0 :: ('a::len, 'b::len) flt)"
  by (simp_all add: times_flt_def)

lemma flt_mult_shrink: "0 \<le> x \<Longrightarrow> c \<le> 1 \<Longrightarrow> x * c \<le> (x :: ('a::len, 'b::len) flt)"
  using flt_mult_left_mono [of c 1 x] by simp

lemma flt_divide_def: "x / y = lit (rat_of_flt x / rat_of_flt (y :: ('a::len, 'b::len) flt))"
  by (simp add: divide_flt_def)

lemma flt_divide_nonneg: "0 \<le> x \<Longrightarrow> 0 \<le> y \<Longrightarrow> 0 \<le> x / (y :: ('a::len, 'b::len) flt)"
  unfolding flt_divide_def by (rule zero_le_lit) (simp add: flt_le_iff)

lemma flt_divide_right_mono: "a \<le> b \<Longrightarrow> 0 \<le> c \<Longrightarrow> a / c \<le> b / (c :: ('a::len, 'b::len) flt)"
  unfolding flt_divide_def by (rule lit_mono) (simp add: flt_le_iff divide_right_mono)

lemma flt_divide_le_one: "0 \<le> x \<Longrightarrow> x \<le> y \<Longrightarrow> x / y \<le> (1 :: ('a::len, 'b::len) flt)"
  unfolding flt_divide_def by (rule lit_le_one) (auto simp: flt_le_iff divide_le_eq_1)

subsection \<open>Clamping\<close>

text \<open>The idiom \<^verbatim>\<open>if x < lo { x = lo }; if x > hi { x = hi }\<close>.\<close>

definition clamp :: "'a::linorder \<Rightarrow> 'a \<Rightarrow> 'a \<Rightarrow> 'a" where
  "clamp lo hi x = (let y = (if x < lo then lo else x) in if hi < y then hi else y)"

lemma clamp_bounds [in_range]: "lo \<le> hi \<Longrightarrow> lo \<le> clamp lo hi x" "clamp lo hi x \<le> hi"
  by (auto simp: clamp_def Let_def)

lemma clamp_id: "lo \<le> x \<Longrightarrow> x \<le> hi \<Longrightarrow> clamp lo hi x = x"
  by (auto simp: clamp_def Let_def)

lemma clamp_mono: "x \<le> y \<Longrightarrow> clamp lo hi x \<le> clamp lo hi y"
  by (auto simp: clamp_def Let_def)

subsection \<open>Integers as floating-point numbers\<close>

lemma flt_of_int_mono: "m \<le> n \<Longrightarrow> flt_of_int m \<le> flt_of_int n"
  unfolding flt_of_int_def by (rule lit_mono) simp

lemma flt_of_int_nonneg: "0 \<le> n \<Longrightarrow> 0 \<le> flt_of_int n"
  unfolding flt_of_int_def by (rule zero_le_lit) simp

lemma rat_of_flt_of_int:
  assumes "\<bar>n\<bar> \<le> 2 ^ LENGTH('a)"
  shows "rat_of_flt (flt_of_int n :: ('a::len, 'b::len) flt) = of_int n"
  unfolding flt_of_int_def rat_of_flt_lit by (rule rnd_exact [of _ n 0]) (use assms in auto)

lemma int_of_flt_nonneg: "0 \<le> x \<Longrightarrow> 0 \<le> int_of_flt x"
  by (simp add: int_of_flt_def flt_le_iff)

lemma int_of_flt_mono: "x \<le> y \<Longrightarrow> int_of_flt x \<le> int_of_flt y"
proof -
  assume "x \<le> y"
  then have le: "rat_of_flt x \<le> rat_of_flt y" by (simp add: flt_le_iff)
  show ?thesis
  proof (cases "0 \<le> rat_of_flt x \<or> rat_of_flt y < 0")
    case True
    then show ?thesis using le by (auto simp: int_of_flt_def intro: floor_mono ceiling_mono)
  next
    case False
    then have "\<lceil>rat_of_flt x\<rceil> \<le> 0" "0 \<le> \<lfloor>rat_of_flt y\<rfloor>" by linarith+
    then have "\<lceil>rat_of_flt x\<rceil> \<le> \<lfloor>rat_of_flt y\<rfloor>" by linarith
    then show ?thesis using False by (simp add: int_of_flt_def)
  qed
qed

lemma int_of_flt_le: "0 \<le> x \<Longrightarrow> of_int (int_of_flt x) \<le> rat_of_flt x"
  by (simp add: int_of_flt_def flt_le_iff)

subsection \<open>Powers of two, shares and truncation\<close>

lemma rat_of_lit_scale: "rat_of_flt (lit (2 ^ k * rat_of_flt x) :: ('a::len, 'b::len) flt) = 2 ^ k * rat_of_flt (x :: ('a, 'b) flt)"
proof -
  obtain m e where "rnd LENGTH('a) (- int LENGTH('b)) (rat_of_flt x) = of_int m * 2 powi e"
    "\<bar>m\<bar> \<le> 2 ^ LENGTH('a)" "- int LENGTH('b) \<le> e"
    by (rule rnd_form [of "LENGTH('a)" "- int LENGTH('b)" "rat_of_flt x"]) auto
  then have x: "rat_of_flt x = of_int m * 2 powi e" by simp
  have "2 ^ k * rat_of_flt x = of_int m * 2 powi (e + int k)"
    unfolding x by (simp add: power_int_add)
  from rnd_exact [OF this \<open>\<bar>m\<bar> \<le> _\<close>, of "- int LENGTH('b)"] show ?thesis
    unfolding rat_of_flt_lit using \<open>- int LENGTH('b) \<le> e\<close> by auto
qed

lemma rat_of_lit_pow2 [simp]: "rat_of_flt (lit (2 ^ k) :: ('a::len, 'b::len) flt) = 2 ^ k"
  using rat_of_lit_scale [of k "1 :: ('a, 'b) flt"] by simp

lemma rat_of_lit_inv_pow2:
  "k \<le> LENGTH('b) \<Longrightarrow> rat_of_flt (lit (1 / 2 ^ k) :: ('a::len, 'b::len) flt) = 1 / 2 ^ k"
  unfolding rat_of_flt_lit by (rule rnd_exact [of _ 1 "- int k"]) (auto simp: power_int_minus field_simps)

lemma flt_of_int_pow2: "flt_of_int (2 ^ k) = lit (2 ^ k)"
  by (simp add: flt_of_int_def)

lemma lit_pow2_mult: "lit (2 ^ k) * x = lit (2 ^ k * rat_of_flt x)"
  by (simp add: times_flt_def)

text \<open>A share \<open>w / t\<close> of a quantity below a power of two stays below it.\<close>

lemma flt_share_le:
  fixes b w t :: "('a::len, 'b::len) flt"
  assumes "0 \<le> w" "w \<le> t" "b \<le> lit (2 ^ k)"
  shows "b * w / t \<le> lit (2 ^ k)"
proof (cases "rat_of_flt t = 0")
  case False
  then have t: "0 < rat_of_flt t" using assms(1,2) by (simp add: flt_le_iff)
  have "b * w \<le> lit (2 ^ k) * w" using assms(3,1) by (rule flt_mult_right_mono)
  then have "rat_of_flt (b * w) \<le> 2 ^ k * rat_of_flt w"
    by (simp add: lit_pow2_mult flt_le_iff rat_of_lit_scale)
  also have "\<dots> \<le> 2 ^ k * rat_of_flt t" using assms(2) by (simp add: flt_le_iff)
  finally have "rat_of_flt (b * w) / rat_of_flt t \<le> 2 ^ k" using t by (simp add: divide_le_eq)
  then show ?thesis unfolding flt_divide_def by (rule lit_mono)
next
  case True
  then show ?thesis unfolding flt_divide_def by (intro lit_mono) simp
qed

lemma int_of_flt_le_pow2: "x \<le> lit (2 ^ k) \<Longrightarrow> int_of_flt x \<le> 2 ^ k"
  using int_of_flt_mono [of x "lit (2 ^ k)"] by (simp add: int_of_flt_def)

lemma unat_word_of_flt:
  assumes "0 \<le> x" "x \<le> lit (2 ^ k)" "k < LENGTH('w::len)"
  shows "unat (word_of_flt x :: 'w word) = nat (int_of_flt x)" and "unat (word_of_flt x :: 'w word) \<le> 2 ^ k"
proof -
  have b: "0 \<le> int_of_flt x" "int_of_flt x \<le> 2 ^ k"
    using assms by (simp_all add: int_of_flt_nonneg int_of_flt_le_pow2)
  have "(2::int) ^ k < 2 ^ LENGTH('w)" using assms(3) by simp
  with b(2) have "int_of_flt x < 2 ^ LENGTH('w)" by (rule le_less_trans)
  then have "uint (word_of_int (int_of_flt x) :: 'w word) = int_of_flt x"
    using b(1) by (simp add: uint_word_of_int)
  then show "unat (word_of_flt x :: 'w word) = nat (int_of_flt x)" by (simp add: word_of_flt_def nat_uint_eq [symmetric])
  then show "unat (word_of_flt x :: 'w word) \<le> 2 ^ k" using b by (simp add: nat_le_iff)
qed

lemma flt_of_word_le: "flt_of_word (w :: 'w::len word) \<le> lit (2 ^ LENGTH('w))"
proof -
  have "uint w \<le> 2 ^ LENGTH('w)" by (rule less_imp_le) (rule uint_lt2p)
  from flt_of_int_mono [OF this] show ?thesis by (simp add: flt_of_int_pow2)
qed

lemma flt_of_word_nonneg [simp]: "0 \<le> flt_of_word (w :: 'w::len word)"
  by (simp add: flt_of_int_nonneg)

text \<open>At most half of an integer, truncated, is at most the integer.\<close>

lemma half_share:
  fixes r :: "('a::len, 'b::len) flt"
  assumes "0 \<le> r" "lit 2 * r \<le> 1" "0 \<le> n"
  shows "int_of_flt (flt_of_int n * r) \<le> n"
proof (cases "n = 0")
  case False
  then have "1 \<le> nat n" using assms(3) by simp
  then obtain k where k: "2 ^ k \<le> nat n" "nat n < 2 ^ Suc k" using ex_power_ivl1 [of 2 "nat n"] by auto
  then have n: "2 ^ k \<le> n" "n \<le> 2 ^ Suc k" using assms(3) by (auto simp: nat_less_iff le_nat_iff)
  have "flt_of_int n * r \<le> lit (2 ^ Suc k) * r"
    using flt_of_int_mono [OF n(2)] assms(1) by (intro flt_mult_right_mono) (simp_all only: flt_of_int_pow2)
  also have "\<dots> \<le> lit (2 ^ k)"
  proof -
    have "lit 2 * r = lit (2 * rat_of_flt r)" using lit_pow2_mult [of 1 r] by simp
    then have "2 * rat_of_flt r \<le> 1"
      using assms(2) rat_of_lit_scale [of 1 r] by (simp add: flt_le_iff)
    then have "2 ^ Suc k * rat_of_flt r \<le> 2 ^ k" using mult_left_mono [of "2 * rat_of_flt r" 1 "2 ^ k"] by simp
    then show ?thesis unfolding lit_pow2_mult by (rule lit_mono)
  qed
  finally have "int_of_flt (flt_of_int n * r) \<le> 2 ^ k" by (rule int_of_flt_le_pow2)
  then show ?thesis using n(1) by linarith
qed (simp add: flt_of_int_def int_of_flt_def)

lemma half_share_word:
  fixes r :: "('a::len, 'b::len) flt" and w :: "'w::len word"
  assumes "0 \<le> r" "lit 2 * r \<le> 1"
  shows "(word_of_flt (flt_of_word w * r) :: 'w word) \<le> w"
proof -
  have "0 \<le> flt_of_word w * r" using assms(1) by (intro flt_mult_nonneg) simp
  then have i: "0 \<le> int_of_flt (flt_of_word w * r)" "int_of_flt (flt_of_word w * r) \<le> uint w"
    using assms by (simp_all add: int_of_flt_nonneg half_share)
  moreover have "int_of_flt (flt_of_word w * r) < 2 ^ LENGTH('w)"
    using i(2) uint_lt2p [of w] by (rule le_less_trans)
  ultimately show ?thesis
    by (simp add: word_of_flt_def word_le_def uint_word_of_int)
qed

subsection \<open>Signs\<close>

lemma flt_mult_commute: "x * y = y * (x :: ('a::len, 'b::len) flt)"
  by (simp add: times_flt_def mult.commute)

lemma flt_lit_minus: "lit (- x) = - lit x"
  by (simp add: rat_of_flt_inject [symmetric] rat_of_flt_lit)

lemma flt_mult_minus: "(- x) * y = - (x * y :: ('a::len, 'b::len) flt)"
  by (simp add: times_flt_def flt_lit_minus)

lemma flt_diff_swap: "y - x = - (x - y :: ('a::len, 'b::len) flt)"
  by (simp add: minus_flt_def flt_lit_minus [symmetric])

lemma flt_conv_minus: "flt_conv (- x) = - flt_conv x"
  by (simp add: flt_conv_def flt_lit_minus)

subsection \<open>Absolute value, extrema and rounding of the math package\<close>

definition flt_abs :: "('a::len, 'b::len) flt \<Rightarrow> ('a, 'b) flt" where
  "flt_abs x = (if x < 0 then - x else x)"

definition math_Max :: "('a::len, 'b::len) flt \<Rightarrow> ('a, 'b) flt \<Rightarrow> ('a, 'b) flt" where
  "math_Max x y = (if x < y then y else x)"

definition math_Min :: "('a::len, 'b::len) flt \<Rightarrow> ('a, 'b) flt \<Rightarrow> ('a, 'b) flt" where
  "math_Min x y = (if y < x then y else x)"

text \<open>\<^verbatim>\<open>math.Round\<close>: halves away from zero.\<close>

definition math_Round :: "('a::len, 'b::len) flt \<Rightarrow> ('a, 'b) flt" where
  "math_Round x = (let r = rat_of_flt x in
     flt_of_int (if r < 0 then - \<lfloor>- r + 1 / 2\<rfloor> else \<lfloor>r + 1 / 2\<rfloor>))"

lemma math_Max_bounds [simp]: "x \<le> math_Max x y" "y \<le> math_Max x y"
  by (auto simp: math_Max_def)

lemma math_Min_bounds [simp]: "math_Min x y \<le> x" "math_Min x y \<le> y"
  by (auto simp: math_Min_def)

text \<open>Splitting off the whole part loses nothing: the remainder is exact.\<close>

lemma flt_frac_exact:
  fixes x :: "('a::len, 'b::len) flt"
  assumes "0 \<le> x"
  shows "rat_of_flt (x - flt_of_int (int_of_flt x)) = frac (rat_of_flt x)"
proof -
  obtain m e where "rnd LENGTH('a) (- int LENGTH('b)) (rat_of_flt x) = of_int m * 2 powi e"
    and m: "\<bar>m\<bar> \<le> 2 ^ LENGTH('a)" and e: "- int LENGTH('b) \<le> e"
    by (rule rnd_form [where p = "LENGTH('a)" and emin = "- int LENGTH('b)" and x = "rat_of_flt x"]) simp_all
  then have x: "rat_of_flt x = of_int m * 2 powi e" by simp
  have "0 \<le> (of_int m :: rat)" using assms x powi2_pos [of e] by (simp add: flt_le_iff zero_le_mult_iff) 
  then have m0: "0 \<le> m" by simp
  have i: "int_of_flt x = \<lfloor>rat_of_flt x\<rfloor>" using assms by (simp add: int_of_flt_def flt_le_iff)
  show ?thesis
  proof (cases "0 \<le> e")
    case True
    then have "rat_of_flt x = of_int (m * 2 ^ nat e)" using x by (simp add: powi2_of_int)
    then have "rat_of_flt x = of_int \<lfloor>rat_of_flt x\<rfloor>" by (simp only: floor_of_int)
    then have "flt_of_int (int_of_flt x) = x" unfolding i flt_of_int_def by simp
    moreover have "frac (rat_of_flt x) = 0" using \<open>rat_of_flt x = of_int \<lfloor>rat_of_flt x\<rfloor>\<close> by (simp add: frac_def)
    ultimately show ?thesis by simp
  next
    case False
    define k where "k = nat (- e)"
    have e': "(2 :: rat) powi e = 1 / 2 ^ k" using False by (simp add: k_def power_int_def inverse_eq_divide power_one_over)
    then have x': "rat_of_flt x = of_int m / of_int (2 ^ k)"
      using x by simp
    have fl: "\<lfloor>rat_of_flt x\<rfloor> = m div 2 ^ k" unfolding x' by (rule floor_divide_of_int_eq)
    have le: "m div 2 ^ k \<le> m" "0 \<le> m div 2 ^ k" using m0 zdiv_mono2 [of m 1 "2 ^ k"] by (simp_all add: pos_imp_zdiv_nonneg_iff)
    then have a: "rat_of_flt (flt_of_int (int_of_flt x) :: ('a, 'b) flt) = of_int (m div 2 ^ k)"
      unfolding i fl using m m0 by (intro rat_of_flt_of_int) auto
    have "rat_of_flt x - of_int (m div 2 ^ k) = (of_int m - of_int (2 ^ k) * of_int (m div 2 ^ k)) / of_int (2 ^ k)"
      unfolding x' by (simp add: field_simps)
    also have "\<dots> = of_int (m - 2 ^ k * (m div 2 ^ k)) / of_int (2 ^ k)" by simp
    also have "m - 2 ^ k * (m div 2 ^ k) = m mod 2 ^ k" by (simp add: minus_mult_div_eq_mod)
    finally have d: "rat_of_flt x - of_int (m div 2 ^ k) = of_int (m mod 2 ^ k) * 2 powi e"
      unfolding e' by simp
    have "m mod 2 ^ k \<le> m" using m0 by (simp add: zmod_le_nonneg_dividend)
    then have "\<bar>m mod 2 ^ k\<bar> \<le> 2 ^ LENGTH('a)" using m m0 by simp
    then have "rnd LENGTH('a) (- int LENGTH('b)) (rat_of_flt x - of_int (m div 2 ^ k)) = rat_of_flt x - of_int (m div 2 ^ k)"
      using d e by (intro rnd_exact [of _ "m mod 2 ^ k" e]) auto
    then show ?thesis unfolding minus_flt_def rat_of_flt_lit a by (simp add: frac_def fl)
  qed
qed

end
