(* ===== verification/Phi.thy ===== *)
theory Phi
  imports Go_Float
begin

section \<open>Emanation constants (internal/phi)\<close>

text \<open>
  The tuning constants of \<^verbatim>\<open>internal/phi/constants.go\<close> and the conjugate
  field of \<^verbatim>\<open>internal/phi/field.go\<close>.  The constants are computed at
  start-up by \<^verbatim>\<open>math.Pow\<close>; \<open>go_pow\<close> is that routine of Go's standard
  library for the integral exponents used here (repeated squaring of the
  fraction, the binary exponent kept apart), so each constant is the exact
  \<^verbatim>\<open>float64\<close> the program computes.
\<close>

subsection \<open>math.Pow on integral exponents\<close>

text \<open>\<^verbatim>\<open>math.Frexp\<close> and \<^verbatim>\<open>math.Ldexp\<close>.\<close>

definition frexp :: "f64 \<Rightarrow> f64 \<times> int" where
  "frexp x = (if rat_of_flt x = 0 then (0, 0)
     else let e = ilog2 \<bar>rat_of_flt x\<bar> + 1 in (lit (rat_of_flt x / 2 powi e), e))"

definition ldexp :: "f64 \<Rightarrow> int \<Rightarrow> f64" where
  "ldexp x e = lit (rat_of_flt x * 2 powi e)"

fun pow_loop :: "nat \<Rightarrow> f64 \<Rightarrow> int \<Rightarrow> f64 \<Rightarrow> int \<Rightarrow> f64 \<times> int" where
  "pow_loop i x1 xe a1 ae =
     (if i = 0 then (a1, ae)
      else let (a1', ae') = (if odd i then (a1 * x1, ae + xe) else (a1, ae));
               x2 = x1 * x1; xe2 = 2 * xe;
               (x3, xe3) = (if x2 < lit 0.5 then (x2 + x2, xe2 - 1) else (x2, xe2))
           in pow_loop (i div 2) x3 xe3 a1' ae')"

declare pow_loop.simps [simp del]

definition go_pow :: "f64 \<Rightarrow> int \<Rightarrow> f64" where
  "go_pow x y =
     (let (x1, xe) = frexp x;
          (a1, ae) = pow_loop (nat \<bar>y\<bar>) x1 xe 1 0
      in if y < 0 then ldexp (1 / a1) (- ae) else ldexp a1 ae)"

subsection \<open>The constants\<close>

definition Phi :: f64 where "Phi = lit 1.6180339887498948"

definition Agnosis :: f64 where "Agnosis = go_pow Phi (-3)"
definition Psyche :: f64 where "Psyche = go_pow Phi (-2)"
definition Matter :: f64 where "Matter = go_pow Phi (-1)"
definition Monad :: f64 where "Monad = lit 1.0"
definition Being :: f64 where "Being = Phi"
definition Nous :: f64 where "Nous = go_pow Phi 2"
definition Totality :: f64 where "Totality = go_pow Phi 3"

definition Completion :: f64 where "Completion = lit 5.0"

text \<open>
  Their exact values: each floating-point operation of \<open>go_pow\<close> is one
  rounding, certified by its significand.
\<close>

lemma pow_loop_0: "pow_loop 0 x xe a ae = (a, ae)"
  by (simp add: pow_loop.simps)

lemma pow_loop_1: "pow_loop 1 x xe a ae = (a * x, ae + xe)"
  by (simp add: pow_loop.simps pow_loop_0 Let_def split_def)

lemma pow_loop_2: "\<not> x * x < lit 0.5 \<Longrightarrow> pow_loop 2 x xe a ae = (a * (x * x), ae + 2 * xe)"
  by (subst pow_loop.simps) (simp add: pow_loop_1 [unfolded One_nat_def] Let_def)

lemma pow_loop_3:
  "\<not> x * x < lit 0.5 \<Longrightarrow> pow_loop 3 x xe a ae = (a * x * (x * x), ae + xe + 2 * xe)"
  by (subst pow_loop.simps) (simp add: pow_loop_1 [unfolded One_nat_def] Let_def)

lemma lit_half: "rat_of_flt (lit (1 / 2) :: f64) = 1 / 2"
  unfolding rat_of_flt_lit by (subst rnd_exact [where m = 1 and e = "-1"]) auto

lemma rat_Phi: "rat_of_flt Phi = 7286977268806824 / 2 ^ 52"
  unfolding Phi_def by (subst rat_of_lit_eqI [where m = 7286977268806824 and e = "-52"]) (auto simp: powi_eval)

definition Phi_frac :: f64 where "Phi_frac = fst (frexp Phi)"

lemma rat_Phi_frac: "rat_of_flt Phi_frac = 7286977268806824 / 2 ^ 53"
  and frexp_Phi: "frexp Phi = (Phi_frac, 1)"
proof -
  have "ilog2 (7286977268806824 / 2 ^ 52) = 0" by (rule ilog2_eqI) auto
  then have f: "frexp Phi = (lit (7286977268806824 / 2 ^ 53), 1)"
    by (simp add: frexp_def rat_Phi Let_def)
  have "rat_of_flt (lit (7286977268806824 / 2 ^ 53) :: f64) = 7286977268806824 / 2 ^ 53"
    by (subst rat_of_lit_eqI [where m = 7286977268806824 and e = "-53"]) (auto simp: powi_eval)
  then show "rat_of_flt Phi_frac = 7286977268806824 / 2 ^ 53" and "frexp Phi = (Phi_frac, 1)"
    by (simp_all add: Phi_frac_def f)
qed

lemma rat_Phi_frac2: "rat_of_flt (Phi_frac * Phi_frac) = 5895288448088660 / 2 ^ 53"
  unfolding times_flt_def rat_Phi_frac
  by (subst rat_of_lit_eqI [where m = 5895288448088660 and e = "-53"]) (auto simp: powi_eval)

lemma rat_Phi_frac3: "rat_of_flt (Phi_frac * (Phi_frac * Phi_frac)) = 4769388541246036 / 2 ^ 53"
  unfolding times_flt_def [of Phi_frac "Phi_frac * Phi_frac"] rat_Phi_frac rat_Phi_frac2
  by (subst rat_of_lit_eqI [where m = 4769388541246036 and e = "-53"]) (auto simp: powi_eval)

lemma Phi_frac2_large: "\<not> Phi_frac * Phi_frac < lit 0.5"
  by (simp add: flt_less_iff rat_Phi_frac2 lit_half)

lemma rat_Being: "rat_of_flt Being = 7286977268806824 / 2 ^ 52"
  by (simp add: Being_def rat_Phi)

lemma rat_inverse_1: "rat_of_flt (1 / Phi_frac) = 5566755282872655 / 2 ^ 52"
  unfolding flt_divide_def rat_Phi_frac
  by (subst rat_of_lit_eqI [where m = 5566755282872655 and e = "-52"]) (auto simp: powi_eval)

lemma rat_inverse_2: "rat_of_flt (1 / (Phi_frac * Phi_frac)) = 6880887943736673 / 2 ^ 52"
  unfolding flt_divide_def rat_Phi_frac2
  by (subst rat_of_lit_eqI [where m = 6880887943736673 and e = "-52"]) (auto simp: powi_eval)

lemma rat_inverse_3: "rat_of_flt (1 / (Phi_frac * (Phi_frac * Phi_frac))) = 8505245244017276 / 2 ^ 52"
  unfolding flt_divide_def rat_Phi_frac3
  by (subst rat_of_lit_eqI [where m = 8505245244017276 and e = "-52"]) (auto simp: powi_eval)

lemma go_pow_Phi:
  "go_pow Phi (-1) = ldexp (1 / Phi_frac) (-1)"
  "go_pow Phi (-2) = ldexp (1 / (Phi_frac * Phi_frac)) (-2)"
  "go_pow Phi (-3) = ldexp (1 / (Phi_frac * (Phi_frac * Phi_frac))) (-3)"
  "go_pow Phi 3 = ldexp (Phi_frac * (Phi_frac * Phi_frac)) 3"
  by (simp_all add: go_pow_def frexp_Phi pow_loop_1 [unfolded One_nat_def] pow_loop_2 [OF Phi_frac2_large]
    pow_loop_3 [OF Phi_frac2_large])

lemma rat_Matter: "rat_of_flt Matter = 5566755282872655 / 2 ^ 53"
  unfolding Matter_def go_pow_Phi ldexp_def rat_inverse_1
  by (subst rat_of_lit_eqI [where m = 5566755282872655 and e = "-53"]) (auto simp: powi_eval)

lemma rat_Psyche: "rat_of_flt Psyche = 6880887943736673 / 2 ^ 54"
  unfolding Psyche_def go_pow_Phi ldexp_def rat_inverse_2
  by (subst rat_of_lit_eqI [where m = 6880887943736673 and e = "-54"]) (auto simp: powi_eval)

lemma rat_Agnosis: "rat_of_flt Agnosis = 8505245244017276 / 2 ^ 55"
  unfolding Agnosis_def go_pow_Phi ldexp_def rat_inverse_3
  by (subst rat_of_lit_eqI [where m = 8505245244017276 and e = "-55"]) (auto simp: powi_eval)

lemma rat_Totality: "rat_of_flt Totality = 4769388541246036 / 2 ^ 50"
  unfolding Totality_def go_pow_Phi ldexp_def rat_Phi_frac3
  by (subst rat_of_lit_eqI [where m = 4769388541246036 and e = "-50"]) (auto simp: powi_eval)

lemmas phi_rats = rat_Being rat_Agnosis rat_Psyche rat_Matter rat_Totality

lemma phi_order [simp]:
  "0 < Agnosis" "Agnosis < Psyche" "Psyche < Matter" "Matter < 1" "1 < Being" "Being < Totality"
  by (simp_all add: flt_less_iff phi_rats)

lemma phi_le [simp]:
  "Agnosis \<le> Psyche" "Psyche \<le> Matter" "Agnosis \<le> Matter" "Agnosis \<le> 1" "Psyche \<le> 1" "Matter \<le> 1"
  "1 \<le> Being" "1 \<le> Totality" "Being \<le> Totality" "Agnosis \<le> Totality"
  by (simp_all add: flt_le_iff phi_rats)

lemma phi_nonneg [simp]: "0 \<le> Agnosis" "0 \<le> Psyche" "0 \<le> Matter" "0 \<le> Being" "0 \<le> Totality"
  by (simp_all add: flt_le_iff phi_rats)

text \<open>
  The two smaller constants add up to exactly 1 in \<^verbatim>\<open>float64\<close>.
\<close>

lemma Psyche_plus_Matter: "Psyche + Matter = 1"
proof -
  have "Psyche + Matter = lit (18014398509481983 / 2 ^ 54)"
    by (simp add: plus_flt_def phi_rats)
  also have "\<dots> = 1" by code_simp
  finally show ?thesis .
qed

subsection \<open>Conjugate fields\<close>

text \<open>
  \<^verbatim>\<open>NullPoint\<close> and \<^verbatim>\<open>HealthRatio\<close> call the two methods of the
  \<^verbatim>\<open>ConjugateField\<close> interface; the interface value is a record of them.
\<close>

record 'a ConjugateField =
  ChargingPressure :: "'a \<Rightarrow> f64"
  DischargingPressure :: "'a \<Rightarrow> f64"

definition NullPoint :: "'a ConjugateField \<Rightarrow> 'a \<Rightarrow> f64" where
  "NullPoint C f = (let cp = ChargingPressure C f; dp = DischargingPressure C f
     in if dp < cp then cp - dp else dp - cp)"

definition HealthRatio :: "'a ConjugateField \<Rightarrow> 'a \<Rightarrow> f64" where
  "HealthRatio C f =
     (let dp0 = DischargingPressure C f;
          dp = (if dp0 < Agnosis then Agnosis else dp0);
          ratio = ChargingPressure C f / dp
      in if Matter \<le> ratio \<and> ratio \<le> Being then 1
         else let deviation0 = ratio - 1;
                  deviation = (if deviation0 < 0 then - deviation0 else deviation0);
                  health = 1 - deviation / Totality
              in if health < 0 then 0 else health)"

lemma NullPoint_nonneg: "0 \<le> NullPoint C f"
  by (auto simp: NullPoint_def Let_def intro: flt_diff_nonneg)

lemma HealthRatio_bounds [in_range]: "0 \<le> HealthRatio C f" "HealthRatio C f \<le> 1"
proof -
  have "1 - d / Totality \<le> 1" if "0 \<le> d" for d :: f64
    using that by (intro flt_diff_decrease flt_divide_nonneg) auto
  then show "HealthRatio C f \<le> 1"
    by (auto simp: HealthRatio_def Let_def not_less)
  show "0 \<le> HealthRatio C f"
    by (auto simp: HealthRatio_def Let_def not_less)
qed

text \<open>
  A field whose discharge is at least \<open>Agnosis\<close> is fully healthy exactly in
  the golden band, or where the deviation is lost in rounding.
\<close>

lemma HealthRatio_golden:
  assumes "Agnosis \<le> DischargingPressure C f"
    and "Matter \<le> ChargingPressure C f / DischargingPressure C f"
    and "ChargingPressure C f / DischargingPressure C f \<le> Being"
  shows "HealthRatio C f = 1"
  using assms by (simp add: HealthRatio_def Let_def not_less [symmetric])

end
