(* ===== verification/Hex_Grid.thy ===== *)
theory Hex_Grid
  imports Go_Float Phi
begin

section \<open>The hex grid (internal/world)\<close>

text \<open>
  Axial coordinates, terrain and tiles of \<^verbatim>\<open>internal/world/hex.go\<close>, the
  map of \<^verbatim>\<open>internal/world/map.go\<close>, and the straight-line travel costs of
  \<^verbatim>\<open>internal/engine/market.go\<close>.  Go's \<^verbatim>\<open>int\<close> coordinates are
  unbounded integers here: a map has radius below 2000.  Tiles are reached
  only through the coordinate that keys them, so the map holds the tiles
  themselves.
\<close>

subsection \<open>Coordinates, terrain, tiles\<close>

record HexCoord =
  coordQ :: int
  coordR :: int

definition coordS :: "HexCoord \<Rightarrow> int" where
  "coordS h = - coordQ h - coordR h"

datatype Terrain = TerrainPlains | TerrainForest | TerrainMountain | TerrainCoast | TerrainRiver
  | TerrainDesert | TerrainSwamp | TerrainTundra | TerrainOcean

datatype ResourceType = ResourceGrain | ResourceTimber | ResourceIronOre | ResourceStone
  | ResourceFish | ResourceHerbs | ResourceGems | ResourceFurs | ResourceCoal | ResourceExotics

record Hex =
  Coord :: HexCoord
  HexTerrain :: Terrain
  Resources :: "ResourceType \<rightharpoonup> f64"
  Elevation :: f64
  Rainfall :: f64
  Temperature :: f64
  HexSettlementID :: "uint64 option"
  HexHealth :: f64
  LastExtractedTick :: uint64
  IrrigationLevel :: uint8
  ConservationLevel :: uint8
  ClaimedBy :: "uint64 option"

text \<open>Reading a missing key of a Go map gives the zero value.\<close>

definition resource :: "Hex \<Rightarrow> ResourceType \<Rightarrow> f64" where
  "resource h r = (case Resources h r of None \<Rightarrow> 0 | Some x \<Rightarrow> x)"

definition HexNeighborDirections :: "HexCoord list" where
  "HexNeighborDirections =
     [\<lparr>coordQ = 1, coordR = 0\<rparr>, \<lparr>coordQ = 1, coordR = -1\<rparr>, \<lparr>coordQ = 0, coordR = -1\<rparr>,
      \<lparr>coordQ = -1, coordR = 0\<rparr>, \<lparr>coordQ = -1, coordR = 1\<rparr>, \<lparr>coordQ = 0, coordR = 1\<rparr>]"

definition Neighbors :: "HexCoord \<Rightarrow> HexCoord list" where
  "Neighbors h = map (\<lambda>dir. \<lparr>coordQ = coordQ h + coordQ dir, coordR = coordR h + coordR dir\<rparr>)
     HexNeighborDirections"

definition Distance :: "HexCoord \<Rightarrow> HexCoord \<Rightarrow> int" where
  "Distance a b =
     (let dq0 = coordQ a - coordQ b; dr0 = coordR a - coordR b; ds0 = coordS a - coordS b;
          dq = (if dq0 < 0 then - dq0 else dq0);
          dr = (if dr0 < 0 then - dr0 else dr0);
          ds = (if ds0 < 0 then - ds0 else ds0);
          m0 = dq;
          m1 = (if m0 < dr then dr else m0)
      in if m1 < ds then ds else m1)"

subsection \<open>The map\<close>

record Map =
  Hexes :: "HexCoord \<rightharpoonup> Hex"
  Radius :: int

definition NewMap :: "int \<Rightarrow> Map" where
  "NewMap radius = \<lparr>Hexes = Map.empty, Radius = radius\<rparr>"

definition map_Get :: "Map \<Rightarrow> HexCoord \<Rightarrow> Hex option" where
  "map_Get m coord = Hexes m coord"

definition map_Set :: "Map \<Rightarrow> Hex \<Rightarrow> Map" where
  "map_Set m hex = m\<lparr>Hexes := (Hexes m)(Coord hex \<mapsto> hex)\<rparr>"

definition InBounds :: "Map \<Rightarrow> HexCoord \<Rightarrow> bool" where
  "InBounds m coord =
     (let q0 = coordQ coord; r0 = coordR coord; s0 = coordS coord;
          q = (if q0 < 0 then - q0 else q0);
          r = (if r0 < 0 then - r0 else r0);
          s = (if s0 < 0 then - s0 else s0);
          m0 = q;
          m1 = (if m0 < r then r else m0);
          m2 = (if m1 < s then s else m1)
      in m2 \<le> Radius m)"

subsection \<open>Travel costs\<close>

fun terrainMoveCost :: "Terrain \<Rightarrow> int" where
  "terrainMoveCost TerrainPlains = 6"
| "terrainMoveCost TerrainForest = 8"
| "terrainMoveCost TerrainMountain = 12"
| "terrainMoveCost TerrainCoast = 6"
| "terrainMoveCost TerrainRiver = 3"
| "terrainMoveCost TerrainDesert = 8"
| "terrainMoveCost TerrainSwamp = 10"
| "terrainMoveCost TerrainTundra = 8"
| "terrainMoveCost TerrainOcean = 999"

text \<open>The inner loop: the neighbour strictly closer to the target than all before it.\<close>

definition closest_neighbor :: "HexCoord \<Rightarrow> HexCoord \<Rightarrow> HexCoord" where
  "closest_neighbor cur dst =
     fst (fold (\<lambda>n (best, bestDist). let d = Distance n dst in
                  if d < bestDist then (n, d) else (best, bestDist))
            (Neighbors cur) (cur, Distance cur dst))"

definition step_cost :: "Map \<Rightarrow> HexCoord \<Rightarrow> int" where
  "step_cost worldMap cur =
     (case map_Get worldMap cur of Some hex \<Rightarrow> terrainMoveCost (HexTerrain hex) | None \<Rightarrow> 6)"

lemma Distance_max:
  "Distance a b = max (max \<bar>coordQ a - coordQ b\<bar> \<bar>coordR a - coordR b\<bar>)
     \<bar>(coordQ a - coordQ b) + (coordR a - coordR b)\<bar>"
  by (simp add: Distance_def coordS_def Let_def max_def abs_if)

lemma Distance_nonneg [simp]: "0 \<le> Distance a b"
  by (simp add: Distance_max)

lemma Distance_0_iff [simp]: "Distance a b = 0 \<longleftrightarrow> a = b"
  by (cases a; cases b) (auto simp: Distance_max max_def split: if_splits)

lemma Distance_pos: "a \<noteq> b \<Longrightarrow> 0 < Distance a b"
  using Distance_0_iff [of a b] Distance_nonneg [of a b] by linarith

lemma Distance_sym: "Distance a b = Distance b a"
  unfolding Distance_max by (intro arg_cong2 [where f = max]) linarith+

lemma abs_add_le: "\<bar>x\<bar> \<le> a \<Longrightarrow> \<bar>y\<bar> \<le> b \<Longrightarrow> \<bar>x + y\<bar> \<le> a + (b :: int)"
  by linarith

lemma Distance_le_iff:
  "Distance a b \<le> d \<longleftrightarrow> \<bar>coordQ a - coordQ b\<bar> \<le> d \<and> \<bar>coordR a - coordR b\<bar> \<le> d \<and>
     \<bar>(coordQ a - coordQ b) + (coordR a - coordR b)\<bar> \<le> d"
  by (auto simp: Distance_max)

lemma Distance_triangle: "Distance a c \<le> Distance a b + Distance b c"
proof -
  have ab: "\<bar>coordQ a - coordQ b\<bar> \<le> Distance a b" "\<bar>coordR a - coordR b\<bar> \<le> Distance a b"
    "\<bar>(coordQ a - coordQ b) + (coordR a - coordR b)\<bar> \<le> Distance a b" for a b
    using Distance_le_iff [of a b "Distance a b"] by auto
  show ?thesis
    using abs_add_le [OF ab(1) ab(1), of a b b c] abs_add_le [OF ab(2) ab(2), of a b b c]
      abs_add_le [OF ab(3) ab(3), of a b b c]
    unfolding Distance_le_iff by (simp add: algebra_simps)
qed

lemma closer_neighbor_exists:
  fixes x y :: int
  assumes "(x, y) \<noteq> (0, 0)"
  defines "d \<equiv> (\<lambda>x y. max (max \<bar>x\<bar> \<bar>y\<bar>) \<bar>x + y\<bar>)"
  shows "\<exists>(i, j) \<in> set [(1, 0), (1, -1), (0, -1), (-1, 0), (-1, 1), (0, 1)].
           d (x + i) (y + j) = d x y - 1"
proof -
  consider "x > 0" "y \<ge> 0" | "x > 0" "y < 0" "x + y \<ge> 0" | "x > 0" "y < 0" "x + y < 0"
    | "x \<le> 0" "y > 0" "x + y > 0" | "x < 0" "y > 0" "x + y \<le> 0" | "x \<le> 0" "y \<le> 0"
    by linarith
  then show ?thesis
  proof cases
    case 1
    then have "d (x + -1) (y + 0) = d x y - 1" by (simp add: d_def max_def abs_if)
    then show ?thesis by auto
  next
    case 2
    then have "d (x + -1) (y + 1) = d x y - 1" by (simp add: d_def max_def abs_if)
    then show ?thesis by auto
  next
    case 3
    then have "d (x + -1) (y + 1) = d x y - 1" by (simp add: d_def max_def abs_if)
    then show ?thesis by auto
  next
    case 4
    then have "d (x + 0) (y + -1) = d x y - 1" by (simp add: d_def max_def abs_if)
    then show ?thesis by auto
  next
    case 5
    then have "d (x + 1) (y + -1) = d x y - 1" by (simp add: d_def max_def abs_if)
    then show ?thesis by auto
  next
    case 6
    show ?thesis
    proof (cases "x < 0")
      case True
      with 6 have "d (x + 1) (y + 0) = d x y - 1" by (simp add: d_def max_def abs_if)
      then show ?thesis by auto
    next
      case False
      with 6 assms(1) have "d (x + 0) (y + 1) = d x y - 1" by (simp add: d_def max_def abs_if)
      then show ?thesis by auto
    qed
  qed
qed

lemma closer_neighbor:
  assumes "cur \<noteq> dst"
  shows "\<exists>n \<in> set (Neighbors cur). Distance n dst = Distance cur dst - 1"
proof -
  let ?x = "coordQ cur - coordQ dst" and ?y = "coordR cur - coordR dst"
  have "(?x, ?y) \<noteq> (0, 0)" using assms by (cases cur; cases dst) auto
  from closer_neighbor_exists [OF this]
  obtain i j where ij: "(i, j) \<in> set [(1, 0), (1, -1), (0, -1), (-1, 0), (-1, 1), (0, 1)]"
    and d: "max (max \<bar>?x + i\<bar> \<bar>?y + j\<bar>) \<bar>?x + i + (?y + j)\<bar> = max (max \<bar>?x\<bar> \<bar>?y\<bar>) \<bar>?x + ?y\<bar> - 1"
    by blast
  let ?n = "\<lparr>coordQ = coordQ cur + i, coordR = coordR cur + j\<rparr>"
  have "?n \<in> set (Neighbors cur)" using ij by (auto simp: Neighbors_def HexNeighborDirections_def)
  moreover have "Distance ?n dst = Distance cur dst - 1"
    using d by (simp add: Distance_max algebra_simps)
  ultimately show ?thesis by blast
qed

lemma Neighbors_adjacent: "n \<in> set (Neighbors cur) \<Longrightarrow> Distance cur n = 1"
  by (auto simp: Neighbors_def HexNeighborDirections_def Distance_max)

lemma Neighbors_dist: "n \<in> set (Neighbors cur) \<Longrightarrow> Distance cur dst - 1 \<le> Distance n dst"
  using Distance_triangle [of cur dst n] Neighbors_adjacent [of n cur] by simp

lemma Neighbors_length [simp]: "length (Neighbors cur) = 6"
  by (simp add: Neighbors_def HexNeighborDirections_def)

lemma Neighbors_distinct: "distinct (Neighbors cur)"
  by (simp add: Neighbors_def HexNeighborDirections_def)

lemma search_min:
  assumes "bd = Distance b (dst :: HexCoord)"
  shows "(case fold (\<lambda>n (best, bestDist). let d = Distance n dst in
            if d < bestDist then (n, d) else (best, bestDist)) ns (b, bd) of (best, bestDist) \<Rightarrow>
          best \<in> insert b (set ns) \<and> bestDist = Distance best dst \<and> bestDist \<le> bd \<and>
          (\<forall>n \<in> set ns. bestDist \<le> Distance n dst))"
  using assms
proof (induction ns arbitrary: b bd)
  case Nil
  then show ?case by simp
next
  case (Cons n ns)
  have "Distance n dst < bd \<or> bd \<le> Distance n dst" by linarith
  then show ?case
    using Cons.IH [of "Distance n dst" n] Cons.IH [OF Cons.prems] Cons.prems
    by (elim disjE) (force simp: Let_def split: prod.splits)+
qed

lemma closest_neighbor_step:
  assumes "cur \<noteq> dst"
  shows "closest_neighbor cur dst \<in> set (Neighbors cur)"
    and "Distance (closest_neighbor cur dst) dst = Distance cur dst - 1"
proof -
  let ?c = "closest_neighbor cur dst"
  have s: "?c \<in> insert cur (set (Neighbors cur))"
    and m: "\<forall>n \<in> set (Neighbors cur). Distance ?c dst \<le> Distance n dst"
    using search_min [where b = cur and dst = dst and ns = "Neighbors cur", OF refl]
    by (auto simp: closest_neighbor_def split: prod.splits)
  obtain n where "n \<in> set (Neighbors cur)" "Distance n dst = Distance cur dst - 1"
    using closer_neighbor [OF assms] by blast
  with m have le: "Distance ?c dst \<le> Distance cur dst - 1" by fastforce
  then have "?c \<noteq> cur" by auto
  with s show c: "?c \<in> set (Neighbors cur)" by blast
  show "Distance ?c dst = Distance cur dst - 1"
    using le Neighbors_dist [OF c, of dst] by simp
qed

text \<open>
  The walk of \<^verbatim>\<open>routeCost\<close>; its early exit is kept, and the walk ends
  because every other step comes nearer to the target.
\<close>

function route_loop :: "Map \<Rightarrow> HexCoord \<Rightarrow> HexCoord \<Rightarrow> int \<Rightarrow> int" where
  "route_loop worldMap dst cur cost =
     (if cur = dst then cost
      else let best = closest_neighbor cur dst
           in if best = cur then cost
              else route_loop worldMap dst best (cost + step_cost worldMap best))"
  by pat_completeness auto
termination
  by (relation "measure (\<lambda>(m, dst, cur, cost). nat (Distance cur dst))")
    (auto simp: closest_neighbor_step Distance_pos)

declare route_loop.simps [simp del]

definition routeCost :: "HexCoord \<Rightarrow> HexCoord \<Rightarrow> Map \<Rightarrow> int" where
  "routeCost src dst worldMap = route_loop worldMap dst src 0"

definition roadAdjustedCost :: "int \<Rightarrow> uint8 \<Rightarrow> int" where
  "roadAdjustedCost baseCost roadLevel =
     (if roadLevel = 0 then baseCost
      else let discount = 1 - flt_of_word roadLevel * Agnosis * lit 0.1;
               adjusted = int_of_flt (flt_of_int baseCost * discount :: f64)
           in if adjusted < 6 then 6 else adjusted)"

lemma InBounds_Distance: "InBounds m c \<longleftrightarrow> Distance c \<lparr>coordQ = 0, coordR = 0\<rparr> \<le> Radius m"
  by (auto simp: InBounds_def Distance_max coordS_def Let_def max_def abs_if)

subsection \<open>Routes\<close>

text \<open>A walk from one tile to the next, each adjacent to the one before.\<close>

fun walk :: "HexCoord \<Rightarrow> HexCoord list \<Rightarrow> bool" where
  "walk c [] = True"
| "walk c (d # ds) = (d \<in> set (Neighbors c) \<and> walk d ds)"

lemma route_loop_walk:
  "\<exists>ds. walk cur ds \<and> last (cur # ds) = dst \<and> int (length ds) = Distance cur dst \<and>
        route_loop m dst cur cost = cost + sum_list (map (step_cost m) ds)"
proof (induction m dst cur cost rule: route_loop.induct)
  case (1 m dst cur cost)
  show ?case
  proof (cases "cur = dst")
    case True
    then show ?thesis by (intro exI [of _ "[]"]) (simp add: route_loop.simps)
  next
    case False
    let ?b = "closest_neighbor cur dst"
    note b = closest_neighbor_step [OF False]
    have ne: "?b \<noteq> cur" using b(2) by auto
    from "1.IH" [OF False refl ne] obtain ds where ds: "walk ?b ds" "last (?b # ds) = dst"
      "int (length ds) = Distance ?b dst"
      "route_loop m dst ?b (cost + step_cost m ?b) = cost + step_cost m ?b + sum_list (map (step_cost m) ds)"
      by blast
    have "route_loop m dst cur cost = route_loop m dst ?b (cost + step_cost m ?b)"
      using False ne by (subst route_loop.simps) (simp add: Let_def)
    then show ?thesis using ds b by (intro exI [of _ "?b # ds"]) auto
  qed
qed

lemma terrainMoveCost_bounds: "3 \<le> terrainMoveCost t" "terrainMoveCost t \<le> 999"
  by (cases t; simp)+

lemma step_cost_bounds: "3 \<le> step_cost m c" "step_cost m c \<le> 999"
  by (auto simp: step_cost_def terrainMoveCost_bounds split: option.splits)

lemma sum_step_cost_bounds:
  "3 * int (length ds) \<le> sum_list (map (step_cost m) ds)"
  "sum_list (map (step_cost m) ds) \<le> 999 * int (length ds)"
  by (induction ds) (use step_cost_bounds in \<open>auto simp: algebra_simps add_mono\<close>)

end
