(* ===== verification/Agent_Types.thy ===== *)
theory Agent_Types
  imports Hex_Grid
begin

section \<open>The agent data model (internal/agents/types.go, needs.go, soul.go)\<close>

text \<open>
  The enumerations and structs of \<^verbatim>\<open>internal/agents\<close>, field by field.
  Enumerations are datatypes in the order of their \<^verbatim>\<open>iota\<close> constants;
  optional pointers are options; \<^verbatim>\<open>[NumGoods]int\<close> is a function on the
  goods.  Inventory counts are unbounded integers (they move by single
  units); crowns keep their 64 bits.  Fields whose Go name is used by more
  than one struct carry the struct's initial.
\<close>

datatype Sex = SexMale | SexFemale

datatype CognitionTier = Tier0 | Tier1 | Tier2

datatype Occupation = OccupationFarmer | OccupationMiner | OccupationCrafter | OccupationMerchant
  | OccupationSoldier | OccupationScholar | OccupationAlchemist | OccupationLaborer
  | OccupationFisher | OccupationHunter

datatype SocialRole = RoleCommoner | RoleMerchant | RoleSoldier | RoleNoble | RoleLeader
  | RoleOutlaw | RoleScholar

datatype GoodType = GoodGrain | GoodTimber | GoodIronOre | GoodStone | GoodFish | GoodHerbs
  | GoodGems | GoodFurs | GoodCoal | GoodExotics | GoodTools | GoodWeapons | GoodClothing
  | GoodMedicine | GoodLuxuries

datatype NeedType = NeedSurvival | NeedSafety | NeedBelonging | NeedEsteem | NeedPurpose

datatype StateOfBeing = Embodied | Centered | Liberated

datatype AgentClass = Devotionalist | Ritualist | Nihilist | Transcendentalist

text \<open>Cognition tiers are compared by their number.\<close>

fun tier_num :: "CognitionTier \<Rightarrow> nat" where
  "tier_num Tier0 = 0"
| "tier_num Tier1 = 1"
| "tier_num Tier2 = 2"

lemma tier_num_inj: "tier_num t = tier_num u \<Longrightarrow> t = u"
  by (cases t; cases u) auto

instantiation CognitionTier :: linorder
begin

definition less_eq_CognitionTier :: "CognitionTier \<Rightarrow> CognitionTier \<Rightarrow> bool" where
  "t \<le> u \<longleftrightarrow> tier_num t \<le> tier_num u"

definition less_CognitionTier :: "CognitionTier \<Rightarrow> CognitionTier \<Rightarrow> bool" where
  "t < u \<longleftrightarrow> tier_num t < tier_num u"

instance
  by standard (auto simp: less_eq_CognitionTier_def less_CognitionTier_def intro: tier_num_inj)

end

text \<open>The index order of \<^verbatim>\<open>GoodInventory\<close>, in which Go ranges over it.\<close>

definition all_goods :: "GoodType list" where
  "all_goods = [GoodGrain, GoodTimber, GoodIronOre, GoodStone, GoodFish, GoodHerbs, GoodGems,
     GoodFurs, GoodCoal, GoodExotics, GoodTools, GoodWeapons, GoodClothing, GoodMedicine,
     GoodLuxuries]"

lemma set_all_goods [simp]: "set all_goods = UNIV"
proof -
  have "g \<in> set all_goods" for g by (cases g) (simp_all add: all_goods_def)
  then show ?thesis by auto
qed

lemma distinct_all_goods [simp]: "distinct all_goods"
  by (simp add: all_goods_def)

lemma length_all_goods [simp]: "length all_goods = 15"
  by (simp add: all_goods_def)

lemma UNIV_GoodType_finite [simp]: "finite (UNIV :: GoodType set)"
  by (metis List.finite_set set_all_goods)

type_synonym GoodInventory = "GoodType \<Rightarrow> int"

definition inv_IsEmpty :: "GoodInventory \<Rightarrow> bool" where
  "inv_IsEmpty g = list_all (\<lambda>x. g x = 0) all_goods"

definition inv_Clear :: "GoodInventory \<Rightarrow> GoodInventory" where
  "inv_Clear g = (\<lambda>_. 0)"

lemma inv_IsEmpty_iff: "inv_IsEmpty g \<longleftrightarrow> (\<forall>x. g x = 0)"
  by (simp add: inv_IsEmpty_def list_all_iff)

record SkillSet =
  Farming :: f32
  Mining :: f32
  Crafting :: f32
  Combat :: f32
  TradeSkill :: f32

record Relationship =
  TargetID :: uint64
  Sentiment :: f32
  Trust :: f32

record WellbeingState =
  Satisfaction :: f32
  Alignment :: f32
  EffectiveMood :: f32

record NeedsState =
  Survival :: f32
  Safety :: f32
  Belonging :: f32
  Esteem :: f32
  Purpose :: f32

record AgentSoul =
  CittaCoherence :: f32
  Mass :: f32
  Gauss :: f32
  SoulState :: StateOfBeing
  SoulClass :: AgentClass
  WisdomScore :: f32
  WisdomEffort :: uint32
  Reincarnated :: bool

record Memory =
  MTick :: uint64
  Content :: string
  Importance :: f32

record Agent =
  AID :: uint64
  AName :: string
  Age :: uint16
  AgeMonths :: uint8
  ASex :: Sex
  AHealth :: f32
  APosition :: HexCoord
  HomeSettID :: "uint64 option"
  Destination :: "HexCoord option"
  AOccupation :: Occupation
  Inventory :: GoodInventory
  Wealth :: uint64
  Skills :: SkillSet
  Relationships :: "Relationship list"
  FactionID :: "uint64 option"
  Role :: SocialRole
  Tier :: CognitionTier
  Archetype :: string
  Wellbeing :: WellbeingState
  Soul :: AgentSoul
  Needs :: NeedsState
  TradeDestSett :: "uint64 option"
  TradeCargo :: GoodInventory
  TravelTicksLeft :: uint16
  ConsignmentDebt :: uint64
  TradePreferredDest :: "uint64 option"
  Memories :: "Memory list"
  ProductionProgress :: f32
  PracticeBoost :: f32
  BornTick :: uint64
  LastWorkTick :: uint64
  Alive :: bool

text \<open>\<^verbatim>\<open>a.Inventory[g] += n\<close>.\<close>

definition inv_add :: "GoodType \<Rightarrow> int \<Rightarrow> Agent \<Rightarrow> Agent" where
  "inv_add g n a = a\<lparr>Inventory := (Inventory a)(g := Inventory a g + n)\<rparr>"

text \<open>The idiom \<^verbatim>\<open>if x > 1 { x = 1 }\<close>.\<close>

definition cap1 :: "('a::len, 'b::len) flt \<Rightarrow> ('a, 'b) flt" where
  "cap1 x = (if 1 < x then 1 else x)"

lemma cap1_le [simp]: "cap1 x \<le> 1"
  by (auto simp: cap1_def)

lemma cap1_nonneg: "0 \<le> x \<Longrightarrow> 0 \<le> cap1 x"
  by (auto simp: cap1_def)

lemma inv_add_frame [simp, frame]:
  "Wealth (inv_add g n a) = Wealth a" "Needs (inv_add g n a) = Needs a"
  "Alive (inv_add g n a) = Alive a" "Soul (inv_add g n a) = Soul a"
  "AOccupation (inv_add g n a) = AOccupation a" "AID (inv_add g n a) = AID a"
  "Skills (inv_add g n a) = Skills a" "Wellbeing (inv_add g n a) = Wellbeing a"
  "Inventory (inv_add g n a) = (Inventory a)(g := Inventory a g + n)"
  by (simp_all add: inv_add_def)

subsection \<open>Living agents (iter.go)\<close>

text \<open>
  \<^verbatim>\<open>Alive(agents)\<close> yields the living agents of a slice in order; a
  \<^verbatim>\<open>nil\<close> entry is skipped.
\<close>

definition alive_agents :: "Agent option list \<Rightarrow> Agent list" where
  "alive_agents xs = concat (map (\<lambda>x. case x of None \<Rightarrow> [] | Some a \<Rightarrow> if Alive a then [a] else []) xs)"

lemma alive_agents_all_alive: "a \<in> set (alive_agents xs) \<Longrightarrow> Alive a"
  by (auto simp: alive_agents_def split: option.splits if_splits)

lemma alive_agents_filter: "alive_agents (map Some xs) = filter Alive xs"
  by (induction xs) (auto simp: alive_agents_def)

subsection \<open>Needs (needs.go)\<close>

definition Priority :: "NeedsState \<Rightarrow> NeedType" where
  "Priority n =
     (let threshold = lit 0.3 in
      if Survival n < threshold then NeedSurvival
      else if Safety n < threshold then NeedSafety
      else if Belonging n < threshold then NeedBelonging
      else if Esteem n < threshold then NeedEsteem
      else NeedPurpose)"

definition OverallSatisfaction :: "NeedsState \<Rightarrow> f32" where
  "OverallSatisfaction n =
     (Survival n * lit 5 + Safety n * lit 4 + Belonging n * lit 3 + Esteem n * lit 2
      + Purpose n * lit 1) / lit 15"

definition clampNeeds :: "NeedsState \<Rightarrow> NeedsState" where
  "clampNeeds n =
     n\<lparr>Survival := clamp 0 1 (Survival n), Safety := clamp 0 1 (Safety n),
       Belonging := clamp 0 1 (Belonging n), Esteem := clamp 0 1 (Esteem n),
       Purpose := clamp 0 1 (Purpose n)\<rparr>"

definition needs_ok :: "NeedsState \<Rightarrow> bool" where
  "needs_ok n \<longleftrightarrow> 0 \<le> Survival n \<and> Survival n \<le> 1 \<and> 0 \<le> Safety n \<and> Safety n \<le> 1 \<and>
     0 \<le> Belonging n \<and> Belonging n \<le> 1 \<and> 0 \<le> Esteem n \<and> Esteem n \<le> 1 \<and>
     0 \<le> Purpose n \<and> Purpose n \<le> 1"

lemma clampNeeds_ok [simp, in_range]: "needs_ok (clampNeeds n)"
  by (simp add: needs_ok_def clampNeeds_def clamp_bounds)

lemma clampNeeds_id: "needs_ok n \<Longrightarrow> clampNeeds n = n"
  by (simp add: needs_ok_def clampNeeds_def clamp_id)

end
