(* ===== verification/Agent_Memory.thy ===== *)
theory Agent_Memory
  imports Agent_Types
begin

section \<open>The memory stream (internal/agents/memory.go)\<close>

text \<open>
  A bounded stream of notable experiences.  \<^verbatim>\<open>sort.Slice\<close> is not
  stable, so the two queries take the sorting function as an argument; its
  contract is the locale \<open>slice_sort\<close>.
\<close>

definition MaxMemories :: nat where "MaxMemories = 50"

definition has_prefix :: "string \<Rightarrow> string \<Rightarrow> bool" where
  "has_prefix s p \<longleftrightarrow> take (length p) s = p"

definition is_vision :: "string \<Rightarrow> bool" where
  "is_vision content = has_prefix content ''Vision: ''"

definition decay_visions :: "Memory list \<Rightarrow> Memory list" where
  "decay_visions ms =
     map (\<lambda>m. if is_vision (Content m) then m\<lparr>Importance := Importance m * lit 0.8\<rparr> else m) ms"

definition lowest_idx :: "Memory list \<Rightarrow> nat" where
  "lowest_idx ms =
     fold (\<lambda>i minIdx. if Importance (ms ! i) < Importance (ms ! minIdx) then i else minIdx)
       [1..<length ms] 0"

definition AddMemory :: "uint64 \<Rightarrow> string \<Rightarrow> f32 \<Rightarrow> Agent \<Rightarrow> Agent" where
  "AddMemory tick content importance a =
     (let ms = (if is_vision content then decay_visions (Memories a) else Memories a);
          m = \<lparr>MTick = tick, Content = content, Importance = importance\<rparr>
      in if length ms < MaxMemories then a\<lparr>Memories := ms @ [m]\<rparr>
         else let minIdx = lowest_idx ms in
              if Importance (ms ! minIdx) < Importance m
              then a\<lparr>Memories := ms[minIdx := m]\<rparr>
              else a\<lparr>Memories := ms\<rparr>)"

text \<open>
  The comparisons the two queries give to \<^verbatim>\<open>sort.Slice\<close>.  A negative count
  makes Go's \<^verbatim>\<open>sorted[:count]\<close> panic, which is the value \<open>None\<close>.
\<close>

definition later :: "Memory \<Rightarrow> Memory \<Rightarrow> bool" where
  "later x y \<longleftrightarrow> MTick y < MTick x"

definition weightier :: "Memory \<Rightarrow> Memory \<Rightarrow> bool" where
  "weightier x y \<longleftrightarrow> Importance y < Importance x"

definition RecentMemories :: "((Memory \<Rightarrow> Memory \<Rightarrow> bool) \<Rightarrow> Memory list \<Rightarrow> Memory list) \<Rightarrow> Agent \<Rightarrow> int \<Rightarrow> Memory list option" where
  "RecentMemories sort_slice a cnt =
     (if Memories a = [] then Some []
      else let sorted = sort_slice later (Memories a);
               cnt' = (if int (length sorted) < cnt then int (length sorted) else cnt)
           in if cnt' < 0 then None else Some (take (nat cnt') sorted))"

definition ImportantMemories :: "((Memory \<Rightarrow> Memory \<Rightarrow> bool) \<Rightarrow> Memory list \<Rightarrow> Memory list) \<Rightarrow> Agent \<Rightarrow> int \<Rightarrow> Memory list option" where
  "ImportantMemories sort_slice a cnt =
     (if Memories a = [] then Some []
      else let sorted = sort_slice weightier (Memories a);
               cnt' = (if int (length sorted) < cnt then int (length sorted) else cnt)
           in if cnt' < 0 then None else Some (take (nat cnt') sorted))"

text \<open>The stream after the decay step, and the newcomer.\<close>

definition incoming :: "uint64 \<Rightarrow> string \<Rightarrow> f32 \<Rightarrow> Agent \<Rightarrow> Memory multiset" where
  "incoming tick content importance a =
     add_mset \<lparr>MTick = tick, Content = content, Importance = importance\<rparr>
       (mset (if is_vision content then decay_visions (Memories a) else Memories a))"

subsection \<open>Capacity and eviction\<close>

lemma length_decay_visions [simp]: "length (decay_visions ms) = length ms"
  by (simp add: decay_visions_def)

lemma lowest_idx_upto:
  assumes "n \<le> length ms" "0 < n"
  defines "k \<equiv> fold (\<lambda>i m. if Importance (ms ! i) < Importance (ms ! m) then i else m) [1..<n] 0"
  shows "k < n \<and> (\<forall>i < n. Importance (ms ! k) \<le> Importance (ms ! i))"
  using assms(2,1) unfolding k_def
proof (induction n rule: nat_induct_non_zero)
  case (Suc n)
  let ?k = "fold (\<lambda>i m. if Importance (ms ! i) < Importance (ms ! m) then i else m) [1..<n] 0"
  have IH: "?k < n" "\<And>i. i < n \<Longrightarrow> Importance (ms ! ?k) \<le> Importance (ms ! i)" using Suc by auto
  show ?case
    using IH Suc.hyps by (auto simp: less_Suc_eq not_less intro: order_trans less_imp_le)
qed simp

lemma lowest_idx_least:
  assumes "ms \<noteq> []"
  shows "lowest_idx ms < length ms"
    and "i < length ms \<Longrightarrow> Importance (ms ! lowest_idx ms) \<le> Importance (ms ! i)"
  using lowest_idx_upto [of "length ms" ms] assms by (auto simp: lowest_idx_def)

lemma lowest_idx_least_mem:
  "ms \<noteq> [] \<Longrightarrow> x \<in> set ms \<Longrightarrow> Importance (ms ! lowest_idx ms) \<le> Importance x"
  by (auto simp: in_set_conv_nth lowest_idx_least)

lemma Memories_AddMemory_cases:
  fixes a tick content importance
  defines "ms \<equiv> if is_vision content then decay_visions (Memories a) else Memories a"
    and "m \<equiv> \<lparr>MTick = tick, Content = content, Importance = importance\<rparr>"
  shows "Memories (AddMemory tick content importance a) =
    (if length (Memories a) < MaxMemories then ms @ [m]
     else if Importance (ms ! lowest_idx ms) < importance then ms[lowest_idx ms := m] else ms)"
  by (simp add: AddMemory_def ms_def m_def Let_def)

lemma AddMemory_frame [simp, frame]:
  "Wealth (AddMemory t c i a) = Wealth a" "Alive (AddMemory t c i a) = Alive a"
  "Needs (AddMemory t c i a) = Needs a" "Soul (AddMemory t c i a) = Soul a"
  "Inventory (AddMemory t c i a) = Inventory a" "AID (AddMemory t c i a) = AID a"
  "Wellbeing (AddMemory t c i a) = Wellbeing a" "AOccupation (AddMemory t c i a) = AOccupation a"
  "HomeSettID (AddMemory t c i a) = HomeSettID a" "Relationships (AddMemory t c i a) = Relationships a"
  "TradeCargo (AddMemory t c i a) = TradeCargo a" "AHealth (AddMemory t c i a) = AHealth a"
  by (simp_all add: AddMemory_def Let_def)

lemma AddMemory_bounded [in_range]:
  "length (Memories a) \<le> MaxMemories \<Longrightarrow> length (Memories (AddMemory tick content importance a)) \<le> MaxMemories"
  by (simp add: Memories_AddMemory_cases)

lemma AddMemory_room:
  "length (Memories a) < MaxMemories \<Longrightarrow>
   mset (Memories (AddMemory tick content importance a)) = incoming tick content importance a"
  by (simp add: Memories_AddMemory_cases incoming_def)

lemma AddMemory_full:
  assumes "MaxMemories \<le> length (Memories a)"
  shows "\<exists>d. add_mset d (mset (Memories (AddMemory tick content importance a))) =
      incoming tick content importance a
    \<and> (\<forall>x \<in># mset (Memories (AddMemory tick content importance a)). Importance d \<le> Importance x)"
proof -
  define ms where "ms = (if is_vision content then decay_visions (Memories a) else Memories a)"
  define m where "m = \<lparr>MTick = tick, Content = content, Importance = importance\<rparr>"
  have "length ms = length (Memories a)" by (simp add: ms_def)
  with assms have "0 < length ms" unfolding MaxMemories_def by linarith
  then have ne: "ms \<noteq> []" by auto
  have inc: "incoming tick content importance a = add_mset m (mset ms)"
    by (simp add: incoming_def ms_def m_def)
  let ?k = "lowest_idx ms"
  have mem: "Memories (AddMemory tick content importance a) =
      (if Importance (ms ! ?k) < importance then ms[?k := m] else ms)"
    using assms by (simp add: Memories_AddMemory_cases ms_def m_def)
  show ?thesis
  proof (cases "Importance (ms ! ?k) < importance")
    case True
    have "mset (ms[?k := m]) = add_mset m (mset ms - {# ms ! ?k #})"
      using lowest_idx_least(1) [OF ne] by (simp add: mset_update)
    moreover have "ms ! ?k \<in># mset ms" using lowest_idx_least(1) [OF ne] by simp
    ultimately have "add_mset (ms ! ?k) (mset (ms[?k := m])) = add_mset m (mset ms)" by simp
    moreover have "\<forall>x \<in> set (ms[?k := m]). Importance (ms ! ?k) \<le> Importance x"
      using True lowest_idx_least_mem [OF ne] set_update_subset_insert [of ms ?k m]
      by (auto simp: m_def)
    ultimately show ?thesis using True by (auto simp: mem inc)
  next
    case False
    then have "\<forall>x \<in> set ms. importance \<le> Importance x"
      using lowest_idx_least_mem [OF ne] by (auto simp: not_less intro: order_trans)
    then show ?thesis using False by (auto simp: mem inc m_def)
  qed
qed

subsection \<open>Queries\<close>

context slice_sort
begin

lemma prefix_query:
  "length (take n (srt xs)) = min n (length xs)" "mset (take n (srt xs)) \<subseteq># mset xs"
  "sorted_wrt (\<lambda>x y. \<not> less y x) (take n (srt xs))"
  "x \<in> set (take n (srt xs)) \<Longrightarrow> y \<in># mset xs - mset (take n (srt xs)) \<Longrightarrow> \<not> less y x"
proof -
  have split: "mset xs = mset (take n (srt xs)) + mset (drop n (srt xs))"
    unfolding mset_append [symmetric] append_take_drop_id by (rule mset_srt [symmetric])
  show "length (take n (srt xs)) = min n (length xs)" by (simp add: min.commute)
  show "mset (take n (srt xs)) \<subseteq># mset xs" by (simp add: split)
  show "sorted_wrt (\<lambda>x y. \<not> less y x) (take n (srt xs))" using srt_sorted [of xs] by (simp add: sorted_wrt_take)
  show "x \<in> set (take n (srt xs)) \<Longrightarrow> y \<in># mset xs - mset (take n (srt xs)) \<Longrightarrow> \<not> less y x"
    using srt_take_dominates [of x n xs y] by (simp add: split)
qed

end

lemma later_sort: "slice_sort (sort_desc MTick) later"
  unfolding later_def by (rule sort_desc_slice_sort)

lemma weightier_sort: "slice_sort (sort_desc Importance) weightier"
  unfolding weightier_def by (rule sort_desc_slice_sort)

text \<open>What a query for the first \<open>cnt\<close> memories of an order promises.\<close>

definition top_memories :: "(Memory \<Rightarrow> Memory \<Rightarrow> bool) \<Rightarrow> int \<Rightarrow> Memory list \<Rightarrow> Memory list \<Rightarrow> bool" where
  "top_memories before cnt ms ys \<longleftrightarrow> int (length ys) = min cnt (int (length ms)) \<and> mset ys \<subseteq># mset ms
     \<and> sorted_wrt (\<lambda>x y. \<not> before y x) ys
     \<and> (\<forall>x y. x \<in> set ys \<longrightarrow> y \<in># mset ms - mset ys \<longrightarrow> \<not> before y x)"

lemma top_memories_take:
  assumes "slice_sort srt before" "0 \<le> cnt"
  shows "top_memories before cnt ms (take (nat (min (int (length ms)) cnt)) (srt ms))"
  unfolding top_memories_def
  using assms(2) slice_sort.prefix_query [OF assms(1), where n = "nat (min (int (length ms)) cnt)" and xs = ms]
  by (simp add: min_def split: if_splits)

lemma slice_sort_length: "slice_sort srt before \<Longrightarrow> length (srt xs) = length xs"
  using slice_sort.mset_srt [of srt before xs] by (metis size_mset)

lemma queries_take:
  assumes "0 \<le> cnt"
  shows "slice_sort (ss later) later \<Longrightarrow>
      RecentMemories ss a cnt = Some (take (nat (min (int (length (Memories a))) cnt)) (ss later (Memories a)))"
    and "slice_sort (ss weightier) weightier \<Longrightarrow>
      ImportantMemories ss a cnt = Some (take (nat (min (int (length (Memories a))) cnt)) (ss weightier (Memories a)))"
  using assms by (auto simp: RecentMemories_def ImportantMemories_def Let_def slice_sort_length min_def)

lemma queries_top:
  assumes "0 \<le> cnt"
  shows "slice_sort (ss later) later \<Longrightarrow> \<exists>ys. RecentMemories ss a cnt = Some ys \<and> top_memories later cnt (Memories a) ys"
    and "slice_sort (ss weightier) weightier \<Longrightarrow> \<exists>ys. ImportantMemories ss a cnt = Some ys \<and> top_memories weightier cnt (Memories a) ys"
  using queries_take [OF assms] top_memories_take [OF _ assms] by blast+

lemma queries_negative:
  assumes "cnt < 0" "Memories a \<noteq> []"
  shows "RecentMemories ss a cnt = None" "ImportantMemories ss a cnt = None"
  using assms by (auto simp: RecentMemories_def ImportantMemories_def Let_def)

end
