(* ===== verification/Soul_Coherence.thy ===== *)
theory Soul_Coherence
  imports Agent_Types
begin

section \<open>Coherence and practice (internal/agents/soul.go, contemplation.go)\<close>

text \<open>
  The coherence variable of a soul and everything that moves it.  Natural
  drift (\<open>AdjustCoherence\<close>) is capped at \<open>Matter\<close>; only practice and
  reincarnation (\<open>AdjustCoherenceUncapped\<close>) pass it.  The random numbers of
  \<^verbatim>\<open>math/rand\<close> are arguments: the first draw of the agent's generator.
\<close>

definition StateFromCoherence :: "f32 \<Rightarrow> StateOfBeing" where
  "StateFromCoherence coherence =
     (if lit 0.7 \<le> coherence then Liberated
      else if lit 0.4 \<le> coherence then Centered
      else Embodied)"

definition UpdateState :: "AgentSoul \<Rightarrow> AgentSoul" where
  "UpdateState s = s\<lparr>SoulState := StateFromCoherence (CittaCoherence s)\<rparr>"

definition AdjustCoherence :: "f32 \<Rightarrow> AgentSoul \<Rightarrow> AgentSoul" where
  "AdjustCoherence delta s =
     (let matter = float32 Matter in
      if 0 < delta \<and> matter \<le> CittaCoherence s then s
      else let c1 = CittaCoherence s + delta;
               c2 = (if c1 < 0 then 0 else c1);
               c3 = (if 0 < delta \<and> matter < c2 then matter else c2);
               c4 = (if 1 < c3 then 1 else c3)
           in UpdateState (s\<lparr>CittaCoherence := c4\<rparr>))"

definition AdjustCoherenceUncapped :: "f32 \<Rightarrow> AgentSoul \<Rightarrow> AgentSoul" where
  "AdjustCoherenceUncapped delta s =
     (let c1 = CittaCoherence s + delta;
          c2 = (if c1 < 0 then 0 else c1);
          c3 = (if 1 < c2 then 1 else c2)
      in UpdateState (s\<lparr>CittaCoherence := c3\<rparr>))"

definition WisdomContribution :: "AgentSoul \<Rightarrow> f64" where
  "WisdomContribution s = float64 (WisdomScore s) * Psyche"

text \<open>The three phases of \<^verbatim>\<open>ComputeAlignment\<close>, before its final clamp.\<close>

definition alignment_phase :: "AgentSoul \<Rightarrow> f64" where
  "alignment_phase s =
     (let c = float64 (CittaCoherence s) in
      if c < Psyche then c * Matter
      else if c < lit 0.7 then
        let mid = (Psyche + lit 0.7) / lit 2;
            depth = lit 0.15;
            norm = (c - mid) / (lit 0.7 - mid)
        in Psyche * Matter - depth * (1 - norm * norm)
      else
        let wisdomBonus = min (float64 (WisdomScore s) * lit 0.1) (lit 0.1)
        in Matter + (c - Matter) * Being + wisdomBonus)"

definition ComputeAlignment :: "AgentSoul \<Rightarrow> f32" where
  "ComputeAlignment s =
     (let alignment0 = alignment_phase s;
          alignment1 = (if alignment0 < 0 then 0 else alignment0);
          alignment = (if 1 < alignment1 then 1 else alignment1)
      in float32 alignment)"

subsection \<open>Contemplation\<close>

definition ContemplateMinAge :: uint16 where "ContemplateMinAge = 16"
definition SamathaPerTick :: f32 where "SamathaPerTick = lit 0.0005"
definition InsightProb :: f64 where "InsightProb = lit 0.01"
definition InsightCoherenceGain :: f32 where "InsightCoherenceGain = lit 0.025"

fun occupationConducive :: "Occupation \<Rightarrow> f64" where
  "occupationConducive OccupationFarmer = Agnosis"
| "occupationConducive OccupationMiner = Agnosis"
| "occupationConducive OccupationCrafter = Agnosis"
| "occupationConducive OccupationMerchant = Matter"
| "occupationConducive OccupationSoldier = Psyche"
| "occupationConducive OccupationScholar = Being"
| "occupationConducive OccupationAlchemist = Being / Phi"
| "occupationConducive OccupationLaborer = Agnosis"
| "occupationConducive OccupationFisher = Psyche"
| "occupationConducive OccupationHunter = Matter"

fun classIntention :: "AgentClass \<Rightarrow> f64" where
  "classIntention Devotionalist = Matter"
| "classIntention Ritualist = Psyche"
| "classIntention Nihilist = Agnosis"
| "classIntention Transcendentalist = Being"

definition ContemplationEligible :: "Agent \<Rightarrow> bool" where
  "ContemplationEligible a =
     (if Age a < ContemplateMinAge then False
      else if Satisfaction (Wellbeing a) < float32 Psyche then False
      else True)"

definition ContemplationProbability :: "Agent \<Rightarrow> f64" where
  "ContemplationProbability a =
     (let base = Agnosis * Agnosis * Agnosis;
          occW = occupationConducive (AOccupation a);
          clsW = classIntention (SoulClass (Soul a))
      in base * occW * clsW / lit 60)"

definition applyContemplate :: "f64 \<Rightarrow> Agent \<Rightarrow> Agent" where
  "applyContemplate draw a =
     (let s1 = (Soul a)\<lparr>WisdomEffort := WisdomEffort (Soul a) + 1\<rparr>;
          s2 = AdjustCoherenceUncapped SamathaPerTick s1;
          s3 = (if draw < InsightProb then AdjustCoherenceUncapped InsightCoherenceGain s2 else s2);
          n = Needs a;
          gain = float32 (Agnosis * lit 0.001)
      in a\<lparr>Soul := s3,
           Needs := n\<lparr>Belonging := cap1 (Belonging n + gain), Purpose := cap1 (Purpose n + gain)\<rparr>\<rparr>)"

subsection \<open>The soul invariant\<close>

definition soul_ok :: "AgentSoul \<Rightarrow> bool" where
  "soul_ok s \<longleftrightarrow> 0 \<le> CittaCoherence s \<and> CittaCoherence s \<le> 1 \<and>
     SoulState s = StateFromCoherence (CittaCoherence s)"

lemma rat_Matter32: "rat_of_flt (float32 Matter) = 10368890 / 2 ^ 24"
  unfolding flt_conv_def rat_Matter
  by (subst rat_of_lit_eqI [where m = 10368890 and e = "-24"]) (auto simp: powi_eval)

lemma rat_07_32: "rat_of_flt (lit (7 / 10) :: f32) = 11744051 / 2 ^ 24"
  by (subst rat_of_lit_eqI [where m = 11744051 and e = "-24"]) (auto simp: powi_eval)

lemma Matter32_bounds [simp]:
  "0 \<le> float32 Matter" "float32 Matter \<le> 1" "float32 Matter < lit (7 / 10)"
  by (simp_all add: flt_le_iff flt_less_iff rat_Matter32 rat_07_32)

lemma StateFromCoherence_Liberated: "StateFromCoherence c = Liberated \<longleftrightarrow> lit (7 / 10) \<le> c"
  by (simp add: StateFromCoherence_def)

lemma AdjustCoherence_neg:
  "delta \<le> 0 \<Longrightarrow> AdjustCoherence delta s = UpdateState (s\<lparr>CittaCoherence := clamp 0 1 (CittaCoherence s + delta)\<rparr>)"
  unfolding AdjustCoherence_def clamp_def Let_def by (simp add: not_less [symmetric])

lemma AdjustCoherence_pos:
  assumes "0 < delta"
  shows "AdjustCoherence delta s =
    (if float32 Matter \<le> CittaCoherence s then s
     else UpdateState (s\<lparr>CittaCoherence := clamp 0 (float32 Matter) (CittaCoherence s + delta)\<rparr>))"
proof -
  have "\<not> 1 < clamp 0 (float32 Matter) x" for x
    unfolding not_less by (rule order_trans [OF clamp_bounds(2) Matter32_bounds(2)])
  then show ?thesis
    using assms unfolding AdjustCoherence_def clamp_def Let_def by simp
qed

lemma UpdateState_ok: "0 \<le> c \<Longrightarrow> c \<le> 1 \<Longrightarrow> soul_ok (UpdateState (s\<lparr>CittaCoherence := c\<rparr>))"
  by (simp add: soul_ok_def UpdateState_def)

lemma CittaCoherence_UpdateState [simp]: "CittaCoherence (UpdateState s) = CittaCoherence s"
  by (simp add: UpdateState_def)

lemma AdjustCoherence_ok [in_range]:
  assumes "soul_ok s"
  shows "soul_ok (AdjustCoherence delta s)"
proof (cases "0 < delta")
  case True
  have "clamp 0 (float32 Matter) x \<le> 1" for x
    by (rule order_trans [OF clamp_bounds(2) Matter32_bounds(2)])
  then show ?thesis using assms by (simp add: AdjustCoherence_pos [OF True] UpdateState_ok clamp_bounds)
next
  case False
  then show ?thesis by (simp add: AdjustCoherence_neg not_less UpdateState_ok clamp_bounds)
qed

lemma AdjustCoherenceUncapped_clamp:
  "AdjustCoherenceUncapped delta s = UpdateState (s\<lparr>CittaCoherence := clamp 0 1 (CittaCoherence s + delta)\<rparr>)"
  by (simp add: AdjustCoherenceUncapped_def clamp_def Let_def)

lemma AdjustCoherenceUncapped_ok [in_range]: "soul_ok (AdjustCoherenceUncapped delta s)"
  by (simp add: AdjustCoherenceUncapped_clamp UpdateState_ok clamp_bounds)

lemma AdjustCoherence_cap:
  "0 < delta \<Longrightarrow> CittaCoherence (AdjustCoherence delta s) \<le> max (CittaCoherence s) (float32 Matter)"
  by (simp add: AdjustCoherence_pos clamp_bounds le_max_iff_disj)

lemma AdjustCoherence_decrease:
  assumes "delta \<le> 0" and "soul_ok s"
  shows "CittaCoherence (AdjustCoherence delta s) \<le> CittaCoherence s"
proof -
  have "clamp 0 1 (CittaCoherence s + delta) \<le> clamp 0 1 (CittaCoherence s)"
    by (rule clamp_mono) (rule flt_add_decrease [OF assms(1)])
  then show ?thesis using assms by (simp add: AdjustCoherence_neg soul_ok_def clamp_id)
qed

lemma AdjustCoherence_increase:
  assumes "0 < delta" and "soul_ok s"
  shows "CittaCoherence s \<le> CittaCoherence (AdjustCoherence delta s)"
proof (cases "float32 Matter \<le> CittaCoherence s")
  case False
  have "clamp 0 (float32 Matter) (CittaCoherence s) \<le> clamp 0 (float32 Matter) (CittaCoherence s + delta)"
    by (rule clamp_mono) (rule flt_add_increase, use assms in simp)
  then show ?thesis
    using assms False by (simp add: AdjustCoherence_pos soul_ok_def clamp_id)
qed (simp add: AdjustCoherence_pos assms)

text \<open>Natural drift never liberates.\<close>

lemma AdjustCoherence_not_Liberated:
  assumes "soul_ok s" and "SoulState s \<noteq> Liberated"
  shows "SoulState (AdjustCoherence delta s) \<noteq> Liberated"
proof -
  let ?t = "AdjustCoherence delta s"
  have c: "CittaCoherence s < lit (7 / 10)"
    using assms by (simp add: soul_ok_def StateFromCoherence_Liberated not_le)
  have "CittaCoherence ?t < lit (7 / 10)"
  proof (cases "0 < delta")
    case True
    have "max (CittaCoherence s) (float32 Matter) < lit (7 / 10)" using c by simp
    with AdjustCoherence_cap [OF True, of s] show ?thesis by (rule order_le_less_trans)
  next
    case False
    then have "CittaCoherence (AdjustCoherence delta s) \<le> CittaCoherence s"
      using assms(1) by (intro AdjustCoherence_decrease) auto
    then show ?thesis using c by (rule order_le_less_trans)
  qed
  then show ?thesis
    using AdjustCoherence_ok [OF assms(1), of delta]
    by (simp add: soul_ok_def StateFromCoherence_Liberated not_le)
qed

subsection \<open>Alignment stays in the unit interval\<close>

lemma flt_conv_mono: "x \<le> y \<Longrightarrow> flt_conv x \<le> flt_conv y"
  unfolding flt_conv_def by (rule lit_mono) (simp add: flt_le_iff)

lemma flt_conv_0 [simp]: "flt_conv 0 = 0"
  by (simp add: flt_conv_def)

lemma flt_conv_1 [simp]: "flt_conv 1 = 1"
  by (simp add: flt_conv_def)

lemma flt_conv_unit:
  "0 \<le> x \<Longrightarrow> 0 \<le> flt_conv x" "x \<le> 1 \<Longrightarrow> flt_conv x \<le> 1"
  using flt_conv_mono [of 0 x] flt_conv_mono [of x 1] by simp_all

lemma ComputeAlignment_clamp: "ComputeAlignment s = float32 (clamp 0 1 (alignment_phase s))"
  by (simp add: ComputeAlignment_def clamp_def Let_def)

lemma ComputeAlignment_bounds [in_range]: "0 \<le> ComputeAlignment s" "ComputeAlignment s \<le> 1"
  by (simp_all add: ComputeAlignment_clamp flt_conv_unit clamp_bounds)

lemma applyContemplate_ok: "soul_ok (Soul (applyContemplate draw a))"
  by (simp add: applyContemplate_def Let_def AdjustCoherenceUncapped_ok)

end
