(* ===== verification/Behavior.thy ===== *)
theory Behavior
  imports Agent_Memory Soul_Coherence
begin

section \<open>Decisions and actions (internal/agents/behavior.go, sat_bump.go, archetype.go)\<close>

text \<open>
  What an agent decides each tick and what the decided action does to it.
  The global counter \<^verbatim>\<open>SatBumpSaturatedCounter\<close> is threaded through
  the actions that can bump it, beside the agent.  The draw of
  \<^verbatim>\<open>rand.Float64()\<close> in \<^verbatim>\<open>Tier0Decide\<close> is the argument
  \<open>draw\<close>; the first draw of a generator seeded by \<^verbatim>\<open>rngForAgent\<close> is
  \<open>first_draw seed\<close>.  The behaviour templates are a global map, so they are
  an argument too.  Every \<^verbatim>\<open>apply\<dots>\<close> function returns a nil event list,
  which is not repeated in the model.
\<close>

subsection \<open>Direct satisfaction bumps (sat_bump.go)\<close>

type_synonym SatCounts = "string \<Rightarrow> uint64"
type_synonym counted = "Agent \<times> SatCounts"

definition satBumpCounter_add :: "string \<Rightarrow> SatCounts \<Rightarrow> SatCounts" where
  "satBumpCounter_add source c = c(source := c source + 1)"

definition ApplyDirectSatBump :: "f32 \<Rightarrow> string \<Rightarrow> counted \<Rightarrow> counted" where
  "ApplyDirectSatBump delta source ac =
     (let (a, c) = ac;
          w = Wellbeing a;
          a' = a\<lparr>Wellbeing := w\<lparr>Satisfaction := Satisfaction w + delta\<rparr>\<rparr>;
          n = Needs a'
      in (a', if lit 0.99 \<le> Safety n \<or> lit 0.99 \<le> Belonging n
                 \<or> lit 0.99 \<le> Esteem n \<or> lit 0.99 \<le> Purpose n
              then satBumpCounter_add source c else c))"

subsection \<open>Deciding (behavior.go)\<close>

datatype ActionKind = ActionIdle | ActionEat | ActionWork | ActionForage | ActionTrade | ActionTravel
  | ActionRest | ActionSocialize | ActionBuyFood | ActionContemplate

record Action =
  ActAgentID :: uint64
  Kind :: ActionKind
  Detail :: string

definition act :: "Agent \<Rightarrow> ActionKind \<Rightarrow> string \<Rightarrow> Action" where
  "act a k d = \<lparr>ActAgentID = AID a, Kind = k, Detail = AName a @ d\<rparr>"

definition idle :: "Agent \<Rightarrow> Action" where
  "idle a = \<lparr>ActAgentID = AID a, Kind = ActionIdle, Detail = []\<rparr>"

definition decideDefault :: "Agent \<Rightarrow> Action" where
  "decideDefault a = act a ActionWork '' goes about their work''"

definition decideSurvival :: "Agent \<Rightarrow> Action" where
  "decideSurvival a =
     (if Survival (Needs a) < lit 0.3 then
        (let food = Inventory a GoodGrain + Inventory a GoodFish in
         if 0 < food then act a ActionEat '' eats a meal''
         else if 1 \<le> Wealth a then act a ActionBuyFood '' buys food at market''
         else act a ActionForage '' forages for food'')
      else if AHealth a < lit 0.3 then act a ActionRest '' rests to recover''
      else decideDefault a)"

definition decideSafety :: "Agent \<Rightarrow> Action" where
  "decideSafety a =
     (if Wealth a < 20 then act a ActionWork '' works to earn crowns''
      else if 30 < Wealth a \<and> Belonging (Needs a) < lit 0.4
      then act a ActionSocialize '' socializes with neighbors''
      else decideDefault a)"

definition decideBelonging :: "Agent \<Rightarrow> Action" where
  "decideBelonging a = act a ActionSocialize '' socializes with neighbors''"

definition decideEsteem :: "Agent \<Rightarrow> Action" where
  "decideEsteem a = act a ActionWork '' works diligently''"

definition Tier0Decide :: "f64 \<Rightarrow> Agent \<Rightarrow> Action" where
  "Tier0Decide draw a =
     (if \<not> Alive a then idle a
      else if 0 < TravelTicksLeft a then act a ActionTravel '' travels with cargo''
      else let boost0 = float64 (PracticeBoost a);
               boost = (if boost0 \<le> 0 then 1 else boost0) in
        if ContemplationEligible a \<and> draw < ContemplationProbability a * boost
        then act a ActionContemplate '' sits in contemplation''
        else (case Priority (Needs a) of
                NeedSurvival \<Rightarrow> decideSurvival a
              | NeedSafety \<Rightarrow> decideSafety a
              | NeedBelonging \<Rightarrow> decideBelonging a
              | NeedEsteem \<Rightarrow> decideEsteem a
              | NeedPurpose \<Rightarrow> decideDefault a))"

subsection \<open>Archetypes (archetype.go)\<close>

record BehaviorTemplate =
  PriorityOverrides :: "NeedType \<Rightarrow> f32 option"
  PreferredAction :: ActionKind
  CoherenceGrowth :: f32
  SocialBias :: f32

type_synonym templates = "string \<Rightarrow> BehaviorTemplate option"

definition template :: "(NeedType \<times> f32) list \<Rightarrow> ActionKind \<Rightarrow> f64 \<Rightarrow> f32 \<Rightarrow> BehaviorTemplate" where
  "template overrides action growth bias =
     \<lparr>PriorityOverrides = map_of overrides, PreferredAction = action,
      CoherenceGrowth = float32 growth, SocialBias = bias\<rparr>"

definition ArchAmbitiousMerchant :: string where "ArchAmbitiousMerchant = ''AmbitiousMerchant''"
definition ArchDevoutTraditionalist :: string where "ArchDevoutTraditionalist = ''DevoutTraditionalist''"
definition ArchFrontierExplorer :: string where "ArchFrontierExplorer = ''FrontierExplorer''"
definition ArchDisgruntledLaborer :: string where "ArchDisgruntledLaborer = ''DisgruntledLaborer''"
definition ArchSchemingNoble :: string where "ArchSchemingNoble = ''SchemingNoble''"
definition ArchHealerSage :: string where "ArchHealerSage = ''HealerSage''"
definition ArchMilitantGuard :: string where "ArchMilitantGuard = ''MilitantGuard''"
definition ArchCuriousScholar :: string where "ArchCuriousScholar = ''CuriousScholar''"

definition archetypeTemplates :: templates where
  "archetypeTemplates = map_of
    [(ArchAmbitiousMerchant,
        template [(NeedSafety, lit 0.5), (NeedEsteem, lit 0.15)] ActionTrade (Agnosis * lit 0.02) (lit 0.3)),
     (ArchDevoutTraditionalist,
        template [(NeedBelonging, lit 0.2)] ActionWork (Agnosis * lit 0.04) (lit 0.5)),
     (ArchFrontierExplorer,
        template [(NeedSurvival, lit 0.2), (NeedBelonging, lit 0.5)] ActionForage (Agnosis * lit 0.03) (- lit 0.3)),
     (ArchDisgruntledLaborer,
        template [(NeedSafety, lit 0.2), (NeedEsteem, lit 0.2)] ActionWork (Agnosis * lit 0.01) (lit 0.1)),
     (ArchSchemingNoble,
        template [(NeedEsteem, lit 0.1), (NeedBelonging, lit 0.4)] ActionSocialize (Agnosis * lit 0.02) (lit 0.4)),
     (ArchHealerSage,
        template [(NeedPurpose, lit 0.15)] ActionWork (Agnosis * lit 0.05) (lit 0.2)),
     (ArchMilitantGuard,
        template [(NeedSafety, lit 0.15), (NeedBelonging, lit 0.4)] ActionWork (Agnosis * lit 0.02) (- lit 0.1)),
     (ArchCuriousScholar,
        template [(NeedPurpose, lit 0.1), (NeedSurvival, lit 0.2)] ActionWork (Agnosis * lit 0.04) 0)]"

definition override_threshold :: "(NeedType \<Rightarrow> f32 option) \<Rightarrow> NeedType \<Rightarrow> f32" where
  "override_threshold overrides need = (case overrides need of Some t \<Rightarrow> t | None \<Rightarrow> lit 0.3)"

definition priorityWithOverrides :: "NeedsState \<Rightarrow> (NeedType \<Rightarrow> f32 option) \<Rightarrow> NeedType" where
  "priorityWithOverrides n overrides =
     (let threshold = override_threshold overrides in
      if Survival n < threshold NeedSurvival then NeedSurvival
      else if Safety n < threshold NeedSafety then NeedSafety
      else if Belonging n < threshold NeedBelonging then NeedBelonging
      else if Esteem n < threshold NeedEsteem then NeedEsteem
      else NeedPurpose)"

definition Tier1Decide :: "templates \<Rightarrow> f64 \<Rightarrow> Agent \<Rightarrow> Action" where
  "Tier1Decide ts draw a =
     (if \<not> Alive a then idle a
      else if 0 < TravelTicksLeft a then act a ActionTravel '' travels with cargo''
      else case ts (Archetype a) of
             None \<Rightarrow> Tier0Decide draw a
           | Some tmpl \<Rightarrow>
               (case priorityWithOverrides (Needs a) (PriorityOverrides tmpl) of
                  NeedSurvival \<Rightarrow> decideSurvival a
                | NeedSafety \<Rightarrow> decideSafety a
                | NeedBelonging \<Rightarrow>
                    if lit 0.2 < SocialBias tmpl
                    then act a ActionSocialize '' engages the community''
                    else decideBelonging a
                | NeedEsteem \<Rightarrow> decideEsteem a
                | NeedPurpose \<Rightarrow> act a (PreferredAction tmpl) '' pursues their calling''))"

definition Decide :: "templates \<Rightarrow> f64 \<Rightarrow> Agent \<Rightarrow> Action" where
  "Decide ts draw a = (if Tier a = Tier1 then Tier1Decide ts draw a else Tier0Decide draw a)"

definition needMap :: "string \<Rightarrow> NeedType option" where
  "needMap = map_of [(''survival'', NeedSurvival), (''safety'', NeedSafety),
     (''belonging'', NeedBelonging), (''esteem'', NeedEsteem), (''purpose'', NeedPurpose)]"

definition actionMap :: "string \<Rightarrow> ActionKind option" where
  "actionMap = map_of [(''work'', ActionWork), (''trade'', ActionTrade),
     (''socialize'', ActionSocialize), (''forage'', ActionForage), (''rest'', ActionRest)]"

definition override_one :: "string \<times> f32 \<Rightarrow> BehaviorTemplate \<Rightarrow> BehaviorTemplate" where
  "override_one nt tmpl =
     (case needMap (fst nt) of
        None \<Rightarrow> tmpl
      | Some need \<Rightarrow> tmpl\<lparr>PriorityOverrides := (PriorityOverrides tmpl)(need \<mapsto> snd nt)\<rparr>)"

text \<open>The argument map \<^verbatim>\<open>overrides\<close> is given in its iteration order.\<close>

definition UpdateArchetypeTemplate :: "string \<Rightarrow> (string \<times> f32) list \<Rightarrow> string \<Rightarrow> templates \<Rightarrow> templates" where
  "UpdateArchetypeTemplate archetype overrides preferredAction ts =
     (case ts archetype of
        None \<Rightarrow> ts
      | Some tmpl \<Rightarrow>
          let tmpl1 = fold override_one overrides tmpl;
              tmpl2 = (case actionMap preferredAction of
                         None \<Rightarrow> tmpl1 | Some action \<Rightarrow> tmpl1\<lparr>PreferredAction := action\<rparr>)
          in ts(archetype \<mapsto> tmpl2))"

definition AllArchetypes :: "string list" where
  "AllArchetypes = [ArchAmbitiousMerchant, ArchDevoutTraditionalist, ArchFrontierExplorer,
     ArchDisgruntledLaborer, ArchSchemingNoble, ArchHealerSage, ArchMilitantGuard, ArchCuriousScholar]"

definition ApplyTier1CoherenceGrowth :: "templates \<Rightarrow> Agent \<Rightarrow> Agent" where
  "ApplyTier1CoherenceGrowth ts a =
     (if Tier a \<noteq> Tier1 \<or> \<not> Alive a then a
      else case ts (Archetype a) of
             None \<Rightarrow> a
           | Some tmpl \<Rightarrow> a\<lparr>Soul := AdjustCoherence (CoherenceGrowth tmpl * lit (1 / 3)) (Soul a)\<rparr>)"

definition AssignArchetype :: "Agent \<Rightarrow> string" where
  "AssignArchetype a =
     (case AOccupation a of
        OccupationMerchant \<Rightarrow> ArchAmbitiousMerchant
      | OccupationSoldier \<Rightarrow> ArchMilitantGuard
      | OccupationScholar \<Rightarrow> ArchCuriousScholar
      | OccupationAlchemist \<Rightarrow>
          if SoulClass (Soul a) = Transcendentalist \<or> lit 0.4 < CittaCoherence (Soul a)
          then ArchHealerSage else ArchCuriousScholar
      | OccupationFarmer \<Rightarrow>
          if lit 0.4 < CittaCoherence (Soul a) then ArchDevoutTraditionalist else ArchDisgruntledLaborer
      | OccupationLaborer \<Rightarrow>
          if CittaCoherence (Soul a) < lit 0.35 then ArchDisgruntledLaborer else ArchDevoutTraditionalist
      | OccupationHunter \<Rightarrow> ArchFrontierExplorer
      | _ \<Rightarrow>
          if Role a = RoleNoble \<or> Role a = RoleLeader then ArchSchemingNoble
          else let highMass = lit 0.5 < Mass (Soul a); highGauss = lit 0.5 < Gauss (Soul a) in
            if \<not> highMass \<and> highGauss then ArchFrontierExplorer
            else if highMass \<and> highGauss then ArchSchemingNoble
            else ArchDevoutTraditionalist)"

subsection \<open>Acting (behavior.go)\<close>

text \<open>\<^verbatim>\<open>a.Needs.X += d\<close> for the five needs, in order.\<close>

definition add_needs :: "f32 \<Rightarrow> f32 \<Rightarrow> f32 \<Rightarrow> f32 \<Rightarrow> f32 \<Rightarrow> Agent \<Rightarrow> Agent" where
  "add_needs su sa be es pu a =
     (let n = Needs a in
      a\<lparr>Needs := n\<lparr>Survival := Survival n + su, Safety := Safety n + sa,
         Belonging := Belonging n + be, Esteem := Esteem n + es, Purpose := Purpose n + pu\<rparr>\<rparr>)"

definition clamp_agent :: "Agent \<Rightarrow> Agent" where
  "clamp_agent a = a\<lparr>Needs := clampNeeds (Needs a)\<rparr>"

definition applyEat :: "counted \<Rightarrow> counted" where
  "applyEat ac =
     (let (a, c) = ac;
          a1 = (if 0 < Inventory a GoodFish then inv_add GoodFish (- 1) a
                else if 0 < Inventory a GoodGrain then inv_add GoodGrain (- 1) a else a);
          n = Needs a1;
          a2 = a1\<lparr>Needs := n\<lparr>Survival := cap1 (Survival n + lit 0.2),
                 Belonging := cap1 (Belonging n + lit 0.001),
                 Safety := Safety n + lit 0.003\<rparr>\<rparr>
      in ApplyDirectSatBump (lit 0.05) ''eat'' (a2, c))"

definition at_least_1 :: "int \<Rightarrow> int" where
  "at_least_1 n = (if n < 1 then 1 else n)"

definition skill_farming :: "f32 \<Rightarrow> Agent \<Rightarrow> Agent" where
  "skill_farming d a = a\<lparr>Skills := (Skills a)\<lparr>Farming := Farming (Skills a) + d\<rparr>\<rparr>"
definition skill_mining :: "f32 \<Rightarrow> Agent \<Rightarrow> Agent" where
  "skill_mining d a = a\<lparr>Skills := (Skills a)\<lparr>Mining := Mining (Skills a) + d\<rparr>\<rparr>"
definition skill_crafting :: "f32 \<Rightarrow> Agent \<Rightarrow> Agent" where
  "skill_crafting d a = a\<lparr>Skills := (Skills a)\<lparr>Crafting := Crafting (Skills a) + d\<rparr>\<rparr>"
definition skill_combat :: "f32 \<Rightarrow> Agent \<Rightarrow> Agent" where
  "skill_combat d a = a\<lparr>Skills := (Skills a)\<lparr>Combat := Combat (Skills a) + d\<rparr>\<rparr>"
definition skill_trade :: "f32 \<Rightarrow> Agent \<Rightarrow> Agent" where
  "skill_trade d a = a\<lparr>Skills := (Skills a)\<lparr>TradeSkill := TradeSkill (Skills a) + d\<rparr>\<rparr>"

text \<open>One crafter recipe: two units of the first input, one of the second.\<close>

definition recipe :: "GoodType \<Rightarrow> GoodType \<Rightarrow> GoodType \<Rightarrow> Agent \<Rightarrow> Agent" where
  "recipe in2 in1 out a =
     (let produced = (if lit 0.5 < Crafting (Skills a) \<and> AID a mod 3 = 0 then 2 else 1)
      in skill_crafting (lit 0.002) (inv_add out produced (inv_add in1 (- 1) (inv_add in2 (- 2) a))))"

definition work_crafter :: "Agent \<Rightarrow> Agent" where
  "work_crafter a =
     (let i = Inventory a in
      if 2 \<le> i GoodIronOre \<and> 1 \<le> i GoodTimber then recipe GoodIronOre GoodTimber GoodTools a
      else if 2 \<le> i GoodIronOre \<and> 1 \<le> i GoodCoal then recipe GoodIronOre GoodCoal GoodWeapons a
      else if 2 \<le> i GoodFurs \<and> 1 \<le> i GoodTools then recipe GoodFurs GoodTools GoodClothing a
      else if 2 \<le> i GoodGems \<and> 1 \<le> i GoodTools then recipe GoodGems GoodTools GoodLuxuries a
      else add_needs 0 0 0 0 (- lit 0.001) a)"

definition work_alchemist :: "Agent \<Rightarrow> Agent" where
  "work_alchemist a =
     (let i = Inventory a in
      if 2 \<le> i GoodHerbs
      then skill_crafting (lit 0.002) (inv_add GoodMedicine 1 (inv_add GoodHerbs (- 2) a))
      else if 2 \<le> i GoodExotics \<and> 1 \<le> i GoodHerbs
      then skill_crafting (lit 0.002) (inv_add GoodLuxuries 1 (inv_add GoodHerbs (- 1) (inv_add GoodExotics (- 2) a)))
      else add_needs 0 0 0 0 (- lit 0.001) a)"

definition fish_skill :: "SkillSet \<Rightarrow> f64" where
  "fish_skill k =
     (let f0 = float64 (Farming k);
          f1 = (if f0 < float64 (Combat k) then float64 (Combat k) else f0)
      in if f1 < lit 0.5 then lit 0.5 else f1)"

definition work_scholar :: "Agent \<Rightarrow> Agent" where
  "work_scholar a =
     (let a1 = a\<lparr>Soul := AdjustCoherence (float32 (Agnosis * lit 0.0000003)) (Soul a)\<rparr> in
      if 1 \<le> Inventory a1 GoodHerbs
      then skill_crafting (lit 0.001) (inv_add GoodMedicine 1 (inv_add GoodHerbs (- 1) a1))
      else a1)"

fun work_by :: "Occupation \<Rightarrow> Agent \<Rightarrow> Agent" where
  "work_by OccupationFarmer a =
     skill_farming (lit 0.001) (inv_add GoodGrain (at_least_1 (int_of_flt (Farming (Skills a) * lit 3))) a)"
| "work_by OccupationMiner a =
     skill_mining (lit 0.001) (inv_add GoodIronOre (at_least_1 (int_of_flt (Mining (Skills a) * lit 2))) a)"
| "work_by OccupationFisher a =
     skill_farming (lit 0.001) (inv_add GoodFish (at_least_1 (int_of_flt (fish_skill (Skills a) * lit 5))) a)"
| "work_by OccupationHunter a = skill_combat (lit 0.001) (inv_add GoodFurs 1 a)"
| "work_by OccupationCrafter a = work_crafter a"
| "work_by OccupationAlchemist a = work_alchemist a"
| "work_by OccupationLaborer a =
     skill_mining (lit 0.001) (inv_add GoodStone (at_least_1 (int_of_flt (Mining (Skills a) * lit 3))) a)"
| "work_by OccupationMerchant a = skill_trade (lit 0.001) a"
| "work_by OccupationSoldier a =
     add_needs (lit 0.001) (lit 0.003) (lit 0.004) 0 (lit 0.005) (skill_combat (lit 0.002) a)"
| "work_by OccupationScholar a = work_scholar a"

definition applyWork :: "Agent \<Rightarrow> Agent" where
  "applyWork a =
     clamp_agent (add_needs 0 (lit 0.005) (lit 0.003) (lit 0.01) (lit 0.002) (work_by (AOccupation a) a))"

definition travel_meal :: "GoodType \<Rightarrow> string \<Rightarrow> counted \<Rightarrow> counted" where
  "travel_meal g source ac =
     ApplyDirectSatBump (lit 0.05) source
       (add_needs (lit 0.2) (lit 0.003) (lit 0.001) 0 0 (inv_add g (- 1) (fst ac)), snd ac)"

definition applyTravel :: "counted \<Rightarrow> counted" where
  "applyTravel ac =
     (let a = fst ac;
          (a1, c1) =
            (if Survival (Needs a) < lit 0.5 then
               if 0 < Inventory a GoodFish then travel_meal GoodFish ''travel.eat-fish'' ac
               else if 0 < Inventory a GoodGrain then travel_meal GoodGrain ''travel.eat-grain'' ac
               else ac
             else ac)
      in (clamp_agent (add_needs 0 (lit 0.003) (lit 0.002) (lit 0.005) (lit 0.003) a1), c1))"

definition applyForage :: "Agent \<Rightarrow> Agent" where
  "applyForage a =
     clamp_agent (add_needs (lit 0.05) (lit 0.002) (lit 0.001) 0 0 (inv_add GoodGrain 1 a))"

definition applyRest :: "counted \<Rightarrow> counted" where
  "applyRest ac =
     (let (a, c) = ac;
          (a1, c1) = ApplyDirectSatBump (lit 0.03) ''rest'' (a\<lparr>AHealth := cap1 (AHealth a + lit 0.05)\<rparr>, c)
      in (clamp_agent (add_needs (lit 0.02) 0 0 0 0 a1), c1))"

definition applySocialize :: "counted \<Rightarrow> counted" where
  "applySocialize ac =
     (let (a, c) = ac;
          (a1, c1) = ApplyDirectSatBump (lit 0.02) ''socialize''
                       (add_needs 0 (lit 0.003) (lit 0.05) 0 (lit 0.002) a, c)
      in (clamp_agent a1, c1))"

text \<open>The seed \<^verbatim>\<open>int64(tick) + int64(id)\<close> of \<^verbatim>\<open>rngForAgent\<close>, wrapping.\<close>

definition rngForAgent :: "(int \<Rightarrow> f64) \<Rightarrow> uint64 \<Rightarrow> uint64 \<Rightarrow> f64" where
  "rngForAgent first_draw tick aid = first_draw (sint (tick + aid))"

fun ApplyAction :: "(int \<Rightarrow> f64) \<Rightarrow> Action \<Rightarrow> uint64 \<Rightarrow> counted \<Rightarrow> counted" where
  "ApplyAction first_draw action tick (a, c) =
     (case Kind action of
        ActionEat \<Rightarrow> applyEat (a, c)
      | ActionWork \<Rightarrow> (applyWork a, c)
      | ActionForage \<Rightarrow> (applyForage a, c)
      | ActionRest \<Rightarrow> applyRest (a, c)
      | ActionSocialize \<Rightarrow> applySocialize (a, c)
      | ActionTrade \<Rightarrow> (a, c)
      | ActionTravel \<Rightarrow> applyTravel (a, c)
      | ActionContemplate \<Rightarrow> (applyContemplate (rngForAgent first_draw tick (AID a)) a, c)
      | _ \<Rightarrow> (a, c))"

subsection \<open>The passage of time (behavior.go)\<close>

definition decayGood :: "GoodType \<Rightarrow> f64 \<Rightarrow> Agent \<Rightarrow> Agent" where
  "decayGood good rate a =
     (let qty = Inventory a good in
      if qty \<le> 0 then a
      else let loss = flt_of_int qty * rate;
               intLoss = int_of_flt loss in
           if intLoss < 1 \<and> 0 < loss then a
           else let left = qty - intLoss
                in a\<lparr>Inventory := (Inventory a)(good := (if left < 0 then 0 else left))\<rparr>)"

definition DecayInventory :: "Agent \<Rightarrow> Agent" where
  "DecayInventory a =
     (let foodDecayRate = Agnosis * lit 0.1;
          herbDecayRate = Agnosis * lit 0.05;
          medDecayRate = Agnosis * lit 0.05;
          durableDecayRate = Agnosis * lit 0.01
      in (decayGood GoodWeapons durableDecayRate \<circ> decayGood GoodTools durableDecayRate
          \<circ> decayGood GoodMedicine medDecayRate \<circ> decayGood GoodHerbs herbDecayRate
          \<circ> decayGood GoodFish foodDecayRate \<circ> decayGood GoodGrain foodDecayRate) a)"

definition DecayNeeds :: "Agent \<Rightarrow> Agent" where
  "DecayNeeds a =
     (let decay = float32 (Agnosis * lit 0.01);
          n0 = Needs a;
          n = n0\<lparr>Survival := Survival n0 - decay * lit 2, Safety := Safety n0 - decay,
                 Belonging := Belonging n0 - decay * lit 0.5, Esteem := Esteem n0 - decay * lit 0.3,
                 Purpose := Purpose n0 - decay * lit 0.1\<rparr>;
          starving = Survival n < lit 0.1;
          health = (if starving then AHealth a - lit 0.01 else AHealth a);
          alive = (if starving \<and> health \<le> 0 then False else Alive a);
          satTarget = OverallSatisfaction n * lit 2 - 1;
          sat0 = Satisfaction (Wellbeing a) + (satTarget - Satisfaction (Wellbeing a)) * lit 0.01;
          sat1 = (if sat0 < - 1 then - 1 else sat0);
          sat = (if 1 < sat1 then 1 else sat1);
          alignment = ComputeAlignment (Soul a);
          c = CittaCoherence (Soul a);
          alignWeight = c * c * float32 Matter;
          satWeight = 1 - alignWeight;
          alignMood = lit 2 * alignment - 1;
          mood0 = satWeight * sat + alignWeight * alignMood;
          mood1 = (if mood0 < - 1 then - 1 else mood0);
          mood = (if 1 < mood1 then 1 else mood1)
      in a\<lparr>AHealth := health, Alive := alive,
           Wellbeing := \<lparr>Satisfaction = sat, Alignment = alignment, EffectiveMood = mood\<rparr>,
           Needs := clampNeeds n\<rparr>)"

subsection \<open>Frames: what an action leaves alone\<close>

lemma ApplyDirectSatBump_fst:
  "fst (ApplyDirectSatBump d src ac) =
     (fst ac)\<lparr>Wellbeing := (Wellbeing (fst ac))\<lparr>Satisfaction := Satisfaction (Wellbeing (fst ac)) + d\<rparr>\<rparr>"
  by (simp add: ApplyDirectSatBump_def Let_def split: prod.splits)

lemmas skill_defs = skill_farming_def skill_mining_def skill_crafting_def skill_combat_def skill_trade_def

lemmas action_defs = applyEat_def applyWork_def applyTravel_def travel_meal_def applyForage_def
  applyRest_def applySocialize_def applyContemplate_def work_crafter_def work_alchemist_def
  work_scholar_def recipe_def skill_defs add_needs_def clamp_agent_def inv_add_def
  ApplyDirectSatBump_fst Let_def

lemma Wealth_work_by [simp, frame]: "Wealth (work_by oc a) = Wealth a"
  by (cases oc) (simp_all add: action_defs)

lemma Alive_work_by [simp, frame]: "Alive (work_by oc a) = Alive a"
  by (cases oc) (simp_all add: action_defs)

lemma ApplyAction_Wealth [simp, crowns]: "Wealth (fst (ApplyAction fd ax tick ac)) = Wealth (fst ac)"
  by (cases ac; cases "Kind ax") (simp_all add: action_defs case_prod_beta)

lemma ApplyAction_Alive [simp, frame]: "Alive (fst (ApplyAction fd ax tick ac)) = Alive (fst ac)"
  by (cases ac; cases "Kind ax") (simp_all add: action_defs case_prod_beta)

subsection \<open>Inventories stay non-negative\<close>

definition inv_ok :: "Agent \<Rightarrow> bool" where
  "inv_ok a \<longleftrightarrow> list_all (\<lambda>g. 0 \<le> Inventory a g) all_goods"

lemma inv_ok_iff: "inv_ok a \<longleftrightarrow> (\<forall>g. 0 \<le> Inventory a g)"
  by (simp add: inv_ok_def list_all_iff)

lemma inv_ok_cong: "Inventory a = Inventory b \<Longrightarrow> inv_ok a = inv_ok b"
  by (simp add: inv_ok_def)

lemma inv_ok_add [intro]: "inv_ok a \<Longrightarrow> 0 \<le> Inventory a g + n \<Longrightarrow> inv_ok (inv_add g n a)"
  by (simp add: inv_ok_iff)

lemma at_least_1_pos [simp]: "0 \<le> at_least_1 n" "0 < at_least_1 n" "1 \<le> at_least_1 n"
  by (auto simp: at_least_1_def)

lemma Inventory_skill [simp]:
  "Inventory (skill_farming d a) = Inventory a" "Inventory (skill_mining d a) = Inventory a"
  "Inventory (skill_crafting d a) = Inventory a" "Inventory (skill_combat d a) = Inventory a"
  "Inventory (skill_trade d a) = Inventory a" "Inventory (add_needs su sa be es pu a) = Inventory a"
  "Inventory (clamp_agent a) = Inventory a"
  by (simp_all add: skill_defs add_needs_def clamp_agent_def Let_def)

lemma work_by_inv_ok: "inv_ok a \<Longrightarrow> inv_ok (work_by oc a)"
  by (cases oc) (auto simp: inv_ok_iff work_crafter_def work_alchemist_def work_scholar_def recipe_def Let_def
      intro: add_nonneg_nonneg order.strict_implies_order)

lemma Inventory_fst_bump [simp]: "Inventory (fst (ApplyDirectSatBump d s ac)) = Inventory (fst ac)"
  by (simp add: ApplyDirectSatBump_fst)

lemma ApplyAction_inv_ok:
  assumes "inv_ok (fst ac)"
  shows "inv_ok (fst (ApplyAction fd ax tick ac))"
proof (cases ac)
  case (Pair a c)
  have "inv_ok (applyWork a)"
    using work_by_inv_ok [of a "AOccupation a"] assms Pair by (simp add: applyWork_def inv_ok_iff)
  then show ?thesis
    using assms Pair
    by (cases "Kind ax") (auto simp: inv_ok_iff applyEat_def applyForage_def applyRest_def
        applySocialize_def applyTravel_def travel_meal_def applyContemplate_def Let_def case_prod_beta
        intro: add_nonneg_nonneg)
qed

subsection \<open>Crafting makes nothing from nothing\<close>

definition units :: "Agent \<Rightarrow> int" where
  "units a = sum_list (map (Inventory a) all_goods)"

lemma units_sum: "units a = (\<Sum>g\<in>UNIV. Inventory a g)"
  unfolding units_def by (subst sum_list_distinct_conv_sum_set) simp_all

lemma units_inv_add [simp]: "units (inv_add g n a) = units a + n"
proof -
  have "(\<Sum>x\<in>UNIV. ((Inventory a)(g := Inventory a g + n)) x) =
      (\<Sum>x\<in>UNIV. Inventory a x + (if x = g then n else 0))"
    by (rule sum.cong) auto
  then show ?thesis by (simp add: units_sum sum.distrib)
qed

lemma units_cong: "Inventory a = Inventory b \<Longrightarrow> units a = units b"
  by (simp add: units_def)

lemma units_skill [simp]:
  "units (skill_crafting d a) = units a" "units (skill_combat d a) = units a"
  "units (skill_trade d a) = units a" "units (add_needs su sa be es pu a) = units a"
  "units (clamp_agent a) = units a" "units (a\<lparr>Soul := s\<rparr>) = units a"
  by (rule units_cong, simp)+

definition makes_raw :: "Occupation \<Rightarrow> bool" where
  "makes_raw oc \<longleftrightarrow> oc \<in> {OccupationFarmer, OccupationMiner, OccupationFisher, OccupationHunter, OccupationLaborer}"

lemma work_by_units:
  "\<not> makes_raw oc \<Longrightarrow> units (work_by oc a) \<le> units a"
  "makes_raw oc \<Longrightarrow> units a < units (work_by oc a)"
proof -
  have "units (recipe i2 i1 out a) < units a" for i2 i1 out
    by (simp add: recipe_def Let_def)
  note r = less_imp_le [OF this]
  show "\<not> makes_raw oc \<Longrightarrow> units (work_by oc a) \<le> units a"
    by (cases oc) (auto simp: makes_raw_def work_crafter_def work_alchemist_def work_scholar_def Let_def r)
  show "makes_raw oc \<Longrightarrow> units a < units (work_by oc a)"
    by (cases oc) (auto simp: makes_raw_def units_cong [OF Inventory_skill(1)] units_cong [OF Inventory_skill(2)])
qed

subsection \<open>Souls under action\<close>

lemma Soul_skill [simp]:
  "Soul (skill_farming d a) = Soul a" "Soul (skill_mining d a) = Soul a"
  "Soul (skill_crafting d a) = Soul a" "Soul (skill_combat d a) = Soul a"
  "Soul (skill_trade d a) = Soul a" "Soul (add_needs su sa be es pu a) = Soul a"
  "Soul (clamp_agent a) = Soul a" "Soul (fst (ApplyDirectSatBump d s ac)) = Soul (fst ac)"
  by (simp_all add: skill_defs add_needs_def clamp_agent_def ApplyDirectSatBump_fst Let_def)

lemma Soul_work_by:
  "Soul (work_by oc a) =
     (if oc = OccupationScholar then AdjustCoherence (float32 (Agnosis * lit 0.0000003)) (Soul a) else Soul a)"
  by (cases oc) (simp_all add: work_crafter_def work_alchemist_def work_scholar_def recipe_def Let_def)

lemma Soul_ApplyAction:
  assumes "Kind ax \<noteq> ActionContemplate"
  shows "Soul (fst (ApplyAction fd ax tick ac)) = Soul (fst ac) \<or>
    Soul (fst (ApplyAction fd ax tick ac)) =
      AdjustCoherence (float32 (Agnosis * lit 0.0000003)) (Soul (fst ac))"
  using assms
  by (cases ac; cases "Kind ax") (auto simp: applyEat_def applyWork_def applyForage_def applyRest_def
      applySocialize_def applyTravel_def travel_meal_def Soul_work_by Let_def case_prod_beta)

lemma ApplyAction_soul_ok:
  assumes "soul_ok (Soul (fst ac))"
  shows "soul_ok (Soul (fst (ApplyAction fd ax tick ac)))"
proof (cases "Kind ax = ActionContemplate")
  case True
  then show ?thesis by (cases ac) (simp add: applyContemplate_ok)
next
  case False
  then show ?thesis using Soul_ApplyAction [of ax fd tick ac] AdjustCoherence_ok [OF assms] assms by metis
qed

lemma ApplyAction_not_Liberated:
  assumes "soul_ok (Soul (fst ac))" "SoulState (Soul (fst ac)) \<noteq> Liberated" "Kind ax \<noteq> ActionContemplate"
  shows "SoulState (Soul (fst (ApplyAction fd ax tick ac))) \<noteq> Liberated"
  using Soul_ApplyAction [OF assms(3), of fd tick ac] AdjustCoherence_not_Liberated [OF assms(1,2)] assms(2)
  by metis

subsection \<open>Spoilage\<close>

lemma decayGood_other [simp]: "h \<noteq> g \<Longrightarrow> Inventory (decayGood g r a) h = Inventory a h"
  by (simp add: decayGood_def Let_def)

lemma decayGood_bounds:
  assumes "0 \<le> r"
  shows "Inventory (decayGood g r a) g \<le> Inventory a g"
    and "0 \<le> Inventory a g \<Longrightarrow> 0 \<le> Inventory (decayGood g r a) g"
proof -
  have "0 \<le> int_of_flt (flt_of_int q * r)" if "0 \<le> q" for q
    using that assms by (intro int_of_flt_nonneg flt_mult_nonneg flt_of_int_nonneg)
  then show "Inventory (decayGood g r a) g \<le> Inventory a g"
    by (simp add: decayGood_def Let_def)
  show "0 \<le> Inventory a g \<Longrightarrow> 0 \<le> Inventory (decayGood g r a) g"
    by (simp add: decayGood_def Let_def)
qed

lemma decayGood_exact:
  assumes "0 \<le> r" "r \<le> 1" "0 \<le> Inventory a g" "Inventory a g \<le> 2 ^ 53"
  shows "Inventory (decayGood g r a) g = Inventory a g - int_of_flt (flt_of_int (Inventory a g) * r)"
proof -
  define q where "q = Inventory a g"
  have nn: "(0::f64) \<le> flt_of_int q * r"
    using assms by (intro flt_mult_nonneg flt_of_int_nonneg) (simp_all add: q_def)
  have "flt_of_int q * r \<le> (flt_of_int q :: f64)"
    using assms by (intro flt_mult_shrink flt_of_int_nonneg) (simp_all add: q_def)
  then have "int_of_flt (flt_of_int q * r) \<le> int_of_flt (flt_of_int q :: f64)" by (rule int_of_flt_mono)
  also have "\<dots> = q"
    using assms(3,4) by (simp add: int_of_flt_def rat_of_flt_of_int q_def)
  finally have le: "int_of_flt (flt_of_int q * r) \<le> q" .
  have "0 \<le> int_of_flt (flt_of_int q * r)" by (rule int_of_flt_nonneg [OF nn])
  then show ?thesis
    using le assms(3) by (auto simp: decayGood_def Let_def q_def [symmetric])
qed

lemma decayGood_le: "0 \<le> r \<Longrightarrow> Inventory (decayGood g r a) h \<le> Inventory a h"
  by (cases "h = g") (simp_all add: decayGood_bounds)

lemma decayGood_nonneg: "0 \<le> Inventory a h \<Longrightarrow> 0 \<le> r \<Longrightarrow> 0 \<le> Inventory (decayGood g r a) h"
  by (cases "h = g") (simp_all add: decayGood_bounds)

lemma decayGood_frame [simp, frame]:
  "Wealth (decayGood g r a) = Wealth a" "Needs (decayGood g r a) = Needs a"
  "Alive (decayGood g r a) = Alive a" "Soul (decayGood g r a) = Soul a"
  by (simp_all add: decayGood_def Let_def)

lemma DecayInventory_bounds:
  "Inventory (DecayInventory a) g \<le> Inventory a g"
  "0 \<le> Inventory a g \<Longrightarrow> 0 \<le> Inventory (DecayInventory a) g"
proof -
  show "Inventory (DecayInventory a) g \<le> Inventory a g"
    unfolding DecayInventory_def Let_def comp_def
    by (intro order_trans [OF decayGood_le] decayGood_le flt_mult_nonneg zero_le_lit) simp_all
  show "0 \<le> Inventory (DecayInventory a) g" if "0 \<le> Inventory a g"
    unfolding DecayInventory_def Let_def comp_def
    using that by (intro decayGood_nonneg flt_mult_nonneg zero_le_lit) simp_all
qed

definition perishable :: "GoodType \<Rightarrow> bool" where
  "perishable g \<longleftrightarrow> g \<in> {GoodGrain, GoodFish, GoodHerbs, GoodMedicine, GoodTools, GoodWeapons}"

lemma DecayInventory_durable: "\<not> perishable g \<Longrightarrow> Inventory (DecayInventory a) g = Inventory a g"
  by (cases g) (simp_all add: perishable_def DecayInventory_def Let_def)

lemma DecayInventory_Wealth [simp, crowns]: "Wealth (DecayInventory a) = Wealth a"
  by (simp add: DecayInventory_def Let_def)

subsection \<open>Wellbeing after a tick\<close>

definition wellbeing_ok :: "WellbeingState \<Rightarrow> bool" where
  "wellbeing_ok w \<longleftrightarrow> - 1 \<le> Satisfaction w \<and> Satisfaction w \<le> 1 \<and> 0 \<le> Alignment w \<and> Alignment w \<le> 1
     \<and> - 1 \<le> EffectiveMood w \<and> EffectiveMood w \<le> 1"

lemma clamp_pm1: "- 1 \<le> clamp (- 1) 1 (x :: f32)" "clamp (- 1) 1 (x :: f32) \<le> 1"
proof -
  have "(- 1 :: f32) \<le> 1" by (simp add: flt_le_iff)
  then show "- 1 \<le> clamp (- 1) 1 x" by (rule clamp_bounds(1))
  show "clamp (- 1) 1 x \<le> 1" by (rule clamp_bounds(2))
qed

lemma clamp_fold: "(if hi < (if x < lo then lo else x) then hi else if x < lo then lo else x) = clamp lo hi x"
  by (simp add: clamp_def Let_def)

lemma DecayNeeds_ok [in_range]:
  "needs_ok (Needs (DecayNeeds a))" "wellbeing_ok (Wellbeing (DecayNeeds a))"
proof -
  show "needs_ok (Needs (DecayNeeds a))" by (simp add: DecayNeeds_def Let_def)
  show "wellbeing_ok (Wellbeing (DecayNeeds a))"
    unfolding DecayNeeds_def Let_def clamp_fold
    by (simp add: wellbeing_ok_def clamp_pm1 ComputeAlignment_bounds)
qed

lemma DecayNeeds_frame [simp, frame]:
  "Wealth (DecayNeeds a) = Wealth a" "Inventory (DecayNeeds a) = Inventory a"
  "Soul (DecayNeeds a) = Soul a" "AID (DecayNeeds a) = AID a" "HomeSettID (DecayNeeds a) = HomeSettID a"
  by (simp_all add: DecayNeeds_def Let_def)

lemma DecayNeeds_Alive: "Alive (DecayNeeds a) \<Longrightarrow> Alive a"
  by (simp add: DecayNeeds_def Let_def split: if_splits)

subsection \<open>Decisions\<close>

lemma Kind_act [simp]: "Kind (act a k d) = k" "Kind (idle a) = ActionIdle"
  by (simp_all add: act_def idle_def)

lemmas decide_defs = decideSurvival_def decideSafety_def decideBelonging_def decideEsteem_def decideDefault_def

lemma Priority_Survival: "Priority n = NeedSurvival \<longleftrightarrow> Survival n < lit (3 / 10)"
  by (auto simp: Priority_def Let_def)

lemma Tier0Decide_dead_idle: "Kind (Tier0Decide draw a) = ActionIdle \<longleftrightarrow> \<not> Alive a"
  by (auto simp: Tier0Decide_def decide_defs Let_def split: NeedType.splits)

lemma Tier1Decide_no_practice:
  assumes "ts (Archetype a) = Some tmpl" "PreferredAction tmpl \<noteq> ActionContemplate"
  shows "Kind (Tier1Decide ts draw a) \<noteq> ActionContemplate"
  using assms by (auto simp: Tier1Decide_def decide_defs Let_def split: NeedType.splits)

lemma priorityWithOverrides_default: "priorityWithOverrides n (\<lambda>_. None) = Priority n"
  by (simp add: priorityWithOverrides_def Priority_def override_threshold_def Let_def)

definition templates_ok :: "templates \<Rightarrow> bool" where
  "templates_ok ts \<longleftrightarrow> (\<forall>n t. ts n = Some t \<longrightarrow> PreferredAction t \<noteq> ActionContemplate \<and> n \<in> set AllArchetypes)
     \<and> (\<forall>n \<in> set AllArchetypes. ts n \<noteq> None)"

lemma archetypeTemplates_ok: "templates_ok archetypeTemplates"
proof -
  have "PreferredAction t \<noteq> ActionContemplate \<and> n \<in> set AllArchetypes" if "archetypeTemplates n = Some t" for n t
    using map_of_SomeD [OF that [unfolded archetypeTemplates_def]] by (auto simp: template_def AllArchetypes_def)
  moreover have "archetypeTemplates n \<noteq> None" if "n \<in> set AllArchetypes" for n
    using that unfolding archetypeTemplates_def map_of_eq_None_iff by (auto simp: AllArchetypes_def)
  ultimately show ?thesis by (simp add: templates_ok_def)
qed

lemma PreferredAction_override_one [simp]: "PreferredAction (override_one nt t) = PreferredAction t"
  by (simp add: override_one_def split: option.splits)

interpretation overrides: loop_frame override_one PreferredAction
  by unfold_locales simp

lemma actionMap_no_practice: "actionMap s = Some k \<Longrightarrow> k \<noteq> ActionContemplate"
  by (auto simp: actionMap_def split: if_splits)

lemma UpdateArchetypeTemplate_ok:
  assumes "templates_ok ts"
  shows "templates_ok (UpdateArchetypeTemplate arch ovr pref ts)"
  using assms
  by (auto simp: templates_ok_def UpdateArchetypeTemplate_def Let_def overrides.loop_obs
      dest: actionMap_no_practice split: option.splits if_splits)

lemma AssignArchetype_known: "AssignArchetype a \<in> set AllArchetypes"
  by (cases "AOccupation a") (auto simp: AssignArchetype_def AllArchetypes_def Let_def)

end
