(* ===== verification/Ledger.thy ===== *)
theory Ledger
  imports Prelude
begin

section \<open>The closed economy, abstractly\<close>

text \<open>
  The specification the economic operations of \<^verbatim>\<open>internal/engine\<close> are
  measured against.  A ledger gives every account its crowns as a
  \<^verbatim>\<open>uint64\<close>: the purse of an agent (\<^verbatim>\<open>Agent.Wealth\<close>), the
  chest of a settlement (\<^verbatim>\<open>Settlement.Treasury\<close>) and the fund of a
  faction (\<^verbatim>\<open>Faction.Treasury\<close>).  The only step is a solvent
  transfer, which takes from one account what it has and gives it to
  another.  Whatever is a sequence of such steps neither mints nor destroys
  crowns, wraps no \<^verbatim>\<open>uint64\<close> below zero, and wraps none above its
  range as long as all crowns together fit one.
\<close>

datatype account = Purse ptr | Chest ptr | Guild ptr

type_synonym ledger = "account \<Rightarrow> uint64"

definition transfer :: "account \<Rightarrow> account \<Rightarrow> uint64 \<Rightarrow> ledger \<Rightarrow> ledger" where
  "transfer i j c L = (let M = L(i := L i - c) in M(j := M j + c))"

inductive pays :: "account set \<Rightarrow> ledger \<Rightarrow> ledger \<Rightarrow> bool" for A where
  pays_refl: "pays A L L"
| pays_step: "pays A L M \<Longrightarrow> i \<in> A \<Longrightarrow> j \<in> A \<Longrightarrow> c \<le> M i \<Longrightarrow> pays A L (transfer i j c M)"

definition crowns_in :: "account set \<Rightarrow> ledger \<Rightarrow> nat" where
  "crowns_in A L = (\<Sum>a\<in>A. unat (L a))"

text \<open>All crowns of the accounts fit one \<^verbatim>\<open>uint64\<close>.\<close>

definition fits :: "account set \<Rightarrow> ledger \<Rightarrow> bool" where
  "fits A L \<longleftrightarrow> crowns_in A L < 2 ^ 64"

lemma pays_one: "i \<in> A \<Longrightarrow> j \<in> A \<Longrightarrow> c \<le> L i \<Longrightarrow> pays A L (transfer i j c L)"
  by (rule pays_step [OF pays_refl])

lemma pays_trans:
  assumes "pays A K L" and "pays A L M"
  shows "pays A K M"
  using assms(2,1) by (induction rule: pays.induct) (auto intro: pays_step)

lemma pays_mono: "pays A L M \<Longrightarrow> A \<subseteq> B \<Longrightarrow> pays B L M"
  by (induction rule: pays.induct) (auto intro: pays.intros)

lemma transfer_other: "a \<noteq> i \<Longrightarrow> a \<noteq> j \<Longrightarrow> transfer i j c L a = L a"
  by (simp add: transfer_def)

lemma transfer_self [simp]: "transfer i i c L = L"
  by (simp add: transfer_def)

lemma transfer_0 [simp]: "transfer i j 0 L = L"
  by (simp add: transfer_def)

lemma pays_outside: "pays A L M \<Longrightarrow> a \<notin> A \<Longrightarrow> M a = L a"
  by (induction rule: pays.induct) (auto simp: transfer_def)

lemma crowns_in_split:
  assumes "finite A" "i \<in> A" "j \<in> A" "i \<noteq> j"
  shows "crowns_in A L = unat (L i) + unat (L j) + crowns_in (A - {i, j}) L"
proof -
  have "A = insert i (insert j (A - {i, j}))" using assms by auto
  then have "crowns_in A L = crowns_in (insert i (insert j (A - {i, j}))) L" by simp
  then show ?thesis using assms by (simp add: crowns_in_def)
qed

lemma crowns_in_transfer:
  assumes "finite A" "i \<in> A" "j \<in> A" "c \<le> L i" "fits A L"
  shows "crowns_in A (transfer i j c L) = crowns_in A L"
proof (cases "i = j")
  case False
  have rest: "crowns_in (A - {i, j}) (transfer i j c L) = crowns_in (A - {i, j}) L"
    unfolding crowns_in_def by (rule sum.cong) (auto simp: transfer_def)
  have i: "unat (transfer i j c L i) = unat (L i) - unat c" and le: "unat c \<le> unat (L i)"
    using False assms(4) by (simp_all add: transfer_def unat_minus_le word_le_nat_alt)
  have "unat (L i) + unat (L j) < 2 ^ 64"
    using assms(5) crowns_in_split [OF assms(1-3) False, of L] by (simp add: fits_def)
  then have "unat (L j) + unat c < 2 ^ 64" using le by linarith
  then have j: "unat (transfer i j c L j) = unat (L j) + unat c"
    using False by (simp add: transfer_def unat_add_lem [where 'a = 64, simplified, THEN iffD1])
  show ?thesis
    using crowns_in_split [OF assms(1-3) False] i j le rest by simp
qed simp

theorem pays_conserves:
  assumes "pays A L M" and "finite A" and "fits A L"
  shows "crowns_in A M = crowns_in A L"
  using assms
proof (induction rule: pays.induct)
  case (pays_step L M i j c)
  then have "crowns_in A M = crowns_in A L" and "fits A M" by (simp_all add: fits_def)
  then show ?case using pays_step crowns_in_transfer by simp
qed simp

text \<open>Loops: if every step of a loop pays, so does the loop.\<close>

lemma fold_pays:
  assumes "\<And>x s. x \<in> set xs \<Longrightarrow> pays A (led s) (led (step x s))"
  shows "pays A (led s) (led (fold step xs s))"
  by (rule fold_rel [where R = "\<lambda>s t. pays A (led s) (led t)"])
    (auto intro: pays_refl pays_trans assms)

lemma fold_pays_inv:
  assumes "\<And>x s. x \<in> set xs \<Longrightarrow> I s \<Longrightarrow> pays A (L s) (L (f x s)) \<and> I (f x s)" and "I s"
  shows "pays A (L s) (L (fold f xs s))" and "I (fold f xs s)"
  using fold_rel_inv [of "\<lambda>s t. pays A (L s) (L t)" xs I f s] assms by (auto intro: pays_refl pays_trans)

lemma for_break_pays:
  assumes "\<And>x s s'. x \<in> set xs \<Longrightarrow> I s \<Longrightarrow> f x s = Some s' \<Longrightarrow> pays A (L s) (L s') \<and> I s'" and "I s"
  shows "pays A (L s) (L (for_break f xs s))" and "I (for_break f xs s)"
  using for_break_rel [of "\<lambda>s t. pays A (L s) (L t)" xs I f s] assms by (auto intro: pays_refl pays_trans)

text \<open>
  The interface of an economic phase: an operation on the simulation state
  whose effect on the ledger is a sequence of solvent transfers within a set
  of accounts.
\<close>

locale closed_phase =
  fixes led :: "'s \<Rightarrow> ledger" and phase :: "'s \<Rightarrow> 's" and accts :: "'s \<Rightarrow> account set" and ok :: "'s \<Rightarrow> bool"
  assumes phase_pays: "ok s \<Longrightarrow> pays (accts s) (led s) (led (phase s))"
    and accts_finite: "finite (accts s)"
begin

lemma phase_conserves:
  "ok s \<Longrightarrow> fits (accts s) (led s) \<Longrightarrow> crowns_in (accts s) (led (phase s)) = crowns_in (accts s) (led s)"
  by (rule pays_conserves [OF phase_pays accts_finite])

lemma phase_outside: "ok s \<Longrightarrow> a \<notin> accts s \<Longrightarrow> led (phase s) a = led s a"
  by (rule pays_outside [OF phase_pays])

lemma phase_fits: "ok s \<Longrightarrow> fits (accts s) (led s) \<Longrightarrow> fits (accts s) (led (phase s))"
  by (simp add: fits_def phase_conserves)

end

end
