(* ===== verification/Economy.thy ===== *)
theory Economy
  imports Behavior Ledger
begin

section \<open>Markets, factions and settlements (internal/economy/goods.go, internal/social)\<close>

text \<open>
  The market of a settlement as a finite map from goods to entries, its
  price mediation, the settlement and faction structs, and the conjugate
  fields they expose to \<^verbatim>\<open>internal/phi\<close>.
\<close>

record MarketEntry =
  Good :: GoodType
  Supply :: f64
  Demand :: f64
  Price :: f64
  BasePrice :: f64

record Market =
  MarketSettlementID :: uint64
  Entries :: "GoodType \<Rightarrow> MarketEntry option"
  TradeCount :: int
  MostTradedGood :: GoodType

definition basePrices :: "(GoodType \<times> f64) list" where
  "basePrices =
    [(GoodGrain, lit 2), (GoodFish, lit 2), (GoodTimber, lit 3), (GoodIronOre, lit 4),
     (GoodStone, lit 3), (GoodCoal, lit 4), (GoodHerbs, lit 5), (GoodFurs, lit 6),
     (GoodGems, lit 15), (GoodExotics, lit 20), (GoodTools, lit 10), (GoodWeapons, lit 15),
     (GoodClothing, lit 8), (GoodMedicine, lit 12), (GoodLuxuries, lit 25)]"

definition NewMarket :: "uint64 \<Rightarrow> Market" where
  "NewMarket settlementID =
     \<lparr>MarketSettlementID = settlementID,
      Entries = (\<lambda>good. map_option
        (\<lambda>base. \<lparr>Good = good, Supply = 1, Demand = 1, Price = base, BasePrice = base\<rparr>)
        (map_of basePrices good)),
      TradeCount = 0, MostTradedGood = GoodGrain\<rparr>"

definition ResolvePrice :: "MarketEntry \<Rightarrow> f64 \<Rightarrow> f64 \<Rightarrow> f64" where
  "ResolvePrice e seasonalMod regionalMod =
     (let supply = (if Supply e < Agnosis then Agnosis else Supply e);
          price0 = BasePrice e * (Demand e / supply) * seasonalMod * regionalMod;
          floor = BasePrice e * Agnosis;
          ceiling = BasePrice e * Totality;
          price1 = (if price0 < floor then floor else price0)
      in if ceiling < price1 then ceiling else price1)"

definition MarketField :: "MarketEntry ConjugateField" where
  "MarketField = \<lparr>ChargingPressure = Supply, DischargingPressure = Demand\<rparr>"

definition MarketField_Health :: "MarketEntry \<Rightarrow> f64" where
  "MarketField_Health e = HealthRatio MarketField e"

subsection \<open>Factions (faction.go)\<close>

record Faction =
  FID :: uint64
  FName :: string
  Influence :: "uint64 \<Rightarrow> f64 option"
  FRelations :: "uint64 \<Rightarrow> f64 option"
  FLeaderID :: "uint64 option"
  FTreasury :: uint64
  TaxPreference :: f64
  TradePreference :: f64
  MilitaryPreference :: f64

definition seed_faction :: "uint64 \<Rightarrow> string \<Rightarrow> f64 \<Rightarrow> f64 \<Rightarrow> f64 \<Rightarrow> Faction" where
  "seed_faction i nm tax trade military =
     \<lparr>FID = i, FName = nm, Influence = Map.empty, FRelations = Map.empty, FLeaderID = None, FTreasury = 0,
      TaxPreference = tax, TradePreference = trade, MilitaryPreference = military\<rparr>"

definition SeedFactions :: "Faction list" where
  "SeedFactions =
    [seed_faction 1 ''The Crown'' (lit 0.3) 0 (lit 0.5),
     seed_faction 2 ''Merchant's Compact'' (- lit 0.5) (lit 0.8) (- lit 0.3),
     seed_faction 3 ''Iron Brotherhood'' (lit 0.2) (- lit 0.2) (lit 0.9),
     seed_faction 4 ''Verdant Circle'' 0 (- lit 0.3) (- lit 0.5),
     seed_faction 5 ''Ashen Path'' (- lit 0.8) (lit 0.4) (lit 0.2)]"

subsection \<open>Settlements (settlement.go)\<close>

datatype GovernanceType = GovMonarchy | GovCouncil | GovMerchantRepublic | GovCommune

record Settlement =
  SID :: uint64
  SName :: string
  SPosition :: HexCoord
  Population :: uint32
  Governance :: GovernanceType
  SLeaderID :: "uint64 option"
  TaxRate :: f64
  Treasury :: uint64
  CultureTradition :: f32
  CultureOpenness :: f32
  CultureMilitarism :: f32
  WallLevel :: uint8
  RoadLevel :: uint8
  MarketLevel :: uint8
  GovernanceScore :: f64
  SMarket :: "Market option"
  CulturalMemory :: f64

definition settlement_field :: "Settlement ConjugateField" where
  "settlement_field =
     \<lparr>ChargingPressure = (\<lambda>s. flt_of_word (Population s) * lit 0.1 + flt_of_word (Treasury s) * lit 0.001),
      DischargingPressure = (\<lambda>s. flt_of_word (Population s) * lit 0.08 + flt_of_word (Treasury s) * lit 0.0008)\<rparr>"

definition settlement_Health :: "Settlement \<Rightarrow> f64" where
  "settlement_Health s = HealthRatio settlement_field s"

definition IsOvermassed :: "f64 \<Rightarrow> Settlement \<Rightarrow> bool" where
  "IsOvermassed hexCap s =
     (let baseCap = lit 100 + flt_of_word (MarketLevel s) * lit 50 + flt_of_word (RoadLevel s) * lit 25
                    + flt_of_word (WallLevel s) * lit 25;
          infraCap = baseCap * GovernanceScore s * Totality;
          effectiveCap = (if 0 < hexCap \<and> hexCap < infraCap then hexCap else infraCap)
      in effectiveCap * Being < flt_of_word (Population s))"

definition CorruptionScore :: "f64 \<Rightarrow> Settlement \<Rightarrow> f64" where
  "CorruptionScore avgCoherence s =
     (let govDeficit = 1 - GovernanceScore s;
          wisdomDeficit = 1 - avgCoherence;
          score = govDeficit * Psyche + wisdomDeficit * Psyche
      in if 1 < score then 1 else score)"

subsection \<open>Price mediation\<close>

lemma ResolvePrice_clamp:
  "ResolvePrice e seasonalMod regionalMod =
     clamp (BasePrice e * Agnosis) (BasePrice e * Totality)
       (BasePrice e * (Demand e / (if Supply e < Agnosis then Agnosis else Supply e)) * seasonalMod * regionalMod)"
  by (simp add: ResolvePrice_def clamp_def Let_def)

lemma ResolvePrice_bounds:
  assumes "0 \<le> BasePrice e"
  shows "BasePrice e * Agnosis \<le> ResolvePrice e seasonalMod regionalMod"
    and "ResolvePrice e seasonalMod regionalMod \<le> BasePrice e * Totality"
proof -
  have "BasePrice e * Agnosis \<le> BasePrice e * Totality"
    using assms by (intro flt_mult_left_mono) (simp_all add: less_imp_le)
  then show "BasePrice e * Agnosis \<le> ResolvePrice e seasonalMod regionalMod"
    unfolding ResolvePrice_clamp by (rule clamp_bounds(1))
  show "ResolvePrice e seasonalMod regionalMod \<le> BasePrice e * Totality"
    unfolding ResolvePrice_clamp by (rule clamp_bounds(2))
qed

text \<open>Scarcity raises prices: more demand or less supply never lowers the price.\<close>

lemma flt_divide_left_mono:
  "0 < c \<Longrightarrow> c \<le> b \<Longrightarrow> 0 \<le> a \<Longrightarrow> a / b \<le> a / (c :: ('a::len, 'b::len) flt)"
  unfolding flt_divide_def
  by (rule lit_mono) (simp add: flt_le_iff flt_less_iff divide_left_mono)

lemma ResolvePrice_mono:
  assumes "BasePrice e = BasePrice e'" "0 \<le> BasePrice e" "0 \<le> seasonalMod" "0 \<le> regionalMod"
    and "0 \<le> Demand e" "Demand e \<le> Demand e'" "Supply e' \<le> Supply e"
  shows "ResolvePrice e seasonalMod regionalMod \<le> ResolvePrice e' seasonalMod regionalMod"
proof -
  let ?s = "\<lambda>e. if Supply e < Agnosis then Agnosis else Supply e"
  have pos: "0 < ?s e'"
    using less_le_trans [OF phi_order(1), of "Supply e'"] by (simp add: not_less)
  have le: "?s e' \<le> ?s e"
    using assms(7) by (auto simp: not_less)
  have "Demand e / ?s e \<le> Demand e / ?s e'" using pos le assms(5) by (rule flt_divide_left_mono)
  also have "\<dots> \<le> Demand e' / ?s e'"
    using assms(6) pos by (intro flt_divide_right_mono) (simp_all add: less_imp_le)
  finally have "BasePrice e * (Demand e / ?s e) * seasonalMod * regionalMod
      \<le> BasePrice e' * (Demand e' / ?s e') * seasonalMod * regionalMod"
    unfolding assms(1) [symmetric]
    using assms(2-4) by (intro flt_mult_right_mono flt_mult_left_mono)
  then show ?thesis unfolding ResolvePrice_clamp assms(1) by (rule clamp_mono)
qed

definition market_ok :: "Market \<Rightarrow> bool" where
  "market_ok m \<longleftrightarrow> list_all (\<lambda>g. case Entries m g of None \<Rightarrow> True
     | Some e \<Rightarrow> 0 \<le> BasePrice e \<and> BasePrice e * Agnosis \<le> Price e \<and> Price e \<le> BasePrice e * Totality) all_goods"

lemma market_ok_iff:
  "market_ok m \<longleftrightarrow> (\<forall>g e. Entries m g = Some e \<longrightarrow>
     0 \<le> BasePrice e \<and> BasePrice e * Agnosis \<le> Price e \<and> Price e \<le> BasePrice e * Totality)"
  by (auto simp: market_ok_def list_all_iff split: option.splits)

lemma NewMarket_complete: "Entries (NewMarket i) g \<noteq> None"
  by (cases g) (simp_all add: NewMarket_def basePrices_def)

lemma NewMarket_ok: "market_ok (NewMarket i)"
proof -
  have "0 \<le> b" if "map_of basePrices g = Some b" for g b
    using map_of_SomeD [OF that] by (auto simp: basePrices_def zero_le_lit)
  moreover have "b * Agnosis \<le> b" "b \<le> b * Totality" if "0 \<le> b" for b :: f64
    using that flt_mult_left_mono [of Agnosis 1 b] flt_mult_left_mono [of 1 Totality b] by (simp_all add: less_imp_le)
  ultimately show ?thesis by (auto simp: market_ok_iff NewMarket_def)
qed

lemma CorruptionScore_le: "CorruptionScore c s \<le> 1"
  by (simp add: CorruptionScore_def Let_def not_less)

lemma CorruptionScore_nonneg:
  assumes "GovernanceScore s \<le> 1" "c \<le> 1"
  shows "0 \<le> CorruptionScore c s"
  using assms
  by (simp add: CorruptionScore_def Let_def flt_add_nonneg flt_mult_nonneg flt_diff_nonneg)

lemma CorruptionScore_antimono:
  assumes "GovernanceScore s \<le> GovernanceScore s'" "c \<le> c'"
  shows "CorruptionScore c' s' \<le> CorruptionScore c s"
proof -
  have "(1 - GovernanceScore s') * Psyche + (1 - c') * Psyche \<le> (1 - GovernanceScore s) * Psyche + (1 - c) * Psyche"
    using assms by (intro flt_add_mono flt_mult_right_mono flt_diff_mono) simp_all
  then show ?thesis by (auto simp: CorruptionScore_def Let_def)
qed

end
