(* ===== verification/Sim_State.thy ===== *)
theory Sim_State
  imports Economy
begin

section \<open>The simulation state (internal/engine/simulation.go, eventproto)\<close>

text \<open>
  \<^verbatim>\<open>Simulation\<close> as a record.  Agents, settlements and factions are
  shared through Go pointers, so each has a heap, and the slices and indexes
  of the simulation hold pointers.  The values of the relation maps are
  reached only through their map and are stored in it.  A missing key of
  \<^verbatim>\<open>SettlementAgents\<close> or a neighbour index is the empty slice, as a
  nil slice is in Go.  The global counter of saturated bumps and the global
  archetype templates are fields here.  Left out are the clients of external
  services (LLM, weather, entropy) and the spawner; \<^verbatim>\<open>Event.Meta\<close>,
  which only feeds the HTTP API, is left out of events.
\<close>

datatype Category = CategoryAgent | CategoryBirth | CategoryCrime | CategoryDeath | CategoryDisaster
  | CategoryDiscovery | CategoryEconomy | CategoryGardener | CategoryOracle | CategoryPolitical
  | CategorySocial | CategorySpiritual | CategoryWarfare

record Event =
  ETick :: uint64
  Description :: string
  NarratedDescription :: string
  ECategory :: Category

record SimWeather =
  TempModifier :: f32
  FoodDecayMod :: f32
  TravelPenalty :: f32
  WDescription :: string

record SimStats =
  TotalPopulation :: int
  TotalWealth :: uint64
  Deaths :: int
  Births :: int
  AvgMood :: f32
  AvgSatisfaction :: f32
  AvgAlignment :: f32
  AvgSurvival :: f32
  TradeVolume :: uint64
  OccupationCounts :: "Occupation \<Rightarrow> int"
  OccupationSat :: "Occupation \<Rightarrow> f32"
  OccupationSurvival :: "Occupation \<Rightarrow> f32"
  OccupationSafety :: "Occupation \<Rightarrow> f32"
  OccupationBelonging :: "Occupation \<Rightarrow> f32"
  OccupationPurpose :: "Occupation \<Rightarrow> f32"
  OccupationEsteem :: "Occupation \<Rightarrow> f32"
  ProducersWorking :: int
  ProducersIdle :: int

subsection \<open>Pairs of settlements\<close>

datatype SettRelKey = SettRelKey (keyA: uint64) (keyB: uint64)

definition settRelKey :: "uint64 \<Rightarrow> uint64 \<Rightarrow> SettRelKey" where
  "settRelKey a b = (if b < a then SettRelKey b a else SettRelKey a b)"

record SettlementRelation =
  RSentiment :: f64
  RTrade :: f64

record TradeRoute =
  Level :: uint8
  RouteName :: string
  RSustainedWeeks :: int
  DormantWeeks :: int
  WeeklyTrade :: f64

record Agreement =
  AgType :: uint8
  SustainedWeeks :: int
  FormedAtTick :: uint64

record PeaceTreaty =
  RemainingWeeks :: int
  RaidCount :: int
  PFormedAtTick :: uint64

record ProductionBoost =
  BSettlementID :: uint64
  Multiplier :: f64
  ExpiresAt :: uint64

text \<open>A distribution of producers over hexes: coordinates with cumulative weights.\<close>

record hexDist =
  hexEntries :: "(HexCoord \<times> int) list"
  totalWt :: int

subsection \<open>The record\<close>

record Sim =
  agent :: "ptr \<Rightarrow> Agent"
  settl :: "ptr \<Rightarrow> Settlement"
  fact :: "ptr \<Rightarrow> Faction"
  WorldMap :: Map
  Agents :: "ptr list"
  AgentIndex :: "uint64 \<Rightarrow> ptr option"
  Settlements :: "ptr list"
  Events :: "Event list"
  LastTick :: uint64
  SettlementIndex :: "uint64 \<Rightarrow> ptr option"
  SettlementAgents :: "uint64 \<Rightarrow> ptr list"
  Factions :: "ptr list"
  CurrentSeason :: uint8
  CurrentWeather :: SimWeather
  AbandonedWeeks :: "uint64 \<Rightarrow> int"
  NonViableWeeks :: "uint64 \<Rightarrow> int"
  DoctrineFailWeeks :: "uint64 \<Rightarrow> uint8 option"
  ActiveBoosts :: "ProductionBoost list"
  HeatStreakHours :: int
  LiberatedSpiritsPool :: int
  Relations :: "SettRelKey \<Rightarrow> SettlementRelation option"
  TradeTracker :: "SettRelKey \<Rightarrow> f64 option"
  TradeRoutes :: "SettRelKey \<Rightarrow> TradeRoute option"
  Agreements :: "SettRelKey \<Rightarrow> Agreement option"
  PeaceTreaties :: "SettRelKey \<Rightarrow> PeaceTreaty option"
  RaidCounts :: "SettRelKey \<Rightarrow> int option"
  SettlementNeighbors :: "uint64 \<Rightarrow> ptr list"
  SettlementTradeNeighbors :: "uint64 \<Rightarrow> ptr list"
  crimeBonusCache :: "uint64 \<Rightarrow> f64"
  eventSubs :: "int \<Rightarrow> Event list option"
  nextSubID :: int
  Stats :: SimStats
  tickCoherenceCache :: "uint64 \<Rightarrow> f64 option"
  prodHexCache :: "uint64 \<times> Occupation \<Rightarrow> hexDist option"
  LastArchetypeSeason :: uint8
  archetypeInitialized :: bool
  SatBumps :: SatCounts
  Archetypes :: templates

subsection \<open>Assignments through pointers\<close>

definition upd_agent :: "ptr \<Rightarrow> (Agent \<Rightarrow> Agent) \<Rightarrow> Sim \<Rightarrow> Sim" where
  "upd_agent p f s = s\<lparr>agent := upd p f (agent s)\<rparr>"

definition upd_settl :: "ptr \<Rightarrow> (Settlement \<Rightarrow> Settlement) \<Rightarrow> Sim \<Rightarrow> Sim" where
  "upd_settl p f s = s\<lparr>settl := upd p f (settl s)\<rparr>"

definition upd_fact :: "ptr \<Rightarrow> (Faction \<Rightarrow> Faction) \<Rightarrow> Sim \<Rightarrow> Sim" where
  "upd_fact p f s = s\<lparr>fact := upd p f (fact s)\<rparr>"

definition upd_hex :: "HexCoord \<Rightarrow> (Hex \<Rightarrow> Hex) \<Rightarrow> Sim \<Rightarrow> Sim" where
  "upd_hex c f s = s\<lparr>WorldMap := (WorldMap s)\<lparr>Hexes := (Hexes (WorldMap s))(c := map_option f (Hexes (WorldMap s) c))\<rparr>\<rparr>"

text \<open>An agent operation that also touches the global bump counter.\<close>

definition upd_counted :: "ptr \<Rightarrow> (counted \<Rightarrow> counted) \<Rightarrow> Sim \<Rightarrow> Sim" where
  "upd_counted p f s =
     (let (a, c) = f (agent s p, SatBumps s) in s\<lparr>agent := (agent s)(p := a), SatBumps := c\<rparr>)"

definition gain_wealth :: "uint64 \<Rightarrow> Agent \<Rightarrow> Agent" where
  "gain_wealth c a = a\<lparr>Wealth := Wealth a + c\<rparr>"
definition lose_wealth :: "uint64 \<Rightarrow> Agent \<Rightarrow> Agent" where
  "lose_wealth c a = a\<lparr>Wealth := Wealth a - c\<rparr>"
definition gain_treasury :: "uint64 \<Rightarrow> Settlement \<Rightarrow> Settlement" where
  "gain_treasury c t = t\<lparr>Treasury := Treasury t + c\<rparr>"
definition lose_treasury :: "uint64 \<Rightarrow> Settlement \<Rightarrow> Settlement" where
  "lose_treasury c t = t\<lparr>Treasury := Treasury t - c\<rparr>"

subsection \<open>Events and subscribers\<close>

definition deliver :: "Event \<Rightarrow> Event list \<Rightarrow> Event list" where
  "deliver e buf = (if length buf < 64 then buf @ [e] else buf)"

definition EmitEvent :: "Event \<Rightarrow> Sim \<Rightarrow> Sim" where
  "EmitEvent e s =
     s\<lparr>Events := Events s @ [e], eventSubs := (\<lambda>i. map_option (deliver e) (eventSubs s i))\<rparr>"

definition emit :: "uint64 \<Rightarrow> string \<Rightarrow> Category \<Rightarrow> Sim \<Rightarrow> Sim" where
  "emit tick desc cat = EmitEvent \<lparr>ETick = tick, Description = desc, NarratedDescription = [], ECategory = cat\<rparr>"

definition Subscribe :: "Sim \<Rightarrow> int \<times> Sim" where
  "Subscribe s =
     (let sid = nextSubID s in (sid, s\<lparr>nextSubID := sid + 1, eventSubs := (eventSubs s)(sid \<mapsto> [])\<rparr>))"

definition Unsubscribe :: "int \<Rightarrow> Sim \<Rightarrow> Sim" where
  "Unsubscribe sid s =
     (case eventSubs s sid of None \<Rightarrow> s | Some _ \<Rightarrow> s\<lparr>eventSubs := (eventSubs s)(sid := None)\<rparr>)"

text \<open>The trimming at the end of \<^verbatim>\<open>TickDay\<close> and \<^verbatim>\<open>TickWeek\<close>.\<close>

definition trim_events :: "Sim \<Rightarrow> Sim" where
  "trim_events s =
     (if 1000 < length (Events s)
      then s\<lparr>Events := drop (length (Events s) - 1000) (Events s)\<rparr> else s)"

text \<open>\<^verbatim>\<open>fmt.Sprintf\<close> with \<^verbatim>\<open>%d\<close>.\<close>

fun show_nat :: "nat \<Rightarrow> string" where
  "show_nat n = (if n < 10 then [char_of (48 + n)] else show_nat (n div 10) @ [char_of (48 + n mod 10)])"

definition show_int :: "int \<Rightarrow> string" where
  "show_int n = (if n < 0 then ''-'' @ show_nat (nat (- n)) else show_nat (nat n))"

abbreviation show_word :: "'a::len word \<Rightarrow> string" where
  "show_word w \<equiv> show_nat (unat w)"

subsection \<open>The ledger of a state\<close>

text \<open>The abstraction function into \<open>Ledger\<close>.\<close>

definition led :: "Sim \<Rightarrow> ledger" where
  "led s acc = (case acc of Purse p \<Rightarrow> Wealth (agent s p) | Chest p \<Rightarrow> Treasury (settl s p)
     | Guild p \<Rightarrow> FTreasury (fact s p))"

lemma led_simps [simp]:
  "led s (Purse p) = Wealth (agent s p)" "led s (Chest p) = Treasury (settl s p)"
  "led s (Guild p) = FTreasury (fact s p)"
  by (simp_all add: led_def)

lemma led_eqI:
  assumes "\<And>p. Wealth (agent s p) = Wealth (agent t p)"
    and "\<And>p. Treasury (settl s p) = Treasury (settl t p)"
    and "\<And>p. FTreasury (fact s p) = FTreasury (fact t p)"
  shows "led s = led t"
proof
  fix acc show "led s acc = led t acc" using assms by (cases acc) simp_all
qed

lemma led_upd_agent [simp]: "led (upd_agent p f s) = (led s)(Purse p := Wealth (f (agent s p)))"
proof
  fix acc show "led (upd_agent p f s) acc = ((led s)(Purse p := Wealth (f (agent s p)))) acc"
    by (cases acc) (simp_all add: upd_agent_def)
qed

lemma led_upd_settl [simp]: "led (upd_settl p f s) = (led s)(Chest p := Treasury (f (settl s p)))"
proof
  fix acc show "led (upd_settl p f s) acc = ((led s)(Chest p := Treasury (f (settl s p)))) acc"
    by (cases acc) (simp_all add: upd_settl_def)
qed

lemma led_upd_fact [simp]: "led (upd_fact p f s) = (led s)(Guild p := FTreasury (f (fact s p)))"
proof
  fix acc show "led (upd_fact p f s) acc = ((led s)(Guild p := FTreasury (f (fact s p)))) acc"
    by (cases acc) (simp_all add: upd_fact_def)
qed

lemma led_upd_counted [simp]:
  "led (upd_counted p f s) = (led s)(Purse p := Wealth (fst (f (agent s p, SatBumps s))))"
proof
  fix acc show "led (upd_counted p f s) acc = ((led s)(Purse p := Wealth (fst (f (agent s p, SatBumps s))))) acc"
    by (cases acc) (simp_all add: upd_counted_def split: prod.splits)
qed

lemma led_EmitEvent [simp]: "led (EmitEvent e s) = led s"
  by (rule led_eqI) (simp_all add: EmitEvent_def)

lemma led_emit [simp]: "led (emit t d c s) = led s"
  by (simp add: emit_def)

subsection \<open>Projections\<close>

lemma upd_agent_simps [simp]:
  "agent (upd_agent p f s) = upd p f (agent s)" "settl (upd_agent p f s) = settl s"
  "fact (upd_agent p f s) = fact s" "Settlements (upd_agent p f s) = Settlements s"
  "Agents (upd_agent p f s) = Agents s"
  "SettlementIndex (upd_agent p f s) = SettlementIndex s"
  "SettlementAgents (upd_agent p f s) = SettlementAgents s" "SatBumps (upd_agent p f s) = SatBumps s"
  "Relations (upd_agent p f s) = Relations s" "Stats (upd_agent p f s) = Stats s"
  "WorldMap (upd_agent p f s) = WorldMap s" "TradeRoutes (upd_agent p f s) = TradeRoutes s"
  "Events (upd_agent p f s) = Events s" "CurrentSeason (upd_agent p f s) = CurrentSeason s"
  by (simp_all add: upd_agent_def)

lemma upd_settl_simps [simp]:
  "settl (upd_settl p f s) = upd p f (settl s)" "agent (upd_settl p f s) = agent s"
  "fact (upd_settl p f s) = fact s" "Settlements (upd_settl p f s) = Settlements s"
  "Agents (upd_settl p f s) = Agents s"
  "SettlementIndex (upd_settl p f s) = SettlementIndex s"
  "SettlementAgents (upd_settl p f s) = SettlementAgents s" "SatBumps (upd_settl p f s) = SatBumps s"
  "Relations (upd_settl p f s) = Relations s" "Stats (upd_settl p f s) = Stats s"
  "WorldMap (upd_settl p f s) = WorldMap s" "TradeRoutes (upd_settl p f s) = TradeRoutes s"
  "Events (upd_settl p f s) = Events s" "CurrentSeason (upd_settl p f s) = CurrentSeason s"
  by (simp_all add: upd_settl_def)

lemma upd_counted_simps [simp]:
  "settl (upd_counted p f s) = settl s" "fact (upd_counted p f s) = fact s"
  "agent (upd_counted p f s) = (agent s)(p := fst (f (agent s p, SatBumps s)))"
  "Settlements (upd_counted p f s) = Settlements s" "Agents (upd_counted p f s) = Agents s"
  "SettlementIndex (upd_counted p f s) = SettlementIndex s"
  "SettlementAgents (upd_counted p f s) = SettlementAgents s"
  by (simp_all add: upd_counted_def split: prod.splits)

lemma EmitEvent_simps [simp]:
  "agent (EmitEvent e s) = agent s" "settl (EmitEvent e s) = settl s" "fact (EmitEvent e s) = fact s"
  "Settlements (EmitEvent e s) = Settlements s" "Agents (EmitEvent e s) = Agents s"
  "SettlementIndex (EmitEvent e s) = SettlementIndex s"
  "SettlementAgents (EmitEvent e s) = SettlementAgents s" "Events (EmitEvent e s) = Events s @ [e]"
  "Relations (EmitEvent e s) = Relations s" "TradeRoutes (EmitEvent e s) = TradeRoutes s"
  "TradeTracker (EmitEvent e s) = TradeTracker s" "Agreements (EmitEvent e s) = Agreements s"
  "PeaceTreaties (EmitEvent e s) = PeaceTreaties s" "RaidCounts (EmitEvent e s) = RaidCounts s"
  by (simp_all add: EmitEvent_def)

lemma emit_simps [simp]:
  "agent (emit t d c s) = agent s" "settl (emit t d c s) = settl s" "fact (emit t d c s) = fact s"
  "Settlements (emit t d c s) = Settlements s" "Agents (emit t d c s) = Agents s"
  "SettlementIndex (emit t d c s) = SettlementIndex s"
  "SettlementAgents (emit t d c s) = SettlementAgents s"
  "Relations (emit t d c s) = Relations s" "TradeRoutes (emit t d c s) = TradeRoutes s"
  "TradeTracker (emit t d c s) = TradeTracker s" "Agreements (emit t d c s) = Agreements s"
  "PeaceTreaties (emit t d c s) = PeaceTreaties s" "RaidCounts (emit t d c s) = RaidCounts s"
  by (simp_all add: emit_def)

text \<open>A payment between two accounts, as the engine writes it, is a transfer.\<close>

lemma pay_agent_agent:
  "led (upd_agent q (gain_wealth c) (upd_agent p (lose_wealth c) s)) = transfer (Purse p) (Purse q) c (led s)"
  by (auto simp: transfer_def gain_wealth_def lose_wealth_def fun_eq_iff)

lemma pay_agent_settl:
  "led (upd_settl q (gain_treasury c) (upd_agent p (lose_wealth c) s)) = transfer (Purse p) (Chest q) c (led s)"
  by (auto simp: transfer_def gain_treasury_def lose_wealth_def fun_eq_iff)

lemma pay_settl_agent:
  "led (upd_agent q (gain_wealth c) (upd_settl p (lose_treasury c) s)) = transfer (Chest p) (Purse q) c (led s)"
  by (auto simp: transfer_def gain_wealth_def lose_treasury_def fun_eq_iff)

lemma pays_agent_agent [crowns]:
  "c \<le> Wealth (agent s p) \<Longrightarrow> Purse p \<in> A \<Longrightarrow> Purse q \<in> A \<Longrightarrow>
   pays A (led s) (led (upd_agent q (gain_wealth c) (upd_agent p (lose_wealth c) s)))"
  unfolding pay_agent_agent by (rule pays_one) simp_all

lemma pays_agent_settl [crowns]:
  "c \<le> Wealth (agent s p) \<Longrightarrow> Purse p \<in> A \<Longrightarrow> Chest q \<in> A \<Longrightarrow>
   pays A (led s) (led (upd_settl q (gain_treasury c) (upd_agent p (lose_wealth c) s)))"
  unfolding pay_agent_settl by (rule pays_one) simp_all

lemma pays_settl_agent [crowns]:
  "c \<le> Treasury (settl s p) \<Longrightarrow> Chest p \<in> A \<Longrightarrow> Purse q \<in> A \<Longrightarrow>
   pays A (led s) (led (upd_agent q (gain_wealth c) (upd_settl p (lose_treasury c) s)))"
  unfolding pay_settl_agent by (rule pays_one) simp_all

subsection \<open>The shape of a simulation\<close>

text \<open>
  The economic phases move wealth about but leave the indexes, the homes and
  the identities alone; \<open>same_frame\<close> says so.  \<open>sim_ok\<close> is the
  well-formedness the indexes have.
\<close>

definition same_frame :: "Sim \<Rightarrow> Sim \<Rightarrow> bool" where
  "same_frame s t \<longleftrightarrow> Settlements t = Settlements s \<and> Agents t = Agents s \<and> Factions t = Factions s
     \<and> SettlementAgents t = SettlementAgents s \<and> SettlementIndex t = SettlementIndex s
     \<and> (\<forall>p. SID (settl t p) = SID (settl s p) \<and> Population (settl t p) = Population (settl s p)
           \<and> AID (agent t p) = AID (agent s p) \<and> HomeSettID (agent t p) = HomeSettID (agent s p)
           \<and> Alive (agent t p) = Alive (agent s p) \<and> AOccupation (agent t p) = AOccupation (agent s p))"

lemma same_frame_refl [simp, intro]: "same_frame s s"
  by (simp add: same_frame_def)

lemma same_frame_trans: "same_frame s t \<Longrightarrow> same_frame t u \<Longrightarrow> same_frame s u"
  by (simp add: same_frame_def)

definition keeps_agent :: "(Agent \<Rightarrow> Agent) \<Rightarrow> bool" where
  "keeps_agent f \<longleftrightarrow> (\<forall>a. AID (f a) = AID a \<and> HomeSettID (f a) = HomeSettID a \<and> Alive (f a) = Alive a
     \<and> AOccupation (f a) = AOccupation a)"

definition keeps_settl :: "(Settlement \<Rightarrow> Settlement) \<Rightarrow> bool" where
  "keeps_settl f \<longleftrightarrow> (\<forall>t. SID (f t) = SID t \<and> Population (f t) = Population t)"

lemma same_frame_upd_agent [frame]: "keeps_agent f \<Longrightarrow> same_frame s t \<Longrightarrow> same_frame s (upd_agent p f t)"
  by (simp add: same_frame_def keeps_agent_def upd_agent_def)

lemma same_frame_upd_settl [frame]: "keeps_settl f \<Longrightarrow> same_frame s t \<Longrightarrow> same_frame s (upd_settl p f t)"
  by (simp add: same_frame_def keeps_settl_def upd_settl_def)

lemma same_frame_upd_counted [frame]:
  assumes "\<And>a c. AID (fst (f (a, c))) = AID a \<and> HomeSettID (fst (f (a, c))) = HomeSettID a
      \<and> Alive (fst (f (a, c))) = Alive a \<and> AOccupation (fst (f (a, c))) = AOccupation a"
    and "same_frame s t"
  shows "same_frame s (upd_counted p f t)"
proof -
  have "Factions (upd_counted p f t) = Factions t" by (simp add: upd_counted_def split: prod.splits)
  then show ?thesis using assms by (simp add: same_frame_def)
qed

lemma same_frame_bump [frame]: "same_frame s t \<Longrightarrow> same_frame s (upd_counted p (ApplyDirectSatBump d src) t)"
  by (rule same_frame_upd_counted) (simp_all add: ApplyDirectSatBump_fst)

lemma keeps_add_needs [simp, intro]: "keeps_agent (add_needs su sa be es pu)"
  by (simp add: keeps_agent_def add_needs_def Let_def)

lemma keeps_wealth [simp, intro]:
  "keeps_agent (gain_wealth c)" "keeps_agent (lose_wealth c)"
  "keeps_settl (gain_treasury c)" "keeps_settl (lose_treasury c)"
  by (simp_all add: keeps_agent_def keeps_settl_def gain_wealth_def lose_wealth_def gain_treasury_def lose_treasury_def)

definition sim_ok :: "Sim \<Rightarrow> bool" where
  "sim_ok s \<longleftrightarrow> distinct (Settlements s) \<and> distinct (Agents s)
     \<and> (\<forall>i p. SettlementIndex s i = Some p \<longrightarrow> p \<in> set (Settlements s) \<and> SID (settl s p) = i)
     \<and> (\<forall>p \<in> set (Settlements s). SettlementIndex s (SID (settl s p)) = Some p)
     \<and> (\<forall>i. distinct (SettlementAgents s i) \<and> set (SettlementAgents s i) \<subseteq> set (Agents s))"

lemma sim_ok_frame: "same_frame s t \<Longrightarrow> sim_ok s \<Longrightarrow> sim_ok t"
  by (simp add: sim_ok_def same_frame_def)

definition accts :: "Sim \<Rightarrow> account set" where
  "accts s = Purse ` set (Agents s) \<union> Chest ` set (Settlements s) \<union> Guild ` set (Factions s)"

lemma accts_finite [simp]: "finite (accts s)"
  by (simp add: accts_def)

lemma accts_frame: "same_frame s t \<Longrightarrow> accts t = accts s"
  by (simp add: accts_def same_frame_def)

lemma accts_intros [intro]:
  "p \<in> set (Agents s) \<Longrightarrow> Purse p \<in> accts s"
  "q \<in> set (Settlements s) \<Longrightarrow> Chest q \<in> accts s"
  "f \<in> set (Factions s) \<Longrightarrow> Guild f \<in> accts s"
  by (auto simp: accts_def)

lemma sim_okD:
  assumes "sim_ok s"
  shows "p \<in> set (SettlementAgents s i) \<Longrightarrow> p \<in> set (Agents s)" "distinct (SettlementAgents s i)"
    "SettlementIndex s i = Some q \<Longrightarrow> q \<in> set (Settlements s)"
    "SettlementIndex s i = Some q \<Longrightarrow> SID (settl s q) = i"
    "q \<in> set (Settlements s) \<Longrightarrow> SettlementIndex s (SID (settl s q)) = Some q"
  using assms by (auto simp: sim_ok_def)

subsection \<open>Subscribers\<close>

definition subs_ok :: "Sim \<Rightarrow> bool" where
  "subs_ok s \<longleftrightarrow> (\<forall>i buf. eventSubs s i = Some buf \<longrightarrow> i < nextSubID s \<and> length buf \<le> 64)"

lemma EmitEvent_subs_ok: "subs_ok s \<Longrightarrow> subs_ok (EmitEvent e s)"
  by (auto simp: subs_ok_def EmitEvent_def deliver_def)

lemma Subscribe_subs_ok: "subs_ok s \<Longrightarrow> subs_ok (snd (Subscribe s))"
  by (auto simp: subs_ok_def Subscribe_def Let_def intro: less_imp_le)

lemma Unsubscribe_subs_ok: "subs_ok s \<Longrightarrow> subs_ok (Unsubscribe i s)"
  by (auto simp: subs_ok_def Unsubscribe_def split: option.splits)

lemma Subscribe_fresh: "subs_ok s \<Longrightarrow> eventSubs s (fst (Subscribe s)) = None"
  by (auto simp: subs_ok_def Subscribe_def Let_def) (metis less_irrefl option.exhaust)

lemma trim_events_bound: "length (Events (trim_events s)) \<le> 1000"
  by (simp add: trim_events_def)

lemma settRelKey_sym: "settRelKey a b = settRelKey b a"
  by (auto simp: settRelKey_def)

lemma settRelKey_inj: "settRelKey a b = settRelKey c d \<longleftrightarrow> (a = c \<and> b = d) \<or> (a = d \<and> b = c)"
  by (auto simp: settRelKey_def split: if_splits)

lemma settRelKey_canonical: "keyA (settRelKey a b) \<le> keyB (settRelKey a b)"
  by (auto simp: settRelKey_def)

end
