(* ===== verification/Market_Model.thy ===== *)
theory Market_Model
  imports Sim_State
begin

section \<open>Hourly market resolution (internal/engine/market.go)\<close>

text \<open>
  \<^verbatim>\<open>resolveSettlementMarket\<close>: supply and demand are aggregated, reference
  prices mediated, orders placed and matched good by good, and the price of
  each good blended with what it cleared at.  Go ranges over the map
  \<^verbatim>\<open>market.Entries\<close> in no particular order; the matching loop is the
  only one whose result depends on it, so its order is the argument
  \<open>goods\<close>.  The two \<^verbatim>\<open>sort.Slice\<close> calls are the arguments
  \<open>srt_sells\<close> and \<open>srt_buys\<close>.
\<close>

subsection \<open>Seasonal modifiers (seasons.go)\<close>

definition SeasonSpring :: uint8 where "SeasonSpring = 0"
definition SeasonSummer :: uint8 where "SeasonSummer = 1"
definition SeasonAutumn :: uint8 where "SeasonAutumn = 2"
definition SeasonWinter :: uint8 where "SeasonWinter = 3"

definition SeasonName :: "uint8 \<Rightarrow> string" where
  "SeasonName season =
     (if season = SeasonSpring then ''Spring'' else if season = SeasonSummer then ''Summer''
      else if season = SeasonAutumn then ''Autumn'' else if season = SeasonWinter then ''Winter''
      else ''Unknown'')"

definition SeasonalProductionMod :: "uint8 \<Rightarrow> f64" where
  "SeasonalProductionMod season =
     (if season = SeasonSpring then 1 + Agnosis
      else if season = SeasonSummer then 1
      else if season = SeasonAutumn then 1 - Agnosis * lit 0.5
      else if season = SeasonWinter then Matter
      else 1)"

definition SeasonalMarketMod :: "uint8 \<Rightarrow> GoodType \<Rightarrow> f64" where
  "SeasonalMarketMod season good =
     (if season = SeasonWinter then
        (case good of GoodGrain \<Rightarrow> lit 1.5 | GoodFish \<Rightarrow> lit 1.5 | GoodFurs \<Rightarrow> lit 1.8
         | GoodHerbs \<Rightarrow> lit 1.4 | _ \<Rightarrow> lit 1.1)
      else if season = SeasonSpring then
        (case good of GoodGrain \<Rightarrow> lit 1.2 | GoodFish \<Rightarrow> lit 1.2 | GoodHerbs \<Rightarrow> lit 0.8 | _ \<Rightarrow> 1)
      else if season = SeasonSummer then
        (case good of GoodHerbs \<Rightarrow> lit 0.7 | GoodFurs \<Rightarrow> lit 0.7 | _ \<Rightarrow> lit 0.9)
      else if season = SeasonAutumn then
        (case good of GoodGrain \<Rightarrow> lit 0.7 | GoodFish \<Rightarrow> lit 0.8 | GoodHerbs \<Rightarrow> lit 0.9 | _ \<Rightarrow> 1)
      else 1)"

subsection \<open>What an agent keeps and wants\<close>

definition surplusThreshold :: "Agent \<Rightarrow> GoodType \<Rightarrow> int" where
  "surplusThreshold a good =
     (if good = GoodGrain \<or> good = GoodFish then
        (if AOccupation a = OccupationFarmer \<or> AOccupation a = OccupationFisher then 3 else 2)
      else if good = GoodIronOre \<or> good = GoodTimber then
        (if AOccupation a = OccupationCrafter then 5 else 1)
      else if good = GoodHerbs then
        (if AOccupation a = OccupationAlchemist then 4 else 1)
      else 1)"

definition crafter_recipes :: "(GoodType \<times> int \<times> GoodType \<times> int) list" where
  "crafter_recipes =
    [(GoodIronOre, 2, GoodTimber, 1), (GoodIronOre, 2, GoodCoal, 1),
     (GoodFurs, 2, GoodTools, 1), (GoodGems, 2, GoodTools, 1)]"

definition recipe_score :: "Agent \<Rightarrow> GoodType \<times> int \<times> GoodType \<times> int \<Rightarrow> int" where
  "recipe_score a r =
     (case r of (mat1, need1, mat2, need2) \<Rightarrow>
        (if need1 < Inventory a mat1 then need1 else Inventory a mat1)
        + (if need2 < Inventory a mat2 then need2 else Inventory a mat2))"

text \<open>The scan keeps the best score and the recipe that reached it first.\<close>

definition best_recipe :: "Agent \<Rightarrow> GoodType \<times> int \<times> GoodType \<times> int" where
  "best_recipe a =
     snd (fold (\<lambda>r (bestScore, best). if bestScore < recipe_score a r then (recipe_score a r, r) else (bestScore, best))
       crafter_recipes (- 1, hd crafter_recipes))"

definition crafterRecipeDemand :: "Agent \<Rightarrow> GoodType list" where
  "crafterRecipeDemand a =
     (case best_recipe a of (mat1, need1, mat2, need2) \<Rightarrow>
        (if Inventory a mat1 < need1 then [mat1] else []) @
        (if Inventory a mat2 < need2 then [mat2] else []))"

definition expensive :: "Market option \<Rightarrow> GoodType \<Rightarrow> bool" where
  "expensive market good =
     (case market of None \<Rightarrow> False
      | Some m \<Rightarrow> (case Entries m good of None \<Rightarrow> False
                  | Some e \<Rightarrow> BasePrice e * lit 3 < Price e))"

definition food_demand :: "Agent \<Rightarrow> Market option \<Rightarrow> GoodType list" where
  "food_demand a market =
     (if Inventory a GoodGrain + Inventory a GoodFish < 3 then
        (let grainExpensive = expensive market GoodGrain; fishExpensive = expensive market GoodFish in
         if grainExpensive \<and> \<not> fishExpensive then [GoodFish]
         else if fishExpensive \<and> \<not> grainExpensive then [GoodGrain]
         else [GoodGrain, GoodFish])
      else [])"

definition demandedGoods :: "Agent \<Rightarrow> Market option \<Rightarrow> GoodType list" where
  "demandedGoods a market =
     food_demand a market
     @ (if AOccupation a = OccupationCrafter then crafterRecipeDemand a else [])
     @ (if AOccupation a = OccupationAlchemist then
          (if Inventory a GoodHerbs < 2 then [GoodHerbs] else [])
          @ (if Inventory a GoodExotics < 2 then [GoodExotics] else [])
        else [])
     @ (if AOccupation a = OccupationScholar then
          (if Inventory a GoodHerbs < 1 then [GoodHerbs] else []) else [])
     @ (if Inventory a GoodTools < 1 then [GoodTools] else [])"

subsection \<open>Supply, demand and reference prices\<close>

definition upd_entry :: "GoodType \<Rightarrow> (MarketEntry \<Rightarrow> MarketEntry) \<Rightarrow> Market \<Rightarrow> Market" where
  "upd_entry good f m = m\<lparr>Entries := (Entries m)(good := map_option f (Entries m good))\<rparr>"

definition map_entries :: "(GoodType \<Rightarrow> MarketEntry \<Rightarrow> MarketEntry) \<Rightarrow> Market \<Rightarrow> Market" where
  "map_entries f m = m\<lparr>Entries := (\<lambda>good. map_option (f good) (Entries m good))\<rparr>"

definition add_supply :: "Agent \<Rightarrow> GoodType \<Rightarrow> Market \<Rightarrow> Market" where
  "add_supply a good m =
     (let surplus = Inventory a good - surplusThreshold a good in
      if 0 < surplus then upd_entry good (\<lambda>e. e\<lparr>Supply := Supply e + flt_of_int surplus\<rparr>) m else m)"

definition add_demand :: "GoodType \<Rightarrow> Market \<Rightarrow> Market" where
  "add_demand good = upd_entry good (\<lambda>e. e\<lparr>Demand := Demand e + 1\<rparr>)"

definition aggregate_agent :: "Agent \<Rightarrow> Market \<Rightarrow> Market" where
  "aggregate_agent a m =
     (let m1 = fold (add_supply a) all_goods m
      in fold add_demand (demandedGoods a (Some m1)) m1)"

definition aggregate :: "Agent list \<Rightarrow> Market \<Rightarrow> Market" where
  "aggregate living m = fold aggregate_agent living (map_entries (\<lambda>_ e. e\<lparr>Supply := 0, Demand := 0\<rparr>) m)"

definition supplyFloor :: "Settlement \<Rightarrow> f64" where
  "supplyFloor sett = (let f = flt_of_word (Population sett div 100) in if f < 1 then 1 else f)"

definition floor_entry :: "f64 \<Rightarrow> MarketEntry \<Rightarrow> MarketEntry" where
  "floor_entry flr e =
     e\<lparr>Supply := (if Supply e < flr then flr else Supply e),
       Demand := (if Demand e < 1 then 1 else Demand e)\<rparr>"

definition market_mod :: "Settlement \<Rightarrow> f64" where
  "market_mod sett = 1 / (1 + flt_of_word (MarketLevel sett) * Agnosis * lit 0.05)"

definition refPrices :: "Settlement \<Rightarrow> uint8 \<Rightarrow> Market \<Rightarrow> GoodType \<Rightarrow> f64 option" where
  "refPrices sett season m good =
     map_option (\<lambda>e. ResolvePrice e (SeasonalMarketMod season good) (market_mod sett)) (Entries m good)"

subsection \<open>Orders\<close>

record Order =
  OAgent :: ptr
  OGood :: GoodType
  Quantity :: int
  OPrice :: f64
  IsSell :: bool

definition sell_order :: "(GoodType \<Rightarrow> f64 option) \<Rightarrow> (ptr \<Rightarrow> Agent) \<Rightarrow> ptr \<Rightarrow> GoodType \<Rightarrow> Order list" where
  "sell_order ref h p good =
     (let surplus = Inventory (h p) good - surplusThreshold (h p) good in
      if surplus \<le> 0 then []
      else case ref good of
             None \<Rightarrow> []
           | Some r \<Rightarrow> [\<lparr>OAgent = p, OGood = good, Quantity = surplus, OPrice = r * Matter, IsSell = True\<rparr>])"

definition buy_order :: "(GoodType \<Rightarrow> f64 option) \<Rightarrow> ptr \<Rightarrow> GoodType \<Rightarrow> Order list" where
  "buy_order ref p good =
     (case ref good of
        None \<Rightarrow> []
      | Some r \<Rightarrow> [\<lparr>OAgent = p, OGood = good, Quantity = 1, OPrice = r * Being, IsSell = False\<rparr>])"

definition sell_orders :: "(GoodType \<Rightarrow> f64 option) \<Rightarrow> (ptr \<Rightarrow> Agent) \<Rightarrow> ptr list \<Rightarrow> Order list" where
  "sell_orders ref h living = concat (map (\<lambda>p. concat (map (sell_order ref h p) all_goods)) living)"

definition buy_orders :: "(GoodType \<Rightarrow> f64 option) \<Rightarrow> Market \<Rightarrow> (ptr \<Rightarrow> Agent) \<Rightarrow> ptr list \<Rightarrow> Order list" where
  "buy_orders ref m h living =
     concat (map (\<lambda>p. concat (map (buy_order ref p) (demandedGoods (h p) (Some m)))) living)"

subsection \<open>Matching\<close>

text \<open>The crowns of one clearing, \<^verbatim>\<open>uint64(clearPrice + 0.5)\<close>.\<close>

definition round_crowns :: "f64 \<Rightarrow> uint64" where
  "round_crowns price = word_of_flt (price + lit 0.5)"

record Matching =
  mheap :: "ptr \<Rightarrow> Agent"
  traded :: int
  revenue :: f64
  sellRemain :: int

definition trade_unit :: "GoodType \<Rightarrow> ptr \<Rightarrow> ptr \<Rightarrow> uint64 \<Rightarrow> Matching \<Rightarrow> Matching" where
  "trade_unit good buyer seller crowns st =
     (let h1 = upd buyer (lose_wealth crowns) (mheap st);
          h2 = upd seller (gain_wealth crowns) h1;
          h3 = upd buyer (inv_add good 1) h2;
          h4 = upd seller (inv_add good (- 1)) h3
      in st\<lparr>mheap := h4, traded := traded st + 1, revenue := revenue st + flt_of_word crowns,
           sellRemain := sellRemain st - 1\<rparr>)"

fun trade_units :: "nat \<Rightarrow> GoodType \<Rightarrow> ptr \<Rightarrow> ptr \<Rightarrow> uint64 \<Rightarrow> Matching \<Rightarrow> Matching" where
  "trade_units 0 good buyer seller crowns st = st"
| "trade_units (Suc n) good buyer seller crowns st =
     (if 0 < crowns \<and> Wealth (mheap st buyer) < crowns then st
      else trade_units n good buyer seller crowns (trade_unit good buyer seller crowns st))"

definition match_pair :: "GoodType \<Rightarrow> Order \<Rightarrow> Order \<Rightarrow> Matching \<Rightarrow> Matching" where
  "match_pair good sl b st =
     (let clearCrowns = round_crowns (OPrice sl);
          tradeQty = (if sellRemain st < Quantity b then sellRemain st else Quantity b)
      in trade_units (nat tradeQty) good (OAgent b) (OAgent sl) clearCrowns st)"

definition next_sell :: "Order list \<Rightarrow> Matching \<Rightarrow> Matching" where
  "next_sell sells st = (case sells of [] \<Rightarrow> st | sl # _ \<Rightarrow> st\<lparr>sellRemain := Quantity sl\<rparr>)"

fun match_loop :: "GoodType \<Rightarrow> Order list \<Rightarrow> Order list \<Rightarrow> Matching \<Rightarrow> Matching" where
  "match_loop good (sl # sells) (b # buys) st =
     (if OPrice b < OPrice sl then st
      else let st1 = match_pair good sl b st in
           if sellRemain st1 \<le> 0 then match_loop good sells buys (next_sell sells st1)
           else match_loop good (sl # sells) buys st1)"
| "match_loop good sells buys st = st"

definition start_matching :: "(ptr \<Rightarrow> Agent) \<Rightarrow> Order list \<Rightarrow> Matching" where
  "start_matching h sells =
     next_sell sells \<lparr>mheap = h, traded = 0, revenue = 0, sellRemain = 0\<rparr>"

definition blend_price :: "int \<Rightarrow> f64 \<Rightarrow> MarketEntry \<Rightarrow> MarketEntry" where
  "blend_price totalTraded totalRevenue e =
     (let avgClear = totalRevenue / flt_of_int totalTraded;
          blended0 = Price e * lit 0.7 + avgClear * lit 0.3;
          floor = BasePrice e * Agnosis;
          ceiling = BasePrice e * Totality;
          blended1 = (if blended0 < floor then floor else blended0);
          blended = (if ceiling < blended1 then ceiling else blended1)
      in e\<lparr>Price := blended\<rparr>)"

text \<open>One iteration of the loop over goods: agents, market and \<^verbatim>\<open>maxTraded\<close>.\<close>

definition match_good ::
  "(Order list \<Rightarrow> Order list) \<Rightarrow> (Order list \<Rightarrow> Order list) \<Rightarrow> Order list \<Rightarrow> Order list \<Rightarrow> GoodType
    \<Rightarrow> (ptr \<Rightarrow> Agent) \<times> Market \<times> int \<Rightarrow> (ptr \<Rightarrow> Agent) \<times> Market \<times> int" where
  "match_good srt_sells srt_buys sellOrders buyOrders good st =
     (let (h, m, maxTraded) = st;
          sells0 = filter (\<lambda>ord. OGood ord = good) sellOrders;
          buys0 = filter (\<lambda>ord. OGood ord = good) buyOrders
      in if Entries m good = None \<or> sells0 = [] \<or> buys0 = [] then (h, m, maxTraded)
         else let sells = srt_sells sells0;
                  buys = srt_buys buys0;
                  r = match_loop good sells buys (start_matching h sells);
                  m1 = (if 0 < traded r then upd_entry good (blend_price (traded r) (revenue r)) m else m);
                  m2 = m1\<lparr>TradeCount := TradeCount m1 + traded r\<rparr>
              in if maxTraded < traded r
                 then (mheap r, m2\<lparr>MostTradedGood := good\<rparr>, traded r)
                 else (mheap r, m2, maxTraded))"

definition surplus_decay :: "f64 \<Rightarrow> MarketEntry \<Rightarrow> MarketEntry" where
  "surplus_decay popThreshold e =
     (if popThreshold < Supply e \<and> lit 100 < Supply e then
        (let floor = BasePrice e * Agnosis in
         if floor < Price e then
           (let p = Price e - Price e * Agnosis * lit 0.01 in e\<lparr>Price := (if p < floor then floor else p)\<rparr>)
         else e)
      else e)"

definition resolve_market ::
  "(Order list \<Rightarrow> Order list) \<Rightarrow> (Order list \<Rightarrow> Order list) \<Rightarrow> GoodType list \<Rightarrow> uint8 \<Rightarrow> Settlement
    \<Rightarrow> ptr list \<Rightarrow> (ptr \<Rightarrow> Agent) \<Rightarrow> Market \<Rightarrow> (ptr \<Rightarrow> Agent) \<times> Market" where
  "resolve_market srt_sells srt_buys goods season sett settAgents h market =
     (let living = filter (\<lambda>p. Alive (h p)) settAgents;
          m1 = aggregate (map h living) market;
          m2 = map_entries (\<lambda>_. floor_entry (supplyFloor sett)) m1;
          ref = refPrices sett season m2;
          sellOrders = sell_orders ref h living;
          buyOrders = buy_orders ref m2 h living;
          m3 = m2\<lparr>TradeCount := 0\<rparr>;
          (h', m4, _) = fold (match_good srt_sells srt_buys sellOrders buyOrders) goods (h, m3, 0);
          popThreshold = flt_of_word (Population sett) * Being
      in (h', map_entries (\<lambda>_. surplus_decay popThreshold) m4))"

definition resolveSettlementMarket ::
  "(Order list \<Rightarrow> Order list) \<Rightarrow> (Order list \<Rightarrow> Order list) \<Rightarrow> GoodType list \<Rightarrow> ptr \<Rightarrow> ptr list \<Rightarrow> uint8
    \<Rightarrow> Sim \<Rightarrow> Sim" where
  "resolveSettlementMarket srt_sells srt_buys goods sp settAgents season s =
     (case SMarket (settl s sp) of
        None \<Rightarrow> s
      | Some market \<Rightarrow>
          let (h, m) = resolve_market srt_sells srt_buys goods season (settl s sp) settAgents (agent s) market
          in upd_settl sp (\<lambda>t. t\<lparr>SMarket := Some m\<rparr>) (s\<lparr>agent := h\<rparr>))"

text \<open>
  \<^verbatim>\<open>resolveMarkets\<close>; \<open>goods\<close> gives the iteration order of each settlement's market.
\<close>

definition resolveMarkets ::
  "(Order list \<Rightarrow> Order list) \<Rightarrow> (Order list \<Rightarrow> Order list) \<Rightarrow> (ptr \<Rightarrow> GoodType list) \<Rightarrow> Sim \<Rightarrow> Sim" where
  "resolveMarkets srt_sells srt_buys goods s =
     fold (\<lambda>sp s. let settAgents = SettlementAgents s (SID (settl s sp)) in
             if settAgents = [] then s
             else resolveSettlementMarket srt_sells srt_buys (goods sp) sp settAgents (CurrentSeason s) s)
       (Settlements s) s"

end
