(* ===== verification/Market_Laws.thy ===== *)
theory Market_Laws
  imports Market_Model
begin

section \<open>What market resolution guarantees\<close>

text \<open>
  Trades are solvent transfers between the living members of a settlement;
  units of every good are neither made nor lost; nobody sells below what
  they keep for themselves; prices never leave their band; and nothing but
  wealth and inventory of members changes.
\<close>

subsection \<open>Orders belong to living members\<close>

lemma sell_orders_members:
  "ord \<in> set (sell_orders ref h ps) \<Longrightarrow> OAgent ord \<in> set ps"
  by (auto simp: sell_orders_def sell_order_def Let_def split: if_splits option.splits)

lemma buy_orders_members:
  "ord \<in> set (buy_orders ref m h ps) \<Longrightarrow> OAgent ord \<in> set ps"
  by (auto simp: buy_orders_def buy_order_def split: option.splits)

lemma sell_orders_Quantity:
  assumes "ord \<in> set (sell_orders ref h ps)"
  shows "Quantity ord = Inventory (h (OAgent ord)) (OGood ord) - surplusThreshold (h (OAgent ord)) (OGood ord)"
    and "0 < Quantity ord"
  using assms by (auto simp: sell_orders_def sell_order_def Let_def split: if_splits option.splits)

lemma buy_orders_Quantity: "ord \<in> set (buy_orders ref m h ps) \<Longrightarrow> Quantity ord = 1"
  by (auto simp: buy_orders_def buy_order_def split: option.splits)

lemma mheap_next_sell [simp]: "mheap (next_sell sells st) = mheap st"
  by (simp add: next_sell_def split: list.splits)

subsection \<open>Crowns\<close>

definition hled :: "Sim \<Rightarrow> (ptr \<Rightarrow> Agent) \<Rightarrow> ledger" where
  "hled s h = led (s\<lparr>agent := h\<rparr>)"

lemma hled_self [simp]: "hled s (agent s) = led s"
  by (simp add: hled_def)

lemma hled_simps [simp]:
  "hled s h (Purse p) = Wealth (h p)" "hled s h (Chest p) = Treasury (settl s p)"
  "hled s h (Guild p) = FTreasury (fact s p)"
  by (simp_all add: hled_def)

lemma hled_trade_unit:
  "hled s (mheap (trade_unit g b sl c st)) = transfer (Purse b) (Purse sl) c (hled s (mheap st))"
proof
  fix acc show "hled s (mheap (trade_unit g b sl c st)) acc = transfer (Purse b) (Purse sl) c (hled s (mheap st)) acc"
    by (cases acc) (auto simp: trade_unit_def transfer_def gain_wealth_def lose_wealth_def Let_def)
qed

subsection \<open>Relations closed under trades\<close>

text \<open>
  Whatever relation between agent heaps is reflexive, transitive and holds
  across the trade of one affordable unit between two members, holds across
  the whole resolution.
\<close>

locale trade_closed =
  fixes R :: "(ptr \<Rightarrow> Agent) \<Rightarrow> (ptr \<Rightarrow> Agent) \<Rightarrow> bool" and members :: "ptr set"
  assumes R_refl: "R h h"
    and R_trans: "R h h' \<Longrightarrow> R h' h'' \<Longrightarrow> R h h''"
    and R_unit: "b \<in> members \<Longrightarrow> sl \<in> members \<Longrightarrow> c \<le> Wealth (mheap st b) \<Longrightarrow>
      R (mheap st) (mheap (trade_unit g b sl c st))"
begin

lemma trade_units_R:
  assumes "b \<in> members" "sl \<in> members"
  shows "R (mheap st) (mheap (trade_units n g b sl c st))"
proof (induction n arbitrary: st)
  case (Suc n)
  show ?case
  proof (cases "0 < c \<and> Wealth (mheap st b) < c")
    case False
    then have "c \<le> Wealth (mheap st b)" by (auto simp: not_less word_gt_0)
    from R_trans [OF R_unit [OF assms this] Suc.IH] False show ?thesis by (simp add: R_refl)
  qed (simp add: R_refl)
qed (simp add: R_refl)

lemma match_pair_R:
  "OAgent b \<in> members \<Longrightarrow> OAgent sl \<in> members \<Longrightarrow> R (mheap st) (mheap (match_pair g sl b st))"
  by (simp add: match_pair_def trade_units_R)

lemma match_loop_R:
  assumes "OAgent ` set sells \<subseteq> members" "OAgent ` set buys \<subseteq> members"
  shows "R (mheap st) (mheap (match_loop g sells buys st))"
  using assms
proof (induction g sells buys st rule: match_loop.induct)
  case (1 g sl sells b buys st)
  show ?case
  proof (cases "OPrice b < OPrice sl")
    case False
    have one: "R (mheap st) (mheap (match_pair g sl b st))" using 1(3,4) by (intro match_pair_R) auto
    from R_trans [OF one "1.IH"(2) [OF False refl]] R_trans [OF one "1.IH"(1) [OF False refl, simplified]]
    show ?thesis using False 1(3,4) by (simp add: Let_def)
  qed (simp add: R_refl)
qed (simp_all add: R_refl)

lemma match_good_R:
  assumes "\<And>xs. set (srt_sells xs) = set xs" "\<And>xs. set (srt_buys xs) = set xs"
    and "OAgent ` set sellOrders \<subseteq> members" "OAgent ` set buyOrders \<subseteq> members"
  shows "R (fst st) (fst (match_good srt_sells srt_buys sellOrders buyOrders g st))"
proof -
  obtain h m k where st: "st = (h, m, k)" by (cases st)
  have "R (mheap (start_matching h sells))
      (mheap (match_loop g (srt_sells (filter (\<lambda>ord. OGood ord = g) sellOrders))
        (srt_buys (filter (\<lambda>ord. OGood ord = g) buyOrders)) (start_matching h sells)))" for sells
    using assms by (intro match_loop_R) auto
  then show ?thesis
    by (simp add: st match_good_def Let_def R_refl start_matching_def)
qed

lemma resolve_market_R:
  assumes "\<And>xs. set (srt_sells xs) = set xs" "\<And>xs. set (srt_buys xs) = set xs"
    and "set settAgents \<subseteq> members"
  shows "R h (fst (resolve_market srt_sells srt_buys goods season sett settAgents h market))"
proof -
  have "R (fst st) (fst (fold (match_good srt_sells srt_buys
      (sell_orders ref h (filter (\<lambda>p. Alive (h p)) settAgents))
      (buy_orders ref m h (filter (\<lambda>p. Alive (h p)) settAgents))) goods st))" for ref m st
    using assms(1,2) subsetD [OF assms(3)]
    by (intro fold_rel [where R = "\<lambda>s t. R (fst s) (fst t)"] match_good_R)
      (auto intro: R_refl R_trans dest!: sell_orders_members buy_orders_members)
  from this [of "(h, m, 0)" for m] show ?thesis
    by (simp add: resolve_market_def Let_def split: prod.splits) (metis fst_conv)
qed

end

subsection \<open>Crowns, goods and frames\<close>

lemma trade_closed_pays: "trade_closed (\<lambda>h h'. pays (Purse ` P) (hled s h) (hled s h')) P"
  by unfold_locales (auto simp: hled_trade_unit intro: pays_refl pays_trans pays_one)

interpretation crowns_traded: trade_closed "\<lambda>h h'. pays (Purse ` P) (hled s h) (hled s h')" P for P s
  by (rule trade_closed_pays)

definition goods_in :: "ptr set \<Rightarrow> GoodType \<Rightarrow> (ptr \<Rightarrow> Agent) \<Rightarrow> int" where
  "goods_in P g h = (\<Sum>p\<in>P. Inventory (h p) g)"

lemma Inventory_trade_unit:
  "Inventory (mheap (trade_unit g b sl c st) p) x =
     Inventory (mheap st p) x + (if p = b \<and> x = g then 1 else 0) - (if p = sl \<and> x = g then 1 else 0)"
  by (auto simp: trade_unit_def gain_wealth_def lose_wealth_def Let_def)

lemma goods_in_trade_unit:
  assumes "finite P" "b \<in> P" "sl \<in> P"
  shows "goods_in P x (mheap (trade_unit g b sl c st)) = goods_in P x (mheap st)"
  using assms
  by (cases "x = g") (simp_all add: goods_in_def Inventory_trade_unit sum.distrib sum_subtractf)

lemma trade_closed_goods: "finite P \<Longrightarrow> trade_closed (\<lambda>h h'. \<forall>x. goods_in P x h' = goods_in P x h) P"
  by unfold_locales (auto simp: goods_in_trade_unit)

interpretation goods_traded: trade_closed "\<lambda>h h'. \<forall>x. goods_in (set ps) x h' = goods_in (set ps) x h" "set ps" for ps
  by (rule trade_closed_goods) simp

text \<open>Apart from wealth and inventory an agent is unchanged, and outsiders are untouched.\<close>

definition same_but_purse :: "Agent \<Rightarrow> Agent \<Rightarrow> bool" where
  "same_but_purse a b \<longleftrightarrow> b = a\<lparr>Wealth := Wealth b, Inventory := Inventory b\<rparr>"

lemma same_but_purse_refl [simp]: "same_but_purse a a"
  by (simp add: same_but_purse_def)

lemma same_but_purse_trans: "same_but_purse a b \<Longrightarrow> same_but_purse b c \<Longrightarrow> same_but_purse a c"
  unfolding same_but_purse_def by (cases a, cases b, cases c) simp

definition members_only :: "ptr set \<Rightarrow> (ptr \<Rightarrow> Agent) \<Rightarrow> (ptr \<Rightarrow> Agent) \<Rightarrow> bool" where
  "members_only P h h' \<longleftrightarrow> (\<forall>p. same_but_purse (h p) (h' p) \<and> (p \<notin> P \<longrightarrow> h' p = h p))"

lemma trade_unit_other: "p \<noteq> b \<Longrightarrow> p \<noteq> sl \<Longrightarrow> mheap (trade_unit g b sl c st) p = mheap st p"
  by (simp add: trade_unit_def Let_def)

lemma trade_unit_same: "same_but_purse (mheap st p) (mheap (trade_unit g b sl c st) p)"
  by (auto simp: trade_unit_def Let_def same_but_purse_def gain_wealth_def lose_wealth_def inv_add_def)

lemma trade_closed_frame: "trade_closed (members_only P) P"
proof
  show "members_only P h h''" if "members_only P h h'" "members_only P h' h''" for h h' h''
    using that by (auto simp: members_only_def intro: same_but_purse_trans)
  show "members_only P (mheap st) (mheap (trade_unit g b sl c st))" if "b \<in> P" "sl \<in> P" for b sl st g c
    using that unfolding members_only_def by (metis trade_unit_same trade_unit_other)
qed (simp add: members_only_def)

interpretation frame_traded: trade_closed "members_only P" P for P
  by (rule trade_closed_frame)

subsection \<open>Nobody sells what they keep\<close>

lemma trade_units_count:
  "\<exists>k \<le> n. sellRemain (trade_units n g b sl c st) = sellRemain st - int k
     \<and> traded (trade_units n g b sl c st) = traded st + int k
     \<and> (\<forall>p x. Inventory (mheap (trade_units n g b sl c st) p) x = Inventory (mheap st p) x
          + (if p = b \<and> x = g then int k else 0) - (if p = sl \<and> x = g then int k else 0))"
proof (induction n arbitrary: st)
  case (Suc n)
  show ?case
  proof (cases "0 < c \<and> Wealth (mheap st b) < c")
    case False
    let ?st = "trade_unit g b sl c st"
    have u: "sellRemain ?st = sellRemain st - 1" "traded ?st = traded st + 1"
      by (simp_all add: trade_unit_def Let_def)
    obtain k where "k \<le> n" "sellRemain (trade_units n g b sl c ?st) = sellRemain ?st - int k"
      "traded (trade_units n g b sl c ?st) = traded ?st + int k"
      "\<forall>p x. Inventory (mheap (trade_units n g b sl c ?st) p) x = Inventory (mheap ?st p) x
          + (if p = b \<and> x = g then int k else 0) - (if p = sl \<and> x = g then int k else 0)"
      using Suc.IH [of ?st] by blast
    then show ?thesis using False u by (intro exI [of _ "Suc k"]) (auto simp: Inventory_trade_unit)
  qed (rule exI [of _ 0], auto)
qed simp

definition stocked :: "GoodType \<Rightarrow> (ptr \<Rightarrow> int) \<Rightarrow> Order list \<Rightarrow> Matching \<Rightarrow> bool" where
  "stocked g lb sells st \<longleftrightarrow> distinct (map OAgent sells) \<and> (\<forall>p. lb p \<le> Inventory (mheap st p) g)
     \<and> (\<forall>ord \<in> set sells. 0 \<le> Quantity ord)
     \<and> (case sells of [] \<Rightarrow> True | sl # rest \<Rightarrow>
          0 \<le> sellRemain st \<and> lb (OAgent sl) + sellRemain st \<le> Inventory (mheap st (OAgent sl)) g
          \<and> (\<forall>ord \<in> set rest. lb (OAgent ord) + Quantity ord \<le> Inventory (mheap st (OAgent ord)) g))"

lemma stocked_match_pair:
  assumes "stocked g lb (sl # sells) st"
  shows "stocked g lb (sl # sells) (match_pair g sl b st)"
proof -
  let ?q = "if sellRemain st < Quantity b then sellRemain st else Quantity b"
  obtain k where k: "k \<le> nat ?q" "sellRemain (match_pair g sl b st) = sellRemain st - int k"
    and inv: "\<And>p. Inventory (mheap (match_pair g sl b st) p) g = Inventory (mheap st p) g
        + (if p = OAgent b then int k else 0) - (if p = OAgent sl then int k else 0)"
    using trade_units_count [of "nat ?q" g "OAgent b" "OAgent sl" "round_crowns (OPrice sl)" st]
    by (auto simp: match_pair_def)
  have rem: "0 \<le> sellRemain st" and head: "lb (OAgent sl) + sellRemain st \<le> Inventory (mheap st (OAgent sl)) g"
    using assms by (simp_all add: stocked_def)
  have le: "int k \<le> sellRemain st" using k(1) rem by (auto split: if_splits)
  have low: "lb p \<le> Inventory (mheap (match_pair g sl b st) p) g" for p
  proof (cases "p = OAgent sl")
    case False
    then have "Inventory (mheap st p) g \<le> Inventory (mheap (match_pair g sl b st) p) g" by (simp add: inv)
    moreover have "lb p \<le> Inventory (mheap st p) g" using assms by (simp add: stocked_def)
    ultimately show ?thesis by linarith
  qed (use head le inv rem in auto)
  have rest: "lb (OAgent ord) + Quantity ord \<le> Inventory (mheap (match_pair g sl b st) (OAgent ord)) g"
    if "ord \<in> set sells" for ord
  proof -
    have "OAgent ord \<in> OAgent ` set sells" using that by simp
    then have "OAgent ord \<noteq> OAgent sl" using assms by (auto simp: stocked_def)
    moreover have "lb (OAgent ord) + Quantity ord \<le> Inventory (mheap st (OAgent ord)) g"
      using assms that by (simp add: stocked_def)
    ultimately show ?thesis by (auto simp: inv)
  qed
  have "lb (OAgent sl) + sellRemain (match_pair g sl b st) \<le> Inventory (mheap (match_pair g sl b st) (OAgent sl)) g"
    using head k(2) by (auto simp: inv)
  then show ?thesis using assms k(2) le low rest by (simp add: stocked_def)
qed

lemma stocked_next_sell:
  assumes "stocked g lb (sl # sells) st"
  shows "stocked g lb sells (next_sell sells st)"
  using assms by (cases sells) (auto simp: stocked_def next_sell_def)

lemma match_loop_keeps:
  assumes "stocked g lb sells st"
  shows "lb p \<le> Inventory (mheap (match_loop g sells buys st) p) g"
  using assms
proof (induction g sells buys st rule: match_loop.induct)
  case (1 g sl sells b buys st)
  have st1: "stocked g lb (sl # sells) (match_pair g sl b st)" by (rule stocked_match_pair [OF 1(3)])
  show ?case
    using "1.IH"(1) [OF _ refl _ stocked_next_sell [OF st1]] "1.IH"(2) [OF _ refl _ st1] 1(3)
    by (simp add: stocked_def Let_def)
qed (simp_all add: stocked_def)

lemma trade_units_other_good:
  "x \<noteq> g \<Longrightarrow> Inventory (mheap (trade_units n g b sl c st) p) x = Inventory (mheap st p) x"
  by (induction n arbitrary: st) (simp_all add: Inventory_trade_unit)

lemma match_loop_other_good:
  "x \<noteq> g \<Longrightarrow> Inventory (mheap (match_loop g sells buys st) p) x = Inventory (mheap st p) x"
  by (induction g sells buys st rule: match_loop.induct)
    (simp_all add: Let_def match_pair_def trade_units_other_good)

text \<open>The orders of one good: one per seller, for exactly the surplus.\<close>

lemma sell_order_of_good:
  "filter (\<lambda>ord. OGood ord = g) (concat (map (sell_order ref h p) gs)) =
     concat (map (sell_order ref h p) (filter (\<lambda>x. x = g) gs))"
  by (induction gs) (auto simp: sell_order_def Let_def split: option.splits)

lemma filter_all_goods: "filter (\<lambda>x. x = g) all_goods = [g]"
  by (cases g) (simp_all add: all_goods_def)

lemma sell_orders_of_good:
  "filter (\<lambda>ord. OGood ord = g) (sell_orders ref h ps) = concat (map (\<lambda>p. sell_order ref h p g) ps)"
proof (induction ps)
  case (Cons p ps)
  then show ?case
    using sell_order_of_good [of g ref h p all_goods] by (simp add: sell_orders_def filter_all_goods)
qed (simp add: sell_orders_def)

lemma distinct_sellers: "distinct ps \<Longrightarrow> distinct (map OAgent (concat (map (\<lambda>p. sell_order ref h p g) ps)))"
  by (induction ps) (auto simp: sell_order_def Let_def split: option.splits if_splits)

definition keep_level :: "(ptr \<Rightarrow> Agent) \<Rightarrow> GoodType \<Rightarrow> ptr \<Rightarrow> int" where
  "keep_level h g p = min (Inventory (h p) g) (surplusThreshold (h p) g)"

lemma stocked_start:
  assumes "distinct ps" "mset sells = mset (filter (\<lambda>ord. OGood ord = g) (sell_orders ref h ps))"
    and "\<And>p. Inventory (h' p) g = Inventory (h p) g"
  shows "stocked g (keep_level h g) sells (start_matching h' sells)"
proof -
  have set: "set sells = set (filter (\<lambda>ord. OGood ord = g) (sell_orders ref h ps))"
    using assms(2) by (metis set_mset_mset)
  have "mset (map OAgent sells) = mset (map OAgent (concat (map (\<lambda>p. sell_order ref h p g) ps)))"
    using assms(2) by (simp add: sell_orders_of_good)
  then have dist: "distinct (map OAgent sells)"
    using distinct_sellers [OF assms(1)] by (metis mset_eq_imp_distinct_iff)
  have q: "0 < Quantity ord \<and> keep_level h g (OAgent ord) + Quantity ord \<le> Inventory (h (OAgent ord)) g"
    if "ord \<in> set sells" for ord
    using that sell_orders_Quantity [of ord ref h ps] by (auto simp: set keep_level_def)
  have low: "keep_level h g p \<le> Inventory (h' p) g" for p by (simp add: keep_level_def assms(3))
  show ?thesis
    using dist q low
    by (cases sells) (auto simp: stocked_def start_matching_def next_sell_def assms(3) intro: less_imp_le)
qed

lemma match_good_keeps:
  assumes "distinct ps" "\<And>xs. mset (srt_sells xs) = mset xs"
    and "\<And>p. Inventory (fst st p) g = Inventory (h p) g"
  shows "keep_level h g p \<le> Inventory (fst (match_good srt_sells srt_buys (sell_orders ref h ps) buyOrders g st) p) g"
proof -
  obtain h' m k where st: "st = (h', m, k)" by (cases st)
  let ?sells = "srt_sells (filter (\<lambda>ord. OGood ord = g) (sell_orders ref h ps))"
  have "keep_level h g p \<le> Inventory (h' p) g" using assms(3) by (simp add: keep_level_def st)
  moreover have "stocked g (keep_level h g) ?sells (start_matching h' ?sells)"
    using assms by (intro stocked_start) (simp_all add: st)
  ultimately show ?thesis
    using match_loop_keeps [of g "keep_level h g" ?sells "start_matching h' ?sells"]
    by (simp add: st match_good_def Let_def)
qed

lemma match_good_other_good:
  "x \<noteq> g \<Longrightarrow> Inventory (fst (match_good ss sb so bo g st) p) x = Inventory (fst st p) x"
  by (cases st) (simp add: match_good_def Let_def match_loop_other_good start_matching_def)

lemma fold_match_good_other:
  "x \<notin> set gs \<Longrightarrow> Inventory (fst (fold (match_good ss sb so bo) gs st) p) x = Inventory (fst st p) x"
  by (induction gs arbitrary: st) (simp_all add: match_good_other_good)

lemma fold_match_good_keeps:
  assumes "distinct ps" "distinct gs" "\<And>xs. mset (srt_sells xs) = mset xs"
    and "\<And>p x. x \<in> set gs \<Longrightarrow> Inventory (fst st p) x = Inventory (h p) x" "g \<in> set gs"
  shows "keep_level h g p
    \<le> Inventory (fst (fold (match_good srt_sells srt_buys (sell_orders ref h ps) buyOrders) gs st) p) g"
  using assms(2,4,5)
proof (induction gs arbitrary: st)
  case (Cons y gs)
  show ?case
  proof (cases "y = g")
    case True
    then show ?thesis
      using Cons.prems match_good_keeps [where ref = ref and srt_buys = srt_buys and buyOrders = buyOrders and p = p, OF assms(1,3), of st g h]
      by (simp add: fold_match_good_other)
  next
    case False
    moreover have "Inventory (fst (match_good srt_sells srt_buys (sell_orders ref h ps) buyOrders y st) p) x = Inventory (h p) x"
      if "x \<in> set gs" for p x
    proof -
      have "x \<noteq> y" using that Cons.prems(1) by auto
      then show ?thesis using Cons.prems(2) that by (simp add: match_good_other_good)
    qed
    ultimately show ?thesis using Cons.prems by (auto intro!: Cons.IH)
  qed
qed simp

theorem resolve_market_keeps:
  assumes "distinct settAgents" "distinct goods" "slice_sort srt_sells before"
  shows "min (Inventory (h p) g) (surplusThreshold (h p) g)
    \<le> Inventory (fst (resolve_market srt_sells srt_buys goods season sett settAgents h market) p) g"
proof -
  define living where "living = filter (\<lambda>p. Alive (h p)) settAgents"
  have "keep_level h g p \<le> Inventory (fst (fold (match_good srt_sells srt_buys (sell_orders ref h living) bo) goods (h, m, 0)) p) g"
    for ref bo m
  proof (cases "g \<in> set goods")
    case True
    then show ?thesis
      using assms slice_sort.mset_srt [OF assms(3)] by (intro fold_match_good_keeps) (simp_all add: living_def)
  qed (simp add: fold_match_good_other keep_level_def)
  then show ?thesis
    by (simp add: resolve_market_def Let_def living_def [symmetric] keep_level_def split: prod.splits) (metis fst_conv)
qed

subsection \<open>Prices stay in their band\<close>

definition entry_ok :: "MarketEntry \<Rightarrow> bool" where
  "entry_ok e \<longleftrightarrow> 0 \<le> BasePrice e \<and> BasePrice e * Agnosis \<le> Price e \<and> Price e \<le> BasePrice e * Totality"

lemma market_ok_entries: "market_ok m \<longleftrightarrow> (\<forall>g e. Entries m g = Some e \<longrightarrow> entry_ok e)"
  by (simp add: market_ok_iff entry_ok_def)

lemma market_ok_map_entries: "(\<And>g e. entry_ok e \<Longrightarrow> entry_ok (f g e)) \<Longrightarrow> market_ok m \<Longrightarrow> market_ok (map_entries f m)"
  by (auto simp: market_ok_entries map_entries_def)

lemma market_ok_upd_entry: "(\<And>e. entry_ok e \<Longrightarrow> entry_ok (f e)) \<Longrightarrow> market_ok m \<Longrightarrow> market_ok (upd_entry g f m)"
  by (auto simp: market_ok_entries upd_entry_def)

lemma market_ok_add_supply: "market_ok m \<Longrightarrow> market_ok (add_supply a g m)"
  by (auto simp: add_supply_def Let_def entry_ok_def intro: market_ok_upd_entry)

lemma market_ok_add_demand: "market_ok m \<Longrightarrow> market_ok (add_demand g m)"
  by (auto simp: add_demand_def entry_ok_def intro: market_ok_upd_entry)

interpretation supply_loop: loop_invariant "add_supply a" market_ok for a
  by unfold_locales (rule market_ok_add_supply)

interpretation demand_loop: loop_invariant add_demand market_ok
  by unfold_locales (rule market_ok_add_demand)

interpretation aggregate_loop: loop_invariant aggregate_agent market_ok
  by unfold_locales (simp add: aggregate_agent_def Let_def supply_loop.loop_inv demand_loop.loop_inv)

lemma aggregate_ok: "market_ok m \<Longrightarrow> market_ok (aggregate living m)"
  unfolding aggregate_def
  by (intro aggregate_loop.loop_inv market_ok_map_entries) (simp_all add: entry_ok_def)

lemma band: "0 \<le> (b :: f64) \<Longrightarrow> b * Agnosis \<le> b * Totality"
  by (intro flt_mult_left_mono) simp_all

lemma blend_price_ok: "entry_ok e \<Longrightarrow> entry_ok (blend_price n r e)"
proof -
  assume "entry_ok e"
  then have b: "0 \<le> BasePrice e" by (simp add: entry_ok_def)
  have "blend_price n r e = e\<lparr>Price := clamp (BasePrice e * Agnosis) (BasePrice e * Totality)
      (Price e * lit 0.7 + r / flt_of_int n * lit 0.3)\<rparr>"
    by (simp add: blend_price_def clamp_def Let_def)
  then show ?thesis using b clamp_bounds(1) [OF band [OF b]] by (simp add: entry_ok_def clamp_bounds(2))
qed

lemma surplus_decay_ok: "entry_ok e \<Longrightarrow> entry_ok (surplus_decay t e)"
proof -
  assume ok: "entry_ok e"
  then have "0 \<le> BasePrice e * Agnosis" by (simp add: entry_ok_def flt_mult_nonneg)
  then have "0 \<le> Price e" using ok by (auto simp: entry_ok_def intro: order_trans)
  then have "Price e - Price e * Agnosis * lit 0.01 \<le> Price e"
    by (intro flt_diff_decrease flt_mult_nonneg zero_le_lit) simp_all
  then have "Price e - Price e * Agnosis * lit 0.01 \<le> BasePrice e * Totality"
    using ok by (auto simp: entry_ok_def intro: order_trans)
  then show ?thesis
    using ok by (auto simp: surplus_decay_def entry_ok_def Let_def not_less band)
qed

lemma match_good_ok:
  "market_ok (fst (snd st)) \<Longrightarrow> market_ok (fst (snd (match_good ss sb so bo g st)))"
proof -
  assume ok: "market_ok (fst (snd st))"
  obtain h m k where st: "st = (h, m, k)" by (cases st)
  have "market_ok (upd_entry g (blend_price n r) m)" for n r
    using ok by (intro market_ok_upd_entry blend_price_ok) (simp_all add: st)
  then show ?thesis using ok by (simp add: st match_good_def Let_def market_ok_entries)
qed

interpretation match_price_loop: loop_invariant "match_good ss sb so bo" "\<lambda>st. market_ok (fst (snd st))"
  for ss sb so bo
  by unfold_locales (rule match_good_ok)

theorem resolve_market_prices:
  assumes "market_ok market"
  shows "market_ok (snd (resolve_market ss sb goods season sett ps h market))"
proof -
  define m2 where "m2 = map_entries (\<lambda>_. floor_entry (supplyFloor sett)) (aggregate (map h (filter (\<lambda>p. Alive (h p)) ps)) market)"
  have "market_ok m2"
    unfolding m2_def using assms
    by (intro market_ok_map_entries aggregate_ok) (simp_all add: floor_entry_def entry_ok_def)
  then have "market_ok (m2\<lparr>TradeCount := 0\<rparr>)" by (simp add: market_ok_entries)
  then have "market_ok (fst (snd (fold (match_good ss sb so bo) goods (h, m2\<lparr>TradeCount := 0\<rparr>, 0))))" for so bo
    by (intro match_price_loop.loop_inv) simp
  then show ?thesis
    by (simp add: resolve_market_def Let_def m2_def [symmetric] split: prod.splits)
      (metis fst_conv snd_conv market_ok_map_entries surplus_decay_ok)
qed

subsection \<open>The phase on the simulation\<close>

lemma led_resolveSettlementMarket:
  "led (resolveSettlementMarket ss sb gs sp ps season s) =
     (case SMarket (settl s sp) of None \<Rightarrow> led s
      | Some m \<Rightarrow> hled s (fst (resolve_market ss sb gs season (settl s sp) ps (agent s) m)))"
  by (auto simp: resolveSettlementMarket_def hled_def Let_def split: option.splits prod.splits)

lemma resolveSettlementMarket_pays [crowns]:
  assumes "slice_sort ss before" "slice_sort sb before'"
  shows "pays (Purse ` set ps) (led s) (led (resolveSettlementMarket ss sb gs sp ps season s))"
  using crowns_traded.resolve_market_R [where P = "set ps" and h = "agent s" and s = s,
      OF slice_sort.set_srt [OF assms(1)] slice_sort.set_srt [OF assms(2)] order_refl]
  by (simp add: led_resolveSettlementMarket pays_refl split: option.splits)

lemma same_but_purse_fields:
  assumes "same_but_purse a b"
  shows "AID b = AID a" "HomeSettID b = HomeSettID a" "Alive b = Alive a" "AOccupation b = AOccupation a"
proof -
  have "b = a\<lparr>Wealth := Wealth b, Inventory := Inventory b\<rparr>" using assms by (simp add: same_but_purse_def)
  from arg_cong [OF this, of AID] arg_cong [OF this, of HomeSettID] arg_cong [OF this, of Alive]
    arg_cong [OF this, of AOccupation]
  show "AID b = AID a" "HomeSettID b = HomeSettID a" "Alive b = Alive a" "AOccupation b = AOccupation a" by simp_all
qed

lemma members_only_frame:
  assumes "members_only P (agent s) h"
  shows "same_frame s (s\<lparr>agent := h\<rparr>)"
  using assms by (simp add: members_only_def same_frame_def same_but_purse_fields)

lemma resolveSettlementMarket_frame [frame]:
  assumes "slice_sort ss before" "slice_sort sb before'"
  shows "same_frame s (resolveSettlementMarket ss sb gs sp ps season s)"
proof -
  have "members_only (set ps) (agent s) (fst (resolve_market ss sb gs season (settl s sp) ps (agent s) m))" for m
    by (rule frame_traded.resolve_market_R)
      (simp_all add: slice_sort.set_srt [OF assms(1)] slice_sort.set_srt [OF assms(2)])
  note agents = members_only_frame [OF this]
  show ?thesis
  proof (cases "SMarket (settl s sp)")
    case (Some m)
    have "same_frame s (upd_settl sp (\<lambda>t. t\<lparr>SMarket := M\<rparr>)
        (s\<lparr>agent := fst (resolve_market ss sb gs season (settl s sp) ps (agent s) m)\<rparr>))" for M
      using agents by (rule same_frame_upd_settl [rotated]) (simp add: keeps_settl_def)
    then show ?thesis by (simp add: resolveSettlementMarket_def Some case_prod_beta)
  qed (simp add: resolveSettlementMarket_def)
qed

lemma resolveMarkets_pays_frame:
  assumes "slice_sort ss before" "slice_sort sb before'" "sim_ok s"
  shows "pays (accts s) (led s) (led (resolveMarkets ss sb goods s))"
    and "same_frame s (resolveMarkets ss sb goods s)"
proof -
  let ?f = "\<lambda>sp s. let settAgents = SettlementAgents s (SID (settl s sp)) in
      if settAgents = [] then s
      else resolveSettlementMarket ss sb (goods sp) sp settAgents (CurrentSeason s) s"
  have step: "pays (accts s) (led t) (led (?f sp t)) \<and> same_frame s (?f sp t)" if "same_frame s t" for sp t
  proof -
    have "sim_ok t" using sim_ok_frame [OF that assms(3)] .
    then have "Purse ` set (SettlementAgents t (SID (settl t sp))) \<subseteq> accts s"
      using accts_frame [OF that] by (auto dest: sim_okD)
    note pays_mono [OF resolveSettlementMarket_pays [OF assms(1,2)] this]
    then show ?thesis
      using same_frame_trans [OF that resolveSettlementMarket_frame [OF assms(1,2)]] that
      by (simp add: Let_def pays_refl)
  qed
  show "pays (accts s) (led s) (led (resolveMarkets ss sb goods s))"
    and "same_frame s (resolveMarkets ss sb goods s)"
    unfolding resolveMarkets_def
    using fold_pays_inv [where I = "same_frame s" and f = ?f and L = led and A = "accts s"
        and xs = "Settlements s" and s = s] step by auto
qed

text \<open>
  Insertion sort is one sorting function \<^verbatim>\<open>sort.Slice\<close> may use; the phase
  with it is closed.
\<close>

interpretation market_phase: closed_phase led
  "resolveMarkets (sort_by OPrice) (sort_desc OPrice) goods" accts sim_ok for goods
  by unfold_locales (simp_all add: resolveMarkets_pays_frame(1) [OF sort_by_slice_sort sort_desc_slice_sort])

end
