(* ===== verification/Fiscal.thy ===== *)
theory Fiscal
  imports Market_Laws
begin

section \<open>Taxes, decay, wages and stipends (internal/engine/market.go)\<close>

text \<open>
  The daily flows between purses and treasuries.  A loop that Go leaves with
  \<^verbatim>\<open>break\<close> is a \<open>for_break\<close>.  \<^verbatim>\<open>math.Log2\<close> is an argument of
  \<open>decayWealth\<close>; what is used of it is its range on the wealth of one
  agent (locale \<open>log2_range\<close>).
\<close>

definition clampAgentNeeds :: "NeedsState \<Rightarrow> NeedsState" where
  "clampAgentNeeds = clampNeeds"

definition decayInventories :: "Sim \<Rightarrow> Sim" where
  "decayInventories s =
     fold (\<lambda>p s. if \<not> Alive (agent s p) then s else upd_agent p DecayInventory s) (Agents s) s"

subsection \<open>Taxes and public works\<close>

definition taxThreshold :: uint64 where "taxThreshold = 20"

definition tax_due :: "f64 \<Rightarrow> uint64 \<Rightarrow> uint64" where
  "tax_due rate wealth =
     (let taxable = wealth - taxThreshold;
          tax0 = word_of_flt (flt_of_word taxable * rate * Agnosis);
          tax1 = (if tax0 < 1 then 1 else tax0)
      in if wealth < tax1 then wealth else tax1)"

definition tax_one :: "ptr \<Rightarrow> ptr \<Rightarrow> Sim \<times> uint64 \<Rightarrow> Sim \<times> uint64" where
  "tax_one sp p st =
     (let (s, taxRevenue) = st; a = agent s p in
      if \<not> Alive a \<or> Wealth a \<le> taxThreshold then (s, taxRevenue)
      else let tax = tax_due (TaxRate (settl s sp)) (Wealth a)
           in (upd_agent p (lose_wealth tax) s, taxRevenue + tax))"

text \<open>The mean wealth of the living, as the two welfare functions compute it.\<close>

definition avg_wealth :: "(ptr \<Rightarrow> Agent) \<Rightarrow> ptr list \<Rightarrow> f64" where
  "avg_wealth h ps =
     (let (total, n) = fold (\<lambda>p (total, n). if Alive (h p) then (total + flt_of_word (Wealth (h p)), n + 1) else (total, n))
                        ps (0, 0 :: int)
      in if 0 < n then total / flt_of_int n else total)"

definition welfare_threshold :: "f64 \<Rightarrow> (ptr \<Rightarrow> Agent) \<Rightarrow> ptr list \<Rightarrow> f64" where
  "welfare_threshold least h ps =
     (let t = avg_wealth h ps * Agnosis in if t < least then least else t)"

definition is_poor :: "f64 \<Rightarrow> Agent \<Rightarrow> bool" where
  "is_poor threshold a \<longleftrightarrow> Alive a \<and> Wealth a < word_of_flt threshold"

definition poverty_weight :: "f64 \<Rightarrow> Agent \<Rightarrow> f64" where
  "poverty_weight threshold a = (threshold - flt_of_word (Wealth a)) / threshold"

definition total_weight :: "f64 \<Rightarrow> (ptr \<Rightarrow> Agent) \<Rightarrow> ptr list \<Rightarrow> f64" where
  "total_weight threshold h ps =
     fold (\<lambda>p w. if is_poor threshold (h p) then w + poverty_weight threshold (h p) else w) ps 0"

text \<open>\<^verbatim>\<open>uint64(float64(budget) * weight / totalWeight)\<close>.\<close>

definition progressive_wage :: "uint64 \<Rightarrow> f64 \<Rightarrow> f64 \<Rightarrow> Agent \<Rightarrow> uint64" where
  "progressive_wage budget threshold totalWeight a =
     word_of_flt (flt_of_word budget * poverty_weight threshold a / totalWeight)"

definition pay_public_work :: "uint64 \<Rightarrow> f64 \<Rightarrow> f64 \<Rightarrow> ptr \<Rightarrow> Sim \<times> uint64 \<Rightarrow> (Sim \<times> uint64) option" where
  "pay_public_work publicWorks threshold totalWeight p st =
     (let (s, paid) = st; a = agent s p in
      if \<not> is_poor threshold a then Some (s, paid)
      else let wage = progressive_wage publicWorks threshold totalWeight a in
        if wage = 0 then Some (s, paid)
        else if publicWorks < paid + wage then None
        else Some (upd_agent p (\<lambda>a. let b = gain_wealth wage a; n = Needs b in
                      b\<lparr>Needs := clampAgentNeeds (n\<lparr>Belonging := Belonging n + lit 0.002,
                                                 Safety := Safety n + lit 0.001\<rparr>)\<rparr>) s,
                   paid + wage))"

definition public_works :: "ptr \<Rightarrow> Sim \<Rightarrow> Sim" where
  "public_works sp s =
     (let sett = settl s sp;
          settAgents = SettlementAgents s (SID sett);
          publicWorks0 = word_of_flt (flt_of_word (Population sett) * Agnosis * lit 0.5);
          publicWorks = (if Treasury sett < publicWorks0 then Treasury sett else publicWorks0)
      in if publicWorks = 0 then s
         else let threshold = welfare_threshold (lit 30) (agent s) settAgents;
                  totalWeight = total_weight threshold (agent s) settAgents
              in if 0 < totalWeight then
                   (let (s', paid) = for_break (pay_public_work publicWorks threshold totalWeight) settAgents (s, 0)
                    in upd_settl sp (lose_treasury paid) s')
                 else s)"

definition tax_settlement :: "ptr \<Rightarrow> Sim \<Rightarrow> Sim" where
  "tax_settlement sp s =
     (let settAgents = SettlementAgents s (SID (settl s sp));
          (s1, taxRevenue) = fold (tax_one sp) settAgents (s, 0)
      in public_works sp (upd_settl sp (gain_treasury taxRevenue) s1))"

definition collectTaxes :: "Sim \<Rightarrow> Sim" where
  "collectTaxes s = fold tax_settlement (Settlements s) s"

subsection \<open>Wealth decay\<close>

definition decay_due :: "(f64 \<Rightarrow> f64) \<Rightarrow> uint64 \<Rightarrow> uint64" where
  "decay_due log2 wealth =
     (let baseRate = Agnosis * lit 0.01;
          scaledRate = baseRate * (1 + Agnosis * log2 (flt_of_word wealth / lit 20));
          decay = word_of_flt (flt_of_word (wealth - 20) * scaledRate)
      in if decay < 1 then 1 else decay)"

definition decay_one :: "(f64 \<Rightarrow> f64) \<Rightarrow> ptr \<Rightarrow> Sim \<Rightarrow> Sim" where
  "decay_one log2 p s =
     (let a = agent s p in
      if \<not> Alive a \<or> Wealth a \<le> 20 then s
      else let decay = decay_due log2 (Wealth a);
               s1 = upd_agent p (lose_wealth decay) s
           in case HomeSettID a of
                None \<Rightarrow> s1
              | Some i \<Rightarrow> (case SettlementIndex s1 i of
                    None \<Rightarrow> s1
                  | Some sp \<Rightarrow> upd_settl sp (gain_treasury decay) s1))"

definition decayWealth :: "(f64 \<Rightarrow> f64) \<Rightarrow> Sim \<Rightarrow> Sim" where
  "decayWealth log2 s = fold (decay_one log2) (Agents s) s"

subsection \<open>Settlement wages\<close>

definition outflow_rate :: "Sim \<Rightarrow> f64" where
  "outflow_rate s =
     (let totalTreasury = fold (\<lambda>sp t. t + Treasury (settl s sp)) (Settlements s) 0;
          totalWealth = totalTreasury + TotalWealth (Stats s);
          treasuryShare = flt_of_word totalTreasury / flt_of_word totalWealth;
          targetShare = 1 - Matter;
          excess = treasuryShare - targetShare
      in if 0 < excess
         then let r = lit 0.01 + excess * excess * lit 40 in if Agnosis < r then Agnosis else r
         else lit 0.005)"

definition world_wealth :: "Sim \<Rightarrow> uint64" where
  "world_wealth s = fold (\<lambda>sp t. t + Treasury (settl s sp)) (Settlements s) 0 + TotalWealth (Stats s)"

definition pay_wage :: "ptr \<Rightarrow> uint64 \<Rightarrow> f64 \<Rightarrow> f64 \<Rightarrow> ptr \<Rightarrow> Sim \<times> uint64 \<Rightarrow> (Sim \<times> uint64) option" where
  "pay_wage sp budget threshold totalWeight p st =
     (let (s, paid) = st; a = agent s p in
      if \<not> is_poor threshold a then Some (s, paid)
      else let wage0 = progressive_wage budget threshold totalWeight a;
               wage = (if wage0 < 1 then 1 else wage0) in
        if budget < paid + wage then None
        else if Treasury (settl s sp) < wage then None
        else Some (upd_agent p (gain_wealth wage) (upd_settl sp (lose_treasury wage) s), paid + wage))"

definition wages_of :: "f64 \<Rightarrow> ptr \<Rightarrow> Sim \<Rightarrow> Sim" where
  "wages_of outflowRate sp s =
     (if Treasury (settl s sp) = 0 then s
      else let budget0 = word_of_flt (flt_of_word (Treasury (settl s sp)) * outflowRate);
               budget = (if budget0 < 2 then 2 else budget0);
               settAgents = SettlementAgents s (SID (settl s sp));
               threshold = welfare_threshold (lit 50) (agent s) settAgents;
               totalWeight = total_weight threshold (agent s) settAgents
           in if totalWeight = 0 then s
              else fst (for_break (pay_wage sp budget threshold totalWeight) settAgents (s, 0)))"

definition paySettlementWages :: "Sim \<Rightarrow> Sim" where
  "paySettlementWages s =
     (if world_wealth s = 0 then s else fold (wages_of (outflow_rate s)) (Settlements s) s)"

subsection \<open>Garrison stipends\<close>

definition pay_stipend :: "ptr \<Rightarrow> uint64 \<Rightarrow> uint64 \<Rightarrow> ptr \<Rightarrow> Sim \<times> uint64 \<Rightarrow> (Sim \<times> uint64) option" where
  "pay_stipend sp stipend maxPayout p st =
     (let (s, paid) = st in
      if maxPayout < paid + stipend then None
      else if Treasury (settl s sp) < stipend then None
      else let s1 = upd_agent p (gain_wealth stipend) (upd_settl sp (lose_treasury stipend) s);
               s2 = upd_agent p (add_needs 0 (lit 0.003) 0 0 (lit 0.002)) s1
           in Some (upd_counted p (ApplyDirectSatBump (lit 0.08) ''stipend'') s2, paid + stipend))"

definition stipends_of :: "ptr \<Rightarrow> Sim \<Rightarrow> Sim" where
  "stipends_of sp s =
     (let sett = settl s sp in
      if Treasury sett = 0 \<or> Population sett = 0 then s
      else let soldiers = filter (\<lambda>p. Alive (agent s p) \<and> AOccupation (agent s p) = OccupationSoldier)
                            (SettlementAgents s (SID sett)) in
        if soldiers = [] then s
        else let perCapita = flt_of_word (Treasury sett) / flt_of_word (Population sett);
                 stipend0 = word_of_flt (perCapita * Agnosis * lit 0.5);
                 stipend = (if stipend0 < 1 then 1 else stipend0);
                 maxPayout = word_of_flt (flt_of_word (Treasury sett) * Agnosis)
             in fst (for_break (pay_stipend sp stipend maxPayout) soldiers (s, 0)))"

definition payGarrisonStipends :: "Sim \<Rightarrow> Sim" where
  "payGarrisonStipends s = fold stipends_of (Settlements s) s"

subsection \<open>Buying food\<close>

definition forage_instead :: "Agent \<Rightarrow> Agent" where
  "forage_instead a = add_needs (lit 0.05) 0 0 0 0 (inv_add GoodGrain 1 a)"

text \<open>
  The scan over grain and fish; a price of 0 counts as \<^verbatim>\<open>none yet\<close>, and
  the zero value of the good is grain.
\<close>

definition cheapest_food :: "Market \<Rightarrow> GoodType \<times> f64" where
  "cheapest_food m =
     fold (\<lambda>good (best, bestPrice).
             case Entries m good of
               None \<Rightarrow> (best, bestPrice)
             | Some e \<Rightarrow> if bestPrice = 0 \<or> Price e < bestPrice then (good, Price e) else (best, bestPrice))
       [GoodGrain, GoodFish] (GoodGrain, 0)"

definition whole_crowns :: "f64 \<Rightarrow> uint64" where
  "whole_crowns price = (let c = word_of_flt (price + lit 0.5) in if c < 1 then 1 else c)"

definition resolveBuyFood :: "ptr \<Rightarrow> Sim \<Rightarrow> Sim" where
  "resolveBuyFood p s =
     (case HomeSettID (agent s p) of
        None \<Rightarrow> upd_agent p forage_instead s
      | Some i \<Rightarrow>
          (case SettlementIndex s i of
             None \<Rightarrow> upd_agent p forage_instead s
           | Some sp \<Rightarrow>
               (case SMarket (settl s sp) of
                  None \<Rightarrow> upd_agent p forage_instead s
                | Some m \<Rightarrow>
                    let (bestGood, bestPrice) = cheapest_food m;
                        cost = whole_crowns bestPrice
                    in if cost \<le> Wealth (agent s p)
                       then upd_agent p (\<lambda>a. add_needs (lit 0.02) (lit 0.003) (lit 0.001) 0 (lit 0.001) (inv_add bestGood 1 a))
                              (upd_settl sp (gain_treasury cost) (upd_agent p (lose_wealth cost) s))
                       else upd_agent p (\<lambda>a. add_needs (lit 0.05) 0 (lit 0.001) 0 0 (inv_add GoodGrain 1 a)) s)))"

end
