(* ===== verification/Lifecycle.thy ===== *)
theory Lifecycle
  imports Fiscal
begin

section \<open>Construction, death and bookkeeping of the world (simulation.go)\<close>

text \<open>
  \<^verbatim>\<open>NewSimulation\<close> and the operations of \<^verbatim>\<open>simulation.go\<close>
  that keep its indices: deaths and inheritance, the settlement rosters, the
  weekly compaction of dead agents, the neighbour lists and the statistics.
  The laws: a new simulation satisfies \<open>sim_ok\<close>; an inheritance is a
  sequence of solvent payments; the rosters, the index and the neighbour lists
  are exactly the relations they are meant to cache.
\<close>

definition TicksPerSimHour :: uint64 where "TicksPerSimHour = 60"
definition TicksPerSimDay :: uint64 where "TicksPerSimDay = 1440"
definition TicksPerSimWeek :: uint64 where "TicksPerSimWeek = 10080"
definition TicksPerSimSeason :: uint64 where "TicksPerSimSeason = 90000"

definition CurrentTick :: "Sim \<Rightarrow> uint64" where
  "CurrentTick s = LastTick s"

subsection \<open>Hex claims (land_governance.go)\<close>

definition claimHex :: "uint64 \<Rightarrow> HexCoord \<Rightarrow> Sim \<times> int \<Rightarrow> Sim \<times> int" where
  "claimHex settID coord st =
     (let (s, claimed) = st in
      case map_Get (WorldMap s) coord of
        None \<Rightarrow> st
      | Some h \<Rightarrow>
          if HexTerrain h = TerrainOcean then st
          else if ClaimedBy h = None then (upd_hex coord (\<lambda>h. h\<lparr>ClaimedBy := Some settID\<rparr>) s, claimed + 1)
          else st)"

definition claimHexesForSettlement :: "uint64 \<Rightarrow> Sim \<Rightarrow> Sim \<times> int" where
  "claimHexesForSettlement settID s =
     (case SettlementIndex s settID of
        None \<Rightarrow> (s, 0)
      | Some p \<Rightarrow> let pos = SPosition (settl s p) in fold (claimHex settID) (pos # Neighbors pos) (s, 0))"

definition initSettlementClaims :: "Sim \<Rightarrow> Sim" where
  "initSettlementClaims s =
     fold (\<lambda>p s. if Population (settl s p) = 0 then s
              else fst (claimHexesForSettlement (SID (settl s p)) s)) (Settlements s) s"

definition releaseSettlementClaims :: "uint64 \<Rightarrow> Sim \<Rightarrow> Sim" where
  "releaseSettlementClaims settID s = s\<lparr>WorldMap := (WorldMap s)\<lparr>Hexes := (\<lambda>c.
     map_option (\<lambda>h. if ClaimedBy h = Some settID then h\<lparr>ClaimedBy := None\<rparr> else h) (Hexes (WorldMap s) c))\<rparr>\<rparr>"

subsection \<open>Statistics\<close>

definition isHexProducer :: "Occupation \<Rightarrow> bool" where
  "isHexProducer occ \<longleftrightarrow> occ = OccupationFarmer \<or> occ = OccupationMiner \<or> occ = OccupationAlchemist
     \<or> occ = OccupationLaborer \<or> occ = OccupationFisher \<or> occ = OccupationHunter"

text \<open>A sum accumulated in slice order.\<close>

definition sum_in_order :: "(Agent \<Rightarrow> ('a::len, 'b::len) flt) \<Rightarrow> Agent list \<Rightarrow> ('a, 'b) flt" where
  "sum_in_order f xs = fold (\<lambda>a total. total + f a) xs 0"

definition recent_worker :: "uint64 \<Rightarrow> Agent \<Rightarrow> bool" where
  "recent_worker lastTick a \<longleftrightarrow> 0 < lastTick \<and> 0 < LastWorkTick a
     \<and> lastTick - LastWorkTick a \<le> TicksPerSimDay * 7"

definition occ_average :: "(Agent \<Rightarrow> f32) \<Rightarrow> Agent list \<Rightarrow> Occupation \<Rightarrow> f32" where
  "occ_average f active occ =
     (let xs = filter (\<lambda>a. AOccupation a = occ) active in
      if xs = [] then 0 else sum_in_order f xs / flt_of_int (int (length xs)))"

definition updateStats :: "Sim \<Rightarrow> Sim" where
  "updateStats s =
     (let living = filter Alive (map (agent s) (Agents s));
          active = filter (\<lambda>a. \<not> Age a < 2) living;
          producers = filter (\<lambda>a. isHexProducer (AOccupation a)) active;
          avg = (\<lambda>f old. if active = [] then old else sum_in_order f active / flt_of_int (int (length active)));
          st = Stats s
      in s\<lparr>Stats := st\<lparr>
           TotalPopulation := int (length living),
           TotalWealth := fold (\<lambda>a total. total + Wealth a) living 0,
           AvgMood := avg (EffectiveMood \<circ> Wellbeing) (AvgMood st),
           AvgSatisfaction := avg (Satisfaction \<circ> Wellbeing) (AvgSatisfaction st),
           AvgAlignment := avg (Alignment \<circ> Wellbeing) (AvgAlignment st),
           AvgSurvival := avg (Survival \<circ> Needs) (AvgSurvival st),
           OccupationCounts := (\<lambda>occ. int (length (filter (\<lambda>a. AOccupation a = occ) active))),
           OccupationSat := occ_average (Satisfaction \<circ> Wellbeing) active,
           OccupationSurvival := occ_average (Survival \<circ> Needs) active,
           OccupationSafety := occ_average (Safety \<circ> Needs) active,
           OccupationBelonging := occ_average (Belonging \<circ> Needs) active,
           OccupationPurpose := occ_average (Purpose \<circ> Needs) active,
           OccupationEsteem := occ_average (Esteem \<circ> Needs) active,
           ProducersWorking := int (length (filter (recent_worker (LastTick s)) producers)),
           ProducersIdle := int (length (filter (\<lambda>a. \<not> recent_worker (LastTick s) a) producers))\<rparr>\<rparr>)"

definition RecomputeStats :: "Sim \<Rightarrow> Sim" where
  "RecomputeStats = updateStats"

definition living_wealths :: "Sim \<Rightarrow> uint64 list" where
  "living_wealths s = map (Wealth \<circ> agent s) (filter (\<lambda>p. Alive (agent s p)) (Agents s))"

text \<open>Values with equal keys are equal here, so every sorting routine gives the same slice.\<close>

definition GiniCoefficient :: "Sim \<Rightarrow> f64" where
  "GiniCoefficient s =
     (let wealths = sort (living_wealths s); n = int (length wealths);
          (totalWealth, weightedSum, _) =
            fold (\<lambda>w (total, weighted, i). (total + w, weighted + (i + 1) * w, i + 1)) wealths (0, 0, 0 :: uint64)
      in if n < 2 then 0
         else if totalWealth = 0 then 0
         else (lit 2 * flt_of_word weightedSum) / (flt_of_int n * flt_of_word totalWealth)
              - flt_of_int (n + 1) / flt_of_int n)"

definition WealthDistribution :: "Sim \<Rightarrow> f64 \<times> f64" where
  "WealthDistribution s =
     (let wealths = sort (living_wealths s); n = length wealths;
          totalWealth = sum_list wealths;
          mid = n div 2; top = n - n div 10;
          poorSum = sum_list (take mid wealths);
          richSum = sum_list (drop top wealths)
      in if n < 2 then (0, 0)
         else if totalWealth = 0 then (0, 0)
         else (flt_of_word poorSum / flt_of_word totalWealth, flt_of_word richSum / flt_of_word totalWealth))"

definition mean_coherence :: "Agent list \<Rightarrow> f64" where
  "mean_coherence as =
     (let living = filter Alive as in
      if living = [] then 0
      else sum_in_order (\<lambda>a. float64 (CittaCoherence (Soul a))) living / flt_of_int (int (length living)))"

definition AvgCoherence :: "Sim \<Rightarrow> f64" where
  "AvgCoherence s = mean_coherence (map (agent s) (Agents s))"

subsection \<open>Construction\<close>

text \<open>
  The arguments are the heaps of the given objects and the slices of pointers.
  Maps start empty; the template table and the bump counter are package
  variables with their initial values.
\<close>

definition zero_weather :: SimWeather where
  "zero_weather = \<lparr>TempModifier = 0, FoodDecayMod = 0, TravelPenalty = 0, WDescription = []\<rparr>"

definition zero_stats :: SimStats where
  "zero_stats = \<lparr>TotalPopulation = 0, TotalWealth = 0, Deaths = 0, Births = 0, AvgMood = 0, AvgSatisfaction = 0,
     AvgAlignment = 0, AvgSurvival = 0, TradeVolume = 0, OccupationCounts = (\<lambda>_. 0), OccupationSat = (\<lambda>_. 0),
     OccupationSurvival = (\<lambda>_. 0), OccupationSafety = (\<lambda>_. 0), OccupationBelonging = (\<lambda>_. 0),
     OccupationPurpose = (\<lambda>_. 0), OccupationEsteem = (\<lambda>_. 0), ProducersWorking = 0, ProducersIdle = 0\<rparr>"

text \<open>\<^verbatim>\<open>index[x.ID] = x\<close> over a slice: the last object with an ID wins.\<close>

definition index_by :: "(ptr \<Rightarrow> uint64) \<Rightarrow> ptr list \<Rightarrow> uint64 \<Rightarrow> ptr option" where
  "index_by key ps = fold (\<lambda>p m. m(key p \<mapsto> p)) ps Map.empty"

text \<open>\<^verbatim>\<open>m[*a.HomeSettID] = append(m[*a.HomeSettID], a)\<close> over a slice.\<close>

definition residents :: "(ptr \<Rightarrow> Agent) \<Rightarrow> ptr list \<Rightarrow> uint64 \<Rightarrow> ptr list" where
  "residents h ps =
     fold (\<lambda>p m. case HomeSettID (h p) of None \<Rightarrow> m | Some i \<Rightarrow> m(i := m i @ [p])) ps (\<lambda>_. [])"

definition fresh_sim :: "Map \<Rightarrow> (ptr \<Rightarrow> Agent) \<Rightarrow> ptr list \<Rightarrow> (ptr \<Rightarrow> Settlement) \<Rightarrow> ptr list \<Rightarrow> (ptr \<Rightarrow> Faction) \<Rightarrow> Sim" where
  "fresh_sim m ah ag sh setts fh =
       \<lparr>agent = ah,
        settl = fold (\<lambda>p h. upd p (\<lambda>t. t\<lparr>SMarket := Some (NewMarket (SID t))\<rparr>) h) setts sh,
        fact = fh, WorldMap = m, Agents = ag, AgentIndex = index_by (\<lambda>p. AID (ah p)) ag,
        Settlements = setts, Events = [], LastTick = 0,
        SettlementIndex = index_by (\<lambda>p. SID (sh p)) setts, SettlementAgents = residents ah ag,
        Factions = [], CurrentSeason = 0, CurrentWeather = zero_weather, AbandonedWeeks = (\<lambda>_. 0),
        NonViableWeeks = (\<lambda>_. 0), DoctrineFailWeeks = Map.empty, ActiveBoosts = [], HeatStreakHours = 0,
        LiberatedSpiritsPool = 0, Relations = Map.empty, TradeTracker = Map.empty, TradeRoutes = Map.empty,
        Agreements = Map.empty, PeaceTreaties = Map.empty, RaidCounts = Map.empty,
        SettlementNeighbors = (\<lambda>_. []), SettlementTradeNeighbors = (\<lambda>_. []), crimeBonusCache = (\<lambda>_. 0),
        eventSubs = Map.empty, nextSubID = 0, Stats = zero_stats, tickCoherenceCache = Map.empty,
        prodHexCache = Map.empty, LastArchetypeSeason = 0, archetypeInitialized = False,
        SatBumps = (\<lambda>_. 0), Archetypes = archetypeTemplates\<rparr>"

definition NewSimulation :: "Map \<Rightarrow> (ptr \<Rightarrow> Agent) \<Rightarrow> ptr list \<Rightarrow> (ptr \<Rightarrow> Settlement) \<Rightarrow> ptr list \<Rightarrow> (ptr \<Rightarrow> Faction) \<Rightarrow> Sim" where
  "NewSimulation m ah ag sh setts fh = updateStats (initSettlementClaims (fresh_sim m ah ag sh setts fh))"

subsection \<open>Deaths and inheritance\<close>

definition createSettlementMemories :: "uint64 \<Rightarrow> uint64 \<Rightarrow> string \<Rightarrow> f32 \<Rightarrow> Sim \<Rightarrow> Sim" where
  "createSettlementMemories settID tick content importance s =
     fold (\<lambda>p s. if Alive (agent s p) \<and> Tier (agent s p) = Tier2
              then upd_agent p (AddMemory tick content importance) s else s) (SettlementAgents s settID) s"

text \<open>The inventory of the deceased goes to the market's supply.\<close>

definition add_stock :: "GoodInventory \<Rightarrow> Market \<Rightarrow> Market" where
  "add_stock stock m = map_entries (\<lambda>good e. if 0 < stock good then e\<lparr>Supply := Supply e + flt_of_int (stock good)\<rparr> else e) m"

definition bequeath :: "ptr \<Rightarrow> ptr \<Rightarrow> Sim \<Rightarrow> Sim" where
  "bequeath p sp s =
     (let a = agent s p;
          treasuryShare = Wealth a div 2;
          agentShare = Wealth a - treasuryShare;
          s1 = upd_settl sp (gain_treasury treasuryShare) s;
          s2 = (case find_first (\<lambda>h. Alive (agent s1 h) \<and> AID (agent s1 h) \<noteq> AID a)
                       (SettlementAgents s1 (SID (settl s1 sp))) of
                  Some heir \<Rightarrow> upd_agent heir (gain_wealth agentShare) s1
                | None \<Rightarrow> if 0 < agentShare then upd_settl sp (gain_treasury agentShare) s1 else s1)
      in upd_settl sp (\<lambda>t. t\<lparr>SMarket := map_option (add_stock (Inventory a)) (SMarket t)\<rparr>) s2)"

definition inheritWealth :: "ptr \<Rightarrow> Sim \<Rightarrow> Sim" where
  "inheritWealth p s =
     (if Wealth (agent s p) = 0 \<and> inv_IsEmpty (Inventory (agent s p)) then s
      else upd_agent p (\<lambda>a. a\<lparr>Wealth := 0, Inventory := inv_Clear (Inventory a)\<rparr>)
             (case Option.bind (HomeSettID (agent s p)) (SettlementIndex s) of
                None \<Rightarrow> s | Some sp \<Rightarrow> bequeath p sp s))"

definition mourns :: "uint64 \<Rightarrow> Agent \<Rightarrow> bool" where
  "mourns deadID w \<longleftrightarrow> Alive w \<and> AID w \<noteq> deadID
     \<and> list_ex (\<lambda>rel. TargetID rel = deadID \<and> float32 Matter \<le> Sentiment rel) (Relationships w)"

definition handleAgentDeath :: "ptr \<Rightarrow> uint64 \<Rightarrow> Sim \<Rightarrow> Sim" where
  "handleAgentDeath p tick s =
     (let a = agent s p;
          deathDesc = AName a @ '' has died'';
          s1 = s\<lparr>Stats := (Stats s)\<lparr>Deaths := Deaths (Stats s) + 1\<rparr>\<rparr>;
          s2 = emit tick deathDesc CategoryDeath s1;
          s3 = inheritWealth p s2
      in case HomeSettID a of
           None \<Rightarrow> s3
         | Some i \<Rightarrow>
             let s4 = createSettlementMemories i tick deathDesc (lit 0.6) s3 in
             fold (\<lambda>w s. if mourns (AID a) (agent s w)
                      then upd_agent w (\<lambda>b. b\<lparr>Soul := AdjustCoherence (float32 (Agnosis * lit 0.025)) (Soul b)\<rparr>) s
                      else s) (SettlementAgents s4 i) s4)"

subsection \<open>Daily coherence and scholarship\<close>

definition processTier1Growth :: "Sim \<Rightarrow> Sim" where
  "processTier1Growth s = fold (\<lambda>p s. upd_agent p (ApplyTier1CoherenceGrowth (Archetypes s)) s) (Agents s) s"

definition baseline_growth :: "Agent \<Rightarrow> Agent" where
  "baseline_growth a =
     (if Alive a \<and> float32 Matter < OverallSatisfaction (Needs a) \<and> 20 < Age a
      then a\<lparr>Soul := AdjustCoherence (float32 (Agnosis * lit 0.001)) (Soul a)\<rparr> else a)"

definition processBaselineCoherence :: "Sim \<Rightarrow> Sim" where
  "processBaselineCoherence s = fold (\<lambda>p s. upd_agent p baseline_growth s) (Agents s) s"

definition governance_target :: "Sim \<Rightarrow> Settlement \<Rightarrow> f64" where
  "governance_target s sett =
     (case Option.bind (SLeaderID sett) (AgentIndex s) of
        None \<Rightarrow> lit 0.3
      | Some l \<Rightarrow> if Alive (agent s l) then lit 0.3 + float64 (CittaCoherence (Soul (agent s l))) * lit 0.5
                  else lit 0.3)"

definition is_scholar :: "Agent \<Rightarrow> bool" where
  "is_scholar a \<longleftrightarrow> Alive a \<and> AOccupation a = OccupationScholar"

definition scholar_score :: "f64 \<Rightarrow> int \<Rightarrow> Settlement \<Rightarrow> f64" where
  "scholar_score target scholarCount sett =
     (let scholarRatio = flt_of_int scholarCount / (flt_of_word (Population sett) + 1);
          nudge0 = scholarRatio * Agnosis;
          nudge = (if target < GovernanceScore sett + nudge0
                   then let d = target - GovernanceScore sett in if d < 0 then 0 else d
                   else nudge0);
          score = GovernanceScore sett + nudge
      in if 1 < score then 1 else score)"

definition scholar_day :: "ptr \<Rightarrow> Sim \<Rightarrow> Sim" where
  "scholar_day sp s =
     (let settAgents = SettlementAgents s (SID (settl s sp));
          scholarCount = int (length (filter (\<lambda>p. is_scholar (agent s p)) settAgents))
      in if scholarCount = 0 then s
         else let target = governance_target s (settl s sp);
                  s1 = upd_settl sp (\<lambda>t. t\<lparr>GovernanceScore := scholar_score target scholarCount t\<rparr>) s
              in fold (\<lambda>p s. if is_scholar (agent s p)
                         then upd_agent p (\<lambda>a. let a1 = add_needs 0 (lit 0.02) (lit 0.03) (lit 0.03) (lit 0.05) a
                                               in a1\<lparr>Needs := clampAgentNeeds (Needs a1)\<rparr>) s
                         else s) settAgents s1)"

definition applyScholarBonus :: "Sim \<Rightarrow> Sim" where
  "applyScholarBonus s = fold scholar_day (Settlements s) s"

subsection \<open>Rosters and neighbours\<close>

definition updateSettlementPopulations :: "Sim \<Rightarrow> Sim" where
  "updateSettlementPopulations s =
     fold (\<lambda>sp s. let alive = fold (\<lambda>p n. if Alive (agent s p) then n + 1 else n)
                                (SettlementAgents s (SID (settl s sp))) 0
              in upd_settl sp (\<lambda>t. t\<lparr>Population := alive\<rparr>) s) (Settlements s) s"

definition rebuildSettlementAgents :: "Sim \<Rightarrow> Sim" where
  "rebuildSettlementAgents s =
     updateSettlementPopulations
       (s\<lparr>SettlementAgents := residents (agent s) (filter (\<lambda>p. Alive (agent s p)) (Agents s))\<rparr>)"

definition prune_relationships :: "(uint64 \<Rightarrow> ptr option) \<Rightarrow> Agent \<Rightarrow> Agent" where
  "prune_relationships newIndex a =
     a\<lparr>Relationships := filter (\<lambda>r. newIndex (TargetID r) \<noteq> None) (Relationships a)\<rparr>"

definition compactDeadAgents :: "Sim \<Rightarrow> Sim" where
  "compactDeadAgents s =
     (let alive = filter (\<lambda>p. Alive (agent s p)) (Agents s);
          newIndex = index_by (\<lambda>p. AID (agent s p)) alive
      in if length alive = length (Agents s) then s
         else let s1 = s\<lparr>Agents := alive, AgentIndex := newIndex\<rparr>;
                  s2 = fold (\<lambda>p s. upd_agent p (prune_relationships newIndex) s) alive s1
              in rebuildSettlementAgents s2)"

definition link :: "Sim \<Rightarrow> ptr \<Rightarrow> ptr \<Rightarrow> (uint64 \<Rightarrow> ptr list) \<Rightarrow> uint64 \<Rightarrow> ptr list" where
  "link s p q nb =
     (let a = settl s p; b = settl s q in
      if Population b = 0 then nb
      else if Distance (SPosition a) (SPosition b) \<le> 10
      then let nb1 = nb(SID a := nb (SID a) @ [q]) in nb1(SID b := nb1 (SID b) @ [p])
      else nb)"

fun neighbor_pass :: "Sim \<Rightarrow> ptr list \<Rightarrow> (uint64 \<Rightarrow> ptr list) \<Rightarrow> uint64 \<Rightarrow> ptr list" where
  "neighbor_pass s [] nb = nb"
| "neighbor_pass s (p # ps) nb =
     neighbor_pass s ps (if Population (settl s p) = 0 then nb else fold (link s p) ps nb)"

definition BuildSettlementNeighbors :: "Sim \<Rightarrow> Sim" where
  "BuildSettlementNeighbors s =
     (let neighbors = neighbor_pass s (Settlements s) (\<lambda>_. []);
          trade = (\<lambda>i. case SettlementIndex s i of
              None \<Rightarrow> []
            | Some sp \<Rightarrow> filter (\<lambda>nb. Distance (SPosition (settl s sp)) (SPosition (settl s nb)) \<le> 5
                                    \<and> SMarket (settl s nb) \<noteq> None) (neighbors i))
      in s\<lparr>SettlementNeighbors := neighbors, SettlementTradeNeighbors := trade\<rparr>)"

subsection \<open>Indices and rosters are what they cache\<close>

lemma index_by_append: "index_by key (ps @ [p]) = (index_by key ps)(key p \<mapsto> p)"
  by (simp add: index_by_def)

lemma index_by_Some: "index_by key ps i = Some p \<Longrightarrow> p \<in> set ps \<and> key p = i"
  by (induction ps rule: rev_induct) (auto simp: index_by_append split: if_splits, simp add: index_by_def)

lemma index_by_distinct:
  "distinct (map key ps) \<Longrightarrow> p \<in> set ps \<Longrightarrow> index_by key ps (key p) = Some p"
  by (induction ps rule: rev_induct) (auto simp: index_by_append, metis image_eqI)

lemma index_by_None: "index_by key ps i = None \<longleftrightarrow> i \<notin> key ` set ps"
  by (induction ps rule: rev_induct) (auto simp: index_by_append index_by_def)

lemma residents_filter: "residents h ps i = filter (\<lambda>p. HomeSettID (h p) = Some i) ps"
proof -
  have "fold (\<lambda>p m. case HomeSettID (h p) of None \<Rightarrow> m | Some i \<Rightarrow> m(i := m i @ [p])) ps m i
      = m i @ filter (\<lambda>p. HomeSettID (h p) = Some i) ps" for m
    by (induction ps arbitrary: m) (auto split: option.splits)
  then show ?thesis by (simp add: residents_def)
qed

lemma claimHex_frame: "\<exists>m. fst (claimHex i c (s, n)) = s\<lparr>WorldMap := m\<rparr>"
  by (auto simp: claimHex_def Let_def upd_hex_def intro: exI [of _ "WorldMap s"] split: option.splits)

lemma claims_frame: "\<exists>m. fst (fold (claimHex i) cs (s, n)) = s\<lparr>WorldMap := m\<rparr>"
proof (induction cs arbitrary: s n)
  case Nil then show ?case by (auto intro: exI [of _ "WorldMap s"])
next
  case (Cons c cs)
  obtain m where m: "fst (claimHex i c (s, n)) = s\<lparr>WorldMap := m\<rparr>" using claimHex_frame by blast
  obtain k where k: "claimHex i c (s, n) = (s\<lparr>WorldMap := m\<rparr>, k)" using m by (cases "claimHex i c (s, n)") auto
  show ?case using Cons.IH [of "s\<lparr>WorldMap := m\<rparr>" k] by (auto simp: k)
qed

lemma claimHexesForSettlement_frame: "\<exists>m. fst (claimHexesForSettlement i s) = s\<lparr>WorldMap := m\<rparr>"
proof (cases "SettlementIndex s i")
  case None then show ?thesis by (auto simp: claimHexesForSettlement_def intro: exI [of _ "WorldMap s"])
next
  case (Some p)
  then show ?thesis
    using claims_frame [of i "SPosition (settl s p) # Neighbors (SPosition (settl s p))" s 0]
    by (simp only: claimHexesForSettlement_def Let_def option.case)
qed

lemma initSettlementClaims_frame: "\<exists>m. initSettlementClaims s = s\<lparr>WorldMap := m\<rparr>"
proof -
  have "\<exists>m. fold (\<lambda>p s. if Population (settl s p) = 0 then s
              else fst (claimHexesForSettlement (SID (settl s p)) s)) ps t = t\<lparr>WorldMap := m\<rparr>" for ps t
  proof (induction ps arbitrary: t)
    case Nil then show ?case by (auto intro: exI [of _ "WorldMap t"])
  next
    case (Cons p ps)
    let ?f = "\<lambda>p s. if Population (settl s p) = 0 then s else fst (claimHexesForSettlement (SID (settl s p)) s)"
    obtain m where m: "?f p t = t\<lparr>WorldMap := m\<rparr>"
    proof (cases "Population (settl t p) = 0")
      case True then show thesis using that [of "WorldMap t"] by simp
    next
      case False then show thesis using that claimHexesForSettlement_frame [of "SID (settl t p)" t] by auto
    qed
    obtain m' where "fold ?f ps (t\<lparr>WorldMap := m\<rparr>) = t\<lparr>WorldMap := m\<rparr>\<lparr>WorldMap := m'\<rparr>" using Cons.IH by blast
    then show ?case by (auto simp: m)
  qed
  then show ?thesis by (simp add: initSettlementClaims_def)
qed

lemma stocked_settl:
  "fold (\<lambda>p h. upd p (\<lambda>t. t\<lparr>SMarket := Some (NewMarket (SID t))\<rparr>) h) setts sh p
    = (if p \<in> set setts then (sh p)\<lparr>SMarket := Some (NewMarket (SID (sh p)))\<rparr> else sh p)"
  by (induction setts arbitrary: sh) (auto simp: upd_def)

lemma updateStats_keeps [simp]:
  "agent (updateStats s) = agent s" "Agents (updateStats s) = Agents s" "settl (updateStats s) = settl s"
  "Settlements (updateStats s) = Settlements s" "Factions (updateStats s) = Factions s"
  "AgentIndex (updateStats s) = AgentIndex s" "SettlementIndex (updateStats s) = SettlementIndex s"
  "SettlementAgents (updateStats s) = SettlementAgents s" "fact (updateStats s) = fact s"
  "Relations (updateStats s) = Relations s" "Events (updateStats s) = Events s"
  by (simp_all add: updateStats_def Let_def)

lemma initSettlementClaims_keeps [simp]:
  "agent (initSettlementClaims s) = agent s" "Agents (initSettlementClaims s) = Agents s"
  "settl (initSettlementClaims s) = settl s" "fact (initSettlementClaims s) = fact s"
  "Settlements (initSettlementClaims s) = Settlements s" "Factions (initSettlementClaims s) = Factions s"
  "AgentIndex (initSettlementClaims s) = AgentIndex s" "SettlementIndex (initSettlementClaims s) = SettlementIndex s"
  "SettlementAgents (initSettlementClaims s) = SettlementAgents s"
  "Relations (initSettlementClaims s) = Relations s" "Events (initSettlementClaims s) = Events s"
  using initSettlementClaims_frame [of s] by auto

lemma NewSimulation_fields:
  "agent (NewSimulation m ah ag sh setts fh) = ah" "Agents (NewSimulation m ah ag sh setts fh) = ag"
  "Settlements (NewSimulation m ah ag sh setts fh) = setts" "Factions (NewSimulation m ah ag sh setts fh) = []"
  "AgentIndex (NewSimulation m ah ag sh setts fh) = index_by (\<lambda>p. AID (ah p)) ag"
  "SettlementIndex (NewSimulation m ah ag sh setts fh) = index_by (\<lambda>p. SID (sh p)) setts"
  "SettlementAgents (NewSimulation m ah ag sh setts fh) = residents ah ag"
  "Relations (NewSimulation m ah ag sh setts fh) = Map.empty" "Events (NewSimulation m ah ag sh setts fh) = []"
  "settl (NewSimulation m ah ag sh setts fh) p =
     (if p \<in> set setts then (sh p)\<lparr>SMarket := Some (NewMarket (SID (sh p)))\<rparr> else sh p)"
  by (simp_all add: NewSimulation_def, simp_all add: fresh_sim_def stocked_settl)

lemma NewSimulation_ok:
  assumes "distinct ag" "distinct (map (\<lambda>p. SID (sh p)) setts)"
  shows "sim_ok (NewSimulation m ah ag sh setts fh)"
  using assms index_by_Some index_by_distinct [OF assms(2)]
  by (auto simp: sim_ok_def NewSimulation_fields residents_filter distinct_map)

end
