(* ===== verification/Fiscal_Laws.thy ===== *)
theory Fiscal_Laws
  imports Fiscal
begin

section \<open>The daily flows conserve crowns\<close>

text \<open>
  Each of the daily flows is a sequence of solvent transfers.  Where the code
  collects an amount in a local variable and books it later (tax revenue,
  paid public works), the proof follows the ledger in which the pending
  amount is already booked.
\<close>

lemma same_frame_simps:
  assumes "same_frame s t"
  shows "Settlements t = Settlements s" "Agents t = Agents s" "SettlementAgents t = SettlementAgents s"
    "SettlementIndex t = SettlementIndex s" "SID (settl t p) = SID (settl s p)"
    "Population (settl t p) = Population (settl s p)" "HomeSettID (agent t p) = HomeSettID (agent s p)"
    "Alive (agent t p) = Alive (agent s p)" "AOccupation (agent t p) = AOccupation (agent s p)"
  using assms by (simp_all add: same_frame_def)

subsection \<open>Taxes\<close>

lemma cap_le: "(if w < x then w else x) \<le> (w :: 'a::linorder)"
  by auto

lemma tax_due_le: "tax_due r w \<le> w"
  unfolding tax_due_def Let_def by (rule cap_le)

definition booked :: "ptr \<Rightarrow> uint64 \<Rightarrow> Sim \<Rightarrow> ledger" where
  "booked sp c s = (led s)(Chest sp := led s (Chest sp) + c)"

lemma tax_one_step:
  assumes "Purse p \<in> A" "Chest sp \<in> A"
  shows "pays A (booked sp (snd st) (fst st)) (booked sp (snd (tax_one sp p st)) (fst (tax_one sp p st)))"
    and "same_frame s (fst st) \<Longrightarrow> same_frame s (fst (tax_one sp p st))"
proof -
  obtain t rev where st: "st = (t, rev)" by (cases st)
  let ?tax = "tax_due (TaxRate (settl t sp)) (Wealth (agent t p))"
  have "booked sp (rev + ?tax) (upd_agent p (lose_wealth ?tax) t) = transfer (Purse p) (Chest sp) ?tax (booked sp rev t)"
    by (auto simp: booked_def transfer_def lose_wealth_def fun_eq_iff add.assoc)
  moreover have "?tax \<le> booked sp rev t (Purse p)" by (simp add: booked_def tax_due_le)
  ultimately have "pays A (booked sp rev t) (booked sp (rev + ?tax) (upd_agent p (lose_wealth ?tax) t))"
    using assms by (simp add: pays_one)
  then show "pays A (booked sp (snd st) (fst st)) (booked sp (snd (tax_one sp p st)) (fst (tax_one sp p st)))"
    by (simp add: st tax_one_def Let_def pays_refl)
  show "same_frame s (fst st) \<Longrightarrow> same_frame s (fst (tax_one sp p st))"
    by (simp add: st tax_one_def Let_def same_frame_upd_agent)
qed

lemma tax_loop:
  assumes "\<And>p. p \<in> set ps \<Longrightarrow> Purse p \<in> A" "Chest sp \<in> A"
  shows "pays A (led s) (led (upd_settl sp (gain_treasury (snd (fold (tax_one sp) ps (s, 0)))) (fst (fold (tax_one sp) ps (s, 0)))))"
    and "same_frame s (fst (fold (tax_one sp) ps (s, 0)))"
proof -
  let ?r = "fold (tax_one sp) ps (s, 0)"
  have step: "pays A (booked sp (snd st) (fst st)) (booked sp (snd (tax_one sp p st)) (fst (tax_one sp p st)))
      \<and> same_frame s (fst (tax_one sp p st))" if "p \<in> set ps" "same_frame s (fst st)" for p st
    using tax_one_step [OF assms(1) [OF that(1)] assms(2)] that(2) by blast
  have r: "pays A (booked sp 0 s) (booked sp (snd ?r) (fst ?r))" "same_frame s (fst ?r)"
    using fold_pays_inv [where L = "\<lambda>st. booked sp (snd st) (fst st)" and I = "\<lambda>st. same_frame s (fst st)"
        and s = "(s, 0)", OF step] by simp_all
  have "booked sp (snd ?r) (fst ?r) = led (upd_settl sp (gain_treasury (snd ?r)) (fst ?r))"
    by (simp add: booked_def gain_treasury_def)
  moreover have "booked sp 0 s = led s" by (simp add: booked_def fun_upd_idem_iff)
  ultimately show "pays A (led s) (led (upd_settl sp (gain_treasury (snd ?r)) (fst ?r)))" using r by simp
  show "same_frame s (fst ?r)" by (rule r)
qed

subsection \<open>Progressive shares\<close>

lemma flt_of_word_less:
  fixes w :: "'w::len word"
  assumes "w < word_of_flt t" "0 \<le> t"
  shows "flt_of_word w \<le> t"
proof -
  have "uint w \<le> uint (word_of_flt t :: 'w word)" using assms(1) by (simp add: word_less_def)
  also have "\<dots> \<le> int_of_flt t"
    using int_of_flt_nonneg [OF assms(2)]
    by (simp add: word_of_flt_def uint_word_of_int zmod_le_nonneg_dividend)
  finally have "(of_int (uint w) :: rat) \<le> of_int (int_of_flt t)" by (simp only: of_int_le_iff)
  also have "\<dots> \<le> rat_of_flt t" by (rule int_of_flt_le [OF assms(2)])
  finally show ?thesis unfolding flt_of_int_def by (rule lit_le)
qed

lemma poverty_weight_nonneg:
  assumes "is_poor t a" "0 \<le> t"
  shows "0 \<le> poverty_weight t a"
  using assms flt_of_word_less [of "Wealth a" t]
  by (simp add: poverty_weight_def is_poor_def flt_divide_nonneg flt_diff_nonneg)

lemma total_weight_mono_acc:
  assumes "0 \<le> t"
  shows "w \<le> fold (\<lambda>p w. if is_poor t (h p) then w + poverty_weight t (h p) else w) ps w"
  by (rule fold_rel [where R = "(\<le>)"])
    (auto simp: flt_add_increase poverty_weight_nonneg [OF _ assms] intro: order_trans)

lemma poverty_weight_le_total:
  assumes "0 \<le> t" "p \<in> set ps" "is_poor t (h p)"
  shows "poverty_weight t (h p) \<le> total_weight t h ps"
proof -
  obtain xs ys where ps: "ps = xs @ p # ys" using split_list [OF assms(2)] by blast
  let ?f = "\<lambda>p w. if is_poor t (h p) then w + poverty_weight t (h p) else w"
  have "poverty_weight t (h p) \<le> ?f p (fold ?f xs 0)"
    using assms(3) flt_add_mono [OF total_weight_mono_acc [OF assms(1)] order_refl, of 0 "poverty_weight t (h p)" h xs]
    by simp
  also have "\<dots> \<le> fold ?f ys (?f p (fold ?f xs 0))" by (rule total_weight_mono_acc [OF assms(1)])
  finally show ?thesis by (simp add: total_weight_def ps)
qed

lemma welfare_threshold_nonneg: "0 \<le> least \<Longrightarrow> 0 \<le> welfare_threshold least h ps"
  by (auto simp: welfare_threshold_def Let_def intro: order_trans)

text \<open>A progressive share of a budget below a power of two stays below it.\<close>

lemma progressive_share:
  assumes "0 \<le> t" "p \<in> set ps" "is_poor t (h p)" "(flt_of_word (budget :: uint64) :: f64) \<le> lit (2 ^ k)" "k < 64"
  shows "unat (progressive_wage budget t (total_weight t h ps) (h p)) \<le> 2 ^ k"
proof -
  have w: "0 \<le> poverty_weight t (h p)" "poverty_weight t (h p) \<le> total_weight t h ps"
    using assms by (simp_all add: poverty_weight_nonneg poverty_weight_le_total)
  have "flt_of_word budget * poverty_weight t (h p) / total_weight t h ps \<le> lit (2 ^ k)"
    by (rule flt_share_le [OF w assms(4)])
  moreover have "0 \<le> flt_of_word budget * poverty_weight t (h p) / total_weight t h ps"
    using w by (intro flt_divide_nonneg flt_mult_nonneg) (auto intro: order_trans)
  ultimately show ?thesis unfolding progressive_wage_def using assms(5) by (intro unat_word_of_flt(2)) simp_all
qed

subsection \<open>Public works\<close>

definition owed :: "ptr \<Rightarrow> uint64 \<Rightarrow> Sim \<Rightarrow> ledger" where
  "owed sp c s = (led s)(Chest sp := led s (Chest sp) - c)"

lemma owed_0 [simp]: "owed sp 0 s = led s"
  by (simp add: owed_def fun_upd_idem_iff)

lemma owed_pay:
  assumes "Wealth (f (agent s p)) = Wealth (agent s p) + wage"
  shows "owed sp (paid + wage) (upd_agent p f s) = transfer (Chest sp) (Purse p) wage (owed sp paid s)"
  using assms by (auto simp: owed_def transfer_def fun_eq_iff diff_diff_eq)

lemma wage_within:
  fixes paid wage pw t :: uint64
  assumes "unat wage \<le> 2 ^ 62" "unat pw \<le> 2 ^ 62" "paid \<le> pw" "paid + wage \<le> pw" "pw \<le> t"
  shows "wage \<le> t - paid"
proof -
  have "unat paid + unat wage < 2 ^ 64" using assms(1-3) by (simp add: word_le_nat_alt)
  then have "unat (paid + wage) = unat paid + unat wage" by (simp add: unat_add_lem [where 'a = 64, simplified, THEN iffD1])
  moreover have "unat (t - paid) = unat t - unat paid"
    using assms(3,5) by (intro unat_minus_le) (rule order_trans)
  ultimately show ?thesis using assms(4,5) by (simp add: word_le_nat_alt)
qed

lemma public_loop:
  fixes h :: "ptr \<Rightarrow> Agent" and pw :: uint64 and thr tw :: f64
  defines "wage \<equiv> \<lambda>p. progressive_wage pw thr tw (h p)"
  assumes "distinct ps" "\<And>p. p \<in> set ps \<Longrightarrow> agent s p = h p"
    and "\<And>p. p \<in> set ps \<Longrightarrow> is_poor thr (h p) \<Longrightarrow> unat (wage p) \<le> 2 ^ 62"
    and "unat pw \<le> 2 ^ 62" "paid \<le> pw" "pw \<le> Treasury (settl s sp)"
    and "\<And>p. p \<in> set ps \<Longrightarrow> Purse p \<in> A" "Chest sp \<in> A"
  shows "pays A (owed sp paid s) (owed sp (snd (for_break (pay_public_work pw thr tw) ps (s, paid)))
      (fst (for_break (pay_public_work pw thr tw) ps (s, paid))))
    \<and> same_frame s (fst (for_break (pay_public_work pw thr tw) ps (s, paid)))"
  using assms(2-)
proof (induction ps arbitrary: s paid)
  case (Cons p ps)
  have a: "agent s p = h p" using Cons.prems(2) by simp
  show ?case
  proof (cases "is_poor thr (h p) \<and> wage p \<noteq> 0 \<and> \<not> pw < paid + wage p")
    case True
    let ?g = "\<lambda>a. let b = gain_wealth (wage p) a; n = Needs b in
      b\<lparr>Needs := clampAgentNeeds (n\<lparr>Belonging := Belonging n + lit 0.002, Safety := Safety n + lit 0.001\<rparr>)\<rparr>"
    let ?s = "upd_agent p ?g s"
    have step: "pay_public_work pw thr tw p (s, paid) = Some (?s, paid + wage p)"
      using True a by (simp add: pay_public_work_def wage_def Let_def)
    have "wage p \<le> owed sp paid s (Chest sp)"
      using wage_within [of "wage p" pw paid "Treasury (settl s sp)"] Cons.prems True
      by (simp add: owed_def not_less)
    then have "pays A (owed sp paid s) (owed sp (paid + wage p) ?s)"
      using Cons.prems by (subst owed_pay) (auto simp: gain_wealth_def Let_def intro: pays_one)
    moreover have frame: "same_frame s ?s"
      by (rule same_frame_upd_agent) (simp_all add: keeps_agent_def gain_wealth_def Let_def)
    moreover have "pays A (owed sp (paid + wage p) ?s) (owed sp (snd (for_break (pay_public_work pw thr tw) ps (?s, paid + wage p)))
        (fst (for_break (pay_public_work pw thr tw) ps (?s, paid + wage p))))
      \<and> same_frame ?s (fst (for_break (pay_public_work pw thr tw) ps (?s, paid + wage p)))"
      using Cons.prems True by (intro Cons.IH) auto
    ultimately show ?thesis using step by (auto intro: pays_trans same_frame_trans)
  next
    case False
    then have "pay_public_work pw thr tw p (s, paid) = Some (s, paid) \<or> pay_public_work pw thr tw p (s, paid) = None"
      using a by (simp add: pay_public_work_def wage_def Let_def) blast
    then show ?thesis
    proof
      assume "pay_public_work pw thr tw p (s, paid) = Some (s, paid)"
      then show ?thesis using Cons.prems by (simp add: Cons.IH)
    qed (simp add: pays_refl)
  qed
qed (simp add: pays_refl)

lemma flt_of_word_pow2: "unat (w :: uint64) \<le> 2 ^ k \<Longrightarrow> flt_of_word w \<le> lit (2 ^ k)"
proof -
  assume "unat w \<le> 2 ^ k"
  then have "int (unat w) \<le> int (2 ^ k)" by (simp only: of_nat_le_iff)
  then have "uint w \<le> 2 ^ k" by simp
  from flt_of_int_mono [OF this] show ?thesis by (simp add: flt_of_int_pow2)
qed

lemma public_works_pays:
  assumes "sim_ok s" "sp \<in> set (Settlements s)"
  shows "pays (accts s) (led s) (led (public_works sp s))" and "same_frame s (public_works sp s)"
proof -
  let ?ps = "SettlementAgents s (SID (settl s sp))"
  let ?pw0 = "word_of_flt (flt_of_word (Population (settl s sp)) * Agnosis * lit 0.5) :: uint64"
  define pw where "pw = (if Treasury (settl s sp) < ?pw0 then Treasury (settl s sp) else ?pw0)"
  define thr where "thr = welfare_threshold (lit 30) (agent s) ?ps"
  define tw where "tw = total_weight thr (agent s) ?ps"
  have thr: "0 \<le> thr" unfolding thr_def by (rule welfare_threshold_nonneg) (simp add: zero_le_lit)
  have "flt_of_word (Population (settl s sp)) * Agnosis * lit 0.5 \<le> lit (2 ^ 32) * 1 * (1 :: f64)"
    using flt_of_word_le [of "Population (settl s sp)"]
    by (intro flt_mult_mono flt_mult_nonneg) (simp_all add: lit_le_one zero_le_lit)
  then have "flt_of_word (Population (settl s sp)) * Agnosis * lit 0.5 \<le> (lit (2 ^ 32) :: f64)" by simp
  then have "unat ?pw0 \<le> 2 ^ 32"
    by (rule unat_word_of_flt(2) [rotated]) (auto intro!: flt_mult_nonneg zero_le_lit)
  moreover have "pw \<le> ?pw0" and T: "pw \<le> Treasury (settl s sp)" by (auto simp: pw_def)
  ultimately have pw: "unat pw \<le> 2 ^ 32" by (simp add: word_le_nat_alt)
  have wage: "unat (progressive_wage pw thr tw (agent s p)) \<le> 2 ^ 62" if "p \<in> set ?ps" "is_poor thr (agent s p)" for p
    using progressive_share [of thr p ?ps "agent s" pw 32, OF thr that flt_of_word_pow2 [OF pw]]
    by (simp add: tw_def)
  let ?r = "for_break (pay_public_work pw thr tw) ?ps (s, 0)"
  have loop: "pays (accts s) (owed sp 0 s) (owed sp (snd ?r) (fst ?r)) \<and> same_frame s (fst ?r)"
    using assms wage T pw by (intro public_loop [where h = "agent s"]) (auto dest: sim_okD)
  have res: "public_works sp s = (if pw = 0 \<or> \<not> 0 < tw then s else upd_settl sp (lose_treasury (snd ?r)) (fst ?r))"
    by (simp add: public_works_def Let_def pw_def thr_def tw_def case_prod_beta)
  have "led (upd_settl sp (lose_treasury (snd ?r)) (fst ?r)) = owed sp (snd ?r) (fst ?r)"
    by (simp add: owed_def lose_treasury_def)
  then show "pays (accts s) (led s) (led (public_works sp s))" using loop by (simp add: res pays_refl)
  show "same_frame s (public_works sp s)"
    using loop by (simp add: res same_frame_upd_settl)
qed

theorem collectTaxes_pays:
  assumes "sim_ok s"
  shows "pays (accts s) (led s) (led (collectTaxes s))" and "same_frame s (collectTaxes s)"
proof -
  have step: "pays (accts s) (led t) (led (tax_settlement sp t)) \<and> same_frame s (tax_settlement sp t)"
    if sp: "sp \<in> set (Settlements s)" and t: "same_frame s t" for sp t
  proof -
    have ok: "sim_ok t" and ac: "accts t = accts s" and sp': "sp \<in> set (Settlements t)"
      using sim_ok_frame [OF t assms] accts_frame [OF t] sp t by (simp_all add: same_frame_simps)
    let ?r = "fold (tax_one sp) (SettlementAgents t (SID (settl t sp))) (t, 0)"
    let ?u = "upd_settl sp (gain_treasury (snd ?r)) (fst ?r)"
    have tax: "pays (accts t) (led t) (led ?u)" "same_frame t (fst ?r)"
      using ok sp' by (intro tax_loop [where A = "accts t"]; auto dest: sim_okD)+
    have fr: "same_frame t ?u" using tax(2) by (simp add: same_frame_upd_settl)
    have "sim_ok ?u" "accts ?u = accts t" "sp \<in> set (Settlements ?u)"
      using sim_ok_frame [OF fr ok] accts_frame [OF fr] sp' fr same_frame_simps(1) [OF fr] by simp_all
    then have "pays (accts t) (led ?u) (led (public_works sp ?u))" "same_frame ?u (public_works sp ?u)"
      using public_works_pays [of ?u sp] by simp_all
    then have "pays (accts t) (led t) (led (public_works sp ?u)) \<and> same_frame s (public_works sp ?u)"
      using tax(1) fr t by (blast intro: pays_trans same_frame_trans)
    then show ?thesis by (simp add: tax_settlement_def Let_def case_prod_beta ac)
  qed
  show "pays (accts s) (led s) (led (collectTaxes s))" "same_frame s (collectTaxes s)"
    unfolding collectTaxes_def
    using fold_pays_inv [where L = led and I = "same_frame s" and s = s, OF step] by simp_all
qed

interpretation tax_phase: closed_phase led collectTaxes accts sim_ok
  by unfold_locales (simp_all add: collectTaxes_pays)

subsection \<open>Wealth decay\<close>

text \<open>
  \<^verbatim>\<open>math.Log2\<close> of a wealth between 20 and \<open>2^64\<close> crowns, in units of
  20, lies between 0 and 64.
\<close>

locale log2_range =
  fixes log2 :: "f64 \<Rightarrow> f64"
  assumes log2_nonneg: "20 < w \<Longrightarrow> 0 \<le> log2 (flt_of_word (w :: uint64) / lit 20)"
    and log2_le: "20 < w \<Longrightarrow> log2 (flt_of_word (w :: uint64) / lit 20) \<le> lit (2 ^ 6)"
begin

lemma scaled_rate:
  assumes "20 < (w :: uint64)"
  defines "r \<equiv> Agnosis * lit 0.01 * (1 + Agnosis * log2 (flt_of_word w / lit 20))"
  shows "0 \<le> r" "lit 2 * r \<le> 1"
proof -
  let ?l = "log2 (flt_of_word w / lit 20)"
  have l: "0 \<le> ?l" "?l \<le> lit (2 ^ 6)" using log2_nonneg log2_le assms(1) by auto
  show "0 \<le> r" unfolding r_def by (intro flt_mult_nonneg flt_add_nonneg) (simp_all add: l zero_le_lit)
  have "1 + Agnosis * ?l \<le> lit (2 ^ 6) + 1 * lit (2 ^ 6)"
    using l rat_of_lit_pow2 [of 6, where 'a = 53 and 'b = 1074]
    by (intro flt_add_mono flt_mult_mono) (simp_all add: flt_le_iff phi_rats)
  also have "\<dots> = lit (2 ^ 7)"
    using rat_of_lit_pow2 [of 6, where 'a = 53 and 'b = 1074] by (simp add: plus_flt_def)
  finally have sum: "1 + Agnosis * ?l \<le> lit (2 ^ 7)" .
  have "Agnosis * lit 0.01 \<le> lit (1 / 2 ^ 2) * lit (1 / 2 ^ 6)"
    by (intro flt_mult_mono zero_le_lit lit_mono) (simp_all add: le_lit phi_rats)
  also have "\<dots> = lit (1 / 2 ^ 8)"
    unfolding times_flt_def by (subst (1 2) rat_of_lit_inv_pow2) simp_all
  finally have base: "Agnosis * lit 0.01 \<le> lit (1 / 2 ^ 8)" .
  have "r \<le> lit (1 / 2 ^ 8) * lit (2 ^ 7)"
    unfolding r_def using sum base l by (intro flt_mult_mono flt_add_nonneg flt_mult_nonneg zero_le_lit) simp_all
  also have "\<dots> = lit (1 / 2 ^ 1)"
    unfolding times_flt_def by (subst rat_of_lit_inv_pow2, simp, subst rat_of_lit_pow2) simp
  finally have "lit 2 * r \<le> lit 2 * lit (1 / 2 ^ 1)" by (rule flt_mult_left_mono) (simp add: zero_le_lit)
  also have "\<dots> = 1"
    using rat_of_lit_pow2 [of 1, where 'a = 53 and 'b = 1074] unfolding times_flt_def
    by (subst rat_of_lit_inv_pow2) simp_all
  finally show "lit 2 * r \<le> 1" .
qed

lemma decay_due_le:
  assumes "20 < w"
  shows "decay_due log2 w \<le> w"
proof -
  let ?r = "Agnosis * lit 0.01 * (1 + Agnosis * log2 (flt_of_word w / lit 20))"
  have "(word_of_flt (flt_of_word (w - 20) * ?r) :: uint64) \<le> w - 20"
    using scaled_rate [OF assms] by (rule half_share_word)
  also have "w - 20 \<le> w" using assms by (simp add: word_le_nat_alt unat_minus_le [OF less_imp_le])
  finally have "(word_of_flt (flt_of_word (w - 20) * ?r) :: uint64) \<le> w" .
  moreover have "1 \<le> w" using assms by (simp add: word_le_nat_alt word_less_nat_alt)
  ultimately show ?thesis by (simp add: decay_due_def Let_def)
qed

lemma decay_one_pays:
  assumes "sim_ok s" "p \<in> set (Agents s)"
    and "Alive (agent s p) \<Longrightarrow> \<exists>i sp. HomeSettID (agent s p) = Some i \<and> SettlementIndex s i = Some sp"
  shows "pays (accts s) (led s) (led (decay_one log2 p s))"
proof (cases "Alive (agent s p) \<and> 20 < Wealth (agent s p)")
  case True
  then obtain i sp where h: "HomeSettID (agent s p) = Some i" "SettlementIndex s i = Some sp" using assms(3) by blast
  let ?d = "decay_due log2 (Wealth (agent s p))"
  have "decay_one log2 p s = upd_settl sp (gain_treasury ?d) (upd_agent p (lose_wealth ?d) s)"
    using True h by (auto simp: decay_one_def Let_def dest: leD)
  moreover have "?d \<le> led s (Purse p)" using True by (simp add: decay_due_le)
  moreover have "Chest sp \<in> accts s" using h assms(1) by (auto dest: sim_okD)
  ultimately show ?thesis using assms(2) by (simp only: led_simps pays_agent_settl accts_intros)
qed (auto simp: decay_one_def Let_def not_less pays_refl)

end

lemma decay_one_frame [frame]: "same_frame s t \<Longrightarrow> same_frame s (decay_one log2 p t)"
  by (simp add: decay_one_def Let_def same_frame_upd_agent same_frame_upd_settl split: option.splits)

text \<open>Every living agent has a home that is indexed.\<close>

definition homed :: "Sim \<Rightarrow> bool" where
  "homed s \<longleftrightarrow> list_all (\<lambda>p. Alive (agent s p) \<longrightarrow>
     (case HomeSettID (agent s p) of None \<Rightarrow> False | Some i \<Rightarrow> SettlementIndex s i \<noteq> None)) (Agents s)"

lemma homedD:
  "homed s \<Longrightarrow> p \<in> set (Agents s) \<Longrightarrow> Alive (agent s p) \<Longrightarrow>
     \<exists>i sp. HomeSettID (agent s p) = Some i \<and> SettlementIndex s i = Some sp"
  by (auto simp: homed_def list_all_iff split: option.splits)

lemma homed_frame: "same_frame s t \<Longrightarrow> homed s \<Longrightarrow> homed t"
  by (auto simp: homed_def same_frame_def list_all_iff split: option.splits)

theorem decayWealth_pays:
  assumes "log2_range log2" "sim_ok s" "homed s"
  shows "pays (accts s) (led s) (led (decayWealth log2 s))" and "same_frame s (decayWealth log2 s)"
proof -
  have step: "pays (accts s) (led t) (led (decay_one log2 p t)) \<and> same_frame s (decay_one log2 p t)"
    if p: "p \<in> set (Agents s)" and t: "same_frame s t" for p t
  proof -
    have "sim_ok t" "homed t" "accts t = accts s" "p \<in> set (Agents t)"
      using sim_ok_frame [OF t assms(2)] homed_frame [OF t assms(3)] accts_frame [OF t] p t
      by (simp_all add: same_frame_simps)
    then show ?thesis
      using log2_range.decay_one_pays [OF assms(1), of t p] homedD [of t p] t by (simp add: decay_one_frame)
  qed
  show "pays (accts s) (led s) (led (decayWealth log2 s))" "same_frame s (decayWealth log2 s)"
    unfolding decayWealth_def
    using fold_pays_inv [where L = led and I = "same_frame s" and s = s, OF step] by simp_all
qed

subsection \<open>Wages and stipends\<close>

lemma pay_wage_pays:
  assumes "pay_wage sp budget thr tw p st = Some st'" "Purse p \<in> A" "Chest sp \<in> A"
  shows "pays A (led (fst st)) (led (fst st'))" and "same_frame s (fst st) \<Longrightarrow> same_frame s (fst st')"
proof -
  obtain t paid where st: "st = (t, paid)" by (cases st)
  define w0 where "w0 = progressive_wage budget thr tw (agent t p)"
  define wage where "wage = (if w0 < 1 then 1 else w0)"
  have cases: "st' = st \<or> (wage \<le> Treasury (settl t sp) \<and>
      fst st' = upd_agent p (gain_wealth wage) (upd_settl sp (lose_treasury wage) t))"
    using assms(1) unfolding st pay_wage_def Let_def prod.case w0_def [symmetric] wage_def [symmetric]
    by (auto simp: not_less split: if_splits)
  then show "pays A (led (fst st)) (led (fst st'))"
    using pays_settl_agent [of wage t sp A p] assms(2,3) by (auto simp only: st fst_conv pays_refl)
  show "same_frame s (fst st) \<Longrightarrow> same_frame s (fst st')"
    using cases by (auto simp: st same_frame_upd_agent same_frame_upd_settl)
qed

lemma pay_stipend_pays:
  assumes "pay_stipend sp stipend cap p st = Some st'" "Purse p \<in> A" "Chest sp \<in> A"
  shows "pays A (led (fst st)) (led (fst st'))" and "same_frame s (fst st) \<Longrightarrow> same_frame s (fst st')"
proof -
  obtain t paid where st: "st = (t, paid)" by (cases st)
  let ?t = "upd_agent p (gain_wealth stipend) (upd_settl sp (lose_treasury stipend) t)"
  have st': "fst st' = upd_counted p (ApplyDirectSatBump (lit 0.08) ''stipend'') (upd_agent p (add_needs 0 (lit 0.003) 0 0 (lit 0.002)) ?t)"
    and le: "stipend \<le> led t (Chest sp)"
    using assms(1) by (auto simp: st pay_stipend_def Let_def split: if_splits)
  have "led (fst st') = led ?t"
    by (simp only: st') (auto simp: fun_eq_iff ApplyDirectSatBump_fst add_needs_def Let_def)
  then show "pays A (led (fst st)) (led (fst st'))"
    using le assms(2,3) by (simp only: st fst_conv led_simps pays_settl_agent)
  show "same_frame s (fst st) \<Longrightarrow> same_frame s (fst st')"
    by (simp add: st st' same_frame_bump same_frame_upd_agent same_frame_upd_settl)
qed

lemma wage_loop:
  assumes "\<And>p. p \<in> set ps \<Longrightarrow> Purse p \<in> A" "Chest sp \<in> A" "same_frame s t"
  shows "pays A (led t) (led (fst (for_break (pay_wage sp budget thr tw) ps (t, 0))))"
    and "same_frame s (fst (for_break (pay_wage sp budget thr tw) ps (t, 0)))"
proof -
  have "pays A (led (fst st)) (led (fst st')) \<and> same_frame s (fst st')"
    if "p \<in> set ps" "same_frame s (fst st)" "pay_wage sp budget thr tw p st = Some st'" for p st st'
    using pay_wage_pays [OF that(3) assms(1) [OF that(1)] assms(2)] that(2) by blast
  from for_break_pays [where L = "\<lambda>st. led (fst st)" and I = "\<lambda>st. same_frame s (fst st)" and xs = ps
      and f = "pay_wage sp budget thr tw" and s = "(t, 0)", OF this] assms(3)
  show "pays A (led t) (led (fst (for_break (pay_wage sp budget thr tw) ps (t, 0))))"
    "same_frame s (fst (for_break (pay_wage sp budget thr tw) ps (t, 0)))" by simp_all
qed

lemma stipend_loop:
  assumes "\<And>p. p \<in> set ps \<Longrightarrow> Purse p \<in> A" "Chest sp \<in> A" "same_frame s t"
  shows "pays A (led t) (led (fst (for_break (pay_stipend sp stipend cap) ps (t, 0))))"
    and "same_frame s (fst (for_break (pay_stipend sp stipend cap) ps (t, 0)))"
proof -
  have "pays A (led (fst st)) (led (fst st')) \<and> same_frame s (fst st')"
    if "p \<in> set ps" "same_frame s (fst st)" "pay_stipend sp stipend cap p st = Some st'" for p st st'
    using pay_stipend_pays [OF that(3) assms(1) [OF that(1)] assms(2)] that(2) by blast
  from for_break_pays [where L = "\<lambda>st. led (fst st)" and I = "\<lambda>st. same_frame s (fst st)" and xs = ps
      and f = "pay_stipend sp stipend cap" and s = "(t, 0)", OF this] assms(3)
  show "pays A (led t) (led (fst (for_break (pay_stipend sp stipend cap) ps (t, 0))))"
    "same_frame s (fst (for_break (pay_stipend sp stipend cap) ps (t, 0)))" by simp_all
qed

text \<open>A loop over the settlements whose steps pay within one settlement and its members.\<close>

lemma settlement_loop_pays:
  assumes "sim_ok s"
    and "\<And>sp t. same_frame s t \<Longrightarrow> Chest sp \<in> accts s \<Longrightarrow>
      (\<And>p. p \<in> set (SettlementAgents t (SID (settl t sp))) \<Longrightarrow> Purse p \<in> accts s) \<Longrightarrow>
      pays (accts s) (led t) (led (f sp t)) \<and> same_frame s (f sp t)"
  shows "pays (accts s) (led s) (led (fold f (Settlements s) s))" and "same_frame s (fold f (Settlements s) s)"
proof -
  have step: "pays (accts s) (led t) (led (f sp t)) \<and> same_frame s (f sp t)"
    if sp: "sp \<in> set (Settlements s)" and t: "same_frame s t" for sp t
  proof -
    have "sim_ok t" "accts t = accts s" using sim_ok_frame [OF t assms(1)] accts_frame [OF t] by simp_all
    then have "Purse p \<in> accts s" if "p \<in> set (SettlementAgents t (SID (settl t sp)))" for p
      using that by (metis accts_intros(1) sim_okD(1))
    then show ?thesis using assms(2) [OF t] sp by auto
  qed
  show "pays (accts s) (led s) (led (fold f (Settlements s) s))" "same_frame s (fold f (Settlements s) s)"
    using fold_pays_inv [where L = led and I = "same_frame s" and s = s and f = f, OF step] by simp_all
qed

theorem paySettlementWages_pays:
  assumes "sim_ok s"
  shows "pays (accts s) (led s) (led (paySettlementWages s))" and "same_frame s (paySettlementWages s)"
proof -
  have step: "pays (accts s) (led t) (led (wages_of r sp t)) \<and> same_frame s (wages_of r sp t)"
    if "same_frame s t" "Chest sp \<in> accts s" "\<And>p. p \<in> set (SettlementAgents t (SID (settl t sp))) \<Longrightarrow> Purse p \<in> accts s"
    for sp t r
    using wage_loop [where A = "accts s" and s = s, OF that(3,2,1)] that(1) by (simp add: wages_of_def Let_def pays_refl)
  show "pays (accts s) (led s) (led (paySettlementWages s))" "same_frame s (paySettlementWages s)"
    unfolding paySettlementWages_def using settlement_loop_pays [OF assms step] by (simp_all add: pays_refl)
qed

theorem payGarrisonStipends_pays:
  assumes "sim_ok s"
  shows "pays (accts s) (led s) (led (payGarrisonStipends s))" and "same_frame s (payGarrisonStipends s)"
proof -
  have step: "pays (accts s) (led t) (led (stipends_of sp t)) \<and> same_frame s (stipends_of sp t)"
    if "same_frame s t" "Chest sp \<in> accts s" "\<And>p. p \<in> set (SettlementAgents t (SID (settl t sp))) \<Longrightarrow> Purse p \<in> accts s"
    for sp t
  proof -
    let ?ps = "filter (\<lambda>p. Alive (agent t p) \<and> AOccupation (agent t p) = OccupationSoldier) (SettlementAgents t (SID (settl t sp)))"
    have "Purse p \<in> accts s" if "p \<in> set ?ps" for p using that \<open>\<And>p. _ \<Longrightarrow> Purse p \<in> accts s\<close> by simp
    from stipend_loop [where A = "accts s" and s = s and ps = ?ps, OF this that(2,1)] that(1)
    show ?thesis by (simp add: stipends_of_def Let_def pays_refl)
  qed
  show "pays (accts s) (led s) (led (payGarrisonStipends s))" "same_frame s (payGarrisonStipends s)"
    unfolding payGarrisonStipends_def using settlement_loop_pays [OF assms step] by simp_all
qed

interpretation wage_phase: closed_phase led paySettlementWages accts sim_ok
  by unfold_locales (simp_all add: paySettlementWages_pays)

interpretation stipend_phase: closed_phase led payGarrisonStipends accts sim_ok
  by unfold_locales (simp_all add: payGarrisonStipends_pays)

subsection \<open>Buying food\<close>

lemma led_upd_agent_neutral [simp]: "Wealth (f (agent s p)) = Wealth (agent s p) \<Longrightarrow> led (upd_agent p f s) = led s"
  by (simp add: fun_upd_idem_iff)

lemma Wealth_add_needs [simp]: "Wealth (add_needs su sa be es pu a) = Wealth a"
  by (simp add: add_needs_def Let_def)

lemma forage_instead_Wealth [simp]: "Wealth (forage_instead a) = Wealth a"
  by (simp add: forage_instead_def)

theorem resolveBuyFood_pays:
  assumes "sim_ok s" "p \<in> set (Agents s)"
  shows "pays (accts s) (led s) (led (resolveBuyFood p s))"
proof (cases "HomeSettID (agent s p)")
  case (Some i)
  show ?thesis
  proof (cases "SettlementIndex s i")
    case sp: (Some sp)
    show ?thesis
    proof (cases "SMarket (settl s sp)")
      case m: (Some m)
      obtain g price where cf: "cheapest_food m = (g, price)" by (cases "cheapest_food m")
      let ?c = "whole_crowns price"
      let ?s = "upd_settl sp (gain_treasury ?c) (upd_agent p (lose_wealth ?c) s)"
      have res: "led (resolveBuyFood p s) = (if ?c \<le> Wealth (agent s p) then led ?s else led s)"
        by (simp add: resolveBuyFood_def Some sp m cf Let_def del: led_upd_agent led_upd_settl)
      have "pays (accts s) (led s) (led ?s)" if "?c \<le> Wealth (agent s p)"
        using that assms sp by (intro pays_agent_settl) (auto dest: sim_okD)
      then show ?thesis unfolding res by (simp add: pays_refl del: led_upd_agent led_upd_settl)
    qed (simp add: resolveBuyFood_def Some sp pays_refl del: led_upd_agent)
  qed (simp add: resolveBuyFood_def Some pays_refl del: led_upd_agent)
qed (simp add: resolveBuyFood_def pays_refl del: led_upd_agent)

subsection \<open>Stipends respect their cap\<close>

lemma for_break_inv:
  assumes "\<And>x s s'. x \<in> set xs \<Longrightarrow> I s \<Longrightarrow> f x s = Some s' \<Longrightarrow> I s'" and "I s"
  shows "I (for_break f xs s)"
  using for_break_rel [of "\<lambda>_ _. True" xs I f s] assms by auto

lemma stipend_invariant:
  assumes "unat stipend \<le> 2 ^ 62" "unat cap \<le> 2 ^ 62"
    and "unat (Treasury (settl t sp)) + unat paid = k" "unat paid \<le> unat cap"
    and "pay_stipend sp stipend cap p (t, paid) = Some (t', paid')"
  shows "unat (Treasury (settl t' sp)) + unat paid' = k" and "unat paid' \<le> unat cap"
proof -
  have le: "\<not> cap < paid + stipend" "\<not> Treasury (settl t sp) < stipend" and paid': "paid' = paid + stipend"
    and t': "settl t' = upd sp (lose_treasury stipend) (settl t)"
    using assms(5) by (auto simp: pay_stipend_def Let_def split: if_splits)
  have "unat paid + unat stipend < 2 ^ 64" using assms(1,2,4) by simp
  then have p: "unat paid' = unat paid + unat stipend"
    unfolding paid' by (simp add: unat_add_lem [where 'a = 64, simplified, THEN iffD1])
  have "unat (Treasury (settl t sp) - stipend) = unat (Treasury (settl t sp)) - unat stipend"
    "unat stipend \<le> unat (Treasury (settl t sp))"
    using le(2) by (simp_all add: unat_minus_le not_less word_le_nat_alt)
  then show "unat (Treasury (settl t' sp)) + unat paid' = k"
    using assms(3) p by (simp add: t' lose_treasury_def)
  show "unat paid' \<le> unat cap" using le(1) by (simp add: paid' not_less word_le_nat_alt)
qed

lemma agnosis_quarter: "Agnosis \<le> lit (1 / 2 ^ 2)"
  by (simp add: le_lit phi_rats)

lemma treasury_share_bound: "flt_of_word (w :: uint64) * Agnosis \<le> (lit (2 ^ 62) :: f64)"
proof -
  have "flt_of_word w * Agnosis \<le> (lit (2 ^ 64) * lit (1 / 2 ^ 2) :: f64)"
    using flt_of_word_le [of w] agnosis_quarter by (intro flt_mult_mono) (auto intro: zero_le_lit)
  also have "\<dots> = lit (2 ^ 62)" unfolding times_flt_def by (subst rat_of_lit_inv_pow2, simp, subst rat_of_lit_pow2) simp
  finally show ?thesis .
qed

theorem stipends_cap:
  "unat (Treasury (settl s sp)) \<le> unat (Treasury (settl (stipends_of sp s) sp))
     + unat (word_of_flt (flt_of_word (Treasury (settl s sp)) * Agnosis) :: uint64)"
proof -
  let ?T = "Treasury (settl s sp)" and ?P = "Population (settl s sp)"
  let ?cap = "word_of_flt (flt_of_word ?T * Agnosis) :: uint64"
  define st0 where "st0 = (word_of_flt (flt_of_word ?T / flt_of_word ?P * Agnosis * lit 0.5) :: uint64)"
  define stp where "stp = (if st0 < 1 then 1 else st0)"
  have cap: "unat ?cap \<le> 2 ^ 62"
    by (rule unat_word_of_flt(2)) (simp_all only: treasury_share_bound, auto intro: flt_mult_nonneg)
  have stp: "unat stp \<le> 2 ^ 62" if "?P \<noteq> 0"
  proof -
    have "1 \<le> uint ?P" using that uint_ge_0 [of ?P] uint_0_iff [of ?P] by linarith
    then have one: "(1 :: f64) \<le> flt_of_word ?P" using flt_of_int_mono [of 1 "uint ?P"] by (simp add: flt_of_int_def)
    have "flt_of_word ?T / flt_of_word ?P \<le> flt_of_word ?T / (1 :: f64)"
      using one by (intro flt_divide_left_mono) simp_all
    then have "flt_of_word ?T / flt_of_word ?P * Agnosis * lit 0.5 \<le> flt_of_word ?T * Agnosis * (1 :: f64)"
      by (intro flt_mult_mono flt_mult_nonneg flt_divide_nonneg) (simp_all add: flt_divide_def lit_le_one zero_le_lit)
    also have "\<dots> \<le> lit (2 ^ 62)" by (simp only: flt_mult_1 treasury_share_bound)
    finally have "unat st0 \<le> 2 ^ 62"
      unfolding st0_def by (rule unat_word_of_flt(2) [rotated]) (auto intro!: flt_mult_nonneg flt_divide_nonneg zero_le_lit)
    then show ?thesis by (simp add: stp_def)
  qed
  define ps where "ps = filter (\<lambda>p. Alive (agent s p) \<and> AOccupation (agent s p) = OccupationSoldier) (SettlementAgents s (SID (settl s sp)))"
  let ?I = "\<lambda>st. unat (Treasury (settl (fst st) sp)) + unat (snd st) = unat ?T \<and> unat (snd st) \<le> unat ?cap"
  have inv: "?I (for_break (pay_stipend sp stp ?cap) ps (s, 0))" if P: "?P \<noteq> 0"
  proof (rule for_break_inv)
    show "?I st'" if "?I st" "pay_stipend sp stp ?cap p st = Some st'" for p st st'
      using stipend_invariant [OF stp [OF P] cap, of "fst st" sp "snd st" "unat ?T" p "fst st'" "snd st'"] that
      by simp
  qed simp
  have eq: "stipends_of sp s = (if ?T = 0 \<or> ?P = 0 then s else if ps = [] then s
      else fst (for_break (pay_stipend sp stp ?cap) ps (s, 0)))"
    by (simp only: stipends_of_def Let_def ps_def [symmetric] st0_def [symmetric] stp_def [symmetric])
  show ?thesis
  proof (cases "?T = 0 \<or> ?P = 0 \<or> ps = []")
    case False
    then have "stipends_of sp s = fst (for_break (pay_stipend sp stp ?cap) ps (s, 0))" and P: "?P \<noteq> 0"
      by (simp_all only: eq) simp_all
    with inv [OF P] show ?thesis by (metis add_le_cancel_left)
  qed (auto simp: eq)
qed

subsection \<open>A logarithm that satisfies the contract\<close>

text \<open>The integer part of the logarithm: exact on powers of two, and in range for every fortune.\<close>

definition floor_log2 :: "f64 \<Rightarrow> f64" where
  "floor_log2 x = flt_of_int (ilog2 (rat_of_flt x))"

lemma rat_lit_20: "rat_of_flt (lit 20 :: f64) = 20"
  unfolding rat_of_flt_lit by (subst rnd_exact [where m = 20 and e = 0]) auto

lemma fortune_ratio:
  assumes "20 < (w :: uint64)"
  shows "1 \<le> rat_of_flt (flt_of_word w / lit 20 :: f64)" "rat_of_flt (flt_of_word w / lit 20 :: f64) < 2 powi 65"
proof -
  have "(20 :: int) \<le> uint w" using assms by (simp add: word_less_def)
  then have "flt_of_int 20 \<le> (flt_of_word w :: f64)" by (rule flt_of_int_mono)
  then have "lit 20 \<le> (flt_of_word w :: f64)" by (simp add: flt_of_int_def [of 20])
  then have "lit 20 / lit 20 \<le> (flt_of_word w / lit 20 :: f64)"
    by (rule flt_divide_right_mono) (simp add: zero_le_lit)
  moreover have "lit 20 / lit 20 = (1 :: f64)" by (simp add: flt_divide_def rat_lit_20)
  ultimately show "1 \<le> rat_of_flt (flt_of_word w / lit 20 :: f64)" by (simp add: flt_le_iff)
  have "flt_of_word w / lit 20 \<le> (flt_of_word w :: f64)"
    unfolding flt_divide_def [of "flt_of_word w"]
    by (rule lit_le) (simp add: rat_lit_20 flt_of_word_nonneg [unfolded flt_le_iff, simplified] divide_le_eq)
  also have "\<dots> \<le> lit (2 ^ 64)" using flt_of_word_le [of w] by simp
  finally show "rat_of_flt (flt_of_word w / lit 20 :: f64) < 2 powi 65"
    using rat_of_lit_pow2 [of 64, where 'a = 53 and 'b = 1074] by (simp add: flt_le_iff)
qed

interpretation floor_log2: log2_range floor_log2
proof
  fix w :: uint64 assume w: "20 < w"
  let ?x = "rat_of_flt (flt_of_word w / lit 20 :: f64)"
  have "0 \<le> ilog2 ?x" using fortune_ratio [OF w] by (intro ilog2_ge) simp
  then show "0 \<le> floor_log2 (flt_of_word w / lit 20)" by (simp add: floor_log2_def flt_of_int_nonneg)
  have "ilog2 ?x \<le> 64" using ilog2_less [of ?x 65] fortune_ratio [OF w] by simp
  then have "flt_of_int (ilog2 ?x) \<le> flt_of_int (2 ^ 6)" by (intro flt_of_int_mono) simp
  then show "floor_log2 (flt_of_word w / lit 20) \<le> lit (2 ^ 6)" by (simp only: floor_log2_def flt_of_int_pow2)
qed

text \<open>The price asked is that of the cheaper food among those with a price.\<close>

lemma cheapest_food_least:
  "g \<in> {GoodGrain, GoodFish} \<Longrightarrow> Entries m g = Some e \<Longrightarrow> 0 < Price e \<Longrightarrow> snd (cheapest_food m) \<le> Price e"
  by (auto simp: cheapest_food_def split: option.splits)

lemma cheapest_food_entry:
  "Entries m GoodGrain = Some x \<Longrightarrow> \<exists>e. Entries m (fst (cheapest_food m)) = Some e \<and> snd (cheapest_food m) = Price e"
  by (auto simp: cheapest_food_def split: option.splits)

lemma buy_food_effect:
  assumes "HomeSettID (agent s p) = Some i" "SettlementIndex s i = Some sp" "SMarket (settl s sp) = Some m"
    and "cheapest_food m = (good, price)"
  shows "led (resolveBuyFood p s) =
      (if whole_crowns price \<le> Wealth (agent s p) then transfer (Purse p) (Chest sp) (whole_crowns price) (led s) else led s)"
    and "Inventory (agent (resolveBuyFood p s) p) =
      (let g = (if whole_crowns price \<le> Wealth (agent s p) then good else GoodGrain) in
        (Inventory (agent s p))(g := Inventory (agent s p) g + 1))"
    and "q \<noteq> p \<Longrightarrow> agent (resolveBuyFood p s) q = agent s q"
proof -
  note d = resolveBuyFood_def assms Let_def
  show "led (resolveBuyFood p s) =
      (if whole_crowns price \<le> Wealth (agent s p) then transfer (Purse p) (Chest sp) (whole_crowns price) (led s) else led s)"
    by (simp add: d pay_agent_settl [symmetric] del: led_upd_agent led_upd_settl)
  show "Inventory (agent (resolveBuyFood p s) p) =
      (let g = (if whole_crowns price \<le> Wealth (agent s p) then good else GoodGrain) in
        (Inventory (agent s p))(g := Inventory (agent s p) g + 1))"
    by (simp add: d add_needs_def inv_add_def lose_wealth_def)
  show "q \<noteq> p \<Longrightarrow> agent (resolveBuyFood p s) q = agent s q" by (simp add: d)
qed

end
