(* ===== verification/Lifecycle_Laws.thy ===== *)
theory Lifecycle_Laws
  imports Lifecycle Fiscal_Laws
begin

section \<open>Laws of deaths, rosters and neighbour lists\<close>

text \<open>
  An inheritance pays the purse of the deceased out to the treasury and to one
  heir; the weekly compaction leaves exactly the living agents, an exact
  index, rosters by home and no relationship to a removed agent; neighbour
  lists are symmetric and hold exactly the inhabited settlements in range.
\<close>

subsection \<open>Inheritance\<close>

lemma led_same [simp]:
  "(led s)(Purse p := Wealth (agent s p)) = led s" "(led s)(Chest q := Treasury (settl s q)) = led s"
  by (auto simp: fun_eq_iff)

lemma led_market [simp]: "led (upd_settl sp (\<lambda>t. t\<lparr>SMarket := m t\<rparr>) s) = led s"
  by (rule led_eqI) (simp_all add: upd_def)

lemma share_split: "(w :: uint64) div 2 \<le> w" "w - w div 2 \<le> w" "w - w div 2 = w - (w div 2)"
  by (simp_all add: word_le_nat_alt unat_div unat_minus_le)

text \<open>The heir, as the loop over the roster finds them.\<close>

definition heir_of :: "Sim \<Rightarrow> ptr \<Rightarrow> ptr \<Rightarrow> ptr option" where
  "heir_of s p sp = find_first (\<lambda>h. Alive (agent s h) \<and> AID (agent s h) \<noteq> AID (agent s p))
     (SettlementAgents s (SID (settl s sp)))"

lemma led_inheritWealth:
  assumes home: "Option.bind (HomeSettID (agent s p)) (SettlementIndex s) = Some sp"
  shows "led (inheritWealth p s) =
    transfer (Purse p) (case heir_of s p sp of Some h \<Rightarrow> Purse h | None \<Rightarrow> Chest sp)
      (Wealth (agent s p) - Wealth (agent s p) div 2)
      (transfer (Purse p) (Chest sp) (Wealth (agent s p) div 2) (led s))"
proof (cases "Wealth (agent s p) = 0 \<and> inv_IsEmpty (Inventory (agent s p))")
  case True then show ?thesis by (simp add: inheritWealth_def)
next
  case False
  let ?w = "Wealth (agent s p)"
  have heir: "h \<noteq> p" if "heir_of s p sp = Some h" for h
    using find_first_Some [OF that [unfolded heir_of_def]] by auto
  have eq: "led (inheritWealth p s) = (led (bequeath p sp s))(Purse p := 0)"
    using False home by (auto simp: inheritWealth_def fun_eq_iff)
  have sid: "SID (gain_treasury c t) = SID t" for c t by (simp add: gain_treasury_def)
  show ?thesis
  proof (cases "heir_of s p sp")
    case None
    then have f: "find_first (\<lambda>h. Alive (agent s h) \<and> AID (agent s h) \<noteq> AID (agent s p))
        (SettlementAgents s (SID (settl s sp))) = None" by (simp add: heir_of_def)
    show ?thesis
      unfolding eq by (rule ext) (auto simp: bequeath_def Let_def f upd_def sid None transfer_def gain_treasury_def word_gt_0)
  next
    case (Some h)
    then have f: "find_first (\<lambda>h. Alive (agent s h) \<and> AID (agent s h) \<noteq> AID (agent s p))
        (SettlementAgents s (SID (settl s sp))) = Some h" by (simp add: heir_of_def)
    show ?thesis using heir [OF Some]
      unfolding eq by (intro ext) (auto simp: bequeath_def Let_def f upd_def sid Some transfer_def gain_treasury_def gain_wealth_def)
  qed
qed

lemma inheritWealth_pays:
  assumes "sim_ok s" "p \<in> set (Agents s)"
    and home: "Option.bind (HomeSettID (agent s p)) (SettlementIndex s) = Some sp"
  shows "pays (accts s) (led s) (led (inheritWealth p s))"
proof -
  let ?w = "Wealth (agent s p)"
  obtain i where i: "SettlementIndex s i = Some sp" using home by (cases "HomeSettID (agent s p)") auto
  have chest: "Chest sp \<in> accts s" using sim_okD(3) [OF assms(1) i] by auto
  have dest: "(case heir_of s p sp of Some h \<Rightarrow> Purse h | None \<Rightarrow> Chest sp) \<in> accts s"
    using chest sim_okD(1) [OF assms(1)] by (auto simp: heir_of_def dest!: find_first_Some split: option.splits)
  have purse: "Purse p \<in> accts s" using assms(2) by auto
  show ?thesis unfolding led_inheritWealth [OF home]
  proof (rule pays_step [OF pays_one [OF purse chest] purse dest])
    show "?w div 2 \<le> led s (Purse p)" by (simp add: share_split)
    show "?w - ?w div 2 \<le> transfer (Purse p) (Chest sp) (?w div 2) (led s) (Purse p)"
      by (simp add: transfer_def)
  qed
qed

text \<open>Without a home settlement the fortune is cleared and nobody receives it.\<close>

lemma inheritWealth_homeless:
  assumes "Option.bind (HomeSettID (agent s p)) (SettlementIndex s) = None"
  shows "led (inheritWealth p s) = (led s)(Purse p := 0)"
  using assms by (auto simp: inheritWealth_def fun_eq_iff)

text \<open>The rest of a death moves no crowns.\<close>

lemma AddMemory_Wealth [simp]: "Wealth (AddMemory t c i a) = Wealth a"
  by (simp add: AddMemory_def Let_def)

lemma fold_led:
  assumes "\<And>x t. led (f x t) = led t"
  shows "led (fold f xs s) = led s"
  by (induction xs arbitrary: s) (simp_all add: assms)

lemma createSettlementMemories_led [simp]: "led (createSettlementMemories i t c im s) = led s"
  unfolding createSettlementMemories_def by (rule fold_led) simp

lemma led_stats [simp]: "led (s\<lparr>Stats := x\<rparr>) = led s"
  by (rule led_eqI) simp_all

lemma inheritWealth_frame [simp]:
  "Agents (inheritWealth p s) = Agents s" "Settlements (inheritWealth p s) = Settlements s"
  "SettlementAgents (inheritWealth p s) = SettlementAgents s"
  by (simp_all add: inheritWealth_def bequeath_def Let_def split: option.splits)

lemma led_handleAgentDeath:
  "led (handleAgentDeath p tick s) =
    led (inheritWealth p (emit tick (AName (agent s p) @ '' has died'') CategoryDeath
      (s\<lparr>Stats := (Stats s)\<lparr>Deaths := Deaths (Stats s) + 1\<rparr>\<rparr>)))"
proof (cases "HomeSettID (agent s p)")
  case None then show ?thesis by (simp add: handleAgentDeath_def Let_def)
next
  case (Some i) then show ?thesis by (simp add: handleAgentDeath_def Let_def, subst fold_led, simp_all)
qed

lemma sim_ok_cong:
  "sim_ok s \<Longrightarrow> Settlements t = Settlements s \<Longrightarrow> Agents t = Agents s \<Longrightarrow> SettlementIndex t = SettlementIndex s
    \<Longrightarrow> SettlementAgents t = SettlementAgents s \<Longrightarrow> (\<And>p. SID (settl t p) = SID (settl s p)) \<Longrightarrow> sim_ok t"
  by (simp add: sim_ok_def)

lemma handleAgentDeath_pays:
  assumes "sim_ok s" "p \<in> set (Agents s)"
    and home: "Option.bind (HomeSettID (agent s p)) (SettlementIndex s) = Some sp"
  shows "pays (accts s) (led s) (led (handleAgentDeath p tick s))"
proof -
  let ?s = "emit tick (AName (agent s p) @ '' has died'') CategoryDeath
      (s\<lparr>Stats := (Stats s)\<lparr>Deaths := Deaths (Stats s) + 1\<rparr>\<rparr>)"
  have "sim_ok ?s" by (rule sim_ok_cong [OF assms(1)]) simp_all
  moreover have "accts ?s = accts s" by (simp add: accts_def emit_def EmitEvent_def)
  ultimately show ?thesis
    using inheritWealth_pays [of ?s p sp] assms(2) home by (simp add: led_handleAgentDeath)
qed

subsection \<open>Compaction\<close>

lemma upd_same_fold_agent:
  assumes "\<And>a. F (f a) = F a"
  shows "F (agent (fold (\<lambda>p s. upd_agent p f s) ps s) q) = F (agent s q)"
  by (induction ps arbitrary: s) (auto simp: upd_def assms)

lemma fold_upd_agent_frame:
  "Agents (fold (\<lambda>p s. upd_agent p f s) ps s) = Agents s"
  "Settlements (fold (\<lambda>p s. upd_agent p f s) ps s) = Settlements s"
  "settl (fold (\<lambda>p s. upd_agent p f s) ps s) = settl s"
  "SettlementIndex (fold (\<lambda>p s. upd_agent p f s) ps s) = SettlementIndex s"
  "AgentIndex (fold (\<lambda>p s. upd_agent p f s) ps s) = AgentIndex s"
  by (induction ps arbitrary: s) (simp_all add: upd_agent_def)

lemma fold_upd_agent_value:
  "distinct ps \<Longrightarrow> agent (fold (\<lambda>p s. upd_agent p f s) ps s) q = (if q \<in> set ps then f (agent s q) else agent s q)"
  by (induction ps arbitrary: s) (auto simp: upd_def)

lemma population_count: "fold (\<lambda>p n. if P p then n + 1 else n) ps (k :: 'a::len word) = k + of_nat (length (filter P ps))"
  by (induction ps arbitrary: k) (simp_all add: add.assoc)

lemma updateSettlementPopulations_fields [simp]:
  "agent (updateSettlementPopulations s) = agent s" "Agents (updateSettlementPopulations s) = Agents s"
  "Settlements (updateSettlementPopulations s) = Settlements s"
  "SettlementAgents (updateSettlementPopulations s) = SettlementAgents s"
  "SettlementIndex (updateSettlementPopulations s) = SettlementIndex s"
  "AgentIndex (updateSettlementPopulations s) = AgentIndex s"
  "SID (settl (updateSettlementPopulations s) p) = SID (settl s p)"
proof -
  let ?f = "\<lambda>sp s. let alive = fold (\<lambda>p n. if Alive (agent s p) then n + 1 else n)
      (SettlementAgents s (SID (settl s sp))) 0 in upd_settl sp (\<lambda>t. t\<lparr>Population := alive\<rparr>) s"
  have "agent (fold ?f ps t) = agent t \<and> Agents (fold ?f ps t) = Agents t \<and> Settlements (fold ?f ps t) = Settlements t
      \<and> SettlementAgents (fold ?f ps t) = SettlementAgents t \<and> SettlementIndex (fold ?f ps t) = SettlementIndex t
      \<and> AgentIndex (fold ?f ps t) = AgentIndex t \<and> SID (settl (fold ?f ps t) p) = SID (settl t p)" for ps t
    by (induction ps arbitrary: t) (simp_all add: Let_def upd_settl_def upd_def)
  then show "agent (updateSettlementPopulations s) = agent s" "Agents (updateSettlementPopulations s) = Agents s"
    "Settlements (updateSettlementPopulations s) = Settlements s"
    "SettlementAgents (updateSettlementPopulations s) = SettlementAgents s"
    "SettlementIndex (updateSettlementPopulations s) = SettlementIndex s"
    "AgentIndex (updateSettlementPopulations s) = AgentIndex s"
    "SID (settl (updateSettlementPopulations s) p) = SID (settl s p)"
    by (simp_all add: updateSettlementPopulations_def)
qed

lemma updateSettlementPopulations_value:
  assumes "sp \<in> set (Settlements s)"
  shows "Population (settl (updateSettlementPopulations s) sp) =
    of_nat (length (filter (\<lambda>p. Alive (agent s p)) (SettlementAgents s (SID (settl s sp)))))"
proof -
  let ?f = "\<lambda>sp s. let alive = fold (\<lambda>p n. if Alive (agent s p) then n + 1 else n)
      (SettlementAgents s (SID (settl s sp))) 0 in upd_settl sp (\<lambda>t. t\<lparr>Population := alive\<rparr>) s"
  let ?n = "\<lambda>t. of_nat (length (filter (\<lambda>p. Alive (agent t p)) (SettlementAgents t (SID (settl t sp)))))"
  have "Population (settl (fold ?f ps t) sp) = (if sp \<in> set ps then ?n t else Population (settl t sp))" for ps t
  proof (induction ps arbitrary: t)
    case Nil then show ?case by simp
  next
    case (Cons p ps)
    have "?n (?f p t) = ?n t" by (simp add: Let_def upd_def)
    then show ?case using Cons.IH [of "?f p t"] by (auto simp: Let_def upd_def population_count)
  qed
  then show ?thesis using assms by (simp add: updateSettlementPopulations_def)
qed

lemma rebuildSettlementAgents_fields [simp]:
  "agent (rebuildSettlementAgents s) = agent s" "Agents (rebuildSettlementAgents s) = Agents s"
  "Settlements (rebuildSettlementAgents s) = Settlements s"
  "SettlementIndex (rebuildSettlementAgents s) = SettlementIndex s"
  "AgentIndex (rebuildSettlementAgents s) = AgentIndex s"
  "SID (settl (rebuildSettlementAgents s) p) = SID (settl s p)"
  by (simp_all add: rebuildSettlementAgents_def)

text \<open>The roster of a settlement: its living residents, in slice order; its population is their number.\<close>

lemma rebuildSettlementAgents_roster:
  "SettlementAgents (rebuildSettlementAgents s) i =
    filter (\<lambda>p. Alive (agent s p) \<and> HomeSettID (agent s p) = Some i) (Agents s)"
  by (simp add: rebuildSettlementAgents_def residents_filter conj_commute)

lemma rebuildSettlementAgents_population:
  assumes "sp \<in> set (Settlements s)"
  shows "Population (settl (rebuildSettlementAgents s) sp) =
    of_nat (length (SettlementAgents (rebuildSettlementAgents s) (SID (settl s sp))))"
proof -
  let ?t = "s\<lparr>SettlementAgents := residents (agent s) (filter (\<lambda>p. Alive (agent s p)) (Agents s))\<rparr>"
  have "filter (\<lambda>p. Alive (agent s p)) (SettlementAgents ?t i) = SettlementAgents ?t i" for i
    by (simp add: residents_filter) (rule filter_cong, auto)
  then show ?thesis using assms updateSettlementPopulations_value [of sp ?t]
    by (simp add: rebuildSettlementAgents_def)
qed

lemma rebuildSettlementAgents_ok: "sim_ok s \<Longrightarrow> sim_ok (rebuildSettlementAgents s)"
  by (auto simp: sim_ok_def rebuildSettlementAgents_roster)

lemma compactDeadAgents_Agents: "Agents (compactDeadAgents s) = filter (\<lambda>p. Alive (agent s p)) (Agents s)"
proof (cases "length (filter (\<lambda>p. Alive (agent s p)) (Agents s)) = length (Agents s)")
  case True
  then have "filter (\<lambda>p. Alive (agent s p)) (Agents s) = Agents s"
    by (simp add: length_filter_conv_card [symmetric] filter_id_conv) (metis filter_True length_filter_less less_irrefl)
  then show ?thesis by (simp add: compactDeadAgents_def)
next
  case False then show ?thesis by (simp add: compactDeadAgents_def Let_def fold_upd_agent_frame)
qed

lemma compactDeadAgents_unchanged:
  "Agents (compactDeadAgents s) = Agents s \<Longrightarrow> compactDeadAgents s = s"
  unfolding compactDeadAgents_Agents by (simp add: compactDeadAgents_def)

lemma compactDeadAgents_changed:
  fixes s
  defines "alive \<equiv> filter (\<lambda>p. Alive (agent s p)) (Agents s)"
  assumes "Agents (compactDeadAgents s) \<noteq> Agents s" "distinct (Agents s)"
  shows "AgentIndex (compactDeadAgents s) = index_by (\<lambda>p. AID (agent s p)) alive"
    and "agent (compactDeadAgents s) q =
      (if q \<in> set alive then prune_relationships (index_by (\<lambda>p. AID (agent s p)) alive) (agent s q) else agent s q)"
    and "SettlementAgents (compactDeadAgents s) i = filter (\<lambda>p. HomeSettID (agent s p) = Some i) alive"
proof -
  let ?idx = "index_by (\<lambda>p. AID (agent s p)) alive"
  let ?s2 = "fold (\<lambda>p s. upd_agent p (prune_relationships ?idx) s) alive (s\<lparr>Agents := alive, AgentIndex := ?idx\<rparr>)"
  have "length alive \<noteq> length (Agents s)"
    using assms(2) unfolding alive_def compactDeadAgents_Agents
    by (metis filter_True length_filter_less less_irrefl)
  then have c: "compactDeadAgents s = rebuildSettlementAgents ?s2"
    by (simp add: compactDeadAgents_def Let_def alive_def)
  have d: "distinct alive" using assms(3) by (simp add: alive_def)
  have ag: "agent ?s2 q = (if q \<in> set alive then prune_relationships ?idx (agent s q) else agent s q)" for q
    by (simp add: fold_upd_agent_value [OF d])
  show "AgentIndex (compactDeadAgents s) = ?idx" by (simp add: c fold_upd_agent_frame)
  show "agent (compactDeadAgents s) q = (if q \<in> set alive then prune_relationships ?idx (agent s q) else agent s q)"
    using ag by (simp add: c)
  have "Alive (agent ?s2 p) = Alive (agent s p)" "HomeSettID (agent ?s2 p) = HomeSettID (agent s p)" for p
    by (simp_all add: ag prune_relationships_def)
  then show "SettlementAgents (compactDeadAgents s) i = filter (\<lambda>p. HomeSettID (agent s p) = Some i) alive"
    by (simp add: c rebuildSettlementAgents_roster fold_upd_agent_frame) (auto simp: alive_def intro!: filter_cong)
qed

lemma compactDeadAgents_ok:
  assumes "sim_ok s" shows "sim_ok (compactDeadAgents s)"
proof (cases "length (filter (\<lambda>p. Alive (agent s p)) (Agents s)) = length (Agents s)")
  case True then show ?thesis using assms by (simp add: compactDeadAgents_def)
next
  case False
  then show ?thesis using assms
    by (auto simp: compactDeadAgents_def Let_def sim_ok_def rebuildSettlementAgents_roster fold_upd_agent_frame)
qed

text \<open>After a compaction the index knows exactly the agents of the slice, and nobody remembers the removed.\<close>

lemma compactDeadAgents_index:
  assumes "distinct (Agents s)" "distinct (map (\<lambda>p. AID (agent s p)) (Agents s))"
    and "Agents (compactDeadAgents s) \<noteq> Agents s" "p \<in> set (Agents (compactDeadAgents s))"
  shows "AgentIndex (compactDeadAgents s) (AID (agent (compactDeadAgents s) p)) = Some p"
proof -
  let ?alive = "filter (\<lambda>p. Alive (agent s p)) (Agents s)"
  have "p \<in> set ?alive" using assms(4) by (simp add: compactDeadAgents_Agents)
  moreover have "distinct (map (\<lambda>p. AID (agent s p)) ?alive)" using assms(2) by (rule distinct_map_filter)
  moreover have "AID (agent (compactDeadAgents s) p) = AID (agent s p)"
    by (simp add: compactDeadAgents_changed(2) [OF assms(3,1)] prune_relationships_def)
  ultimately show ?thesis
    using index_by_distinct [of "\<lambda>p. AID (agent s p)" ?alive p] by (simp add: compactDeadAgents_changed(1) [OF assms(3,1)])
qed

lemma compactDeadAgents_relationships:
  assumes "distinct (Agents s)" "Agents (compactDeadAgents s) \<noteq> Agents s"
    and p: "p \<in> set (Agents (compactDeadAgents s))" and r: "r \<in> set (Relationships (agent (compactDeadAgents s) p))"
  obtains q where "q \<in> set (Agents (compactDeadAgents s))" "AID (agent s q) = TargetID r" "Alive (agent s q)"
proof -
  let ?alive = "filter (\<lambda>p. Alive (agent s p)) (Agents s)"
  have "p \<in> set ?alive" using p by (simp add: compactDeadAgents_Agents)
  then have "index_by (\<lambda>p. AID (agent s p)) ?alive (TargetID r) \<noteq> None"
    using r by (simp add: compactDeadAgents_changed(2) [OF assms(2,1)] prune_relationships_def)
  then have "TargetID r \<in> (\<lambda>p. AID (agent s p)) ` set ?alive" using index_by_None by metis
  then show ?thesis using that by (auto simp: compactDeadAgents_Agents)
qed

subsection \<open>Neighbours\<close>

definition near :: "Sim \<Rightarrow> ptr \<Rightarrow> ptr \<Rightarrow> bool" where
  "near s p q \<longleftrightarrow> Population (settl s p) \<noteq> 0 \<and> Population (settl s q) \<noteq> 0
     \<and> Distance (SPosition (settl s p)) (SPosition (settl s q)) \<le> 10"

lemma near_sym: "near s p q \<longleftrightarrow> near s q p"
  by (auto simp: near_def Distance_sym)

lemma link_other: "i \<noteq> SID (settl s p) \<Longrightarrow> i \<noteq> SID (settl s q) \<Longrightarrow> link s p q nb i = nb i"
  by (simp add: link_def Let_def)

lemma link_row:
  assumes "Population (settl s p) \<noteq> 0" "distinct (map (\<lambda>p. SID (settl s p)) (p # qs))"
  shows "set (fold (link s p) qs nb i) =
    set (nb i) \<union> {q \<in> set qs. near s p q \<and> SID (settl s p) = i} \<union> {p' \<in> {p}. \<exists>q \<in> set qs. near s p q \<and> SID (settl s q) = i}"
  using assms(2)
proof (induction qs arbitrary: nb)
  case Nil then show ?case by simp
next
  case (Cons q qs)
  have "set (link s p q nb i) = set (nb i) \<union> (if near s p q \<and> SID (settl s p) = i then {q} else {})
      \<union> (if near s p q \<and> SID (settl s q) = i then {p} else {})"
    using assms(1) Cons.prems by (auto simp: link_def near_def Let_def)
  then show ?case using Cons.IH [of "link s p q nb"] Cons.prems by (auto split: if_splits)
qed

lemma neighbor_pass_set:
  assumes "distinct (map (\<lambda>p. SID (settl s p)) ps)"
  shows "set (neighbor_pass s ps nb i) = set (nb i) \<union>
    {q \<in> set ps. \<exists>p \<in> set ps. SID (settl s p) = i \<and> p \<noteq> q \<and> near s p q}"
  using assms
proof (induction ps arbitrary: nb)
  case Nil then show ?case by simp
next
  case (Cons p ps)
  let ?nb = "if Population (settl s p) = 0 then nb else fold (link s p) ps nb"
  have row: "set (?nb i) = set (nb i) \<union> {q \<in> set ps. near s p q \<and> SID (settl s p) = i}
      \<union> {p' \<in> {p}. \<exists>q \<in> set ps. near s p q \<and> SID (settl s q) = i}"
    using link_row [of s p ps nb i] Cons.prems by (simp add: near_def)
  have p: "p \<notin> set ps" using Cons.prems by auto
  have step: "set (neighbor_pass s (p # ps) nb i) = set (?nb i) \<union>
      {q \<in> set ps. \<exists>p \<in> set ps. SID (settl s p) = i \<and> p \<noteq> q \<and> near s p q}"
    using Cons.IH [of ?nb] Cons.prems by (simp only: neighbor_pass.simps) simp
  show ?case unfolding step row
  proof (rule set_eqI)
    fix q
    show "q \<in> set (nb i) \<union> {q \<in> set ps. near s p q \<and> SID (settl s p) = i}
        \<union> {p' \<in> {p}. \<exists>q \<in> set ps. near s p q \<and> SID (settl s q) = i}
        \<union> {q \<in> set ps. \<exists>p \<in> set ps. SID (settl s p) = i \<and> p \<noteq> q \<and> near s p q}
      \<longleftrightarrow> q \<in> set (nb i) \<union> {q \<in> set (p # ps). \<exists>p' \<in> set (p # ps). SID (settl s p') = i \<and> p' \<noteq> q \<and> near s p' q}"
    proof (cases "q = p")
      case True
      have "(\<exists>q \<in> set ps. near s p q \<and> SID (settl s q) = i) \<longleftrightarrow>
          (\<exists>p' \<in> set ps. SID (settl s p') = i \<and> p' \<noteq> p \<and> near s p' p)"
        using p near_sym by metis
      then show ?thesis using p True by auto
    next
      case False
      then show ?thesis by auto
    qed
  qed
qed

end
