(* ===== verification/Relations_Model.thy ===== *)
theory Relations_Model
  imports Sim_State
begin

section \<open>Relations between settlements (relations.go, trade_routes.go, diplomacy.go, peace.go)\<close>

text \<open>
  Sentiment, trade routes, agreements, treaties and embargoes between pairs
  of settlements, all kept under the canonical key of the pair.  Where Go
  ranges over a map, the order of its keys is an argument; each step touches
  only its own key, so the order decides nothing but the order of events.
  \<^verbatim>\<open>math.Log2\<close> is an argument.  Events carry their description.
\<close>

definition sett_name :: "Sim \<Rightarrow> uint64 \<Rightarrow> string" where
  "sett_name s i = (case SettlementIndex s i of None \<Rightarrow> ''Unknown'' | Some p \<Rightarrow> SName (settl s p))"

subsection \<open>Agreements: what they grant (diplomacy.go)\<close>

definition AgreementTradePact :: uint8 where "AgreementTradePact = 1"
definition AgreementNonAggression :: uint8 where "AgreementNonAggression = 2"
definition AgreementAlliance :: uint8 where "AgreementAlliance = 3"

definition AgreementTypeName :: "uint8 \<Rightarrow> string" where
  "AgreementTypeName t =
     (if t = AgreementTradePact then ''Trade Pact''
      else if t = AgreementNonAggression then ''Non-Aggression Pact''
      else if t = AgreementAlliance then ''Alliance''
      else ''Unknown'')"

definition GetAgreement :: "Sim \<Rightarrow> uint64 \<Rightarrow> uint64 \<Rightarrow> Agreement option" where
  "GetAgreement s settA settB =
     (case Agreements s (settRelKey settA settB) of
        None \<Rightarrow> None | Some a \<Rightarrow> if AgType a = 0 then None else Some a)"

definition GetDiplomacyTradeBonus :: "Sim \<Rightarrow> uint64 \<Rightarrow> uint64 \<Rightarrow> f64" where
  "GetDiplomacyTradeBonus s settA settB =
     (case GetAgreement s settA settB of
        None \<Rightarrow> 1 | Some a \<Rightarrow> 1 + Psyche * flt_of_word (AgType a) * lit 0.5)"

definition GetDiplomacyFactionBonus :: "Sim \<Rightarrow> uint64 \<Rightarrow> uint64 \<Rightarrow> f64" where
  "GetDiplomacyFactionBonus s settA settB =
     (case GetAgreement s settA settB of
        None \<Rightarrow> 0 | Some a \<Rightarrow> if AgType a < AgreementAlliance then 0 else Agnosis * lit 5)"

definition HasMutualDefense :: "Sim \<Rightarrow> uint64 \<Rightarrow> uint64 \<Rightarrow> bool" where
  "HasMutualDefense s settA settB =
     (case GetAgreement s settA settB of None \<Rightarrow> False | Some a \<Rightarrow> AgreementAlliance \<le> AgType a)"

definition GetDiplomacyCrimeBonus :: "Sim \<Rightarrow> uint64 \<Rightarrow> f64" where
  "GetDiplomacyCrimeBonus s settID = crimeBonusCache s settID"

definition add_crime_bonus :: "SettRelKey \<Rightarrow> Sim \<Rightarrow> Sim" where
  "add_crime_bonus key s =
     (case Agreements s key of
        None \<Rightarrow> s
      | Some a \<Rightarrow>
          if AgType a < AgreementNonAggression then s
          else let bonus = Agnosis * lit 0.5;
                   c1 = (crimeBonusCache s)(keyA key := crimeBonusCache s (keyA key) + bonus)
               in s\<lparr>crimeBonusCache := c1(keyB key := c1 (keyB key) + bonus)\<rparr>)"

definition BuildDiplomacyCrimeBonusCache :: "SettRelKey list \<Rightarrow> Sim \<Rightarrow> Sim" where
  "BuildDiplomacyCrimeBonusCache keys s = fold add_crime_bonus keys (s\<lparr>crimeBonusCache := (\<lambda>_. 0)\<rparr>)"

text \<open>One culture axis of an allied pair drifts together.\<close>

definition drift :: "f32 \<Rightarrow> f32 \<Rightarrow> f32 \<Rightarrow> f32 \<times> f32" where
  "drift rate x y = (if x < y then (x + rate, y - rate) else if y < x then (x - rate, y + rate) else (x, y))"

definition ApplyDiplomacyEffect :: "SettRelKey \<Rightarrow> Sim \<Rightarrow> Sim" where
  "ApplyDiplomacyEffect key s =
     (case Agreements s key of
        None \<Rightarrow> s
      | Some a \<Rightarrow>
          if AgType a = 0 then s
          else case (SettlementIndex s (keyA key), SettlementIndex s (keyB key)) of
                 (Some p, Some q) \<Rightarrow>
                   if AgreementNonAggression \<le> AgType a then
                     (let rate = float32 (Agnosis * lit 0.1);
                          x = settl s p; y = settl s q;
                          (tA, tB) = drift rate (CultureTradition x) (CultureTradition y);
                          (oA, oB) = drift rate (CultureOpenness x) (CultureOpenness y);
                          (mA, mB) = drift rate (CultureMilitarism x) (CultureMilitarism y)
                      in upd_settl q (\<lambda>t. t\<lparr>CultureTradition := tB, CultureOpenness := oB, CultureMilitarism := mB\<rparr>)
                           (upd_settl p (\<lambda>t. t\<lparr>CultureTradition := tA, CultureOpenness := oA, CultureMilitarism := mA\<rparr>) s))
                   else s
               | _ \<Rightarrow> s)"

definition ApplyDiplomacyEffects :: "SettRelKey list \<Rightarrow> Sim \<Rightarrow> Sim" where
  "ApplyDiplomacyEffects keys s = fold ApplyDiplomacyEffect keys s"

subsection \<open>Sentiment (relations.go)\<close>

definition factionRivalryMultiplier :: "int \<Rightarrow> int \<Rightarrow> f64" where
  "factionRivalryMultiplier factionA factionB =
     (let (a, b) = (if factionB < factionA then (factionB, factionA) else (factionA, factionB)) in
      if a = 1 \<and> b = 5 then Being
      else if a = 3 \<and> b = 4 then Being
      else if a = 2 \<and> b = 5 then Being
      else 1)"

definition RecordInterSettlementTrade :: "uint64 \<Rightarrow> uint64 \<Rightarrow> Sim \<Rightarrow> Sim" where
  "RecordInterSettlementTrade sourceID destID s =
     (if sourceID = destID then s
      else let key = settRelKey sourceID destID;
               old = (case TradeTracker s key of None \<Rightarrow> 0 | Some v \<Rightarrow> v)
           in s\<lparr>TradeTracker := (TradeTracker s)(key \<mapsto> old + 1)\<rparr>)"

text \<open>The dominant faction of a settlement (\<open>-1\<close> if none) and its strength.\<close>

definition influence_of :: "Faction \<Rightarrow> uint64 \<Rightarrow> f64" where
  "influence_of f i = (case Influence f i of None \<Rightarrow> 0 | Some x \<Rightarrow> x)"

definition faction_info :: "Sim \<Rightarrow> uint64 \<Rightarrow> int \<times> f64" where
  "faction_info s i =
     (let (best, bestInf, total) =
            fold (\<lambda>f (best, bestInf, total).
                    let inf = influence_of (fact s f) i in
                    if bestInf < inf then (uint (FID (fact s f)), inf, total + inf) else (best, bestInf, total + inf))
              (Factions s) (- 1, 0, 0)
      in (best, if 0 < total then bestInf / total else 0))"

definition factionData :: "Sim \<Rightarrow> uint64 \<Rightarrow> int \<times> f64" where
  "factionData s i =
     (case map_of (map (\<lambda>p. (SID (settl s p), faction_info s (SID (settl s p))))
             (filter (\<lambda>p. Population (settl s p) \<noteq> 0) (Settlements s))) i of
        None \<Rightarrow> (0, 0) | Some d \<Rightarrow> d)"

definition faction_score :: "int \<times> f64 \<Rightarrow> int \<times> f64 \<Rightarrow> f64" where
  "faction_score fA fB =
     (if 0 \<le> fst fA \<and> 0 \<le> fst fB then
        if fst fA = fst fB then snd fA * snd fB * Being
        else - snd fA * snd fB * Matter * factionRivalryMultiplier (fst fA) (fst fB)
      else 0)"

definition trade_score :: "(f64 \<Rightarrow> f64) \<Rightarrow> Sim \<Rightarrow> uint64 \<Rightarrow> uint64 \<Rightarrow> f64" where
  "trade_score log2 s a b =
     (case TradeTracker s (settRelKey a b) of
        None \<Rightarrow> 0
      | Some tradeVol \<Rightarrow>
          if 0 < tradeVol then
            (let score = log2 (1 + tradeVol) * Agnosis * lit 0.1 * GetDiplomacyTradeBonus s a b
             in if Psyche < score then Psyche else score)
          else 0)"

definition culture_score :: "Settlement \<Rightarrow> Settlement \<Rightarrow> f64" where
  "culture_score x y =
     (let tradDiff = flt_abs (float64 (CultureTradition x - CultureTradition y));
          openDiff = flt_abs (float64 (CultureOpenness x - CultureOpenness y));
          milDiff = flt_abs (float64 (CultureMilitarism x - CultureMilitarism y));
          avgDiff = (tradDiff + openDiff + milDiff) / lit 3
      in (1 - avgDiff) * Agnosis)"

definition sentiment_delta :: "(f64 \<Rightarrow> f64) \<Rightarrow> Sim \<Rightarrow> ptr \<Rightarrow> ptr \<Rightarrow> f64" where
  "sentiment_delta log2 s p q =
     (let x = settl s p; y = settl s q;
          dist = Distance (SPosition x) (SPosition y);
          distMod = 1 / (1 + flt_of_int dist * Agnosis * lit 0.5)
      in (faction_score (factionData s (SID x)) (factionData s (SID y)) + trade_score log2 s (SID x) (SID y)
          + culture_score x y) * distMod * Psyche)"

definition update_relation :: "f64 \<Rightarrow> f64 option \<Rightarrow> SettlementRelation option \<Rightarrow> SettlementRelation" where
  "update_relation delta tradeVol old =
     (let rel = (case old of None \<Rightarrow> \<lparr>RSentiment = 0, RTrade = 0\<rparr> | Some r \<Rightarrow> r);
          sent0 = RSentiment rel * (1 - Agnosis) + delta;
          trade = (case tradeVol of None \<Rightarrow> RTrade rel | Some v \<Rightarrow> v);
          sent1 = (if 1 < sent0 then 1 else sent0);
          sent = (if sent1 < - 1 then - 1 else sent1)
      in \<lparr>RSentiment = sent, RTrade = trade\<rparr>)"

definition relate_pair :: "(f64 \<Rightarrow> f64) \<Rightarrow> ptr \<Rightarrow> ptr \<Rightarrow> Sim \<times> SettRelKey set \<Rightarrow> Sim \<times> SettRelKey set" where
  "relate_pair log2 p q st =
     (let (s, seen) = st; key = settRelKey (SID (settl s p)) (SID (settl s q)) in
      if Population (settl s q) = 0 \<or> key \<in> seen then (s, seen)
      else (s\<lparr>Relations := (Relations s)(key \<mapsto>
               update_relation (sentiment_delta log2 s p q) (TradeTracker s key) (Relations s key))\<rparr>, insert key seen))"

definition relate_all :: "(f64 \<Rightarrow> f64) \<Rightarrow> Sim \<Rightarrow> Sim \<times> SettRelKey set" where
  "relate_all log2 s =
     fold (\<lambda>p st. if Population (settl (fst st) p) = 0 then st
             else fold (relate_pair log2 p) (SettlementNeighbors (fst st) (SID (settl (fst st) p))) st)
       (Settlements s) (s, {})"

definition stale_relation :: "SettlementRelation \<Rightarrow> bool" where
  "stale_relation r \<longleftrightarrow> flt_abs (RSentiment r) < lit 0.001 \<and> RTrade r = 0"

definition computeSettlementRelations :: "(f64 \<Rightarrow> f64) \<Rightarrow> Sim \<Rightarrow> Sim" where
  "computeSettlementRelations log2 s =
     (let s1 = (fst (relate_all log2 s))\<lparr>TradeTracker := Map.empty\<rparr>
      in s1\<lparr>Relations := (\<lambda>key. case Relations s1 key of None \<Rightarrow> None
               | Some r \<Rightarrow> if stale_relation r then None else Some r)\<rparr>)"

definition GetSettlementRelations :: "Sim \<Rightarrow> uint64 \<Rightarrow> uint64 \<Rightarrow> SettlementRelation option" where
  "GetSettlementRelations s settID other =
     (case Relations s (SettRelKey settID other) of
        Some r \<Rightarrow> Some r | None \<Rightarrow> Relations s (SettRelKey other settID))"

subsection \<open>Trade routes (trade_routes.go)\<close>

definition routeEstablishThreshold :: f64 where "routeEstablishThreshold = lit 4"
definition routeFlourish :: f64 where "routeFlourish = lit 8"
definition routeLegendary :: f64 where "routeLegendary = lit 16"
definition routeDecayThreshold :: f64 where "routeDecayThreshold = lit 2"

definition RouteLevelName :: "uint8 \<Rightarrow> string" where
  "RouteLevelName level =
     (if level = 1 then ''Established'' else if level = 2 then ''Flourishing''
      else if level = 3 then ''Legendary'' else ''Emerging'')"

text \<open>The dash of the name is the three UTF-8 bytes of U+2013.\<close>

definition en_dash :: string where
  "en_dash = [char_of (226::nat), char_of (128::nat), char_of (147::nat)]"

definition generateRouteName :: "Sim \<Rightarrow> SettRelKey \<Rightarrow> string" where
  "generateRouteName s key = sett_name s (keyA key) @ en_dash @ sett_name s (keyB key) @ '' Road''"

datatype RouteAction = RouteEstablished | RouteUpgraded | RouteDegraded | RouteDissolved

definition emitRouteEvent :: "uint64 \<Rightarrow> SettRelKey \<Rightarrow> TradeRoute \<Rightarrow> RouteAction \<Rightarrow> Sim \<Rightarrow> Sim" where
  "emitRouteEvent tick key route action s =
     (let nameA = sett_name s (keyA key); nameB = sett_name s (keyB key);
          desc = (case action of
              RouteEstablished \<Rightarrow> ''A trade route has been established between '' @ nameA @ '' and '' @ nameB
                @ '': the '' @ RouteName route
            | RouteUpgraded \<Rightarrow> ''The '' @ RouteName route @ '' has grown to '' @ RouteLevelName (Level route) @ '' status''
            | RouteDegraded \<Rightarrow> ''The '' @ RouteName route @ '' has weakened to '' @ RouteLevelName (Level route) @ '' status''
            | RouteDissolved \<Rightarrow> ''The trade route between '' @ nameA @ '' and '' @ nameB @ '' has dissolved from disuse'')
      in emit tick desc CategoryEconomy s)"

definition route_grown :: "f64 \<Rightarrow> TradeRoute \<Rightarrow> uint8" where
  "route_grown vol r =
     (let l0 = Level r;
          l1 = (if Level r = 0 \<and> 2 \<le> RSustainedWeeks r \<and> routeEstablishThreshold \<le> vol then 1 else l0);
          l2 = (if Level r = 1 \<and> 3 \<le> RSustainedWeeks r \<and> routeFlourish \<le> vol then 2 else l1)
      in if Level r = 2 \<and> 4 \<le> RSustainedWeeks r \<and> routeLegendary \<le> vol then 3 else l2)"

definition route_slip :: "TradeRoute \<Rightarrow> TradeRoute" where
  "route_slip r = r\<lparr>DormantWeeks := DormantWeeks r + 1,
     RSustainedWeeks := (if 0 < RSustainedWeeks r then RSustainedWeeks r - 1 else RSustainedWeeks r)\<rparr>"

text \<open>First loop: a pair with trade this week.\<close>

definition route_traded :: "uint64 \<Rightarrow> SettRelKey \<Rightarrow> Sim \<Rightarrow> Sim" where
  "route_traded tick key s =
     (case TradeTracker s key of
        None \<Rightarrow> s
      | Some vol \<Rightarrow>
          if routeEstablishThreshold \<le> vol then
            (let r0 = (case TradeRoutes s key of
                 None \<Rightarrow> \<lparr>Level = 0, RouteName = generateRouteName s key, RSustainedWeeks = 1, DormantWeeks = 0, WeeklyTrade = 0\<rparr>
               | Some r \<Rightarrow> r\<lparr>RSustainedWeeks := RSustainedWeeks r + 1, DormantWeeks := 0\<rparr>);
                 r1 = r0\<lparr>WeeklyTrade := vol\<rparr>;
                 newLevel = route_grown vol r1
             in if Level r1 < newLevel then
                  (let r2 = r1\<lparr>Level := newLevel\<rparr>
                   in emitRouteEvent tick key r2 (if Level r1 = 0 then RouteEstablished else RouteUpgraded)
                        (s\<lparr>TradeRoutes := (TradeRoutes s)(key \<mapsto> r2)\<rparr>))
                else s\<lparr>TradeRoutes := (TradeRoutes s)(key \<mapsto> r1)\<rparr>)
          else
            (case TradeRoutes s key of
               None \<Rightarrow> s
             | Some r \<Rightarrow>
                 let r1 = r\<lparr>WeeklyTrade := vol\<rparr>;
                     r2 = (if vol < routeDecayThreshold then route_slip r1 else r1\<lparr>DormantWeeks := 0\<rparr>)
                 in s\<lparr>TradeRoutes := (TradeRoutes s)(key \<mapsto> r2)\<rparr>))"

text \<open>Second loop: every route that exists; the loop variable keeps the route after its deletion.\<close>

definition route_review :: "uint64 \<Rightarrow> SettRelKey \<Rightarrow> Sim \<Rightarrow> Sim" where
  "route_review tick key s =
     (case TradeRoutes s key of
        None \<Rightarrow> s
      | Some r \<Rightarrow>
          let r1 = (if TradeTracker s key = None then (route_slip r)\<lparr>WeeklyTrade := 0\<rparr> else r);
              s1 = s\<lparr>TradeRoutes := (TradeRoutes s)(key \<mapsto> r1)\<rparr>;
              (r2, s2) =
                (if 2 \<le> DormantWeeks r1 \<and> 0 < Level r1 then
                   (let r2 = r1\<lparr>Level := Level r1 - 1, DormantWeeks := 0\<rparr>;
                        s2 = s1\<lparr>TradeRoutes := (TradeRoutes s1)(key \<mapsto> r2)\<rparr>
                    in if Level r2 = 0
                       then (r2, (emitRouteEvent tick key r2 RouteDissolved s2)\<lparr>TradeRoutes := (TradeRoutes s2)(key := None)\<rparr>)
                       else (r2, emitRouteEvent tick key r2 RouteDegraded s2))
                 else (r1, s1))
          in if Level r2 = 0 \<and> 3 \<le> DormantWeeks r2 then s2\<lparr>TradeRoutes := (TradeRoutes s2)(key := None)\<rparr> else s2)"

definition processTradeRoutes :: "SettRelKey list \<Rightarrow> SettRelKey list \<Rightarrow> uint64 \<Rightarrow> Sim \<Rightarrow> Sim" where
  "processTradeRoutes traded existing tick s = fold (route_review tick) existing (fold (route_traded tick) traded s)"

definition GetRouteBonus :: "Sim \<Rightarrow> uint64 \<Rightarrow> uint64 \<Rightarrow> f64 \<times> f64" where
  "GetRouteBonus s settA settB =
     (case TradeRoutes s (settRelKey settA settB) of
        None \<Rightarrow> (1, 0)
      | Some r \<Rightarrow>
          if Level r = 0 then (1, 0)
          else (1 - flt_of_word (Level r) * Agnosis * lit 0.1, flt_of_word (Level r) * Agnosis * lit 0.05))"

record TradeRouteInfo =
  TIName :: string
  TILevel :: uint8
  TILevelName :: string
  TISettlementID :: uint64
  TISettlementName :: string
  TIWeeklyTrade :: f64

definition GetSettlementRoutes :: "SettRelKey list \<Rightarrow> Sim \<Rightarrow> uint64 \<Rightarrow> TradeRouteInfo list" where
  "GetSettlementRoutes keys s settID =
     List.map_filter (\<lambda>key. case TradeRoutes s key of
        None \<Rightarrow> None
      | Some r \<Rightarrow>
          if Level r = 0 then None
          else if keyA key = settID \<or> keyB key = settID then
            (let otherID = (if keyB key = settID then keyA key else keyB key)
             in Some \<lparr>TIName = RouteName r, TILevel = Level r, TILevelName = RouteLevelName (Level r),
                      TISettlementID = otherID, TISettlementName = sett_name s otherID, TIWeeklyTrade = WeeklyTrade r\<rparr>)
          else None) keys"

subsection \<open>Agreements: how they form and dissolve (diplomacy.go)\<close>

definition agreementFormThreshold :: "uint8 \<Rightarrow> f64" where
  "agreementFormThreshold t =
     (if t = AgreementTradePact then Psyche else if t = AgreementNonAggression then Matter
      else if t = AgreementAlliance then Psyche + Matter else 0)"

definition agreementFormWeeks :: "uint8 \<Rightarrow> int" where
  "agreementFormWeeks t =
     (if t = AgreementTradePact then 2 else if t = AgreementNonAggression then 3
      else if t = AgreementAlliance then 4 else 0)"

definition agreementDissolveThreshold :: "uint8 \<Rightarrow> f64" where
  "agreementDissolveThreshold t =
     (if t = AgreementTradePact then Agnosis else if t = AgreementNonAggression then Psyche
      else if t = AgreementAlliance then Matter else 0)"

datatype DiplomacyAction = PactFormed | PactUpgraded | PactDowngraded | PactDissolved

definition emitDiplomacyEvent :: "uint64 \<Rightarrow> SettRelKey \<Rightarrow> uint8 \<Rightarrow> DiplomacyAction \<Rightarrow> Sim \<Rightarrow> Sim" where
  "emitDiplomacyEvent tick key aType action s =
     (let nameA = sett_name s (keyA key); nameB = sett_name s (keyB key);
          typeName = AgreementTypeName aType;
          desc = (case action of
              PactFormed \<Rightarrow> nameA @ '' and '' @ nameB @ '' have signed a '' @ typeName
            | PactUpgraded \<Rightarrow> ''The agreement between '' @ nameA @ '' and '' @ nameB @ '' has been elevated to a '' @ typeName
            | PactDowngraded \<Rightarrow> ''Relations between '' @ nameA @ '' and '' @ nameB
                @ '' have cooled; their agreement has been reduced to a '' @ typeName
            | PactDissolved \<Rightarrow> ''The '' @ typeName @ '' between '' @ nameA @ '' and '' @ nameB @ '' has been dissolved'')
      in emit tick desc CategoryPolitical s)"

text \<open>The highest type whose threshold and weeks are met: the descending loop with its \<^verbatim>\<open>break\<close>.\<close>

definition pact_target :: "f64 \<Rightarrow> int \<Rightarrow> uint8 option" where
  "pact_target sentiment weeks =
     find_first (\<lambda>t. agreementFormThreshold t \<le> sentiment \<and> agreementFormWeeks t \<le> weeks)
       [AgreementAlliance, AgreementNonAggression, AgreementTradePact]"

definition set_agreement :: "SettRelKey \<Rightarrow> Agreement \<Rightarrow> Sim \<Rightarrow> Sim" where
  "set_agreement key a s = s\<lparr>Agreements := (Agreements s)(key \<mapsto> a)\<rparr>"
definition drop_agreement :: "SettRelKey \<Rightarrow> Sim \<Rightarrow> Sim" where
  "drop_agreement key s = s\<lparr>Agreements := (Agreements s)(key := None)\<rparr>"

definition pact_warm :: "uint64 \<Rightarrow> SettRelKey \<Rightarrow> f64 \<Rightarrow> Agreement \<Rightarrow> Sim \<Rightarrow> Sim" where
  "pact_warm tick key sentiment a s =
     (let a1 = a\<lparr>SustainedWeeks := SustainedWeeks a + 1\<rparr> in
      case pact_target sentiment (SustainedWeeks a1) of
        None \<Rightarrow> set_agreement key a1 s
      | Some t \<Rightarrow>
          if AgType a1 < t then
            emitDiplomacyEvent tick key t (if AgType a1 = 0 then PactFormed else PactUpgraded)
              (set_agreement key (a1\<lparr>AgType := t, FormedAtTick := tick\<rparr>) s)
          else set_agreement key a1 s)"

definition pact_cool :: "uint64 \<Rightarrow> SettRelKey \<Rightarrow> f64 \<Rightarrow> Agreement \<Rightarrow> Sim \<Rightarrow> Sim" where
  "pact_cool tick key sentiment a s =
     (if 0 < AgType a \<and> sentiment < agreementDissolveThreshold (AgType a) then
        (let a1 = a\<lparr>AgType := AgType a - 1, SustainedWeeks := 0\<rparr> in
         if AgType a1 = 0
         then drop_agreement key (emitDiplomacyEvent tick key (AgType a) PactDissolved s)
         else emitDiplomacyEvent tick key (AgType a1) PactDowngraded (set_agreement key a1 s))
      else if AgType a = 0 then
        (if sentiment < Agnosis then drop_agreement key s
         else set_agreement key (a\<lparr>SustainedWeeks :=
                (if 0 < SustainedWeeks a then SustainedWeeks a - 1 else SustainedWeeks a)\<rparr>) s)
      else s)"

definition pact_review :: "uint64 \<Rightarrow> SettRelKey \<Rightarrow> Sim \<Rightarrow> Sim" where
  "pact_review tick key s =
     (case Relations s key of
        None \<Rightarrow> s
      | Some rel \<Rightarrow>
          if Psyche \<le> RSentiment rel then
            (case Agreements s key of
               None \<Rightarrow> set_agreement key \<lparr>AgType = 0, SustainedWeeks = 1, FormedAtTick = 0\<rparr> s
             | Some a \<Rightarrow> pact_warm tick key (RSentiment rel) a s)
          else
            (case Agreements s key of None \<Rightarrow> s | Some a \<Rightarrow> pact_cool tick key (RSentiment rel) a s))"

definition pact_orphan :: "uint64 \<Rightarrow> SettRelKey \<Rightarrow> Sim \<Rightarrow> Sim" where
  "pact_orphan tick key s =
     (case Agreements s key of
        None \<Rightarrow> s
      | Some a \<Rightarrow>
          if Relations s key = None
          then drop_agreement key
                 (if 0 < AgType a then emitDiplomacyEvent tick key (AgType a) PactDissolved s else s)
          else s)"

definition processDiplomacy :: "SettRelKey list \<Rightarrow> SettRelKey list \<Rightarrow> uint64 \<Rightarrow> Sim \<Rightarrow> Sim" where
  "processDiplomacy related agreed tick s = fold (pact_orphan tick) agreed (fold (pact_review tick) related s)"

record AgreementInfo =
  AIType :: uint8
  AITypeName :: string
  AISettlementID :: uint64
  AISettlementName :: string
  AIFormedAtTick :: uint64

definition GetSettlementAgreements :: "SettRelKey list \<Rightarrow> Sim \<Rightarrow> uint64 \<Rightarrow> AgreementInfo list" where
  "GetSettlementAgreements keys s settID =
     List.map_filter (\<lambda>key. case Agreements s key of
        None \<Rightarrow> None
      | Some a \<Rightarrow>
          if AgType a = 0 then None
          else if keyA key = settID \<or> keyB key = settID then
            (let otherID = (if keyB key = settID then keyA key else keyB key)
             in Some \<lparr>AIType = AgType a, AITypeName = AgreementTypeName (AgType a),
                      AISettlementID = otherID, AISettlementName = sett_name s otherID, AIFormedAtTick = FormedAtTick a\<rparr>)
          else None) keys"

subsection \<open>Peace treaties and embargoes (peace.go)\<close>

definition peaceDurationWeeks :: int where "peaceDurationWeeks = 8"
definition peaceRaidThreshold :: int where "peaceRaidThreshold = 3"
definition embargoSentiment :: f64 where "embargoSentiment = - lit 0.382"

definition RecordRaid :: "uint64 \<Rightarrow> uint64 \<Rightarrow> Sim \<Rightarrow> Sim" where
  "RecordRaid settA settB s =
     (let key = settRelKey settA settB;
          n = (case RaidCounts s key of None \<Rightarrow> 0 | Some n \<Rightarrow> n)
      in s\<lparr>RaidCounts := (RaidCounts s)(key \<mapsto> n + 1)\<rparr>)"

definition HasPeace :: "Sim \<Rightarrow> uint64 \<Rightarrow> uint64 \<Rightarrow> bool" where
  "HasPeace s settA settB \<longleftrightarrow> PeaceTreaties s (settRelKey settA settB) \<noteq> None"

definition IsEmbargoed :: "Sim \<Rightarrow> uint64 \<Rightarrow> uint64 \<Rightarrow> bool" where
  "IsEmbargoed s settA settB =
     (case Relations s (settRelKey settA settB) of
        None \<Rightarrow> False | Some rel \<Rightarrow> RSentiment rel < embargoSentiment)"

datatype PeaceAction = PeaceFormed | PeaceExpired

definition emitPeaceEvent :: "uint64 \<Rightarrow> SettRelKey \<Rightarrow> PeaceAction \<Rightarrow> Sim \<Rightarrow> Sim" where
  "emitPeaceEvent tick key action s =
     (let nameA = sett_name s (keyA key); nameB = sett_name s (keyB key);
          desc = (case action of
              PeaceFormed \<Rightarrow> ''After prolonged conflict, '' @ nameA @ '' and '' @ nameB @ '' have agreed to a peace treaty''
            | PeaceExpired \<Rightarrow> ''The peace treaty between '' @ nameA @ '' and '' @ nameB @ '' has expired'')
      in emit tick desc CategoryPolitical s)"

definition peace_form :: "uint64 \<Rightarrow> SettRelKey \<Rightarrow> Sim \<Rightarrow> Sim" where
  "peace_form tick key s =
     (case RaidCounts s key of
        None \<Rightarrow> s
      | Some n \<Rightarrow>
          if peaceRaidThreshold \<le> n \<and> PeaceTreaties s key = None then
            emitPeaceEvent tick key PeaceFormed
              (s\<lparr>PeaceTreaties := (PeaceTreaties s)(key \<mapsto>
                     \<lparr>RemainingWeeks = peaceDurationWeeks, RaidCount = n, PFormedAtTick = tick\<rparr>),
                 RaidCounts := (RaidCounts s)(key \<mapsto> 0)\<rparr>)
          else s)"

definition peace_heal :: "SettlementRelation \<Rightarrow> SettlementRelation" where
  "peace_heal rel =
     (let x = RSentiment rel + Agnosis * lit 0.1 in rel\<lparr>RSentiment := (if 0 < x then 0 else x)\<rparr>)"

definition peace_tick :: "uint64 \<Rightarrow> SettRelKey \<Rightarrow> Sim \<Rightarrow> Sim" where
  "peace_tick tick key s =
     (case PeaceTreaties s key of
        None \<Rightarrow> s
      | Some treaty \<Rightarrow>
          let t1 = treaty\<lparr>RemainingWeeks := RemainingWeeks treaty - 1\<rparr>;
              s1 = s\<lparr>PeaceTreaties := (PeaceTreaties s)(key \<mapsto> t1)\<rparr>;
              s2 = (case Relations s1 key of None \<Rightarrow> s1
                    | Some rel \<Rightarrow> s1\<lparr>Relations := (Relations s1)(key \<mapsto> peace_heal rel)\<rparr>)
          in if RemainingWeeks t1 \<le> 0
             then (emitPeaceEvent tick key PeaceExpired s2)\<lparr>PeaceTreaties := (PeaceTreaties s2)(key := None)\<rparr>
             else s2)"

definition processPeace :: "SettRelKey list \<Rightarrow> SettRelKey list \<Rightarrow> uint64 \<Rightarrow> Sim \<Rightarrow> Sim" where
  "processPeace raided treaties tick s = fold (peace_tick tick) treaties (fold (peace_form tick) raided s)"

record PeaceTreatyInfo =
  PISettlementID :: uint64
  PISettlementName :: string
  PIRemainingWeeks :: int

definition GetSettlementPeace :: "SettRelKey list \<Rightarrow> Sim \<Rightarrow> uint64 \<Rightarrow> PeaceTreatyInfo list" where
  "GetSettlementPeace keys s settID =
     List.map_filter (\<lambda>key. case PeaceTreaties s key of
        None \<Rightarrow> None
      | Some treaty \<Rightarrow>
          if keyA key = settID \<or> keyB key = settID then
            (let otherID = (if keyB key = settID then keyA key else keyB key)
             in Some \<lparr>PISettlementID = otherID, PISettlementName = sett_name s otherID,
                      PIRemainingWeeks = RemainingWeeks treaty\<rparr>)
          else None) keys"

end
