(* ===== verification/Relations_Laws.thy ===== *)
theory Relations_Laws
  imports Relations_Model
begin

section \<open>Laws of the relations between settlements\<close>

text \<open>
  A weekly pass over a Go map is a fold of steps that each read and write
  only their own key.  The locale \<open>keyed_loop\<close> states that contract and
  derives that the pass applies the step once to every key, whatever the
  iteration order; its interpretations reduce \<open>processTradeRoutes\<close>,
  \<open>processDiplomacy\<close> and \<open>processPeace\<close> to a pure state machine per pair
  (\<open>route_week\<close>, \<open>pact_week\<close>, \<open>peace_week\<close>).
\<close>

locale keyed_loop =
  fixes step :: "'k \<Rightarrow> 's \<Rightarrow> 's" and view :: "'s \<Rightarrow> 'k \<Rightarrow> 'v" and g :: "'v \<Rightarrow> 'v"
  assumes own_key: "view (step k s) k = g (view s k)"
    and other_keys: "k' \<noteq> k \<Longrightarrow> view (step k s) k' = view s k'"
begin

lemma pass_view:
  "distinct ks \<Longrightarrow> view (fold step ks s) k = (if k \<in> set ks then g (view s k) else view s k)"
proof (induction ks arbitrary: s)
  case Nil then show ?case by simp
next
  case (Cons k0 ks)
  then have step: "view (fold step (k0 # ks) s) k = (if k \<in> set ks then g (view (step k0 s) k) else view (step k0 s) k)"
    by simp
  show ?case
    unfolding step using Cons.prems by (cases "k = k0") (auto simp: own_key other_keys)
qed

text \<open>Keys on which the step does nothing need not be visited.\<close>

lemma pass_total:
  assumes "distinct ks" and "\<And>v. k \<notin> set ks \<Longrightarrow> v = view s k \<Longrightarrow> g v = v"
  shows "view (fold step ks s) k = g (view s k)"
  using assms by (simp add: pass_view)

end

lemma sett_name_cong:
  "SettlementIndex s = SettlementIndex t \<Longrightarrow> settl s = settl t \<Longrightarrow> sett_name s i = sett_name t i"
  by (simp add: sett_name_def split: option.splits)

subsection \<open>Trade routes as a state machine per pair\<close>

type_synonym route_view = "f64 option \<times> TradeRoute option \<times> string"

definition route_view :: "Sim \<Rightarrow> SettRelKey \<Rightarrow> route_view" where
  "route_view s key = (TradeTracker s key, TradeRoutes s key, generateRouteName s key)"

fun traded_week :: "route_view \<Rightarrow> route_view" where
  "traded_week (None, ro, nm) = (None, ro, nm)"
| "traded_week (Some vol, ro, nm) = (Some vol,
     (if routeEstablishThreshold \<le> vol then
        (let r0 = (case ro of None \<Rightarrow> \<lparr>Level = 0, RouteName = nm, RSustainedWeeks = 1, DormantWeeks = 0, WeeklyTrade = 0\<rparr>
                   | Some r \<Rightarrow> r\<lparr>RSustainedWeeks := RSustainedWeeks r + 1, DormantWeeks := 0\<rparr>);
             r1 = r0\<lparr>WeeklyTrade := vol\<rparr>;
             lv = route_grown vol r1
         in Some (if Level r1 < lv then r1\<lparr>Level := lv\<rparr> else r1))
      else map_option (\<lambda>r. if vol < routeDecayThreshold then route_slip (r\<lparr>WeeklyTrade := vol\<rparr>)
             else r\<lparr>WeeklyTrade := vol, DormantWeeks := 0\<rparr>) ro), nm)"

fun review_week :: "route_view \<Rightarrow> route_view" where
  "review_week (vo, None, nm) = (vo, None, nm)"
| "review_week (vo, Some r, nm) = (vo,
     (let r1 = (if vo = None then (route_slip r)\<lparr>WeeklyTrade := 0\<rparr> else r) in
      if 2 \<le> DormantWeeks r1 \<and> 0 < Level r1
      then if Level r1 = 1 then None else Some (r1\<lparr>Level := Level r1 - 1, DormantWeeks := 0\<rparr>)
      else if Level r1 = 0 \<and> 3 \<le> DormantWeeks r1 then None
      else Some r1), nm)"

definition route_week :: "route_view \<Rightarrow> TradeRoute option" where
  "route_week v = fst (snd (review_week (traded_week v)))"

lemma emitRouteEvent_fields [simp]:
  "TradeTracker (emitRouteEvent t k r a s) = TradeTracker s"
  "TradeRoutes (emitRouteEvent t k r a s) = TradeRoutes s"
  "SettlementIndex (emitRouteEvent t k r a s) = SettlementIndex s"
  "settl (emitRouteEvent t k r a s) = settl s"
  by (simp_all add: emitRouteEvent_def Let_def)

lemma generateRouteName_cong:
  "SettlementIndex s = SettlementIndex t \<Longrightarrow> settl s = settl t \<Longrightarrow> generateRouteName s k = generateRouteName t k"
  using sett_name_cong [of s t] by (simp add: generateRouteName_def)

lemma route_step_index [simp]:
  "SettlementIndex (route_traded t k s) = SettlementIndex s" "settl (route_traded t k s) = settl s"
  "TradeTracker (route_traded t k s) = TradeTracker s"
  "SettlementIndex (route_review t k s) = SettlementIndex s" "settl (route_review t k s) = settl s"
  "TradeTracker (route_review t k s) = TradeTracker s"
  by (simp_all add: route_traded_def route_review_def Let_def split: option.splits)

lemma route_step_name [simp]:
  "generateRouteName (route_traded t k s) key = generateRouteName s key"
  "generateRouteName (route_review t k s) key = generateRouteName s key"
  by (rule generateRouteName_cong; simp)+

interpretation traded: keyed_loop "route_traded tick" route_view traded_week
proof
  fix k k' s
  show "route_view (route_traded tick k s) k = traded_week (route_view s k)"
    by (cases "TradeTracker s k"; cases "TradeRoutes s k")
      (simp_all add: route_view_def, simp_all add: route_traded_def Let_def)
  show "route_view (route_traded tick k s) k' = route_view s k'" if "k' \<noteq> k"
    using that by (simp add: route_view_def, simp add: route_traded_def Let_def split: option.splits)
qed

lemma uint8_pred_0: "0 < (l::uint8) \<Longrightarrow> l - 1 = 0 \<longleftrightarrow> l = 1"
  by simp

interpretation review: keyed_loop "route_review tick" route_view review_week
proof
  fix k k' s
  show "route_view (route_review tick k s) k = review_week (route_view s k)"
    by (cases "TradeRoutes s k"; cases "TradeTracker s k")
      (simp_all add: route_view_def, auto simp: route_review_def Let_def)
  show "route_view (route_review tick k s) k' = route_view s k'" if "k' \<noteq> k"
    using that by (simp add: route_view_def, simp add: route_review_def Let_def split: option.splits)
qed

text \<open>
  The two loops over the tracker and over the routes, in any iteration order,
  act on every pair as \<open>route_week\<close>.
\<close>

lemma processTradeRoutes_week:
  assumes traded: "distinct ks" "set ks = dom (TradeTracker s)"
    and existing: "distinct rs" "set rs = dom (TradeRoutes (fold (route_traded tick) ks s))"
  shows "TradeRoutes (processTradeRoutes ks rs tick s) key = route_week (route_view s key)"
proof -
  let ?s1 = "fold (route_traded tick) ks s"
  have one: "route_view ?s1 key = traded_week (route_view s key)"
    using traded by (intro traded.pass_total) (auto simp: route_view_def)
  have "route_view (fold (route_review tick) rs ?s1) key = review_week (route_view ?s1 key)"
    using existing by (intro review.pass_total) (auto simp: route_view_def)
  with one show ?thesis
    unfolding processTradeRoutes_def route_week_def by (metis route_view_def fst_conv snd_conv)
qed

text \<open>The invariant of a route and what a week can do to it.\<close>

definition route_ok :: "TradeRoute \<Rightarrow> bool" where
  "route_ok r \<longleftrightarrow> Level r \<le> 3 \<and> 0 \<le> RSustainedWeeks r \<and> 0 \<le> DormantWeeks r"

lemma route_grown_bounds:
  "Level r \<le> 3 \<Longrightarrow> Level r \<le> route_grown vol r \<and> route_grown vol r \<le> 3 \<and> route_grown vol r \<le> Level r + 1"
  by (auto simp: route_grown_def Let_def word_le_nat_alt unat_word_ariths)

lemma route_slip_fields [simp]:
  "Level (route_slip r) = Level r" "DormantWeeks (route_slip r) = DormantWeeks r + 1"
  "WeeklyTrade (route_slip r) = WeeklyTrade r" "RouteName (route_slip r) = RouteName r"
  by (simp_all add: route_slip_def)

lemma route_slip_ok: "route_ok r \<Longrightarrow> route_ok (route_slip r)"
  by (simp add: route_ok_def) (simp add: route_slip_def)

lemma traded_week_ok:
  assumes "\<And>r. ro = Some r \<Longrightarrow> route_ok r" and "fst (snd (traded_week (vo, ro, nm))) = Some r'"
  shows "route_ok r'"
proof (cases vo)
  case None then show ?thesis using assms by simp
next
  case (Some vol)
  show ?thesis
  proof (cases "routeEstablishThreshold \<le> vol")
    case True
    then show ?thesis using assms Some
      by (cases ro) (auto simp: Let_def route_ok_def route_grown_bounds)
  next
    case False
    then show ?thesis using assms Some
      by (auto simp: route_ok_def route_slip_def split: if_splits)
  qed
qed

lemma review_week_ok:
  assumes "\<And>r. ro = Some r \<Longrightarrow> route_ok r" and "fst (snd (review_week (vo, ro, nm))) = Some r'"
  shows "route_ok r'"
proof (cases ro)
  case None then show ?thesis using assms by simp
next
  case (Some r)
  define r1 where "r1 = (if vo = None then (route_slip r)\<lparr>WeeklyTrade := 0\<rparr> else r)"
  have "route_ok r1" using assms(1) [OF Some] route_slip_ok by (auto simp: r1_def route_ok_def)
  moreover have "r' = r1 \<or> (0 < Level r1 \<and> r' = r1\<lparr>Level := Level r1 - 1, DormantWeeks := 0\<rparr>)"
    using assms(2) unfolding Some review_week.simps r1_def [symmetric] by (auto simp: Let_def split: if_splits)
  ultimately show ?thesis
    by (auto simp: route_ok_def word_le_nat_alt unat_minus_one word_gt_0)
qed

lemma route_week_ok:
  assumes "\<And>r. TradeRoutes s key = Some r \<Longrightarrow> route_ok r" and "route_week (route_view s key) = Some r'"
  shows "route_ok r'"
proof -
  obtain vo ro nm where t: "traded_week (route_view s key) = (vo, ro, nm)" by (cases "traded_week (route_view s key)")
  have "route_ok r" if "ro = Some r" for r
    using traded_week_ok [of "TradeRoutes s key" "TradeTracker s key" "generateRouteName s key" r] assms(1) t that
    by (simp add: route_view_def)
  then show ?thesis using review_week_ok [of ro vo nm r'] assms(2) by (simp add: route_week_def t)
qed

text \<open>A route nobody uses any more disappears.\<close>

definition idle_week :: "TradeRoute option \<Rightarrow> TradeRoute option" where
  "idle_week ro = fst (snd (review_week (None, ro, [])))"

lemma idle_week_None [simp]: "idle_week None = None"
  by (simp add: idle_week_def)

lemma idle_weeks_None [simp]: "(idle_week ^^ n) None = None"
  by (induction n) simp_all

lemma idle_weeks_mono: "(idle_week ^^ m) ro = None \<Longrightarrow> m \<le> n \<Longrightarrow> (idle_week ^^ n) ro = None"
  by (metis idle_weeks_None le_add_diff_inverse2 funpow_add comp_apply)

lemma idle_week_waits:
  "idle_week (Some r) = None \<or>
   (\<exists>r'. idle_week (Some r) = Some r' \<and>
     (Level r' = Level r \<and> DormantWeeks r' = DormantWeeks r + 1 \<and> DormantWeeks r + 1 < 3
      \<or> 0 < Level r \<and> Level r' = Level r - 1 \<and> DormantWeeks r' = 0))"
proof (cases "2 \<le> DormantWeeks r + 1 \<and> 0 < Level r")
  case True then show ?thesis by (auto simp: idle_week_def Let_def)
next
  case False then show ?thesis by (auto simp: idle_week_def Let_def word_gt_0)
qed

definition idle_rank :: "TradeRoute \<Rightarrow> nat" where
  "idle_rank r = 4 * unat (Level r) + nat (3 - DormantWeeks r)"

lemma idle_week_rank:
  assumes "route_ok r" and "idle_week (Some r) = Some r'"
  shows "route_ok r' \<and> idle_rank r' < idle_rank r"
proof -
  have "route_ok r'" using review_week_ok [of "Some r" None "[]" r'] assms by (simp add: idle_week_def)
  moreover have "idle_rank r' < idle_rank r"
  proof (cases "Level r' = Level r \<and> DormantWeeks r' = DormantWeeks r + 1 \<and> DormantWeeks r + 1 < 3")
    case True then show ?thesis by (simp add: idle_rank_def)
  next
    case False
    then have "0 < Level r" "Level r' = Level r - 1" "DormantWeeks r' = 0"
      using idle_week_waits [of r] assms(2) by auto
    then have "unat (Level r') = unat (Level r) - 1" "0 < unat (Level r)"
      by (simp_all add: unat_minus_one word_gt_0 unat_gt_0)
    then show ?thesis using \<open>DormantWeeks r' = 0\<close> by (simp add: idle_rank_def)
  qed
  ultimately show ?thesis ..
qed

lemma idle_route_dissolves:
  "route_ok r \<Longrightarrow> (idle_week ^^ Suc (idle_rank r)) (Some r) = None"
proof (induction "idle_rank r" arbitrary: r rule: less_induct)
  case less
  show ?case
  proof (cases "idle_week (Some r)")
    case None then show ?thesis by (simp only: funpow_Suc_right comp_apply idle_weeks_None)
  next
    case (Some r')
    then have r': "route_ok r'" "idle_rank r' < idle_rank r" using idle_week_rank less.prems by auto
    then have "(idle_week ^^ Suc (idle_rank r')) (Some r') = None" by (intro less.hyps)
    then have "(idle_week ^^ idle_rank r) (Some r') = None" by (rule idle_weeks_mono) (use r'(2) in simp)
    then show ?thesis by (simp only: funpow_Suc_right comp_apply Some)
  qed
qed

text \<open>The orders in which Go may range over the two maps of \<^verbatim>\<open>processTradeRoutes\<close>.\<close>

definition route_orders :: "SettRelKey list \<Rightarrow> SettRelKey list \<Rightarrow> uint64 \<Rightarrow> Sim \<Rightarrow> bool" where
  "route_orders ks rs tick s \<longleftrightarrow> distinct ks \<and> set ks = dom (TradeTracker s)
     \<and> distinct rs \<and> set rs = dom (TradeRoutes (fold (route_traded tick) ks s))"

lemma idle_processTradeRoutes:
  assumes "route_orders ks rs tick s" "TradeTracker s key = None"
  shows "TradeRoutes (processTradeRoutes ks rs tick s) key = idle_week (TradeRoutes s key)"
proof -
  have "review_week (None, ro, nm) = (None, fst (snd (review_week (None, ro, []))), nm)" for ro nm by (cases ro) simp_all
  then have "route_week (None, ro, nm) = idle_week ro" for ro nm
    unfolding route_week_def idle_week_def traded_week.simps by (metis fst_conv snd_conv)
  then show ?thesis
    using processTradeRoutes_week [of ks s rs tick key] assms by (simp add: route_orders_def route_view_def)
qed

lemma idle_routes_gone:
  assumes "\<And>i. i < n \<Longrightarrow> route_orders (ks i) (rs i) (tick i) (S i) \<and> TradeTracker (S i) key = None
      \<and> TradeRoutes (S (Suc i)) key = TradeRoutes (processTradeRoutes (ks i) (rs i) (tick i) (S i)) key"
    and "\<And>r. TradeRoutes (S 0) key = Some r \<Longrightarrow> route_ok r \<and> 4 * unat (Level r) + 4 \<le> n"
  shows "TradeRoutes (S n) key = None"
proof -
  have it: "TradeRoutes (S i) key = (idle_week ^^ i) (TradeRoutes (S 0) key)" if "i \<le> n" for i
    using that
  proof (induction i)
    case (Suc i)
    then have "TradeRoutes (S (Suc i)) key = idle_week (TradeRoutes (S i) key)"
      using assms(1) [of i] idle_processTradeRoutes [of "ks i" "rs i" "tick i" "S i" key] by (metis Suc_le_eq)
    then show ?case using Suc.IH Suc.prems by simp
  qed simp
  show ?thesis
  proof (cases "TradeRoutes (S 0) key")
    case (Some r)
    then have "idle_rank r \<le> 4 * unat (Level r) + 3" using assms(2) by (auto simp: idle_rank_def route_ok_def)
    then have "Suc (idle_rank r) \<le> n" "route_ok r" using assms(2) [OF Some] by linarith+
    then have "(idle_week ^^ n) (Some r) = None" by (intro idle_weeks_mono [OF idle_route_dissolves])
    then show ?thesis unfolding it [OF order_refl] Some .
  next
    case None
    show ?thesis unfolding it [OF order_refl] None by (rule idle_weeks_None)
  qed
qed

subsection \<open>Agreements as a state machine per pair\<close>

type_synonym pact_view = "SettlementRelation option \<times> Agreement option"

definition pact_view :: "Sim \<Rightarrow> SettRelKey \<Rightarrow> pact_view" where
  "pact_view s key = (Relations s key, Agreements s key)"

definition warm_week :: "uint64 \<Rightarrow> f64 \<Rightarrow> Agreement \<Rightarrow> Agreement" where
  "warm_week tick x a =
     (let a1 = a\<lparr>SustainedWeeks := SustainedWeeks a + 1\<rparr> in
      case pact_target x (SustainedWeeks a1) of
        Some t \<Rightarrow> if AgType a < t then a1\<lparr>AgType := t, FormedAtTick := tick\<rparr> else a1
      | None \<Rightarrow> a1)"

definition cool_week :: "f64 \<Rightarrow> Agreement \<Rightarrow> Agreement option" where
  "cool_week x a =
     (if 0 < AgType a \<and> x < agreementDissolveThreshold (AgType a) then
        if AgType a = 1 then None else Some (a\<lparr>AgType := AgType a - 1, SustainedWeeks := 0\<rparr>)
      else if AgType a = 0 then
        if x < Agnosis then None
        else Some (a\<lparr>SustainedWeeks := (if 0 < SustainedWeeks a then SustainedWeeks a - 1 else SustainedWeeks a)\<rparr>)
      else Some a)"

fun pact_week :: "uint64 \<Rightarrow> pact_view \<Rightarrow> pact_view" where
  "pact_week tick (None, ao) = (None, ao)"
| "pact_week tick (Some rel, ao) = (Some rel,
     (if Psyche \<le> RSentiment rel
      then Some (case ao of None \<Rightarrow> \<lparr>AgType = 0, SustainedWeeks = 1, FormedAtTick = 0\<rparr>
                 | Some a \<Rightarrow> warm_week tick (RSentiment rel) a)
      else Option.bind ao (cool_week (RSentiment rel))))"

fun orphan_week :: "pact_view \<Rightarrow> pact_view" where
  "orphan_week (ro, ao) = (ro, if ro = None then None else ao)"

lemma emitDiplomacyEvent_fields [simp]:
  "Relations (emitDiplomacyEvent t k r a s) = Relations s"
  "Agreements (emitDiplomacyEvent t k r a s) = Agreements s"
  by (simp_all add: emitDiplomacyEvent_def Let_def)

lemma agreement_upd [simp]:
  "Relations (set_agreement k a s) = Relations s" "Relations (drop_agreement k s) = Relations s"
  "Agreements (set_agreement k a s) = (Agreements s)(k \<mapsto> a)"
  "Agreements (drop_agreement k s) = (Agreements s)(k := None)"
  by (simp_all add: set_agreement_def drop_agreement_def)

lemma pact_warm_view:
  "Relations (pact_warm t k x a s) = Relations s"
  "Agreements (pact_warm t k x a s) = (Agreements s)(k \<mapsto> warm_week t x a)"
  by (simp_all add: pact_warm_def warm_week_def Let_def split: option.splits)

lemma pact_cool_view:
  "Relations (pact_cool t k x a s) = Relations s"
  "Agreements s k = Some a \<Longrightarrow> Agreements (pact_cool t k x a s) = (Agreements s)(k := cool_week x a)"
  by (auto simp: pact_cool_def cool_week_def Let_def fun_eq_iff)

interpretation pacts: keyed_loop "pact_review tick" pact_view "pact_week tick"
proof
  fix k k' s
  show "pact_view (pact_review tick k s) k = pact_week tick (pact_view s k)"
    by (cases "Relations s k"; cases "Agreements s k")
      (simp_all add: pact_view_def pact_review_def pact_warm_view pact_cool_view)
  show "pact_view (pact_review tick k s) k' = pact_view s k'" if "k' \<noteq> k"
    using that by (cases "Relations s k"; cases "Agreements s k")
      (simp_all add: pact_view_def pact_review_def pact_warm_view pact_cool_view)
qed

interpretation orphans: keyed_loop "pact_orphan tick" pact_view orphan_week
  by unfold_locales (auto simp: pact_view_def pact_orphan_def split: option.splits)

lemma processDiplomacy_week:
  assumes related: "distinct ks" "set ks = dom (Relations s)"
    and agreed: "distinct as" "set as = dom (Agreements (fold (pact_review tick) ks s))"
  shows "pact_view (processDiplomacy ks as tick s) key = orphan_week (pact_week tick (pact_view s key))"
proof -
  let ?s1 = "fold (pact_review tick) ks s"
  have one: "pact_view ?s1 key = pact_week tick (pact_view s key)"
    using related by (intro pacts.pass_total) (auto simp: pact_view_def)
  have "pact_view (fold (pact_orphan tick) as ?s1) key = orphan_week (pact_view ?s1 key)"
    using agreed by (intro orphans.pass_total) (auto simp: pact_view_def)
  with one show ?thesis by (simp add: processDiplomacy_def)
qed

text \<open>
  Agreement types index tables of four entries, so the invariant \<open>pact_ok\<close>
  is also what keeps every table access in range.
\<close>

definition pact_ok :: "Agreement \<Rightarrow> bool" where
  "pact_ok a \<longleftrightarrow> AgType a \<le> AgreementAlliance \<and> 0 \<le> SustainedWeeks a"

lemmas agreement_types = AgreementTradePact_def AgreementNonAggression_def AgreementAlliance_def

lemma pact_target_Some:
  assumes "pact_target x w = Some t"
  shows "0 < t \<and> t \<le> 3 \<and> agreementFormThreshold t \<le> x \<and> agreementFormWeeks t \<le> w"
  using find_first_Some [OF assms [unfolded pact_target_def]] by (auto simp: agreement_types)

lemma warm_week_ok: "pact_ok a \<Longrightarrow> pact_ok (warm_week t x a)"
  by (auto simp: pact_ok_def warm_week_def Let_def AgreementAlliance_def split: option.splits dest: pact_target_Some)

lemma cool_week_ok: "pact_ok a \<Longrightarrow> cool_week x a = Some b \<Longrightarrow> pact_ok b \<and> AgType b \<le> AgType a"
  by (auto simp: pact_ok_def cool_week_def AgreementAlliance_def word_le_nat_alt unat_minus_one word_gt_0 split: if_splits)

lemma warm_week_grows: "AgType a \<le> AgType (warm_week t x a)"
  by (auto simp: warm_week_def Let_def split: option.splits)

text \<open>A type is reached only at its threshold and after its weeks.\<close>

lemma warm_week_earned:
  assumes "AgType (warm_week t x a) \<noteq> AgType a"
  shows "agreementFormThreshold (AgType (warm_week t x a)) \<le> x
    \<and> agreementFormWeeks (AgType (warm_week t x a)) \<le> SustainedWeeks a + 1 \<and> FormedAtTick (warm_week t x a) = t"
  using assms by (auto simp: warm_week_def Let_def split: option.splits if_splits dest: pact_target_Some)

lemma alliance_threshold: "agreementFormThreshold AgreementAlliance = 1"
  by (simp add: agreementFormThreshold_def agreement_types Psyche_plus_Matter)

lemma pact_week_ok:
  assumes "\<And>a. ao = Some a \<Longrightarrow> pact_ok a" and "snd (pact_week t (ro, ao)) = Some b"
  shows "pact_ok b"
proof (cases ro)
  case None then show ?thesis using assms by simp
next
  case (Some rel)
  show ?thesis
  proof (cases ao)
    case None
    then show ?thesis using assms(2) Some by (auto simp: pact_ok_def agreement_types split: if_splits)
  next
    case (Some a)
    then show ?thesis using assms \<open>ro = Some rel\<close> warm_week_ok cool_week_ok by (auto split: if_splits)
  qed
qed

lemma processDiplomacy_ok:
  assumes keys: "distinct ks" "set ks = dom (Relations s)"
      "distinct as" "set as = dom (Agreements (fold (pact_review tick) ks s))"
    and ok: "\<And>k a. Agreements s k = Some a \<Longrightarrow> pact_ok a"
    and after: "Agreements (processDiplomacy ks as tick s) key = Some b"
  shows "pact_ok b \<and> (\<exists>rel. Relations s key = Some rel)"
proof -
  have "(Relations (processDiplomacy ks as tick s) key, Some b) =
      orphan_week (pact_week tick (Relations s key, Agreements s key))"
    using processDiplomacy_week [OF keys, of key] after by (simp add: pact_view_def)
  then have "snd (pact_week tick (Relations s key, Agreements s key)) = Some b \<and> Relations s key \<noteq> None"
    by (cases "Relations s key") auto
  then show ?thesis using pact_week_ok ok by (metis not_None_eq)
qed

text \<open>A pair that has turned cold loses its agreement within three weeks.\<close>

definition cold_week :: "f64 \<Rightarrow> Agreement option \<Rightarrow> Agreement option" where
  "cold_week x ao = Option.bind ao (cool_week x)"

lemma cold_week_None [simp]: "cold_week x None = None" by (simp add: cold_week_def)

lemma uint8_le_3: "(t::uint8) \<le> 3 \<Longrightarrow> t = 0 \<or> t = 1 \<or> t = 2 \<or> t = 3"
proof -
  assume "t \<le> 3"
  then have "unat t < 4" by (simp add: word_le_nat_alt)
  then have "unat t \<in> {0, 1, 2, 3}" by auto
  then show ?thesis by (auto simp: word_unat_eq_iff)
qed

lemma cold_week_steps:
  assumes "pact_ok a" "x < Agnosis"
  shows "AgType a \<le> 1 \<Longrightarrow> cold_week x (Some a) = None"
    and "1 < AgType a \<Longrightarrow> \<exists>b. cold_week x (Some a) = Some b \<and> AgType b = AgType a - 1 \<and> pact_ok b"
proof -
  have lt: "x < Psyche" "x < Matter" using less_le_trans [OF assms(2)] by simp_all
  have types: "AgType a \<in> {0, 1, 2, 3}"
    using assms(1) uint8_le_3 by (auto simp: pact_ok_def AgreementAlliance_def)
  show "AgType a \<le> 1 \<Longrightarrow> cold_week x (Some a) = None"
    using types assms(2)
    by (auto simp: cold_week_def cool_week_def agreementDissolveThreshold_def agreement_types word_le_nat_alt)
  show "1 < AgType a \<Longrightarrow> \<exists>b. cold_week x (Some a) = Some b \<and> AgType b = AgType a - 1 \<and> pact_ok b"
    using types lt by (auto simp: cold_week_def cool_week_def agreementDissolveThreshold_def agreement_types pact_ok_def)
qed

lemma cold_week_below:
  assumes "cold_week x (Some a) = Some b" "AgType a < AgreementAlliance"
  shows "AgType b \<noteq> AgreementAlliance"
proof -
  have "unat (AgType a) < 3" using assms(2) by (simp add: AgreementAlliance_def word_less_nat_alt)
  then have "AgType a = 0 \<or> AgType a = 1 \<or> AgType a = 2" using uint8_le_3 [of "AgType a"] by (auto simp: word_le_nat_alt)
  then show ?thesis using assms(1) by (auto simp: cold_week_def cool_week_def agreement_types split: if_splits)
qed

definition pact_orders :: "SettRelKey list \<Rightarrow> SettRelKey list \<Rightarrow> uint64 \<Rightarrow> Sim \<Rightarrow> bool" where
  "pact_orders ks as tick s \<longleftrightarrow> distinct ks \<and> set ks = dom (Relations s)
     \<and> distinct as \<and> set as = dom (Agreements (fold (pact_review tick) ks s))"

lemma processDiplomacy_Agreements:
  assumes "pact_orders ks as tick s" "Relations s key = Some rel"
  shows "Agreements (processDiplomacy ks as tick s) key =
    (if Psyche \<le> RSentiment rel
     then Some (case Agreements s key of None \<Rightarrow> \<lparr>AgType = 0, SustainedWeeks = 1, FormedAtTick = 0\<rparr>
                | Some a \<Rightarrow> warm_week tick (RSentiment rel) a)
     else cold_week (RSentiment rel) (Agreements s key))"
  using processDiplomacy_week [of ks s as tick key] assms by (auto simp: pact_orders_def pact_view_def cold_week_def split: if_splits)

lemma cold_processDiplomacy:
  assumes "pact_orders ks as tick s" "Relations s key = Some rel" "RSentiment rel < Agnosis"
    and "\<And>a. Agreements s key = Some a \<Longrightarrow> pact_ok a \<and> unat (AgType a) \<le> Suc m"
  shows "Agreements (processDiplomacy ks as tick s) key = Some b \<Longrightarrow> pact_ok b \<and> unat (AgType b) \<le> m \<and> 0 < AgType b"
proof -
  assume b: "Agreements (processDiplomacy ks as tick s) key = Some b"
  have "\<not> Psyche \<le> RSentiment rel" using less_le_trans [OF assms(3) phi_le(1)] by simp
  then have "cold_week (RSentiment rel) (Agreements s key) = Some b" using b processDiplomacy_Agreements [OF assms(1,2)] by simp
  then obtain a where a: "Agreements s key = Some a" "cold_week (RSentiment rel) (Some a) = Some b" by (cases "Agreements s key") auto
  then have "1 < AgType a" using cold_week_steps(1) [OF _ assms(3), of a] assms(4) [OF a(1)] by fastforce
  then have "AgType b = AgType a - 1" "pact_ok b" using cold_week_steps(2) [OF _ assms(3), of a] assms(4) [OF a(1)] a(2) by auto
  moreover have "AgType a \<noteq> 0" using \<open>1 < AgType a\<close> by auto
  ultimately show "pact_ok b \<and> unat (AgType b) \<le> m \<and> 0 < AgType b"
    using assms(4) [OF a(1)] \<open>1 < AgType a\<close> by (auto simp: unat_minus_one word_less_nat_alt)
qed

lemma cold_pacts_gone:
  assumes "\<And>i. i < 3 \<Longrightarrow> pact_orders (ks i) (as i) (tick i) (S i)
      \<and> (\<exists>rel. Relations (S i) key = Some rel \<and> RSentiment rel < Agnosis)
      \<and> Agreements (S (Suc i)) key = Agreements (processDiplomacy (ks i) (as i) (tick i) (S i)) key"
    and "\<And>a. Agreements (S 0) key = Some a \<Longrightarrow> pact_ok a"
  shows "Agreements (S 3) key = None"
proof (rule ccontr)
  assume "Agreements (S 3) key \<noteq> None"
  then obtain c where c: "Agreements (S 3) key = Some c" by blast
  have w: "pact_ok b \<and> unat (AgType b) \<le> m \<and> 0 < AgType b"
    if "i < 3" "Agreements (S (Suc i)) key = Some b" "\<And>a. Agreements (S i) key = Some a \<Longrightarrow> pact_ok a \<and> unat (AgType a) \<le> Suc m" for i b m
    using assms(1) [OF that(1)] that(2,3) cold_processDiplomacy [of "ks i" "as i" "tick i" "S i" key _ m b] by auto
  have 0: "pact_ok a \<and> unat (AgType a) \<le> Suc 2" if "Agreements (S 0) key = Some a" for a
    using assms(2) [OF that] by (simp add: pact_ok_def AgreementAlliance_def word_le_nat_alt)
  have 1: "pact_ok a \<and> unat (AgType a) \<le> Suc 1" if "Agreements (S 1) key = Some a" for a using w [of 0 a 2] 0 that by simp
  have 2: "pact_ok a \<and> unat (AgType a) \<le> Suc 0" if "Agreements (S 2) key = Some a" for a using w [of 1 a 1] 1 that by (simp add: numeral_2_eq_2)
  have "unat (AgType c) \<le> 0 \<and> 0 < AgType c" using w [of 2 c 0] 2 c by (simp add: numeral_3_eq_3)
  then show False by (auto simp: word_less_nat_alt)
qed

subsection \<open>Treaties as a state machine per pair\<close>

type_synonym peace_view = "int option \<times> PeaceTreaty option \<times> SettlementRelation option"

definition peace_view :: "Sim \<Rightarrow> SettRelKey \<Rightarrow> peace_view" where
  "peace_view s key = (RaidCounts s key, PeaceTreaties s key, Relations s key)"

fun exhausted_week :: "uint64 \<Rightarrow> peace_view \<Rightarrow> peace_view" where
  "exhausted_week tick (Some n, None, rel) =
     (if 3 \<le> n then (Some 0, Some \<lparr>RemainingWeeks = 8, RaidCount = n, PFormedAtTick = tick\<rparr>, rel)
      else (Some n, None, rel))"
| "exhausted_week tick v = v"

fun treaty_week :: "peace_view \<Rightarrow> peace_view" where
  "treaty_week (ro, None, rel) = (ro, None, rel)"
| "treaty_week (ro, Some p, rel) =
     (ro, (if RemainingWeeks p \<le> 1 then None else Some (p\<lparr>RemainingWeeks := RemainingWeeks p - 1\<rparr>)),
      map_option peace_heal rel)"

lemma emitPeaceEvent_fields [simp]:
  "Relations (emitPeaceEvent t k a s) = Relations s" "RaidCounts (emitPeaceEvent t k a s) = RaidCounts s"
  "PeaceTreaties (emitPeaceEvent t k a s) = PeaceTreaties s"
  by (simp_all add: emitPeaceEvent_def Let_def)

interpretation exhaustion: keyed_loop "peace_form tick" peace_view "exhausted_week tick"
proof
  fix k k' s
  show "peace_view (peace_form tick k s) k = exhausted_week tick (peace_view s k)"
    by (cases "RaidCounts s k"; cases "PeaceTreaties s k")
      (simp_all add: peace_view_def peace_form_def peaceRaidThreshold_def peaceDurationWeeks_def)
  show "peace_view (peace_form tick k s) k' = peace_view s k'" if "k' \<noteq> k"
    using that by (simp add: peace_view_def peace_form_def split: option.splits)
qed

interpretation treaty: keyed_loop "peace_tick tick" peace_view treaty_week
proof
  fix k k' s
  show "peace_view (peace_tick tick k s) k = treaty_week (peace_view s k)"
    by (cases "PeaceTreaties s k"; cases "Relations s k")
      (simp_all add: peace_view_def peace_tick_def Let_def)
  show "peace_view (peace_tick tick k s) k' = peace_view s k'" if "k' \<noteq> k"
    using that by (simp add: peace_view_def peace_tick_def Let_def split: option.splits)
qed

lemma processPeace_week:
  assumes raided: "distinct ks" "set ks = dom (RaidCounts s)"
    and treaties: "distinct ts" "set ts = dom (PeaceTreaties (fold (peace_form tick) ks s))"
  shows "peace_view (processPeace ks ts tick s) key = treaty_week (exhausted_week tick (peace_view s key))"
proof -
  let ?s1 = "fold (peace_form tick) ks s"
  have one: "peace_view ?s1 key = exhausted_week tick (peace_view s key)"
    using raided by (intro exhaustion.pass_total) (auto simp: peace_view_def)
  have "peace_view (fold (peace_tick tick) ts ?s1) key = treaty_week (peace_view ?s1 key)"
    using treaties by (intro treaty.pass_total) (auto simp: peace_view_def)
  with one show ?thesis by (simp add: processPeace_def)
qed

text \<open>Under a treaty hostile sentiment recovers, up to neutrality and no further.\<close>

lemma peace_heal_bounds:
  "RSentiment (peace_heal r) \<le> 0"
  "RSentiment r \<le> 0 \<Longrightarrow> RSentiment r \<le> RSentiment (peace_heal r)"
proof -
  have "RSentiment r \<le> RSentiment r + Agnosis * lit 0.1"
    by (intro flt_add_increase flt_mult_nonneg zero_le_lit) simp_all
  then show "RSentiment r \<le> 0 \<Longrightarrow> RSentiment r \<le> RSentiment (peace_heal r)"
    by (simp add: peace_heal_def Let_def)
  define x where "x = RSentiment r + Agnosis * lit 0.1"
  have "(if 0 < x then 0 else x) \<le> 0" by (simp split: if_split) (metis not_less)
  then show "RSentiment (peace_heal r) \<le> 0" by (simp only: peace_heal_def Let_def x_def SettlementRelation.simps SettlementRelation.update_convs SettlementRelation.select_convs) simp
qed

subsection \<open>Sentiment\<close>

lemma flt_abs_minus: "flt_abs (- x) = flt_abs x"
  by (auto simp: flt_abs_def flt_less_iff rat_of_flt_inject [symmetric])

lemma flt_abs_swap: "flt_abs (flt_conv (y - x)) = flt_abs (flt_conv (x - y))"
  by (simp add: flt_diff_swap [of y x] flt_conv_minus flt_abs_minus)

lemma culture_score_sym: "culture_score x y = culture_score y x"
  by (simp only: culture_score_def flt_abs_swap [of "CultureTradition x"] flt_abs_swap [of "CultureOpenness x"]
      flt_abs_swap [of "CultureMilitarism x"])

lemma factionRivalryMultiplier_sym: "factionRivalryMultiplier a b = factionRivalryMultiplier b a"
  by (auto simp: factionRivalryMultiplier_def Let_def)

lemma faction_score_sym: "faction_score a b = faction_score b a"
  by (simp add: faction_score_def factionRivalryMultiplier_sym [of "fst a"] flt_mult_minus flt_mult_commute [of "snd a"])

lemma GetDiplomacyTradeBonus_sym: "GetDiplomacyTradeBonus s a b = GetDiplomacyTradeBonus s b a"
  by (simp add: GetDiplomacyTradeBonus_def GetAgreement_def settRelKey_sym [of a])

lemma trade_score_sym: "trade_score log2 s a b = trade_score log2 s b a"
  by (simp only: trade_score_def GetDiplomacyTradeBonus_sym [of s a] settRelKey_sym [of a])

lemma sentiment_delta_sym: "sentiment_delta log2 s p q = sentiment_delta log2 s q p"
  by (simp add: sentiment_delta_def culture_score_sym [of "settl s p"] Let_def
      faction_score_sym [of "factionData s (SID (settl s p))"] trade_score_sym [of _ _ "SID (settl s p)"]
      Distance_sym [of "SPosition (settl s p)"])

lemma update_relation_range: "- 1 \<le> RSentiment (update_relation d v r)" "RSentiment (update_relation d v r) \<le> 1"
proof -
  have "- 1 \<le> (if y < - 1 then - 1 else y) \<and> (if y < - 1 then - 1 else y) \<le> 1"
    if "y = (if 1 < x then 1 else x)" for x y :: f64
    using that by (cases "1 < x"; cases "y < - 1") (auto simp: flt_le_iff flt_less_iff)
  then show "- 1 \<le> RSentiment (update_relation d v r)" "RSentiment (update_relation d v r) \<le> 1"
    unfolding update_relation_def Let_def SettlementRelation.select_convs by blast+
qed

text \<open>Only \<open>Relations\<close> changes during the pass, and the score of a pair does not read it.\<close>

lemma sentiment_delta_relations [simp]:
  "sentiment_delta log2 (s\<lparr>Relations := R\<rparr>) p q = sentiment_delta log2 s p q"
proof -
  have "faction_info (s\<lparr>Relations := R\<rparr>) = faction_info s" by (simp add: faction_info_def Let_def fun_eq_iff cong: if_cong)
  then have "factionData (s\<lparr>Relations := R\<rparr>) = factionData s" by (simp add: factionData_def fun_eq_iff)
  moreover have "GetDiplomacyTradeBonus (s\<lparr>Relations := R\<rparr>) = GetDiplomacyTradeBonus s"
    by (simp add: GetDiplomacyTradeBonus_def GetAgreement_def fun_eq_iff)
  then have "trade_score log2 (s\<lparr>Relations := R\<rparr>) = trade_score log2 s"
    by (simp add: trade_score_def fun_eq_iff cong: if_cong option.case_cong)
  ultimately show ?thesis by (simp add: sentiment_delta_def)
qed

definition inhabited_pairs :: "Sim \<Rightarrow> (ptr \<times> ptr) set" where
  "inhabited_pairs s = {(p, q). p \<in> set (Settlements s) \<and> Population (settl s p) \<noteq> 0
     \<and> q \<in> set (SettlementNeighbors s (SID (settl s p))) \<and> Population (settl s q) \<noteq> 0}"

definition pair_key :: "Sim \<Rightarrow> ptr \<Rightarrow> ptr \<Rightarrow> SettRelKey" where
  "pair_key s p q = settRelKey (SID (settl s p)) (SID (settl s q))"

definition renewed :: "(f64 \<Rightarrow> f64) \<Rightarrow> Sim \<Rightarrow> ptr \<Rightarrow> ptr \<Rightarrow> SettlementRelation" where
  "renewed log2 s p q = (let key = pair_key s p q in
     update_relation (sentiment_delta log2 s p q) (TradeTracker s key) (Relations s key))"

definition relate_inv :: "(f64 \<Rightarrow> f64) \<Rightarrow> Sim \<Rightarrow> (ptr \<times> ptr) set \<Rightarrow> Sim \<times> SettRelKey set \<Rightarrow> bool" where
  "relate_inv log2 s0 ps st \<longleftrightarrow> (\<exists>R. fst st = s0\<lparr>Relations := R\<rparr>
     \<and> (\<forall>k. if k \<in> snd st then (\<exists>p q. (p, q) \<in> ps \<and> pair_key s0 p q = k \<and> R k = Some (renewed log2 s0 p q))
            else R k = Relations s0 k)
     \<and> (\<forall>p q. (p, q) \<in> ps \<longrightarrow> pair_key s0 p q \<in> snd st))"

lemma relate_invI:
  assumes "\<And>k. if k \<in> seen then (\<exists>p q. (p, q) \<in> ps \<and> pair_key s0 p q = k \<and> R k = Some (renewed log2 s0 p q))
            else R k = Relations s0 k"
    and "\<And>p q. (p, q) \<in> ps \<Longrightarrow> pair_key s0 p q \<in> seen"
  shows "relate_inv log2 s0 ps (s0\<lparr>Relations := R\<rparr>, seen)"
  unfolding relate_inv_def by (intro exI [of _ R]) (use assms in simp)

lemma relate_pair_inv:
  assumes "relate_inv log2 s0 ps st"
  shows "relate_inv log2 s0 (if Population (settl s0 q) = 0 then ps else insert (p, q) ps) (relate_pair log2 p q st)"
proof -
  obtain s seen where st: "st = (s, seen)" by (cases st)
  obtain R where s: "s = s0\<lparr>Relations := R\<rparr>"
    and val: "\<And>k. if k \<in> seen then (\<exists>p q. (p, q) \<in> ps \<and> pair_key s0 p q = k \<and> R k = Some (renewed log2 s0 p q))
            else R k = Relations s0 k"
    and cov: "\<And>p q. (p, q) \<in> ps \<Longrightarrow> pair_key s0 p q \<in> seen"
    using assms unfolding relate_inv_def st fst_conv snd_conv by blast
  let ?k = "pair_key s0 p q"
  consider "Population (settl s0 q) = 0" | "Population (settl s0 q) \<noteq> 0" "?k \<in> seen"
    | "Population (settl s0 q) \<noteq> 0" "?k \<notin> seen" by blast
  then show ?thesis
  proof cases
    case 1
    then have "relate_pair log2 p q st = st" by (simp add: relate_pair_def st s Let_def)
    then show ?thesis using assms 1 by simp
  next
    case 2
    then have same: "relate_pair log2 p q st = (s0\<lparr>Relations := R\<rparr>, seen)"
      by (simp add: relate_pair_def st s Let_def pair_key_def)
    have "if k \<in> seen then (\<exists>p' q'. (p', q') \<in> insert (p, q) ps \<and> pair_key s0 p' q' = k
        \<and> R k = Some (renewed log2 s0 p' q')) else R k = Relations s0 k" for k
      using val [of k] by (cases "k \<in> seen") (simp_all only: if_True if_False, blast)
    moreover have "pair_key s0 p' q' \<in> seen" if "(p', q') \<in> insert (p, q) ps" for p' q'
      using that cov 2(2) by blast
    ultimately have "relate_inv log2 s0 (insert (p, q) ps) (s0\<lparr>Relations := R\<rparr>, seen)" by (rule relate_invI)
    then show ?thesis using 2(1) by (simp add: same)
  next
    case 3
    let ?R = "R(?k \<mapsto> renewed log2 s0 p q)"
    have R: "R ?k = Relations s0 ?k" using val [of ?k] 3(2) by simp
    have new: "relate_pair log2 p q st = (s0\<lparr>Relations := ?R\<rparr>, insert ?k seen)"
      using 3 R by (simp add: relate_pair_def st s Let_def renewed_def pair_key_def)
    have "if k \<in> insert ?k seen then (\<exists>p' q'. (p', q') \<in> insert (p, q) ps \<and> pair_key s0 p' q' = k
        \<and> ?R k = Some (renewed log2 s0 p' q')) else ?R k = Relations s0 k" for k
      using val [of k] by (cases "k = ?k"; cases "k \<in> seen") (simp_all, blast+)
    moreover have "pair_key s0 p' q' \<in> insert ?k seen" if "(p', q') \<in> insert (p, q) ps" for p' q'
      using that cov by blast
    ultimately have "relate_inv log2 s0 (insert (p, q) ps) (s0\<lparr>Relations := ?R\<rparr>, insert ?k seen)" by (rule relate_invI)
    then show ?thesis using 3(1) by (simp add: new)
  qed
qed

lemma relate_row_inv:
  assumes "relate_inv log2 s0 ps st"
  shows "relate_inv log2 s0 (ps \<union> {(p, q) |q. q \<in> set qs \<and> Population (settl s0 q) \<noteq> 0}) (fold (relate_pair log2 p) qs st)"
  using assms
proof (induction qs arbitrary: ps st)
  case Nil then show ?case by simp
next
  case (Cons q qs)
  have "(if Population (settl s0 q) = 0 then ps else insert (p, q) ps)
      \<union> {(p, q') |q'. q' \<in> set qs \<and> Population (settl s0 q') \<noteq> 0}
      = ps \<union> {(p, q') |q'. q' \<in> set (q # qs) \<and> Population (settl s0 q') \<noteq> 0}"
    by (auto simp del: not_gr_zero)
  with Cons.IH [OF relate_pair_inv [OF Cons.prems, of q p]] show ?case by (simp only: fold_simps comp_apply)
qed

definition row_pairs :: "Sim \<Rightarrow> ptr list \<Rightarrow> (ptr \<times> ptr) set" where
  "row_pairs s xs = {(p, q). p \<in> set xs \<and> Population (settl s p) \<noteq> 0
     \<and> q \<in> set (SettlementNeighbors s (SID (settl s p))) \<and> Population (settl s q) \<noteq> 0}"

definition relate_row :: "(f64 \<Rightarrow> f64) \<Rightarrow> ptr \<Rightarrow> Sim \<times> SettRelKey set \<Rightarrow> Sim \<times> SettRelKey set" where
  "relate_row log2 p st = (if Population (settl (fst st) p) = 0 then st
     else fold (relate_pair log2 p) (SettlementNeighbors (fst st) (SID (settl (fst st) p))) st)"

lemma relate_row_fields:
  assumes "relate_inv log2 s0 ps st"
  shows "settl (fst st) = settl s0" "SettlementNeighbors (fst st) = SettlementNeighbors s0"
  using assms unfolding relate_inv_def by auto

lemma relate_rows_inv:
  assumes "relate_inv log2 s0 ps st"
  shows "relate_inv log2 s0 (ps \<union> row_pairs s0 xs) (fold (relate_row log2) xs st)"
  using assms
proof (induction xs arbitrary: ps st)
  case Nil then show ?case by (simp add: row_pairs_def)
next
  case (Cons p xs)
  let ?row = "if Population (settl s0 p) = 0 then {}
    else {(p, q) |q. q \<in> set (SettlementNeighbors s0 (SID (settl s0 p))) \<and> Population (settl s0 q) \<noteq> 0}"
  have "relate_inv log2 s0 (ps \<union> ?row) (relate_row log2 p st)"
    using Cons.prems relate_row_inv [OF Cons.prems, of p]
    by (simp add: relate_row_def relate_row_fields [OF Cons.prems])
  from Cons.IH [OF this] have "relate_inv log2 s0 (ps \<union> ?row \<union> row_pairs s0 xs) (fold (relate_row log2) (p # xs) st)"
    by (simp only: fold_simps comp_apply)
  moreover have "ps \<union> ?row \<union> row_pairs s0 xs = ps \<union> row_pairs s0 (p # xs)"
    by (auto simp: row_pairs_def)
  ultimately show ?case by (simp only:)
qed

lemma relate_all_inv: "relate_inv log2 s (inhabited_pairs s) (relate_all log2 s)"
proof -
  have "relate_inv log2 s {} (s, {})" unfolding relate_inv_def by (intro exI [of _ "Relations s"]) simp
  from relate_rows_inv [OF this, of "Settlements s"] show ?thesis
    by (simp add: relate_all_def row_pairs_def inhabited_pairs_def relate_row_def [abs_def])
qed

text \<open>
  The weekly computation: every inhabited neighbouring pair gets its renewed
  relation, every other relation is kept, and then stale relations go.
\<close>

lemma computeSettlementRelations_value:
  assumes ids: "inj_on (\<lambda>p. SID (settl s p)) (Domain (inhabited_pairs s) \<union> Range (inhabited_pairs s))"
    and pair: "(p, q) \<in> inhabited_pairs s"
  shows "Relations (computeSettlementRelations log2 s) (pair_key s p q) =
    (let r = renewed log2 s p q in if stale_relation r then None else Some r)"
proof -
  from relate_all_inv [of log2 s] obtain R where R: "fst (relate_all log2 s) = s\<lparr>Relations := R\<rparr>"
    and val: "\<And>k. k \<in> snd (relate_all log2 s) \<Longrightarrow>
      (\<exists>p q. (p, q) \<in> inhabited_pairs s \<and> pair_key s p q = k \<and> R k = Some (renewed log2 s p q))"
    and cov: "\<And>p q. (p, q) \<in> inhabited_pairs s \<Longrightarrow> pair_key s p q \<in> snd (relate_all log2 s)"
    unfolding relate_inv_def by (metis (full_types))
  obtain p' q' where pq: "(p', q') \<in> inhabited_pairs s" "pair_key s p' q' = pair_key s p q"
    "R (pair_key s p q) = Some (renewed log2 s p' q')" using val [OF cov [OF pair]] by blast
  have "p' = p \<and> q' = q \<or> p' = q \<and> q' = p"
    using pq(2) inj_onD [OF ids] pair pq(1) by (auto simp: pair_key_def settRelKey_inj; meson DomainI RangeI UnCI)
  then have "renewed log2 s p' q' = renewed log2 s p q"
    by (auto simp: renewed_def pair_key_def sentiment_delta_sym [of log2 s p] settRelKey_sym [of "SID (settl s p)"])
  then show ?thesis using pq(3) by (simp add: computeSettlementRelations_def R Let_def)
qed

lemma computeSettlementRelations_other:
  assumes "\<And>p q. (p, q) \<in> inhabited_pairs s \<Longrightarrow> pair_key s p q \<noteq> k"
  shows "Relations (computeSettlementRelations log2 s) k =
    (case Relations s k of None \<Rightarrow> None | Some r \<Rightarrow> if stale_relation r then None else Some r)"
proof -
  from relate_all_inv [of log2 s] obtain R where R: "fst (relate_all log2 s) = s\<lparr>Relations := R\<rparr>"
    and val: "\<And>k. if k \<in> snd (relate_all log2 s) then
      (\<exists>p q. (p, q) \<in> inhabited_pairs s \<and> pair_key s p q = k \<and> R k = Some (renewed log2 s p q)) else R k = Relations s k"
    unfolding relate_inv_def by blast
  have "R k = Relations s k" using val [of k] assms by (auto split: if_splits)
  then show ?thesis by (simp add: computeSettlementRelations_def R Let_def)
qed

definition sentiments_ok :: "Sim \<Rightarrow> bool" where
  "sentiments_ok s \<longleftrightarrow> (\<forall>k r. Relations s k = Some r \<longrightarrow> - 1 \<le> RSentiment r \<and> RSentiment r \<le> 1)"

lemma computeSettlementRelations_ok:
  assumes "sentiments_ok s" shows "sentiments_ok (computeSettlementRelations log2 s)"
proof -
  from relate_all_inv [of log2 s] obtain R where R: "fst (relate_all log2 s) = s\<lparr>Relations := R\<rparr>"
    and val: "\<And>k. if k \<in> snd (relate_all log2 s) then
      (\<exists>p q. (p, q) \<in> inhabited_pairs s \<and> pair_key s p q = k \<and> R k = Some (renewed log2 s p q)) else R k = Relations s k"
    unfolding relate_inv_def by blast
  have "- 1 \<le> RSentiment r \<and> RSentiment r \<le> 1" if "R k = Some r" for k r
  proof (cases "k \<in> snd (relate_all log2 s)")
    case True then show ?thesis using val [of k] that update_relation_range by (auto simp: renewed_def Let_def)
  next
    case False then show ?thesis using val [of k] that assms by (auto simp: sentiments_ok_def)
  qed
  then show ?thesis
    by (auto simp: sentiments_ok_def computeSettlementRelations_def R Let_def split: option.splits if_splits)
qed

subsection \<open>How fast a route can grow\<close>

definition route_level :: "TradeRoute option \<Rightarrow> uint8" where
  "route_level ro = (case ro of None \<Rightarrow> 0 | Some r \<Rightarrow> Level r)"

lemma route_grown_needs:
  "Level r < route_grown vol r \<Longrightarrow> route_grown vol r = Level r + 1 \<and> 2 \<le> RSustainedWeeks r"
  by (auto simp: route_grown_def Let_def split: if_splits)

lemma traded_week_level:
  assumes "\<And>r. ro = Some r \<Longrightarrow> route_ok r" "route_level ro < route_level (fst (snd (traded_week (vo, ro, nm))))"
  shows "(\<exists>vol r. vo = Some vol \<and> routeEstablishThreshold \<le> vol \<and> ro = Some r \<and> 1 \<le> RSustainedWeeks r)
    \<and> route_level (fst (snd (traded_week (vo, ro, nm)))) = route_level ro + 1"
proof (cases vo)
  case None then show ?thesis using assms(2) by simp
next
  case (Some vol)
  show ?thesis
  proof (cases ro)
    case None
    then show ?thesis using assms(2) Some by (auto simp: route_level_def route_grown_def Let_def split: if_splits)
  next
    case r: (Some r)
    show ?thesis
    proof (cases "routeEstablishThreshold \<le> vol")
      case True
      let ?r = "r\<lparr>RSustainedWeeks := RSustainedWeeks r + 1, DormantWeeks := 0, WeeklyTrade := vol\<rparr>"
      have up: "Level ?r < route_grown vol ?r"
        using assms(2) True unfolding Some r by (auto simp: route_level_def Let_def split: if_splits)
      then show ?thesis using route_grown_needs [OF up] True unfolding Some r
        by (auto simp: route_level_def Let_def)
    next
      case False
      then show ?thesis using assms(2) Some r by (auto simp: route_level_def split: if_splits)
    qed
  qed
qed

lemma review_week_level: "route_level (fst (snd (review_week (vo, ro, nm)))) \<le> route_level ro"
proof (cases ro)
  case (Some r)
  have "Level r - 1 \<le> Level r" if "0 < Level r"
    using that by (simp add: word_le_nat_alt unat_minus_one word_gt_0)
  then show ?thesis unfolding Some by (auto simp: route_level_def Let_def)
qed simp

lemma route_week_growth:
  assumes "\<And>r. TradeRoutes s key = Some r \<Longrightarrow> route_ok r"
    and up: "route_level (TradeRoutes s key) < route_level (route_week (route_view s key))"
  shows "(\<exists>vol r. TradeTracker s key = Some vol \<and> routeEstablishThreshold \<le> vol
      \<and> TradeRoutes s key = Some r \<and> 1 \<le> RSustainedWeeks r)
    \<and> route_level (route_week (route_view s key)) = route_level (TradeRoutes s key) + 1"
proof -
  obtain vo ro nm where t: "traded_week (route_view s key) = (vo, ro, nm)" by (cases "traded_week (route_view s key)")
  have down: "route_level (route_week (route_view s key)) \<le> route_level ro"
    using review_week_level [of vo ro nm] by (simp add: route_week_def t)
  with up have "route_level (TradeRoutes s key) < route_level ro" by simp
  then have "route_level (TradeRoutes s key) < route_level (fst (snd (traded_week (route_view s key))))" by (simp add: t)
  from traded_week_level [OF assms(1) this [unfolded route_view_def]]
  have g: "(\<exists>vol r. TradeTracker s key = Some vol \<and> routeEstablishThreshold \<le> vol
      \<and> TradeRoutes s key = Some r \<and> 1 \<le> RSustainedWeeks r)" "route_level ro = route_level (TradeRoutes s key) + 1"
    using t by (simp_all add: route_view_def)
  have "route_level (route_week (route_view s key)) = route_level (TradeRoutes s key) + 1"
    using up down unfolding g(2) by (metis antisym inc_le)
  then show ?thesis using g(1) by blast
qed

end
