(* ===== verification/Merchant.thy ===== *)
theory Merchant
  imports Lifecycle Relations_Model
begin

section \<open>Merchants (internal/engine/market.go)\<close>

text \<open>
  Merchants buy at home, travel, sell at a neighbouring settlement and repay
  what the home treasury advanced.  \<^verbatim>\<open>goods sp p n\<close> is the order in
  which Go ranges over the home market's entries when merchant \<open>p\<close> of
  settlement \<open>sp\<close> looks at neighbour \<open>n\<close>.  The neighbour lists hold
  only settlements with a market (\<^verbatim>\<open>BuildSettlementNeighbors\<close>, or the
  filter below), so a missing market is never dereferenced.
\<close>

fun goodName :: "GoodType \<Rightarrow> string" where
  "goodName GoodGrain = ''grain''"
| "goodName GoodTimber = ''timber''"
| "goodName GoodIronOre = ''iron ore''"
| "goodName GoodStone = ''stone''"
| "goodName GoodFish = ''fish''"
| "goodName GoodHerbs = ''herbs''"
| "goodName GoodGems = ''gems''"
| "goodName GoodFurs = ''furs''"
| "goodName GoodCoal = ''coal''"
| "goodName GoodExotics = ''exotics''"
| "goodName GoodTools = ''tools''"
| "goodName GoodWeapons = ''weapons''"
| "goodName GoodClothing = ''clothing''"
| "goodName GoodMedicine = ''medicine''"
| "goodName GoodLuxuries = ''luxuries''"

subsection \<open>Selling a cargo\<close>

definition wants :: "GoodType \<Rightarrow> uint64 \<Rightarrow> Agent \<Rightarrow> bool" where
  "wants good price b \<longleftrightarrow>
     (let isFood = (good = GoodGrain \<or> good = GoodFish);
          maxSpend = word_of_flt (flt_of_word (Wealth b) * Agnosis)
      in Alive b \<and> price \<le> Wealth b \<and> price \<le> maxSpend
         \<and> (if isFood then float64 (Survival (Needs b)) \<le> Matter else Inventory b good < 2))"

definition findDirectBuyer :: "GoodType \<Rightarrow> uint64 \<Rightarrow> uint64 \<Rightarrow> Sim \<Rightarrow> ptr option" where
  "findDirectBuyer good price settID s =
     find_first (\<lambda>b. wants good price (agent s b)) (SettlementAgents s settID)"

definition market_fee :: "uint64 \<Rightarrow> uint64" where
  "market_fee unitPrice =
     (let fee = word_of_flt (flt_of_word unitPrice * Agnosis * lit 0.1) in if fee < 1 then 1 else fee)"

definition sell_unit :: "GoodType \<Rightarrow> uint64 \<Rightarrow> ptr \<Rightarrow> ptr \<Rightarrow> Sim \<times> uint64 \<Rightarrow> (Sim \<times> uint64) option" where
  "sell_unit good unitPrice p sp st =
     (let (s, totalRevenue) = st in
      if unitPrice \<le> Treasury (settl s sp)
      then Some (upd_agent p (gain_wealth unitPrice) (upd_settl sp (lose_treasury unitPrice) s), totalRevenue + unitPrice)
      else case findDirectBuyer good unitPrice (SID (settl s sp)) s of
             None \<Rightarrow> None
           | Some b \<Rightarrow>
               let fee = market_fee unitPrice
               in Some (upd_settl sp (gain_treasury fee)
                          (upd_agent p (gain_wealth (unitPrice - fee)) (upd_agent b (lose_wealth unitPrice) s)),
                        totalRevenue + (unitPrice - fee)))"

definition sell_good :: "ptr \<Rightarrow> ptr \<Rightarrow> Market \<Rightarrow> GoodType \<Rightarrow> Sim \<times> uint64 \<Rightarrow> Sim \<times> uint64" where
  "sell_good p sp market good st =
     (let qty = TradeCargo (agent (fst st) p) good in
      case Entries market good of
        None \<Rightarrow> st
      | Some e \<Rightarrow> if qty \<le> 0 then st
                  else for_break (\<lambda>_. sell_unit good (whole_crowns (Price e)) p sp) [0..<nat qty] st)"

definition commission_due :: "uint64 \<Rightarrow> Agent \<Rightarrow> uint64" where
  "commission_due proceeds a =
     word_of_flt (flt_of_word proceeds * Agnosis * lit 0.1 * (1 + float64 (CittaCoherence (Soul a))))"

text \<open>
  One guild master.  The \<^verbatim>\<open>break\<close> after a payment that exhausts the
  budget is the first test of the next iteration.
\<close>

definition pay_commission :: "uint64 \<Rightarrow> uint64 \<Rightarrow> ptr \<Rightarrow> ptr \<Rightarrow> Sim \<times> uint64 \<Rightarrow> (Sim \<times> uint64) option" where
  "pay_commission proceeds maxTotal seller q st =
     (let (s, totalPaid) = st; a = agent s q in
      if maxTotal \<le> totalPaid then None
      else if Tier a \<noteq> Tier2 \<or> AOccupation a \<noteq> OccupationMerchant \<or> \<not> Alive a \<or> AID a = AID (agent s seller)
      then Some st
      else let c0 = commission_due proceeds a in
        if c0 = 0 then Some st
        else let c1 = (if maxTotal < totalPaid + c0 then maxTotal - totalPaid else c0);
                 c2 = (if Wealth (agent s seller) < c1 then Wealth (agent s seller) else c1)
             in if c2 = 0 then None
                else Some (upd_agent q (gain_wealth c2) (upd_agent seller (lose_wealth c2) s), totalPaid + c2))"

definition tier2Commission :: "ptr \<Rightarrow> ptr \<Rightarrow> uint64 \<Rightarrow> Sim \<Rightarrow> Sim" where
  "tier2Commission seller sp proceeds s =
     (let settAgents = SettlementAgents s (SID (settl s sp));
          maxTotal = word_of_flt (flt_of_word proceeds * Agnosis + lit 0.5)
      in if settAgents = [] \<or> maxTotal = 0 then s
         else fst (for_break (pay_commission proceeds maxTotal seller) settAgents (s, 0)))"

definition cargo_desc :: "GoodInventory \<Rightarrow> string" where
  "cargo_desc cargo =
     concat (map (\<lambda>g. if 0 < cargo g then show_int (cargo g) @ '' '' @ goodName g @ '' '' else []) all_goods)"

definition trade_memory :: "string \<Rightarrow> uint64 \<Rightarrow> Agent \<Rightarrow> Agent" where
  "trade_memory town totalRevenue a =
     AddMemory 0 (''Completed trade to '' @ town @ '': sold '' @ cargo_desc (TradeCargo a) @ ''for ''
                    @ show_word totalRevenue @ '' crowns'')
       (if totalRevenue < ConsignmentDebt a then lit 0.7 else lit 0.6) a"

definition sellMerchantCargo :: "ptr \<Rightarrow> Market \<Rightarrow> ptr \<Rightarrow> Sim \<Rightarrow> Sim" where
  "sellMerchantCargo p market sp s =
     (let (s1, totalRevenue) = fold (sell_good p sp market) all_goods (s, 0)
      in if totalRevenue = 0 then s1
         else let s2 = upd_agent p (add_needs (float32 (Agnosis * lit 0.05)) (lit 0.008) (lit 0.004) (lit 0.012) (lit 0.004)) s1;
                  s3 = (if Tier (agent s2 p) = Tier2
                        then upd_agent p (trade_memory (SName (settl s2 sp)) totalRevenue) s2 else s2)
              in tier2Commission p sp totalRevenue s3)"

subsection \<open>Finding a trade\<close>

definition has_surplus :: "Settlement \<Rightarrow> Market \<Rightarrow> bool" where
  "has_surplus sett m =
     (let popThreshold = flt_of_word (Population sett) * Being in
      list_ex (\<lambda>g. case Entries m g of None \<Rightarrow> False
                   | Some e \<Rightarrow> popThreshold < Supply e \<and> lit 100 < Supply e) all_goods)"

definition scouted_neighbors :: "ptr \<Rightarrow> Market \<Rightarrow> Sim \<Rightarrow> ptr list" where
  "scouted_neighbors sp m s =
     (let sett = settl s sp in
      if has_surplus sett m
      then filter (\<lambda>n. SMarket (settl s n) \<noteq> None) (SettlementNeighbors s (SID sett))
      else SettlementTradeNeighbors s (SID sett))"

definition effective_margin :: "Sim \<Rightarrow> ptr \<Rightarrow> ptr \<Rightarrow> ptr \<Rightarrow> MarketEntry \<Rightarrow> MarketEntry \<Rightarrow> f64" where
  "effective_margin s p sp n homeEntry destEntry =
     (let sett = settl s sp; neighbor = settl s n;
          opennessMod = 1 + float64 (CultureOpenness sett + CultureOpenness neighbor) * lit 0.5 * Agnosis * lit 0.2;
          margin = (Price destEntry - Price homeEntry) / Price homeEntry;
          routeMarginBonus = snd (GetRouteBonus s (SID sett) (SID neighbor));
          m = margin * Being * opennessMod * (1 + routeMarginBonus)
      in if TradePreferredDest (agent s p) = Some (SID neighbor) then m * Being else m)"

definition consider_good :: "Sim \<Rightarrow> ptr \<Rightarrow> ptr \<Rightarrow> Market \<Rightarrow> ptr \<Rightarrow> Market \<Rightarrow> GoodType
    \<Rightarrow> f64 \<times> (GoodType \<times> ptr) option \<Rightarrow> f64 \<times> (GoodType \<times> ptr) option" where
  "consider_good s p sp home n dest good best =
     (case (Entries home good, Entries dest good) of
        (Some homeEntry, Some destEntry) \<Rightarrow>
          if Price homeEntry < 1 then best
          else let m = effective_margin s p sp n homeEntry destEntry
               in if Psyche < m \<and> fst best < m then (m, Some (good, n)) else best
      | _ \<Rightarrow> best)"

definition consider_neighbor :: "GoodType list \<Rightarrow> Sim \<Rightarrow> ptr \<Rightarrow> ptr \<Rightarrow> Market \<Rightarrow> ptr
    \<Rightarrow> f64 \<times> (GoodType \<times> ptr) option \<Rightarrow> f64 \<times> (GoodType \<times> ptr) option" where
  "consider_neighbor goods s p sp home n best =
     (if IsEmbargoed s (SID (settl s sp)) (SID (settl s n)) then best
      else case SMarket (settl s n) of
             None \<Rightarrow> best
           | Some dest \<Rightarrow> fold (consider_good s p sp home n dest) goods best)"

definition travel_cost :: "Sim \<Rightarrow> ptr \<Rightarrow> ptr \<Rightarrow> int" where
  "travel_cost s sp n =
     (let base = roadAdjustedCost (routeCost (SPosition (settl s sp)) (SPosition (settl s n)) (WorldMap s)) (RoadLevel (settl s sp));
          tc = int_of_flt (flt_of_int base * fst (GetRouteBonus s (SID (settl s sp)) (SID (settl s n))))
      in if tc < 6 then 6 else tc)"

text \<open>The prices of a good at home and at the destination, for a profitable journey.\<close>

definition worth_it :: "Sim \<Rightarrow> ptr \<Rightarrow> Market \<Rightarrow> GoodType \<Rightarrow> ptr \<Rightarrow> bool" where
  "worth_it s sp home good n =
     (case (Entries home good, Option.bind (SMarket (settl s n)) (\<lambda>m. Entries m good)) of
        (Some homeEntry, Some destEntry) \<Rightarrow>
          let foodCost = flt_of_int (travel_cost s sp n div 60 + 2) * lit 2;
              grossProfit = (Price destEntry - Price homeEntry) * lit 5
          in \<not> grossProfit \<le> foodCost
      | _ \<Rightarrow> False)"

definition best_trade :: "(ptr \<Rightarrow> GoodType list) \<Rightarrow> Sim \<Rightarrow> ptr \<Rightarrow> ptr \<Rightarrow> Market \<Rightarrow> ptr list \<Rightarrow> (GoodType \<times> ptr) option" where
  "best_trade goods s p sp home neighbors =
     (case snd (fold (\<lambda>n. consider_neighbor (goods n) s p sp home n) neighbors (0, None)) of
        None \<Rightarrow> None
      | Some (good, n) \<Rightarrow> if worth_it s sp home good n then Some (good, n) else None)"

subsection \<open>Setting out\<close>

definition buy_unit :: "uint64 \<Rightarrow> ptr \<Rightarrow> ptr \<Rightarrow> Sim \<times> int \<Rightarrow> (Sim \<times> int) option" where
  "buy_unit buyPrice p sp st =
     (let (s, buyQty) = st in
      if buyPrice \<le> Wealth (agent s p)
      then Some (upd_settl sp (gain_treasury buyPrice) (upd_agent p (lose_wealth buyPrice) s), buyQty + 1)
      else if buyPrice \<le> Treasury (settl s sp)
      then Some (upd_agent p (\<lambda>a. a\<lparr>ConsignmentDebt := ConsignmentDebt a + buyPrice\<rparr>)
                   (upd_settl sp (lose_treasury buyPrice) s), buyQty + 1)
      else None)"

text \<open>The first food, grain before fish, that the merchant can pay.\<close>

definition buy_meal :: "Market \<Rightarrow> ptr \<Rightarrow> ptr \<Rightarrow> Sim \<Rightarrow> Sim option" where
  "buy_meal home p sp s =
     (case find_first (\<lambda>g. case Entries home g of None \<Rightarrow> False
                         | Some e \<Rightarrow> whole_crowns (Price e) \<le> Wealth (agent s p)) [GoodGrain, GoodFish] of
        None \<Rightarrow> None
      | Some g \<Rightarrow>
          let cost = (case Entries home g of None \<Rightarrow> 0 | Some e \<Rightarrow> whole_crowns (Price e))
          in Some (upd_agent p (inv_add g 1) (upd_settl sp (gain_treasury cost) (upd_agent p (lose_wealth cost) s))))"

definition set_out :: "Market \<Rightarrow> GoodType \<Rightarrow> ptr \<Rightarrow> ptr \<Rightarrow> ptr \<Rightarrow> Sim \<Rightarrow> Sim" where
  "set_out home good n p sp s =
     (let buyPrice = (case Entries home good of None \<Rightarrow> 0 | Some e \<Rightarrow> whole_crowns (Price e));
          (s1, buyQty) = for_break (\<lambda>_. buy_unit buyPrice p sp) [0..<5] (s, 0)
      in if buyQty = 0 then s1
         else let s2 = upd_agent p (\<lambda>a. a\<lparr>TradeDestSett := Some (SID (settl s1 n)),
                           TradeCargo := (TradeCargo a)(good := TradeCargo a good + buyQty)\<rparr>) s1;
                  travelCost = travel_cost s2 sp n;
                  currentFood = Inventory (agent s2 p) GoodGrain + Inventory (agent s2 p) GoodFish;
                  mealsNeeded = travelCost div 60 + 2;
                  s3 = for_break (\<lambda>_. buy_meal home p sp) [0..<nat (mealsNeeded - currentFood)] s2
              in upd_agent p (\<lambda>a. a\<lparr>TravelTicksLeft := word_of_int travelCost\<rparr>) s3)"

subsection \<open>The merchant's hour\<close>

definition repay_consignment :: "ptr \<Rightarrow> ptr \<Rightarrow> Sim \<Rightarrow> Sim" where
  "repay_consignment p sp s =
     (let a = agent s p in
      if 0 < ConsignmentDebt a then
        (let repay = (if Wealth a < ConsignmentDebt a then Wealth a else ConsignmentDebt a)
         in upd_agent p (\<lambda>a. a\<lparr>ConsignmentDebt := ConsignmentDebt a - repay\<rparr>)
              (upd_settl sp (gain_treasury repay) (upd_agent p (lose_wealth repay) s)))
      else s)"

definition arrive :: "uint64 \<Rightarrow> ptr \<Rightarrow> ptr \<Rightarrow> Sim \<Rightarrow> Sim" where
  "arrive dest p sp s =
     (let s1 = (case SettlementIndex s dest of
              None \<Rightarrow> s
            | Some dp \<Rightarrow>
                (case SMarket (settl s dp) of
                   None \<Rightarrow> s
                 | Some m \<Rightarrow>
                     let t = sellMerchantCargo p m dp s;
                         t1 = t\<lparr>Stats := (Stats t)\<lparr>TradeVolume := TradeVolume (Stats t) + 1\<rparr>\<rparr>
                     in case HomeSettID (agent t1 p) of
                          None \<Rightarrow> t1
                        | Some h \<Rightarrow> RecordInterSettlementTrade h (SID (settl t1 dp)) t1));
          s2 = repay_consignment p sp s1
      in upd_agent p (\<lambda>a. a\<lparr>TradeDestSett := None, TradeCargo := inv_Clear (TradeCargo a)\<rparr>) s2)"

definition scout :: "(ptr \<Rightarrow> GoodType list) \<Rightarrow> uint64 \<Rightarrow> Market \<Rightarrow> ptr list \<Rightarrow> ptr \<Rightarrow> ptr \<Rightarrow> Sim \<Rightarrow> Sim" where
  "scout goods tick home neighbors p sp s =
     (let best = best_trade goods s p sp home neighbors;
          s1 = upd_agent p (\<lambda>a. a\<lparr>TradePreferredDest := None\<rparr>) s
      in case best of
           Some (good, n) \<Rightarrow> set_out home good n p sp s1
         | None \<Rightarrow>
             if Tier (agent s1 p) = Tier2 \<and> tick mod TicksPerSimDay < TicksPerSimHour
             then upd_agent p (AddMemory tick (''No profitable trade routes from '' @ SName (settl s1 sp) @ '' today.'') (lit 0.3)) s1
             else s1)"

definition merchant_hour :: "(ptr \<Rightarrow> GoodType list) \<Rightarrow> uint64 \<Rightarrow> Market \<Rightarrow> ptr list \<Rightarrow> ptr \<Rightarrow> ptr \<Rightarrow> Sim \<Rightarrow> Sim" where
  "merchant_hour goods tick home neighbors sp p s =
     (let a = agent s p in
      if \<not> Alive a \<or> AOccupation a \<noteq> OccupationMerchant then s
      else if 0 < TravelTicksLeft a
      then upd_agent p (\<lambda>a. a\<lparr>TravelTicksLeft :=
             (if TravelTicksLeft a \<le> 60 then 0 else TravelTicksLeft a - 60)\<rparr>) s
      else case (TradeDestSett a, inv_IsEmpty (TradeCargo a)) of
             (Some dest, False) \<Rightarrow> arrive dest p sp s
           | _ \<Rightarrow> if Wealth a < 20 then s else scout goods tick home neighbors p sp s)"

definition merchants_of :: "(ptr \<Rightarrow> ptr \<Rightarrow> ptr \<Rightarrow> GoodType list) \<Rightarrow> uint64 \<Rightarrow> ptr \<Rightarrow> Sim \<Rightarrow> Sim" where
  "merchants_of goods tick sp s =
     (case SMarket (settl s sp) of
        None \<Rightarrow> s
      | Some home \<Rightarrow>
          let neighbors = scouted_neighbors sp home s in
          if neighbors = [] then s
          else fold (\<lambda>p. merchant_hour (goods sp p) tick home neighbors sp p) (SettlementAgents s (SID (settl s sp))) s)"

definition resolveMerchantTrade :: "(ptr \<Rightarrow> ptr \<Rightarrow> ptr \<Rightarrow> GoodType list) \<Rightarrow> uint64 \<Rightarrow> Sim \<Rightarrow> Sim" where
  "resolveMerchantTrade goods tick s = fold (merchants_of goods tick) (Settlements s) s"

subsection \<open>Guild masters selling their surplus\<close>

definition best_surplus :: "Agent \<Rightarrow> Market \<Rightarrow> f64 \<times> GoodType \<times> int" where
  "best_surplus a m =
     fold (\<lambda>good (bestValue, bestGood, bestQty).
             let surplus = Inventory a good - surplusThreshold a good in
             if surplus \<le> 0 then (bestValue, bestGood, bestQty)
             else case Entries m good of
                    None \<Rightarrow> (bestValue, bestGood, bestQty)
                  | Some e \<Rightarrow>
                      let value = flt_of_int surplus * Price e in
                      if bestValue < value then (value, good, surplus) else (bestValue, bestGood, bestQty))
       all_goods (0, GoodGrain, 0)"

definition skill_price :: "Agent \<Rightarrow> MarketEntry \<Rightarrow> uint64" where
  "skill_price a e =
     (let b0 = 1 + float64 (TradeSkill (Skills a)) * Agnosis;
          skillBonus = (if Being < b0 then Being else b0)
      in whole_crowns (Price e * skillBonus))"

definition sell_surplus_unit :: "uint64 \<Rightarrow> GoodType \<Rightarrow> ptr \<Rightarrow> ptr \<Rightarrow> Sim \<Rightarrow> Sim option" where
  "sell_surplus_unit unitPrice good p sp s =
     (if Treasury (settl s sp) < unitPrice then None
      else Some (upd_agent p (inv_add good (- 1)) (upd_agent p (gain_wealth unitPrice) (upd_settl sp (lose_treasury unitPrice) s))))"

definition tier2MarketSell :: "ptr \<Rightarrow> ptr \<Rightarrow> Sim \<Rightarrow> Sim" where
  "tier2MarketSell p sp s =
     (case SMarket (settl s sp) of
        None \<Rightarrow> s
      | Some m \<Rightarrow>
          let (_, bestGood, bestQty) = best_surplus (agent s p) m in
          if bestQty = 0 then s
          else case Entries m bestGood of
                 None \<Rightarrow> s
               | Some e \<Rightarrow>
                   upd_agent p (skill_trade (lit 0.005))
                     (for_break (\<lambda>_. sell_surplus_unit (skill_price (agent s p) e) bestGood p sp) [0..<nat bestQty] s))"

end
