(* ===== verification/Merchant_Laws.thy ===== *)
theory Merchant_Laws
  imports Merchant Fiscal_Laws
begin

section \<open>What merchants do to the money supply\<close>

text \<open>
  Sales, commissions, provisions and repayments are solvent transfers.  The
  one exception is a purchase on consignment: the treasury is charged and no
  account receives the price.  \<open>leaks A n\<close> is a sequence of transfers in
  which exactly \<open>n\<close> crowns disappear that way, and the hour of the
  merchants leaks exactly the consignment debt it creates.
\<close>

definition withdraw :: "account \<Rightarrow> uint64 \<Rightarrow> ledger \<Rightarrow> ledger" where
  "withdraw i c L = L(i := L i - c)"

inductive leaks :: "account set \<Rightarrow> nat \<Rightarrow> ledger \<Rightarrow> ledger \<Rightarrow> bool" for A where
  leaks_refl: "leaks A 0 L L"
| leaks_pay: "leaks A n L M \<Longrightarrow> i \<in> A \<Longrightarrow> j \<in> A \<Longrightarrow> c \<le> M i \<Longrightarrow> leaks A n L (transfer i j c M)"
| leaks_lose: "leaks A n L M \<Longrightarrow> i \<in> A \<Longrightarrow> c \<le> M i \<Longrightarrow> leaks A (n + unat c) L (withdraw i c M)"

lemma leaks_trans: "leaks A m L M \<Longrightarrow> leaks A n K L \<Longrightarrow> leaks A (n + m) K M"
proof (induction rule: leaks.induct)
  case (leaks_lose m L M i c)
  then have "leaks A (n + m + unat c) K (withdraw i c M)" by (intro leaks.leaks_lose) auto
  then show ?case by (simp add: add.assoc)
qed (auto intro: leaks.intros)

lemma pays_leaks: "pays A L M \<Longrightarrow> leaks A 0 L M"
  by (induction rule: pays.induct) (auto intro: leaks.intros)

lemma crowns_in_lose:
  assumes "finite A" "i \<in> A" "c \<le> L i"
  shows "crowns_in A (withdraw i c L) + unat c = crowns_in A L"
proof -
  have A: "A = insert i (A - {i})" using assms by auto
  have rest: "(\<Sum>a\<in>A - {i}. unat ((L(i := L i - c)) a)) = (\<Sum>a\<in>A - {i}. unat (L a))"
    by (rule sum.cong) auto
  have "crowns_in A (L(i := L i - c)) = unat (L i - c) + (\<Sum>a\<in>A - {i}. unat (L a))"
    unfolding crowns_in_def by (subst A, subst sum.insert) (use assms rest in auto)
  moreover have "crowns_in A L = unat (L i) + (\<Sum>a\<in>A - {i}. unat (L a))"
    unfolding crowns_in_def by (subst A, subst sum.insert) (use assms in auto)
  moreover have "unat (L i - c) + unat c = unat (L i)"
    using assms(3) by (simp add: unat_minus_le word_le_nat_alt)
  ultimately show ?thesis by (simp add: withdraw_def)
qed

theorem leaks_crowns:
  assumes "leaks A n L M" "finite A" "fits A L"
  shows "crowns_in A M + n = crowns_in A L"
  using assms
proof (induction rule: leaks.induct)
  case (leaks_pay n L M i j c)
  then have "crowns_in A M + n = crowns_in A L" "fits A M" by (auto simp: fits_def)
  then show ?case using leaks_pay crowns_in_transfer by simp
next
  case (leaks_lose n L M i c)
  then show ?case using crowns_in_lose [of A i c M] by (simp add: fits_def)
qed simp

subsection \<open>Steps that only pay\<close>

definition debt :: "Sim \<Rightarrow> ptr \<Rightarrow> nat" where
  "debt s q = unat (ConsignmentDebt (agent s q))"

text \<open>Payments that leave the frame and all debts alone.\<close>

definition settles :: "account set \<Rightarrow> Sim \<Rightarrow> Sim \<Rightarrow> bool" where
  "settles A s t \<longleftrightarrow> pays A (led s) (led t) \<and> same_frame s t
     \<and> (\<forall>q. ConsignmentDebt (agent t q) = ConsignmentDebt (agent s q))"

lemma settles_refl [simp]: "settles A s s"
  by (simp add: settles_def pays_refl)

lemma settles_trans: "settles A s t \<Longrightarrow> settles A t u \<Longrightarrow> settles A s u"
  by (auto simp: settles_def intro: pays_trans same_frame_trans)

lemma settles_debt: "settles A s t \<Longrightarrow> debt t q = debt s q"
  by (simp add: settles_def debt_def)

lemma settles_pays [crowns]:
  "settles A s (upd_agent q (gain_wealth c) (upd_agent p (lose_wealth c) s))"
  if "c \<le> Wealth (agent s p)" "Purse p \<in> A" "Purse q \<in> A"
  unfolding settles_def using pays_agent_agent [OF that]
  by (simp add: same_frame_upd_agent gain_wealth_def lose_wealth_def del: led_upd_agent led_upd_settl)

lemma settles_deposit [crowns]:
  "settles A s (upd_settl q (gain_treasury c) (upd_agent p (lose_wealth c) s))"
  if "c \<le> Wealth (agent s p)" "Purse p \<in> A" "Chest q \<in> A"
  unfolding settles_def using pays_agent_settl [OF that]
  by (simp add: same_frame_upd_agent same_frame_upd_settl gain_wealth_def lose_wealth_def del: led_upd_agent led_upd_settl)

lemma settles_wage [crowns]:
  "settles A s (upd_agent q (gain_wealth c) (upd_settl p (lose_treasury c) s))"
  if "c \<le> Treasury (settl s p)" "Chest p \<in> A" "Purse q \<in> A"
  unfolding settles_def using pays_settl_agent [OF that]
  by (simp add: same_frame_upd_agent same_frame_upd_settl gain_wealth_def lose_wealth_def del: led_upd_agent led_upd_settl)

lemma settles_neutral:
  assumes "\<And>a. Wealth (f a) = Wealth a" "keeps_agent f" "\<And>a. ConsignmentDebt (f a) = ConsignmentDebt a"
  shows "settles A s (upd_agent p f s)"
proof -
  have "led (upd_agent p f s) = led s" by (rule led_upd_agent_neutral) (rule assms(1))
  then show ?thesis
    using assms by (auto simp: settles_def pays_refl same_frame_upd_agent)
qed

lemma settles_cong:
  assumes "agent t = agent s" "settl t = settl s" "fact t = fact s" "Settlements t = Settlements s" "Agents t = Agents s"
    "Factions t = Factions s" "SettlementAgents t = SettlementAgents s" "SettlementIndex t = SettlementIndex s"
  shows "settles A s t"
proof -
  have "led t = led s" by (rule led_eqI) (simp_all add: assms)
  then show ?thesis by (simp add: settles_def pays_refl same_frame_def assms)
qed

lemma for_break_settles:
  assumes "\<And>x t t'. x \<in> set xs \<Longrightarrow> settles A s (L t) \<Longrightarrow> f x t = Some t' \<Longrightarrow> settles A (L t) (L t')"
    and "settles A s (L t)"
  shows "settles A s (L (for_break f xs t))"
  using for_break_rel [of "\<lambda>t u. True" xs "\<lambda>t. settles A s (L t)" f t] assms
  by (blast intro: settles_trans)

lemma fold_settles:
  assumes "\<And>x t. x \<in> set xs \<Longrightarrow> settles A s (L t) \<Longrightarrow> settles A (L t) (L (f x t))"
    and "settles A s (L t)"
  shows "settles A s (L (fold f xs t))"
  using fold_rel_inv [of "\<lambda>t u. True" xs "\<lambda>t. settles A s (L t)" f t] assms
  by (blast intro: settles_trans)

lemma settles_state:
  assumes "settles A s t"
  shows "SettlementAgents t = SettlementAgents s" "Agents t = Agents s" "Settlements t = Settlements s"
    "SettlementIndex t = SettlementIndex s" "SID (settl t q) = SID (settl s q)" "accts t = accts s"
    "AID (agent t p) = AID (agent s p)"
  using assms accts_frame [of s t] by (simp_all add: settles_def same_frame_def)

subsection \<open>Selling\<close>

lemma at_least_le: "c \<le> (if x < c then c else (x :: 'a::linorder))"
  by auto

lemma whole_crowns_pos [simp]: "1 \<le> whole_crowns x"
  unfolding whole_crowns_def Let_def by (rule at_least_le)

lemma agnosis_half: "lit 2 * Agnosis \<le> 1"
proof -
  have "lit 2 * Agnosis \<le> lit (2 ^ 1) * lit (1 / 2 ^ 2)"
    using flt_mult_left_mono [OF agnosis_quarter, of "lit 2"] by (simp add: zero_le_lit)
  also have "\<dots> = lit (1 / 2 ^ 1)" unfolding times_flt_def by (subst rat_of_lit_inv_pow2, simp, subst rat_of_lit_pow2) simp
  also have "\<dots> \<le> 1" by (rule lit_le_one) simp
  finally show ?thesis .
qed

lemma market_fee_le:
  assumes "1 \<le> w"
  shows "market_fee w \<le> w"
proof -
  let ?x = "flt_of_word w * Agnosis" let ?y = "?x * lit 0.1 :: f64"
  have x0: "0 \<le> ?x" by (intro flt_mult_nonneg) simp_all
  have y0: "0 \<le> ?y" using x0 by (intro flt_mult_nonneg) (simp_all add: zero_le_lit)
  have yx: "?y \<le> ?x" using x0 by (intro flt_mult_shrink) (simp_all add: lit_le_one)
  have x62: "?x \<le> lit (2 ^ 62)" by (rule treasury_share_bound)
  have "unat (word_of_flt ?y :: uint64) \<le> unat (word_of_flt ?x :: uint64)"
    using unat_word_of_flt(1) [OF x0 x62, where 'w = 64] unat_word_of_flt(1) [OF y0 order.trans [OF yx x62], where 'w = 64]
      int_of_flt_mono [OF yx] by simp
  also have "\<dots> \<le> unat w"
    using half_share_word [of Agnosis w] agnosis_half by (simp add: word_le_nat_alt)
  finally have "(word_of_flt ?y :: uint64) \<le> w" by (simp add: word_le_nat_alt)
  then show ?thesis using assms by (simp add: market_fee_def Let_def)
qed

lemma direct_sale_led:
  "led (upd_settl sp (gain_treasury fee) (upd_agent p (gain_wealth (u - fee)) (upd_agent b (lose_wealth u) s)))
     = transfer (Purse b) (Chest sp) fee (transfer (Purse b) (Purse p) (u - fee) (led s))"
  by (auto simp: transfer_def gain_wealth_def lose_wealth_def gain_treasury_def fun_eq_iff)

lemma settles_direct_sale:
  assumes "u \<le> Wealth (agent s b)" "fee \<le> u" "Purse b \<in> A" "Purse p \<in> A" "Chest sp \<in> A"
  shows "settles A s (upd_settl sp (gain_treasury fee) (upd_agent p (gain_wealth (u - fee)) (upd_agent b (lose_wealth u) s)))"
proof -
  have u: "unat fee \<le> unat u" "unat u \<le> unat (Wealth (agent s b))" using assms(1,2) by (simp_all add: word_le_nat_alt)
  have d: "unat (u - fee) = unat u - unat fee" using assms(2) by (rule unat_minus_le)
  have le1: "u - fee \<le> led s (Purse b)" using u d by (simp add: word_le_nat_alt)
  have "unat (Wealth (agent s b) - (u - fee)) = unat (Wealth (agent s b)) - (unat u - unat fee)"
    using unat_minus_le [of "u - fee" "Wealth (agent s b)"] le1 d by simp
  then have le2: "fee \<le> transfer (Purse b) (Purse p) (u - fee) (led s) (Purse b)"
    using u by (auto simp: transfer_def word_le_nat_alt)
  have "pays A (led s) (transfer (Purse b) (Chest sp) fee (transfer (Purse b) (Purse p) (u - fee) (led s)))"
    using assms(3-5) le2 by (intro pays_step [OF pays_one [where L = "led s" and i = "Purse b"]] le1) simp_all
  then show ?thesis
    unfolding settles_def direct_sale_led
    by (simp add: same_frame_upd_agent same_frame_upd_settl gain_wealth_def lose_wealth_def)
qed

lemma findDirectBuyer_pays:
  "findDirectBuyer good u i s = Some b \<Longrightarrow> b \<in> set (SettlementAgents s i) \<and> u \<le> Wealth (agent s b)"
  by (auto simp: findDirectBuyer_def wants_def Let_def dest!: find_first_Some)

lemma sell_unit_settles:
  assumes "sell_unit good u p sp st = Some st'" "1 \<le> u" "Purse p \<in> A" "Chest sp \<in> A"
    and "\<And>b i. b \<in> set (SettlementAgents (fst st) i) \<Longrightarrow> Purse b \<in> A"
  shows "settles A (fst st) (fst st')"
proof (cases "u \<le> Treasury (settl (fst st) sp)")
  case True
  then show ?thesis using assms settles_wage [of u "fst st" sp A p] by (auto simp: sell_unit_def split: prod.splits)
next
  case False
  then obtain b where b: "findDirectBuyer good u (SID (settl (fst st) sp)) (fst st) = Some b"
    using assms(1) by (auto simp: sell_unit_def split: prod.splits option.splits)
  note pay = findDirectBuyer_pays [OF b]
  have "fst st' = upd_settl sp (gain_treasury (market_fee u))
      (upd_agent p (gain_wealth (u - market_fee u)) (upd_agent b (lose_wealth u) (fst st)))"
    using assms(1) False b by (auto simp: sell_unit_def Let_def split: prod.splits)
  then show ?thesis
    using settles_direct_sale [of u "fst st" b "market_fee u" A p sp] pay assms market_fee_le by auto
qed

lemma sell_good_settles:
  assumes "settles A s (fst st)" "Purse p \<in> A" "Chest sp \<in> A"
    and "\<And>b i. b \<in> set (SettlementAgents s i) \<Longrightarrow> Purse b \<in> A"
  shows "settles A (fst st) (fst (sell_good p sp m good st))"
proof -
  have "settles A (fst st) (fst (for_break (\<lambda>_. sell_unit good (whole_crowns x) p sp) ns st))" for x ns
  proof (rule for_break_settles [where L = fst])
    fix n t t' assume t: "settles A (fst st) (fst t)" "sell_unit good (whole_crowns x) p sp t = Some t'"
    have "SettlementAgents (fst t) = SettlementAgents s"
      using settles_state(1) [OF settles_trans [OF assms(1) t(1)]] .
    then show "settles A (fst t) (fst t')" using sell_unit_settles [OF t(2)] assms by simp
  qed simp
  then show ?thesis by (auto simp: sell_good_def Let_def split: option.splits)
qed

lemma pay_commission_settles:
  assumes "pay_commission r m p q st = Some st'" "Purse p \<in> A" "Purse q \<in> A"
  shows "settles A (fst st) (fst st')"
proof -
  obtain s paid where st: "st = (s, paid)" by (cases st)
  have "st' = st \<or> (\<exists>c. c \<le> Wealth (agent s p) \<and> fst st' = upd_agent q (gain_wealth c) (upd_agent p (lose_wealth c) s))"
    using assms(1) unfolding st pay_commission_def Let_def prod.case
    by (auto split: if_splits simp: not_less intro: less_imp_le)
  then show ?thesis using settles_pays [of _ s p A q] assms(2,3) by (auto simp: st)
qed

lemma tier2Commission_settles:
  assumes "Purse p \<in> A" "\<And>b i. b \<in> set (SettlementAgents s i) \<Longrightarrow> Purse b \<in> A"
  shows "settles A s (tier2Commission p sp r s)"
proof -
  have "settles A s (fst (for_break (pay_commission r m p) (SettlementAgents s i) (s, 0)))" for m i
    by (rule for_break_settles [where L = fst]) (use pay_commission_settles assms in auto)
  then show ?thesis by (simp add: tier2Commission_def Let_def)
qed

lemma keeps_trade_memory [simp]: "keeps_agent (trade_memory t r)" "keeps_agent (AddMemory tick c i)"
  by (simp_all add: keeps_agent_def trade_memory_def AddMemory_frame)

lemma debt_frame [simp]:
  "ConsignmentDebt (AddMemory t c i a) = ConsignmentDebt a" "ConsignmentDebt (trade_memory n r a) = ConsignmentDebt a"
  "ConsignmentDebt (add_needs su sa be es pu a) = ConsignmentDebt a" "ConsignmentDebt (inv_add g k a) = ConsignmentDebt a"
  by (simp_all add: AddMemory_def trade_memory_def add_needs_def inv_add_def Let_def)

lemma Wealth_trade_memory [simp]: "Wealth (trade_memory n r a) = Wealth a"
  by (simp add: trade_memory_def)

theorem sellMerchantCargo_settles:
  assumes "Purse p \<in> A" "Chest sp \<in> A" "\<And>b i. b \<in> set (SettlementAgents s i) \<Longrightarrow> Purse b \<in> A"
  shows "settles A s (sellMerchantCargo p m sp s)"
proof -
  obtain s1 r where s1: "fold (sell_good p sp m) all_goods (s, 0) = (s1, r)" by fastforce
  have "settles A s (fst (fold (sell_good p sp m) all_goods (s, 0)))"
    by (rule fold_settles [where L = fst]) (use sell_good_settles assms in auto)
  then have a: "settles A s s1" by (simp add: s1)
  let ?s2 = "upd_agent p (add_needs (float32 (Agnosis * lit 0.05)) (lit 0.008) (lit 0.004) (lit 0.012) (lit 0.004)) s1"
  let ?s3 = "if Tier (agent ?s2 p) = Tier2 then upd_agent p (trade_memory (SName (settl ?s2 sp)) r) ?s2 else ?s2"
  have "settles A s1 ?s2" by (rule settles_neutral) simp_all
  moreover have "settles A ?s2 ?s3" by (simp add: settles_neutral)
  ultimately have c: "settles A s ?s3" using a by (meson settles_trans)
  have "settles A ?s3 (tier2Commission p sp r ?s3)"
    by (rule tier2Commission_settles) (use assms settles_state(1) [OF c] in simp_all)
  then have "settles A s (tier2Commission p sp r ?s3)" using c by (rule settles_trans [rotated])
  then show ?thesis
    using a by (cases "r = 0") (simp_all only: sellMerchantCargo_def s1 Let_def prod.case refl if_True if_False)
qed

subsection \<open>Arriving\<close>

text \<open>
  A step of merchant \<open>p\<close> in the accounting of the hour: it leaks exactly the
  debt it adds, touches no other debt and keeps the frame.
\<close>

definition consigns :: "account set \<Rightarrow> ptr \<Rightarrow> Sim \<Rightarrow> Sim \<Rightarrow> bool" where
  "consigns A p s t \<longleftrightarrow> leaks A (debt t p - debt s p) (led s) (led t) \<and> same_frame s t
     \<and> (\<forall>q. q \<noteq> p \<longrightarrow> debt t q = debt s q)"

lemma settles_consigns: "settles A s t \<Longrightarrow> consigns A p s t"
  by (simp add: consigns_def settles_debt) (simp add: settles_def pays_leaks)

lemma repay_consigns:
  assumes "Purse p \<in> A" "Chest sp \<in> A"
  shows "consigns A p s (repay_consignment p sp s)"
proof (cases "0 < ConsignmentDebt (agent s p)")
  case True
  define r where "r = (if Wealth (agent s p) < ConsignmentDebt (agent s p) then Wealth (agent s p) else ConsignmentDebt (agent s p))"
  let ?t = "upd_settl sp (gain_treasury r) (upd_agent p (lose_wealth r) s)"
  let ?u = "upd_agent p (\<lambda>a. a\<lparr>ConsignmentDebt := ConsignmentDebt a - r\<rparr>) ?t"
  have u: "repay_consignment p sp s = ?u" using True by (simp add: repay_consignment_def r_def Let_def)
  have r: "r \<le> Wealth (agent s p)" "r \<le> ConsignmentDebt (agent s p)" by (auto simp: r_def)
  have t: "settles A s ?t" using r assms by (intro settles_deposit)
  have "led ?u = led ?t" by (rule led_upd_agent_neutral) simp
  moreover have "same_frame s ?u"
    by (intro same_frame_upd_agent same_frame_upd_settl) (simp_all add: keeps_agent_def keeps_settl_def gain_treasury_def lose_wealth_def)
  moreover have "debt ?u p \<le> debt s p" using unat_minus_le [OF r(2)] by (simp add: debt_def lose_wealth_def)
  moreover have "\<forall>q. q \<noteq> p \<longrightarrow> debt ?u q = debt s q" by (simp add: debt_def)
  ultimately show ?thesis using t pays_leaks by (simp add: consigns_def u settles_def)
next
  case False
  then have "repay_consignment p sp s = s" by (simp add: repay_consignment_def Let_def)
  then show ?thesis by (simp add: settles_consigns)
qed

lemma settles_then_consigns:
  assumes "settles A s t" "consigns A p t u"
  shows "consigns A p s u"
proof -
  have "leaks A 0 (led s) (led t)" using assms(1) by (auto simp: settles_def intro: pays_leaks)
  with assms have "leaks A (debt u p - debt t p) (led s) (led u)"
    using leaks_trans [of A "debt u p - debt t p" "led t" "led u" 0 "led s"] by (simp add: consigns_def)
  then show ?thesis
    using assms by (auto simp: consigns_def settles_debt [OF assms(1)] settles_def intro: same_frame_trans)
qed

lemma consigns_then_settles:
  assumes "consigns A p s t" "settles A t u"
  shows "consigns A p s u"
proof -
  have "leaks A 0 (led t) (led u)" using assms(2) by (auto simp: settles_def intro: pays_leaks)
  with assms have "leaks A (debt t p - debt s p) (led s) (led u)"
    using leaks_trans [of A 0 "led t" "led u" "debt t p - debt s p" "led s"] by (simp add: consigns_def)
  then show ?thesis
    using assms by (auto simp: consigns_def settles_debt [OF assms(2)] settles_def intro: same_frame_trans)
qed

lemma settles_record: "settles A s (RecordInterSettlementTrade i j s)"
  by (rule settles_cong) (simp_all add: RecordInterSettlementTrade_def Let_def)

theorem arrive_consigns:
  assumes "sim_ok s" "p \<in> set (Agents s)" "sp \<in> set (Settlements s)"
  shows "consigns (accts s) p s (arrive dest p sp s)"
proof -
  note mem = accts_intros(1) [OF assms(2)] accts_intros(2) [OF assms(3)]
  have roster: "Purse b \<in> accts s" if "b \<in> set (SettlementAgents s i)" for b i
    using that assms(1) by (auto dest: sim_okD(1))
  let ?st = "\<lambda>t. t\<lparr>Stats := (Stats t)\<lparr>TradeVolume := TradeVolume (Stats t) + 1\<rparr>\<rparr>"
  have sale: "settles (accts s) s (?st (sellMerchantCargo p m dp s))" if "SettlementIndex s dest = Some dp" for m dp
  proof (rule settles_trans)
    show "settles (accts s) s (sellMerchantCargo p m dp s)"
      using mem roster that assms(1) by (intro sellMerchantCargo_settles) (auto dest: sim_okD)
  qed (rule settles_cong; simp)
  define s1 where "s1 = (case SettlementIndex s dest of None \<Rightarrow> s
     | Some dp \<Rightarrow> (case SMarket (settl s dp) of None \<Rightarrow> s
        | Some m \<Rightarrow> let t1 = ?st (sellMerchantCargo p m dp s) in
            case HomeSettID (agent t1 p) of None \<Rightarrow> t1 | Some h \<Rightarrow> RecordInterSettlementTrade h (SID (settl t1 dp)) t1))"
  have "settles (accts s) s s1"
    unfolding s1_def Let_def
    by (auto split: option.split intro: sale settles_trans [OF sale settles_record])
  then have "consigns (accts s) p s (repay_consignment p sp s1)"
    by (rule settles_then_consigns) (intro repay_consigns mem)
  moreover have "settles (accts s) t (upd_agent p (\<lambda>a. a\<lparr>TradeDestSett := None, TradeCargo := inv_Clear (TradeCargo a)\<rparr>) t)" for t
    by (rule settles_neutral) (simp_all add: keeps_agent_def)
  moreover have "arrive dest p sp s = upd_agent p (\<lambda>a. a\<lparr>TradeDestSett := None, TradeCargo := inv_Clear (TradeCargo a)\<rparr>)
      (repay_consignment p sp s1)"
    by (simp only: arrive_def s1_def Let_def)
  ultimately show ?thesis by (simp only: consigns_then_settles)
qed

subsection \<open>Setting out\<close>

text \<open>The debt grows by exactly what leaks.\<close>

definition advances :: "account set \<Rightarrow> ptr \<Rightarrow> Sim \<Rightarrow> Sim \<Rightarrow> bool" where
  "advances A p s t \<longleftrightarrow> (\<exists>n. leaks A n (led s) (led t) \<and> debt t p = debt s p + n) \<and> same_frame s t
     \<and> (\<forall>q. q \<noteq> p \<longrightarrow> debt t q = debt s q)"

lemma settles_advances: "settles A s t \<Longrightarrow> advances A p s t"
  by (simp add: advances_def settles_debt) (simp add: settles_def pays_leaks)

lemma advances_refl [simp]: "advances A p s s"
  by (simp add: settles_advances)

lemma advances_trans:
  assumes "advances A p s t" "advances A p t u"
  shows "advances A p s u"
proof -
  obtain m n where "leaks A m (led s) (led t)" "debt t p = debt s p + m" "leaks A n (led t) (led u)" "debt u p = debt t p + n"
    using assms by (auto simp: advances_def)
  then have "leaks A (m + n) (led s) (led u) \<and> debt u p = debt s p + (m + n)" by (auto intro: leaks_trans)
  then show ?thesis using assms same_frame_trans unfolding advances_def by fastforce
qed

lemma advances_consigns: "advances A p s t \<Longrightarrow> consigns A p s t"
  by (auto simp: advances_def consigns_def)

text \<open>Room for the debt: it never wraps as long as debt and money supply together fit.\<close>

definition room :: "account set \<Rightarrow> Sim \<Rightarrow> ptr \<Rightarrow> bool" where
  "room A s p \<longleftrightarrow> debt s p + crowns_in A (led s) < 2 ^ 64"

lemma room_fits: "room A s p \<Longrightarrow> fits A (led s)"
  by (simp add: room_def fits_def)

lemma advances_room:
  assumes "advances A p s t" "finite A" "room A s p"
  shows "room A t p"
proof -
  obtain n where n: "leaks A n (led s) (led t)" "debt t p = debt s p + n" using assms(1) by (auto simp: advances_def)
  have "crowns_in A (led t) + n = crowns_in A (led s)"
    using leaks_crowns [OF n(1) assms(2) room_fits [OF assms(3)]] .
  then show ?thesis using assms(3) n(2) by (simp add: room_def)
qed

lemma crowns_in_ge: "finite A \<Longrightarrow> i \<in> A \<Longrightarrow> unat (L i) \<le> crowns_in A L"
  unfolding crowns_in_def by (rule member_le_sum) simp_all

lemma consign_advances:
  assumes "c \<le> Treasury (settl s sp)" "Chest sp \<in> A" "finite A" "room A s p"
  shows "advances A p s (upd_agent p (\<lambda>a. a\<lparr>ConsignmentDebt := ConsignmentDebt a + c\<rparr>) (upd_settl sp (lose_treasury c) s))"
    (is "advances A p s ?t")
proof -
  have "led ?t = withdraw (Chest sp) c (led s)"
    by (auto simp: withdraw_def lose_treasury_def fun_eq_iff)
  then have "leaks A (0 + unat c) (led s) (led ?t)"
    using leaks_lose [OF leaks_refl [of A "led s"] assms(2)] assms(1) by simp
  moreover have "unat c \<le> crowns_in A (led s)"
    using crowns_in_ge [OF assms(3,2), of "led s"] assms(1) by (simp add: word_le_nat_alt)
  then have "debt s p + unat c < 2 ^ 64" using assms(4) by (simp add: room_def)
  then have "debt ?t p = debt s p + unat c"
    by (simp add: debt_def unat_add_lem [where 'a = 64, simplified, THEN iffD1])
  moreover have "same_frame s ?t"
    by (intro same_frame_upd_agent same_frame_upd_settl) (simp_all add: keeps_agent_def keeps_settl_def lose_treasury_def)
  ultimately show ?thesis by (auto simp: advances_def debt_def)
qed

text \<open>A purchase on consignment destroys its price.\<close>

lemma consignment_leak:
  assumes "Wealth (agent s p) < c" "c \<le> Treasury (settl s sp)" "Chest sp \<in> A" "finite A"
  shows "\<exists>t. buy_unit c p sp (s, k) = Some (t, k + 1) \<and> crowns_in A (led t) + unat c = crowns_in A (led s)"
proof -
  let ?t = "upd_agent p (\<lambda>a. a\<lparr>ConsignmentDebt := ConsignmentDebt a + c\<rparr>) (upd_settl sp (lose_treasury c) s)"
  have "led ?t = withdraw (Chest sp) c (led s)" by (auto simp: withdraw_def lose_treasury_def fun_eq_iff)
  then have "crowns_in A (led ?t) + unat c = crowns_in A (led s)" using assms(2-4) by (simp add: crowns_in_lose)
  moreover have "buy_unit c p sp (s, k) = Some (?t, k + 1)"
    using assms(1,2) by (simp add: buy_unit_def linorder_not_le)
  ultimately show ?thesis by blast
qed

lemma buy_unit_advances:
  assumes "buy_unit c p sp st = Some st'" "Purse p \<in> A" "Chest sp \<in> A" "finite A" "room A (fst st) p"
  shows "advances A p (fst st) (fst st')"
proof -
  obtain s k where st: "st = (s, k)" by (cases st)
  consider "c \<le> Wealth (agent s p)" "fst st' = upd_settl sp (gain_treasury c) (upd_agent p (lose_wealth c) s)"
    | "c \<le> Treasury (settl s sp)"
      "fst st' = upd_agent p (\<lambda>a. a\<lparr>ConsignmentDebt := ConsignmentDebt a + c\<rparr>) (upd_settl sp (lose_treasury c) s)"
    using assms(1) by (auto simp: st buy_unit_def split: if_splits)
  then show ?thesis
  proof cases
    case 1
    then show ?thesis using settles_advances [OF settles_deposit [of c s p A sp]] assms by (simp add: st)
  next
    case 2
    then show ?thesis using consign_advances assms by (simp add: st)
  qed
qed

lemma buy_loop_advances:
  assumes "Purse p \<in> A" "Chest sp \<in> A" "finite A" "room A s p"
  shows "advances A p s (fst (for_break (\<lambda>_. buy_unit c p sp) ns (s, k)))"
proof -
  have "advances A p s (fst (for_break (\<lambda>_. buy_unit c p sp) ns (s, k))) \<and> room A (fst (for_break (\<lambda>_. buy_unit c p sp) ns (s, k))) p"
  proof -
    have step: "advances A p (fst t) (fst t') \<and> room A (fst t') p"
      if "room A (fst t) p" "buy_unit c p sp t = Some t'" for t t'
      using buy_unit_advances [OF that(2) assms(1-3) that(1)] advances_room [OF _ assms(3) that(1)] by blast
    have "advances A p (fst (s, k)) (fst (for_break (\<lambda>_. buy_unit c p sp) ns (s, k)))
       \<and> room A (fst (for_break (\<lambda>_. buy_unit c p sp) ns (s, k))) p"
      by (rule for_break_rel [where R = "\<lambda>t u. advances A p (fst t) (fst u)" and I = "\<lambda>t. room A (fst t) p"])
        (use step assms(4) in \<open>auto intro: advances_trans\<close>)
    then show ?thesis by simp
  qed
  then show ?thesis ..
qed

lemma keeps_inv_add [simp]: "keeps_agent (inv_add g k)"
  by (simp add: keeps_agent_def inv_add_def)

lemma buy_meal_settles:
  assumes "buy_meal home p sp s = Some s'" "Purse p \<in> A" "Chest sp \<in> A"
  shows "settles A s s'"
proof -
  define P where "P g \<longleftrightarrow> (case Entries home g of None \<Rightarrow> False | Some e \<Rightarrow> whole_crowns (Price e) \<le> Wealth (agent s p))" for g
  obtain g where g: "find_first P [GoodGrain, GoodFish] = Some g"
    using assms(1) unfolding buy_meal_def P_def [symmetric] by (cases "find_first P [GoodGrain, GoodFish]") simp_all
  define c where "c = (case Entries home g of None \<Rightarrow> 0 | Some e \<Rightarrow> whole_crowns (Price e))"
  have s': "s' = upd_agent p (inv_add g 1) (upd_settl sp (gain_treasury c) (upd_agent p (lose_wealth c) s))"
    using assms(1) unfolding buy_meal_def P_def [symmetric] by (simp only: g option.case c_def Let_def option.inject)
  have "c \<le> Wealth (agent s p)"
    using find_first_Some [OF g] by (auto simp: P_def c_def split: option.splits)
  then show ?thesis
    unfolding s'
    by (rule settles_trans [OF settles_deposit [OF _ assms(2,3)] settles_neutral]) simp_all
qed

lemma set_out_advances:
  assumes "Purse p \<in> A" "Chest sp \<in> A" "finite A" "room A s p"
  shows "advances A p s (set_out home good n p sp s)"
proof -
  define c where "c = (case Entries home good of None \<Rightarrow> 0 | Some e \<Rightarrow> whole_crowns (Price e))"
  obtain s1 k where s1: "for_break (\<lambda>_. buy_unit c p sp) [0..<5] (s, 0) = (s1, k)" by fastforce
  have a: "advances A p s s1" using buy_loop_advances [OF assms, of c "[0..<5]" 0] by (simp add: s1)
  define s2 where "s2 = upd_agent p (\<lambda>a. a\<lparr>TradeDestSett := Some (SID (settl s1 n)),
                           TradeCargo := (TradeCargo a)(good := TradeCargo a good + k)\<rparr>) s1"
  have b: "settles A s1 s2" unfolding s2_def by (rule settles_neutral) (simp_all add: keeps_agent_def)
  have "settles A s2 (for_break (\<lambda>_. buy_meal home p sp) ns s2)" for ns
    by (rule for_break_settles [where L = "\<lambda>t. t"]) (use buy_meal_settles assms(1,2) in auto)
  moreover have "settles A t (upd_agent p (\<lambda>a. a\<lparr>TravelTicksLeft := w\<rparr>) t)" for t w
    by (rule settles_neutral) (simp_all add: keeps_agent_def)
  ultimately have c: "settles A s1 (upd_agent p (\<lambda>a. a\<lparr>TravelTicksLeft := w\<rparr>) (for_break (\<lambda>_. buy_meal home p sp) ns s2))" for w ns
    using settles_trans [OF b settles_trans] by blast
  have "advances A p s (if k = 0 then s1 else
      upd_agent p (\<lambda>a. a\<lparr>TravelTicksLeft := w\<rparr>) (for_break (\<lambda>_. buy_meal home p sp) ns s2))" for w ns
    using a advances_trans [OF a settles_advances [OF c]] by (cases "k = 0") simp_all
  then show ?thesis
    unfolding set_out_def c_def [symmetric] Let_def s1 prod.case s2_def [symmetric] .
qed

subsection \<open>The hour of all merchants\<close>

lemma scout_consigns:
  assumes "Purse p \<in> A" "Chest sp \<in> A" "finite A" "room A s p"
  shows "consigns A p s (scout goods tick home neighbors p sp s)"
proof -
  let ?s1 = "upd_agent p (\<lambda>a. a\<lparr>TradePreferredDest := None\<rparr>) s"
  have a: "settles A s ?s1" by (rule settles_neutral) (simp_all add: keeps_agent_def)
  then have "room A ?s1 p"
    using advances_room [OF settles_advances assms(3,4)] by simp
  then have b: "consigns A p s (set_out home g n p sp ?s1)" for g n
    using settles_then_consigns [OF a] advances_consigns [OF set_out_advances] assms(1-3) by blast
  have c: "consigns A p s (upd_agent p (AddMemory tick d i) ?s1)" for d i
    by (rule settles_consigns, rule settles_trans [OF a], rule settles_neutral) simp_all
  show ?thesis
    using a b c by (auto simp: scout_def Let_def settles_consigns split: option.split prod.split)
qed

lemma merchant_hour_consigns:
  assumes "sim_ok s" "p \<in> set (Agents s)" "sp \<in> set (Settlements s)" "room (accts s) s p"
  shows "consigns (accts s) p s (merchant_hour goods tick home neighbors sp p s)"
proof -
  have idle: "consigns (accts s) p s s" by (simp add: settles_consigns)
  have travel: "consigns (accts s) p s (upd_agent p (\<lambda>a. a\<lparr>TravelTicksLeft := f a\<rparr>) s)" for f
    by (rule settles_consigns, rule settles_neutral) (simp_all add: keeps_agent_def)
  note arrive = arrive_consigns [OF assms(1-3)]
  note scout = scout_consigns [OF accts_intros(1) [OF assms(2)] accts_intros(2) [OF assms(3)] accts_finite assms(4)]
  show ?thesis
    unfolding merchant_hour_def Let_def
    using idle travel arrive scout by (auto split: option.split bool.split)
qed

text \<open>
  The books after the merchants in \<open>V\<close> have had their hour: what is missing
  from the money supply is the debt they took on.
\<close>

definition books :: "Sim \<Rightarrow> ptr set \<Rightarrow> Sim \<Rightarrow> bool" where
  "books s V t \<longleftrightarrow> same_frame s t \<and> (\<forall>q. q \<notin> V \<longrightarrow> debt t q = debt s q)
     \<and> crowns_in (accts s) (led t) + (\<Sum>q\<in>V. debt t q - debt s q) = crowns_in (accts s) (led s)
     \<and> (\<forall>q \<in> set (Agents s). room (accts s) t q)"

lemma books_step:
  assumes "books s V t" "finite V" "p \<notin> V" "p \<in> set (Agents s)" "consigns (accts s) p t u"
  shows "books s (insert p V) u"
proof -
  have fits: "fits (accts s) (led t)" using assms(1,4) by (auto simp: books_def intro: room_fits)
  have leak: "leaks (accts s) (debt u p - debt t p) (led t) (led u)" and frame: "same_frame t u"
    and others: "\<And>q. q \<noteq> p \<Longrightarrow> debt u q = debt t q"
    using assms(5) by (simp_all add: consigns_def)
  have crowns: "crowns_in (accts s) (led u) + (debt u p - debt t p) = crowns_in (accts s) (led t)"
    by (rule leaks_crowns [OF leak accts_finite fits])
  have tp: "debt t p = debt s p" using assms(1,3) by (simp add: books_def)
  have "(\<Sum>q\<in>V. debt u q - debt s q) = (\<Sum>q\<in>V. debt t q - debt s q)"
    by (rule sum.cong [OF refl]) (metis assms(3) others)
  then have "crowns_in (accts s) (led u) + (\<Sum>q\<in>insert p V. debt u q - debt s q) = crowns_in (accts s) (led s)"
    using assms(1-3) crowns tp by (simp add: books_def)
  moreover have "room (accts s) u q" if "q \<in> set (Agents s)" for q
    using assms(1) that crowns others [of q] by (cases "q = p") (auto simp: books_def room_def)
  ultimately show ?thesis
    using assms(1,3) frame others unfolding books_def by (auto intro: same_frame_trans)
qed

lemma books_fold:
  assumes "\<And>p t. p \<in> set ps \<Longrightarrow> same_frame s t \<Longrightarrow> room (accts s) t p \<Longrightarrow> consigns (accts s) p t (f p t)"
    and "books s V t" "finite V" "distinct ps" "set ps \<inter> V = {}" "set ps \<subseteq> set (Agents s)"
  shows "books s (V \<union> set ps) (fold f ps t)"
  using assms
proof (induction ps arbitrary: t V)
  case (Cons p ps)
  have "consigns (accts s) p t (f p t)"
    using Cons.prems by (auto simp: books_def)
  then have "books s (insert p V) (f p t)"
    using Cons.prems by (intro books_step) auto
  then have "books s (insert p V \<union> set ps) (fold f ps (f p t))"
    using Cons.prems by (intro Cons.IH) auto
  then show ?case by simp
qed simp

lemma merchants_of_books:
  assumes "sim_ok s" "sp \<in> set (Settlements s)" "books s V t" "finite V"
    and "set (SettlementAgents s (SID (settl s sp))) \<inter> V = {}"
  shows "\<exists>W \<subseteq> set (SettlementAgents s (SID (settl s sp))). books s (V \<union> W) (merchants_of goods tick sp t)"
proof -
  let ?ps = "SettlementAgents s (SID (settl s sp))"
  have t: "same_frame s t" using assms(3) by (simp add: books_def)
  have step: "consigns (accts s) p u (merchant_hour (goods sp p) tick home nb sp p u)"
    if "p \<in> set ?ps" "same_frame s u" "room (accts s) u p" for p u home nb
    using merchant_hour_consigns [of u p sp] that assms(1,2) sim_ok_frame [OF that(2) assms(1)] accts_frame [OF that(2)]
    by (auto simp: same_frame_simps [OF that(2)] dest: sim_okD)
  have "books s (V \<union> set ?ps) (fold (\<lambda>p. merchant_hour (goods sp p) tick home nb sp p) ?ps t)" for home nb
    by (rule books_fold) (use step assms sim_okD [OF assms(1)] in auto)
  then show ?thesis
    using assms(3) by (auto simp: merchants_of_def Let_def same_frame_simps [OF t] split: option.split)
qed

text \<open>Every roster lists residents.\<close>

definition rosters_home :: "Sim \<Rightarrow> bool" where
  "rosters_home s \<longleftrightarrow> (\<forall>i p. p \<in> set (SettlementAgents s i) \<longrightarrow> HomeSettID (agent s p) = Some i)"

theorem resolveMerchantTrade_books:
  assumes "sim_ok s" "rosters_home s" "\<And>p. p \<in> set (Agents s) \<Longrightarrow> room (accts s) s p"
  shows "same_frame s (resolveMerchantTrade goods tick s)"
    and "crowns_in (accts s) (led (resolveMerchantTrade goods tick s))
      + (\<Sum>p\<in>set (Agents s). debt (resolveMerchantTrade goods tick s) p - debt s p) = crowns_in (accts s) (led s)"
proof -
  have run: "\<exists>W. books s W (fold (merchants_of goods tick) sps t)
      \<and> W \<subseteq> V \<union> (\<Union>sp\<in>set sps. set (SettlementAgents s (SID (settl s sp))))"
    if "books s V t" "finite V" "distinct sps" "set sps \<subseteq> set (Settlements s)"
      "\<And>sp. sp \<in> set sps \<Longrightarrow> set (SettlementAgents s (SID (settl s sp))) \<inter> V = {}" for sps V t
    using that
  proof (induction sps arbitrary: V t)
    case (Cons sp sps)
    obtain W where W: "W \<subseteq> set (SettlementAgents s (SID (settl s sp)))" "books s (V \<union> W) (merchants_of goods tick sp t)"
      using merchants_of_books [OF assms(1), of sp V t goods tick] Cons.prems by auto
    have "set (SettlementAgents s (SID (settl s q))) \<inter> W = {}" if "q \<in> set sps" for q
    proof -
      have q: "q \<in> set (Settlements s)" "sp \<in> set (Settlements s)" "q \<noteq> sp" using that Cons.prems by auto
      have "SID (settl s q) \<noteq> SID (settl s sp)"
        using sim_okD(5) [OF assms(1) q(1)] sim_okD(5) [OF assms(1) q(2)] q(3) by (metis option.inject)
      moreover have "HomeSettID (agent s x) = Some i" if "x \<in> set (SettlementAgents s i)" for x i
        using assms(2) that by (simp add: rosters_home_def)
      ultimately show ?thesis using W(1) by (metis disjoint_iff option.inject subsetD)
    qed
    then have new: "set (SettlementAgents s (SID (settl s q))) \<inter> (V \<union> W) = {}" if "q \<in> set sps" for q
      using Cons.prems(5) [of q] that by (simp add: Int_Un_distrib)
    have "\<exists>X. books s X (fold (merchants_of goods tick) sps (merchants_of goods tick sp t))
        \<and> X \<subseteq> V \<union> W \<union> (\<Union>sp\<in>set sps. set (SettlementAgents s (SID (settl s sp))))"
      by (rule Cons.IH [OF W(2) _ _ _ new]) (use W(1) Cons.prems in \<open>auto intro: finite_subset\<close>)
    then show ?case
    proof (elim exE conjE)
      fix X assume X: "books s X (fold (merchants_of goods tick) sps (merchants_of goods tick sp t))"
        "X \<subseteq> V \<union> W \<union> (\<Union>sp\<in>set sps. set (SettlementAgents s (SID (settl s sp))))"
      then have "X \<subseteq> V \<union> (\<Union>sp\<in>set (sp # sps). set (SettlementAgents s (SID (settl s sp))))" using W(1) by auto
      then show ?case using X(1) by auto
    qed
  qed auto
  have "books s {} s" using assms(3) by (simp add: books_def)
  then obtain W where W: "books s W (resolveMerchantTrade goods tick s)"
      "W \<subseteq> (\<Union>sp\<in>set (Settlements s). set (SettlementAgents s (SID (settl s sp))))"
    using run [of "{}" s "Settlements s"] assms(1) by (auto simp: resolveMerchantTrade_def sim_ok_def)
  show "same_frame s (resolveMerchantTrade goods tick s)" using W(1) by (simp add: books_def)
  have "W \<subseteq> set (Agents s)" using W(2) sim_okD(1) [OF assms(1)] by blast
  then have "(\<Sum>p\<in>set (Agents s). debt (resolveMerchantTrade goods tick s) p - debt s p)
      = (\<Sum>p\<in>W. debt (resolveMerchantTrade goods tick s) p - debt s p)"
    by (intro sum.mono_neutral_right) (use W(1) in \<open>auto simp: books_def\<close>)
  then show "crowns_in (accts s) (led (resolveMerchantTrade goods tick s))
      + (\<Sum>p\<in>set (Agents s). debt (resolveMerchantTrade goods tick s) p - debt s p) = crowns_in (accts s) (led s)"
    using W(1) by (simp add: books_def)
qed

end
