(* ===== verification/Land.thy ===== *)
theory Land
  imports Lifecycle
begin

section \<open>Work and the land (production.go, land_governance.go, simulation.go)\<close>

text \<open>
  Producers draw from the resources of a hex, which wears the land down;
  settlements claim, improve and maintain it.  A hex is reached through its
  coordinate, under which the map stores it.  Where Go ranges over the hexes
  or the resources of a hex in map order and the result depends on the order
  (ties, rounding), the order is an argument.
\<close>

subsection \<open>Production\<close>

fun occupationResource :: "Occupation \<Rightarrow> ResourceType option" where
  "occupationResource OccupationFarmer = Some ResourceGrain"
| "occupationResource OccupationMiner = Some ResourceIronOre"
| "occupationResource OccupationFisher = Some ResourceFish"
| "occupationResource OccupationHunter = Some ResourceFurs"
| "occupationResource OccupationLaborer = Some ResourceStone"
| "occupationResource OccupationAlchemist = Some ResourceHerbs"
| "occupationResource _ = None"

definition productionAmount :: "Agent \<Rightarrow> int" where
  "productionAmount a =
     (case AOccupation a of
        OccupationFarmer \<Rightarrow> at_least_1 (int_of_flt (Farming (Skills a) * lit 3))
      | OccupationMiner \<Rightarrow> at_least_1 (int_of_flt (Mining (Skills a) * lit 2))
      | OccupationFisher \<Rightarrow>
          (let f = math_Max (float64 (Farming (Skills a))) (float64 (Combat (Skills a)));
               fishSkill = (if f < lit 0.5 then lit 0.5 else f)
           in at_least_1 (int_of_flt (fishSkill * lit 5)))
      | OccupationHunter \<Rightarrow> at_least_1 (int_of_flt (Combat (Skills a) * lit 2))
      | OccupationLaborer \<Rightarrow> at_least_1 (int_of_flt (Mining (Skills a) * lit 3))
      | OccupationAlchemist \<Rightarrow> at_least_1 (int_of_flt (Crafting (Skills a) * lit 2))
      | _ \<Rightarrow> 1)"

fun occupationGood :: "Occupation \<Rightarrow> GoodType" where
  "occupationGood OccupationFarmer = GoodGrain"
| "occupationGood OccupationMiner = GoodIronOre"
| "occupationGood OccupationFisher = GoodFish"
| "occupationGood OccupationHunter = GoodFurs"
| "occupationGood OccupationLaborer = GoodStone"
| "occupationGood OccupationAlchemist = GoodHerbs"
| "occupationGood _ = GoodGrain"

definition applySkillGrowth :: "Agent \<Rightarrow> Agent" where
  "applySkillGrowth a =
     (case AOccupation a of
        OccupationFarmer \<Rightarrow> skill_farming (lit 0.001) a
      | OccupationFisher \<Rightarrow> skill_farming (lit 0.001) a
      | OccupationMiner \<Rightarrow> skill_mining (lit 0.001) a
      | OccupationLaborer \<Rightarrow> skill_mining (lit 0.001) a
      | OccupationHunter \<Rightarrow> skill_combat (lit 0.001) a
      | OccupationAlchemist \<Rightarrow> skill_crafting (lit 0.001) a
      | _ \<Rightarrow> a)"

text \<open>The boost of a worker who found no resources.\<close>

definition showed_up :: "Agent \<Rightarrow> Agent" where
  "showed_up a = clamp_agent (add_needs 0 (lit 0.004) (lit 0.002) (lit 0.001) (lit 0.001) a)"

definition set_resource :: "ResourceType \<Rightarrow> f64 \<Rightarrow> Hex \<Rightarrow> Hex" where
  "set_resource r x h = h\<lparr>Resources := (Resources h)(r \<mapsto> x)\<rparr>"

definition not_negative :: "f64 \<Rightarrow> f64" where
  "not_negative x = (if x < 0 then 0 else x)"

definition extract_hex :: "ResourceType \<Rightarrow> uint64 \<Rightarrow> f64 \<Rightarrow> f64 \<Rightarrow> f64 \<Rightarrow> f64 \<Rightarrow> Hex \<Rightarrow> Hex" where
  "extract_hex resType tick producedFloat fullProduction coherenceMod conservationMod h =
     (let h1 = set_resource resType (not_negative (resource h resType - producedFloat)) h;
          extractionFraction = producedFloat / fullProduction
      in h1\<lparr>HexHealth := not_negative (HexHealth h1 - Agnosis * lit 0.001 * extractionFraction * conservationMod * coherenceMod),
            LastExtractedTick := tick\<rparr>)"

definition credit_units :: "Agent \<times> Hex \<Rightarrow> Agent \<times> Hex" where
  "credit_units st =
     (let (a, h) = st in
      if 1 \<le> ProductionProgress a then
        (let unitsProduced = int_of_flt (ProductionProgress a);
             a1 = a\<lparr>ProductionProgress := ProductionProgress a - flt_of_int unitsProduced\<rparr>;
             a2 = inv_add (occupationGood (AOccupation a)) unitsProduced a1;
             a3 = (if AOccupation a = OccupationMiner then inv_add GoodCoal unitsProduced a2 else a2)
         in if AOccupation a = OccupationAlchemist \<and> 1 \<le> resource h ResourceExotics
            then (inv_add GoodExotics 1 a3, set_resource ResourceExotics (resource h ResourceExotics - 1) h)
            else (a3, h))
      else (a, h))"

definition steward :: "Agent \<Rightarrow> Hex \<Rightarrow> Hex" where
  "steward a h =
     (if AOccupation a = OccupationLaborer \<and> HexHealth h < 1
      then let x = HexHealth h + Agnosis * lit 0.005 in h\<lparr>HexHealth := (if 1 < x then 1 else x)\<rparr> else h)"

definition harvest :: "ResourceType \<Rightarrow> uint64 \<Rightarrow> f64 \<Rightarrow> f64 \<Rightarrow> f64 \<Rightarrow> Agent \<Rightarrow> Hex \<Rightarrow> Agent \<times> Hex" where
  "harvest resType tick boostMul coherenceMod conservationMod a h =
     (let available = resource h resType;
          p0 = flt_of_int (productionAmount a);
          fullProduction = (if 1 < boostMul then p0 * boostMul else p0);
          producedFloat = math_Min fullProduction available
      in if available < lit 0.01 then (showed_up a, h)
         else if producedFloat < lit 0.01 then (showed_up a, h)
         else let h1 = extract_hex resType tick producedFloat fullProduction coherenceMod conservationMod h;
                  a1 = a\<lparr>LastWorkTick := tick, ProductionProgress := ProductionProgress a + float32 producedFloat\<rparr>;
                  (a2, h2) = credit_units (a1, h1);
                  h3 = steward a2 h2;
                  a3 = applySkillGrowth a2
              in (clamp_agent (add_needs (lit 0.006) (lit 0.008) (lit 0.004) (lit 0.012) (lit 0.004) a3), h3))"

definition ResolveWork ::
  "(int \<Rightarrow> f64) \<Rightarrow> Action \<Rightarrow> uint64 \<Rightarrow> f64 \<Rightarrow> f64 \<Rightarrow> f64 \<Rightarrow> counted \<times> Hex option \<Rightarrow> counted \<times> Hex option" where
  "ResolveWork first_draw action tick boostMul coherenceMod conservationMod st =
     (let ((a, c), hex) = st in
      if Kind action \<noteq> ActionWork \<or> (AOccupation a = OccupationAlchemist \<and> 1 \<le> Inventory a GoodHerbs)
      then (ApplyAction first_draw action tick (a, c), hex)
      else case occupationResource (AOccupation a) of
             None \<Rightarrow> (ApplyAction first_draw action tick (a, c), hex)
           | Some resType \<Rightarrow>
               (case hex of
                  None \<Rightarrow> ((showed_up a, c), None)
                | Some h \<Rightarrow>
                    let (a', h') = harvest resType tick boostMul coherenceMod conservationMod a h in ((a', c), Some h')))"

subsection \<open>Improvements of the land\<close>

definition IrrigationRegenFactor :: "uint8 \<Rightarrow> f64" where
  "IrrigationRegenFactor level = 1 + flt_of_word level * Matter"

definition ConservationDamageFactor :: "uint8 \<Rightarrow> f64" where
  "ConservationDamageFactor level =
     (let f = 1 - flt_of_word level * Agnosis * lit 0.1 in if f < lit 0.1 then lit 0.1 else f)"

definition coherenceExtractionMod :: "uint64 \<Rightarrow> Sim \<Rightarrow> f64" where
  "coherenceExtractionMod settID s =
     (case SettlementIndex s settID of
        None \<Rightarrow> 1
      | Some sp \<Rightarrow>
          let living = filter (\<lambda>p. Alive (agent s p)) (SettlementAgents s settID) in
          if living = [] then 1
          else let totalCoherence = sum_in_order (\<lambda>a. float64 (CittaCoherence (Soul a))) (map (agent s) living);
                   avgCoherence = totalCoherence / flt_of_int (int (length living));
                   quality = GovernanceScore (settl s sp) * avgCoherence
               in 1 + Agnosis * (1 - lit 2 * quality))"

datatype Upgrade = Irrigation | Conservation

fun upgrade_name :: "Upgrade \<Rightarrow> string" where
  "upgrade_name Irrigation = ''irrigation''"
| "upgrade_name Conservation = ''conservation''"

text \<open>\<open>None\<close> stands for the initial score \<^verbatim>\<open>math.MaxFloat64\<close> without a hex.\<close>

type_synonym candidate = "(f64 \<times> HexCoord \<times> Upgrade) option"

definition better :: "f64 \<Rightarrow> HexCoord \<Rightarrow> Upgrade \<Rightarrow> candidate \<Rightarrow> candidate" where
  "better score c u best =
     (case best of None \<Rightarrow> Some (score, c, u)
      | Some (b, _, _) \<Rightarrow> if score < b then Some (score, c, u) else best)"

definition consider_hex :: "uint64 \<Rightarrow> Map \<Rightarrow> HexCoord \<Rightarrow> candidate \<Rightarrow> candidate" where
  "consider_hex settID m c best =
     (case Hexes m c of
        None \<Rightarrow> best
      | Some h \<Rightarrow>
          if ClaimedBy h \<noteq> Some settID \<or> HexTerrain h = TerrainOcean then best
          else let b1 = (if IrrigationLevel h < 5 \<and> Agnosis < HexHealth h
                         then better (HexHealth h + flt_of_word (IrrigationLevel h) * lit 0.2) c Irrigation best else best)
               in if ConservationLevel h < 5 \<and> HexHealth h < Matter
                  then better (HexHealth h + flt_of_word (ConservationLevel h) * lit 0.2 - lit 0.5) c Conservation b1 else b1)"

fun upgrade_level :: "Upgrade \<Rightarrow> Hex \<Rightarrow> uint8" where
  "upgrade_level Irrigation h = IrrigationLevel h"
| "upgrade_level Conservation h = ConservationLevel h"

fun set_upgrade :: "Upgrade \<Rightarrow> uint8 \<Rightarrow> Hex \<Rightarrow> Hex" where
  "set_upgrade Irrigation l h = h\<lparr>IrrigationLevel := l\<rparr>"
| "set_upgrade Conservation l h = h\<lparr>ConservationLevel := l\<rparr>"

definition land_budget :: "Settlement \<Rightarrow> uint64" where
  "land_budget sett =
     (let budget = word_of_flt (flt_of_word (Treasury sett) * Agnosis * lit 0.1);
          maxBudget = ucast (Population sett) * 10
      in if maxBudget < budget then maxBudget else budget)"

definition upgrade_cost :: "uint8 \<Rightarrow> Settlement \<Rightarrow> uint64" where
  "upgrade_cost nextLevel sett =
     (let cost = word_of_flt (flt_of_word nextLevel * Agnosis * flt_of_word (Population sett) * lit 0.1)
      in if cost < 50 then 50 else cost)"

definition invest_land :: "HexCoord list \<Rightarrow> uint64 \<Rightarrow> ptr \<Rightarrow> Sim \<Rightarrow> Sim" where
  "invest_land hexes tick sp s =
     (let sett = settl s sp; budget = land_budget sett in
      if Population sett = 0 \<or> Treasury sett < 100 \<or> GovernanceScore sett < Psyche \<or> budget < 50 then s
      else case fold (consider_hex (SID sett) (WorldMap s)) hexes None of
             None \<Rightarrow> s
           | Some (_, c, u) \<Rightarrow>
               (case Hexes (WorldMap s) c of
                  None \<Rightarrow> s
                | Some h \<Rightarrow>
                    let nextLevel = upgrade_level u h + 1; cost = upgrade_cost nextLevel sett in
                    if budget < cost \<or> Treasury sett < cost then s
                    else emit tick (SName sett @ '' invests in '' @ upgrade_name u @ '' (level '' @ show_word nextLevel
                             @ '') on hex ('' @ show_int (coordQ (Coord h)) @ '','' @ show_int (coordR (Coord h)) @ '')'') CategoryEconomy
                           (upd_hex c (set_upgrade u nextLevel) (upd_settl sp (lose_treasury cost) s))))"

definition processLandInvestment :: "(ptr \<Rightarrow> HexCoord list) \<Rightarrow> uint64 \<Rightarrow> Sim \<Rightarrow> Sim" where
  "processLandInvestment hexes tick s = fold (\<lambda>sp. invest_land (hexes sp) tick sp) (Settlements s) s"

text \<open>The two deterministic rolls of \<^verbatim>\<open>processInfrastructureDecay\<close>.\<close>

definition decay_roll :: "uint64 \<Rightarrow> HexCoord \<Rightarrow> f64" where
  "decay_roll simWeek c =
     flt_of_word ((simWeek * word_of_int (coordQ c + 500) * 7 + word_of_int (coordR c + 500) * 13) mod 1000) / lit 1000"

definition maintain_roll :: "uint64 \<Rightarrow> HexCoord \<Rightarrow> f64" where
  "maintain_roll simWeek c =
     flt_of_word ((simWeek * word_of_int (coordQ c + 300) * 11 + word_of_int (coordR c + 300) * 17) mod 100) / lit 100"

definition maintained :: "Sim \<Rightarrow> uint64 \<Rightarrow> HexCoord \<Rightarrow> Hex \<Rightarrow> bool" where
  "maintained s simWeek c h \<longleftrightarrow>
     (case Option.bind (ClaimedBy h) (SettlementIndex s) of
        None \<Rightarrow> False
      | Some sp \<Rightarrow> 0 < Population (settl s sp) \<and> maintain_roll simWeek c < lit 0.5)"

definition decay_hex :: "Sim \<Rightarrow> uint64 \<Rightarrow> HexCoord \<Rightarrow> Hex \<Rightarrow> Hex" where
  "decay_hex s simWeek c h =
     (if (IrrigationLevel h = 0 \<and> ConservationLevel h = 0) \<or> Agnosis * lit 0.05 < decay_roll simWeek c
         \<or> maintained s simWeek c h then h
      else h\<lparr>IrrigationLevel := (if 0 < IrrigationLevel h then IrrigationLevel h - 1 else IrrigationLevel h),
             ConservationLevel := (if 0 < ConservationLevel h then ConservationLevel h - 1 else ConservationLevel h)\<rparr>)"

text \<open>Every hex is treated by itself, so the order of the loop does not matter.\<close>

definition processInfrastructureDecay :: "uint64 \<Rightarrow> Sim \<Rightarrow> Sim" where
  "processInfrastructureDecay tick s =
     s\<lparr>WorldMap := (WorldMap s)\<lparr>Hexes := (\<lambda>c. map_option (decay_hex s (tick div TicksPerSimWeek) c) (Hexes (WorldMap s) c))\<rparr>\<rparr>"

subsection \<open>Capacity of the land\<close>

definition ResourceCap :: "Terrain \<Rightarrow> ResourceType \<Rightarrow> f64" where
  "ResourceCap terrain res =
     (case terrain of
        TerrainPlains \<Rightarrow> if res = ResourceGrain then lit 100 else lit 10
      | TerrainForest \<Rightarrow> (case res of ResourceTimber \<Rightarrow> lit 80 | ResourceHerbs \<Rightarrow> lit 80 | ResourceFurs \<Rightarrow> lit 40 | _ \<Rightarrow> lit 10)
      | TerrainMountain \<Rightarrow> (case res of ResourceIronOre \<Rightarrow> lit 60 | ResourceStone \<Rightarrow> lit 80 | ResourceCoal \<Rightarrow> lit 40
                            | ResourceGems \<Rightarrow> lit 15 | _ \<Rightarrow> lit 10)
      | TerrainCoast \<Rightarrow> if res = ResourceFish then lit 70 else lit 10
      | TerrainRiver \<Rightarrow> if res = ResourceFish then lit 50 else if res = ResourceGrain then lit 80 else lit 10
      | TerrainSwamp \<Rightarrow> (case res of ResourceHerbs \<Rightarrow> lit 100 | ResourceExotics \<Rightarrow> lit 20 | _ \<Rightarrow> lit 10)
      | TerrainTundra \<Rightarrow> if res = ResourceFurs then lit 50 else lit 10
      | _ \<Rightarrow> lit 10)"

text \<open>\<open>res c\<close> is the order in which Go ranges over the resources of the hex at \<open>c\<close>.\<close>

definition addHexCapacity :: "ResourceType list \<Rightarrow> Hex \<Rightarrow> f64 \<Rightarrow> f64" where
  "addHexCapacity res h capacity =
     (let irrFactor = IrrigationRegenFactor (IrrigationLevel h)
      in fold (\<lambda>r capacity. capacity + ResourceCap (HexTerrain h) r * HexHealth h * irrFactor) res capacity)"

definition SettlementCarryingCapacity :: "(HexCoord \<Rightarrow> ResourceType list) \<Rightarrow> uint64 \<Rightarrow> Sim \<Rightarrow> f64 \<times> f64" where
  "SettlementCarryingCapacity res settID s =
     (case SettlementIndex s settID of
        None \<Rightarrow> (0, 0)
      | Some sp \<Rightarrow>
          let pos = SPosition (settl s sp) in
          case map_Get (WorldMap s) pos of
            None \<Rightarrow> (0, 0)
          | Some h \<Rightarrow>
              let capacity = fold (\<lambda>nc cap. case map_Get (WorldMap s) nc of
                       None \<Rightarrow> cap
                     | Some nh \<Rightarrow> if HexTerrain nh = TerrainOcean then cap else addHexCapacity (res nc) nh cap)
                     (Neighbors pos) (addHexCapacity (res pos) h 0)
              in (capacity, if 0 < capacity then flt_of_word (Population (settl s sp)) / capacity else 0))"

definition settlementProducerTarget :: "(HexCoord \<Rightarrow> ResourceType list) \<Rightarrow> uint64 \<Rightarrow> Sim \<Rightarrow> int" where
  "settlementProducerTarget res settID s =
     (let capacity = fst (SettlementCarryingCapacity res settID s);
          pop = int (length (SettlementAgents s settID))
      in if pop = 0 then 0
         else int_of_flt (math_Round (math_Min Matter (capacity / flt_of_int pop) * flt_of_int pop)))"

subsection \<open>Where a producer works\<close>

definition hex_weight :: "ResourceType \<Rightarrow> Hex \<Rightarrow> int" where
  "hex_weight resType h = int_of_flt (math_Max 1 (math_Round (ResourceCap (HexTerrain h) resType * HexHealth h)))"

definition add_work_hex :: "Map \<Rightarrow> ResourceType \<Rightarrow> HexCoord \<Rightarrow> (HexCoord \<times> int) list \<times> int \<Rightarrow> (HexCoord \<times> int) list \<times> int" where
  "add_work_hex m resType coord st =
     (let (entries, cumWt) = st in
      case map_Get m coord of
        None \<Rightarrow> st
      | Some h \<Rightarrow>
          if HexTerrain h = TerrainOcean \<or> ResourceCap (HexTerrain h) resType \<le> 0 then st
          else let w = cumWt + hex_weight resType h in (entries @ [(coord, w)], w))"

definition computeHexDistribution :: "uint64 \<Rightarrow> ResourceType \<Rightarrow> Sim \<Rightarrow> hexDist" where
  "computeHexDistribution home resType s =
     (case SettlementIndex s home of
        None \<Rightarrow> \<lparr>hexEntries = [], totalWt = 0\<rparr>
      | Some sp \<Rightarrow>
          let pos = SPosition (settl s sp);
              (entries, cumWt) = fold (add_work_hex (WorldMap s) resType) (pos # Neighbors pos) ([], 0)
          in \<lparr>hexEntries = entries, totalWt = cumWt\<rparr>)"

definition pick_slot :: "int \<Rightarrow> (HexCoord \<times> int) list \<Rightarrow> HexCoord" where
  "pick_slot slot entries =
     (case find_first (\<lambda>e. slot < snd e) entries of
        Some e \<Rightarrow> fst e | None \<Rightarrow> fst (last entries))"

text \<open>The coordinate of the hex; reading it from the map gives the pointer or \<^verbatim>\<open>nil\<close>.\<close>

definition bestProductionHex :: "ptr \<Rightarrow> Sim \<Rightarrow> HexCoord \<times> Sim" where
  "bestProductionHex p s =
     (let a = agent s p in
      case (occupationResource (AOccupation a), HomeSettID a) of
        (Some resType, Some home) \<Rightarrow>
          let (dist, s1) = (case prodHexCache s (home, AOccupation a) of
                Some d \<Rightarrow> (d, s)
              | None \<Rightarrow> let d = computeHexDistribution home resType s
                        in (d, s\<lparr>prodHexCache := (prodHexCache s)((home, AOccupation a) \<mapsto> d)\<rparr>))
          in if totalWt dist = 0
             then (case SettlementIndex s1 home of
                     Some sp \<Rightarrow> SPosition (settl s1 sp) | None \<Rightarrow> APosition a, s1)
             else (pick_slot (uint (AID a mod word_of_int (totalWt dist))) (hexEntries dist), s1)
      | _ \<Rightarrow> (APosition a, s))"

end
