(* ===== verification/Seasons.thy ===== *)
theory Seasons
  imports Land
begin

section \<open>Seasons and weather (seasons.go, weather.go, simulation.go)\<close>

text \<open>
  Regeneration of the land by hour, week and season, the damage weather does
  to land, crops and buildings, and the mapping of fetched weather to the
  simulation's modifiers.  \<^verbatim>\<open>math.Log2\<close> and the order of ranging over
  a hex's resources are arguments.
\<close>

subsection \<open>Weather\<close>

record Conditions =
  CTemp :: f64
  CDescription :: string
  IsRain :: bool
  IsSnow :: bool
  IsStorm :: bool

definition seasonDefault :: "uint8 \<Rightarrow> string" where
  "seasonDefault season =
     (if season = 0 then ''mild spring weather'' else if season = 1 then ''warm summer sun''
      else if season = 2 then ''cool autumn breeze'' else if season = 3 then ''cold winter chill'' else ''fair weather'')"

definition temp_modifier :: "f64 \<Rightarrow> f32" where
  "temp_modifier temp =
     (let t = float32 ((temp - lit 20) / lit 20); t1 = (if t < - 1 then - 1 else t) in if 1 < t1 then 1 else t1)"

definition MapToSim :: "Conditions option \<Rightarrow> uint8 \<Rightarrow> SimWeather" where
  "MapToSim c season =
     (case c of
        None \<Rightarrow> \<lparr>TempModifier = 0, FoodDecayMod = 1, TravelPenalty = 1, WDescription = seasonDefault season\<rparr>
      | Some c \<Rightarrow>
          \<lparr>TempModifier = temp_modifier (CTemp c),
           FoodDecayMod = (if lit 30 < CTemp c then lit 1.5 else if lit 25 < CTemp c then lit 1.2
                           else if CTemp c < 0 then lit 0.7 else 1),
           TravelPenalty = (if IsStorm c then lit 2 else if IsSnow c then lit 1.5 else if IsRain c then lit 1.2 else 1),
           WDescription = CDescription c\<rparr>)"

text \<open>What the weather client gives: there is none, the fetch fails, or conditions.\<close>

datatype Fetch = NoClient | FetchFailed | Fetched Conditions

definition updateWeather :: "Fetch \<Rightarrow> Sim \<Rightarrow> Sim" where
  "updateWeather f s =
     (case f of
        NoClient \<Rightarrow> s\<lparr>CurrentWeather := MapToSim None (CurrentSeason s)\<rparr>
      | FetchFailed \<Rightarrow> s
      | Fetched c \<Rightarrow> s\<lparr>CurrentWeather := MapToSim (Some c) (CurrentSeason s)\<rparr>)"

subsection \<open>Regeneration\<close>

text \<open>The square of coordinates the regeneration loops visit.\<close>

definition in_square :: "Map \<Rightarrow> HexCoord \<Rightarrow> bool" where
  "in_square m c \<longleftrightarrow> - Radius m \<le> coordQ c \<and> coordQ c \<le> Radius m \<and> - Radius m \<le> coordR c \<and> coordR c \<le> Radius m"

text \<open>
  A loop over that square that treats every hex of the map by itself: the
  order does not matter.
\<close>

definition each_hex :: "(HexCoord \<Rightarrow> Hex \<Rightarrow> Hex) \<Rightarrow> Sim \<Rightarrow> Sim" where
  "each_hex f s = s\<lparr>WorldMap := (WorldMap s)\<lparr>Hexes := (\<lambda>c.
     if in_square (WorldMap s) c then map_option (f c) (Hexes (WorldMap s) c) else Hexes (WorldMap s) c)\<rparr>\<rparr>"

text \<open>\<^verbatim>\<open>hex.Resources[res] = qty + regen\<close>, capped, for a resource below its cap.\<close>

definition regrow :: "f64 \<Rightarrow> (f64 \<Rightarrow> f64) \<Rightarrow> f64 \<Rightarrow> f64" where
  "regrow maxQty regen qty =
     (if qty < maxQty then let q = qty + regen (maxQty - qty) in if maxQty < q then maxQty else q else qty)"

definition regrow_hex :: "(f64 \<Rightarrow> f64) \<Rightarrow> Hex \<Rightarrow> Hex" where
  "regrow_hex regen h =
     h\<lparr>Resources := (\<lambda>r. map_option (regrow (ResourceCap (HexTerrain h) r) regen) (Resources h r))\<rparr>"

definition season_regen_hex :: "Hex \<Rightarrow> Hex" where
  "season_regen_hex h =
     (if HexTerrain h = TerrainOcean \<or> HexHealth h < Agnosis then h
      else regrow_hex (\<lambda>deficit. deficit * Matter * lit 0.3 * HexHealth h * IrrigationRegenFactor (IrrigationLevel h)) h)"

definition regenerateResources :: "Sim \<Rightarrow> Sim" where
  "regenerateResources = each_hex (\<lambda>_. season_regen_hex)"

definition fallow_mod :: "SimWeather \<Rightarrow> f64" where
  "fallow_mod w =
     (let m = (if lit 1.2 \<le> TravelPenalty w \<and> TravelPenalty w < lit 2 then 1 + Agnosis else 1)
      in if 0 < TempModifier w then m - float64 (TempModifier w) * Agnosis * lit 0.5 else m)"

definition fallow_hex :: "uint64 \<Rightarrow> f64 \<Rightarrow> Hex \<Rightarrow> Hex" where
  "fallow_hex lastTick fallowMod h =
     (if LastExtractedTick h = 0 \<or> TicksPerSimDay < lastTick - LastExtractedTick h
      then let x = HexHealth h + Agnosis * lit 0.25 * fallowMod in h\<lparr>HexHealth := (if 1 < x then 1 else x)\<rparr> else h)"

definition week_regen_hex :: "uint64 \<Rightarrow> f64 \<Rightarrow> Hex \<Rightarrow> Hex" where
  "week_regen_hex lastTick fallowMod h =
     (if HexTerrain h = TerrainOcean then h
      else let h1 = fallow_hex lastTick fallowMod h in
        if HexHealth h1 < Agnosis then h1
        else regrow_hex (\<lambda>deficit. deficit * Agnosis * lit 0.4 * HexHealth h1 * IrrigationRegenFactor (IrrigationLevel h1)) h1)"

definition weeklyResourceRegen :: "Sim \<Rightarrow> Sim" where
  "weeklyResourceRegen s = each_hex (\<lambda>_. week_regen_hex (LastTick s) (fallow_mod (CurrentWeather s))) s"

definition note_pressure :: "f64 \<Rightarrow> HexCoord \<Rightarrow> (HexCoord \<Rightarrow> f64 option) \<Rightarrow> HexCoord \<Rightarrow> f64 option" where
  "note_pressure factor c m =
     (case m c of None \<Rightarrow> m(c \<mapsto> factor) | Some existing \<Rightarrow> if existing < factor then m(c \<mapsto> factor) else m)"

definition pressure_of :: "(f64 \<Rightarrow> f64) \<Rightarrow> (HexCoord \<Rightarrow> ResourceType list) \<Rightarrow> Sim \<Rightarrow> ptr
    \<Rightarrow> (HexCoord \<Rightarrow> f64 option) \<Rightarrow> HexCoord \<Rightarrow> f64 option" where
  "pressure_of log2 res s sp m =
     (let sett = settl s sp; pressure = snd (SettlementCarryingCapacity res (SID sett) s) in
      if Population sett = 0 \<or> pressure \<le> 0 then m
      else let factor = 1 + Agnosis * log2 (1 + pressure)
           in note_pressure factor (SPosition sett) (fold (note_pressure factor) (Neighbors (SPosition sett)) m))"

definition pressureByHex :: "(f64 \<Rightarrow> f64) \<Rightarrow> (HexCoord \<Rightarrow> ResourceType list) \<Rightarrow> Sim \<Rightarrow> HexCoord \<Rightarrow> f64 option" where
  "pressureByHex log2 res s = fold (pressure_of log2 res s) (Settlements s) Map.empty"

definition weather_mod :: "SimWeather \<Rightarrow> f64" where
  "weather_mod w =
     (let m = (if lit 2 \<le> TravelPenalty w then 1 - Agnosis else if lit 1.2 \<le> TravelPenalty w then 1 + Agnosis else 1)
      in if 0 < TempModifier w then m - float64 (TempModifier w) * Agnosis * lit 0.5 else m)"

definition hour_regen_hex :: "f64 \<Rightarrow> f64 \<Rightarrow> Hex \<Rightarrow> Hex" where
  "hour_regen_hex factor weatherMod h =
     (if HexTerrain h = TerrainOcean \<or> HexHealth h < Agnosis then h
      else regrow_hex (\<lambda>deficit. deficit * Agnosis * lit 0.06 * HexHealth h * factor * weatherMod
                          * IrrigationRegenFactor (IrrigationLevel h)) h)"

definition hourlyResourceRegen :: "(f64 \<Rightarrow> f64) \<Rightarrow> (HexCoord \<Rightarrow> ResourceType list) \<Rightarrow> Sim \<Rightarrow> Sim" where
  "hourlyResourceRegen log2 res s =
     (let pressure = pressureByHex log2 res s; weatherMod = weather_mod (CurrentWeather s)
      in each_hex (\<lambda>c. hour_regen_hex (case pressure c of None \<Rightarrow> 1 | Some f \<Rightarrow> f) weatherMod) s)"

subsection \<open>Weather damage\<close>

definition wear :: "f64 \<Rightarrow> Hex \<Rightarrow> Hex" where
  "wear damage h = h\<lparr>HexHealth := not_negative (HexHealth h - damage)\<rparr>"

definition damageHexHealth :: "HexCoord \<Rightarrow> f64 \<Rightarrow> Sim \<Rightarrow> Sim" where
  "damageHexHealth coord baseDamage s =
     (case map_Get (WorldMap s) coord of
        None \<Rightarrow> s
      | Some h \<Rightarrow> if HexTerrain h = TerrainOcean then s
                  else upd_hex coord (wear (baseDamage * ConservationDamageFactor (ConservationLevel h))) s)"

definition erode_coast :: "uint64 \<Rightarrow> ptr \<Rightarrow> Sim \<times> int \<Rightarrow> Sim \<times> int" where
  "erode_coast tick sp st =
     (let (s, regions) = st; sett = settl s sp; chance = Agnosis * Agnosis * Agnosis;
          hash = (SID sett * 2654435761 + tick * 40503 + 7919) mod 100000
      in case map_Get (WorldMap s) (SPosition sett) of
           None \<Rightarrow> st
         | Some h \<Rightarrow>
             if Population sett = 0 \<or> HexTerrain h \<noteq> TerrainCoast \<or> chance \<le> flt_of_word hash / lit 100000 then st
             else (fold (\<lambda>nc. damageHexHealth nc (Agnosis * lit 0.005)) (Neighbors (SPosition sett))
                     (damageHexHealth (SPosition sett) (Agnosis * lit 0.01) s), regions + 1))"

definition applyStormErosion :: "uint64 \<Rightarrow> Sim \<Rightarrow> Sim" where
  "applyStormErosion tick s =
     (let (s1, regions) = fold (erode_coast tick) (Settlements s) (s, 0)
      in if 0 < regions then emit tick (''Storm erodes the coast in '' @ show_int regions @ '' region(s)'') CategoryDisaster s1
         else s1)"

definition drought_hex :: "Hex \<Rightarrow> Hex" where
  "drought_hex h =
     (if (HexTerrain h \<noteq> TerrainPlains \<and> HexTerrain h \<noteq> TerrainForest) \<or> 3 \<le> IrrigationLevel h then h
      else let irrProtection = 1 - flt_of_word (IrrigationLevel h) / lit 3 * Agnosis
           in wear (Agnosis * lit 0.0005 * ConservationDamageFactor (ConservationLevel h) * irrProtection) h)"

definition applyDroughtDegradation :: "Sim \<Rightarrow> Sim" where
  "applyDroughtDegradation = each_hex (\<lambda>_. drought_hex)"

definition applyWeatherHexDamage :: "uint64 \<Rightarrow> Sim \<Rightarrow> Sim" where
  "applyWeatherHexDamage tick s =
     (let s1 = (if lit 2 \<le> TravelPenalty (CurrentWeather s) then applyStormErosion tick s else s)
      in if 72 \<le> HeatStreakHours s1 then applyDroughtDegradation s1 else s1)"

definition avg_irrigation :: "Map \<Rightarrow> HexCoord \<Rightarrow> f64" where
  "avg_irrigation m pos =
     (let (total, hexCount) = fold (\<lambda>c (total, n). case map_Get m c of
              None \<Rightarrow> (total, n)
            | Some h \<Rightarrow> if HexTerrain h = TerrainOcean then (total, n) else (total + flt_of_word (IrrigationLevel h), n + 1))
            (Neighbors pos @ [pos]) (0, 0 :: int)
      in if 0 < hexCount then total / flt_of_int hexCount else total)"

definition spoil_grain :: "f64 \<Rightarrow> Agent \<Rightarrow> Agent" where
  "spoil_grain spoilRate a =
     (let grain = Inventory a GoodGrain; lost = at_least_1 (int_of_flt (flt_of_int grain * spoilRate)) in
      if Alive a \<and> 0 < grain
      then a\<lparr>Inventory := (Inventory a)(GoodGrain := (if grain - lost < 0 then 0 else grain - lost))\<rparr> else a)"

definition fail_crops :: "ptr \<Rightarrow> Sim \<times> int \<Rightarrow> Sim \<times> int" where
  "fail_crops sp st =
     (let (s, affected) = st; sett = settl s sp; avgIrrigation = avg_irrigation (WorldMap s) (SPosition sett) in
      if Population sett = 0 \<or> lit 3 \<le> avgIrrigation then st
      else let spoilRate = Agnosis * (1 - avgIrrigation / lit 3)
           in (fold (\<lambda>p. upd_agent p (spoil_grain spoilRate)) (SettlementAgents s (SID sett)) s, affected + 1))"

definition checkCropFailure :: "uint64 \<Rightarrow> Sim \<Rightarrow> Sim" where
  "checkCropFailure tick s =
     (if float32 Agnosis < TempModifier (CurrentWeather s) then
        (let streak = HeatStreakHours s + 1 in
         if streak < 72 then s\<lparr>HeatStreakHours := streak\<rparr>
         else let (s1, affected) = fold fail_crops (Settlements s) (s\<lparr>HeatStreakHours := 48\<rparr>, 0)
              in if 0 < affected
                 then emit tick (''Sustained heat wave causes crop failure in '' @ show_int affected
                        @ '' settlements '' @ map char_of [226, 128, 148 :: nat] @ '' stored grain spoils'') CategoryDisaster s1
                 else s1)
      else s\<lparr>HeatStreakHours := 0\<rparr>)"

definition storm_message :: "string \<Rightarrow> Settlement \<Rightarrow> uint8 \<Rightarrow> string" where
  "storm_message what sett level = ''Storm damages '' @ what @ '' in '' @ SName sett @ '' (level '' @ show_word level @ '')''"

definition storm_hits :: "uint64 \<Rightarrow> Settlement \<Rightarrow> bool" where
  "storm_hits tick sett \<longleftrightarrow> 0 < Population sett
     \<and> flt_of_word ((SID sett * 2654435761 + tick * 40503) mod 100000) / lit 100000
         < Agnosis * Agnosis * (1 - GovernanceScore sett * lit 0.5)"

definition storm_one :: "uint64 \<Rightarrow> ptr \<Rightarrow> Sim \<Rightarrow> Sim" where
  "storm_one tick sp s =
     (let sett = settl s sp;
          sum = uint (RoadLevel sett) + uint (WallLevel sett) + uint (MarketLevel sett);
          pick = uint ((SID sett * 31 + tick * 17) mod word_of_int sum)
      in if \<not> storm_hits tick sett \<or> sum = 0 then s
         else if pick < uint (RoadLevel sett) \<and> 0 < RoadLevel sett
         then emit tick (storm_message ''roads'' sett (RoadLevel sett - 1)) CategoryDisaster
                (upd_settl sp (\<lambda>t. t\<lparr>RoadLevel := RoadLevel t - 1\<rparr>) s)
         else if pick < uint (RoadLevel sett) + uint (WallLevel sett) \<and> 0 < WallLevel sett
         then emit tick (storm_message ''walls'' sett (WallLevel sett - 1)) CategoryDisaster
                (upd_settl sp (\<lambda>t. t\<lparr>WallLevel := WallLevel t - 1\<rparr>) s)
         else if 0 < MarketLevel sett
         then emit tick (storm_message ''market'' sett (MarketLevel sett - 1)) CategoryDisaster
                (upd_settl sp (\<lambda>t. t\<lparr>MarketLevel := MarketLevel t - 1\<rparr>) s)
         else s)"

definition checkStormDamage :: "uint64 \<Rightarrow> Sim \<Rightarrow> Sim" where
  "checkStormDamage tick s =
     (if TravelPenalty (CurrentWeather s) < lit 2 then s else fold (storm_one tick) (Settlements s) s)"

subsection \<open>The turn of the season\<close>

definition harvest_bonus :: "Agent \<Rightarrow> Agent" where
  "harvest_bonus a =
     (let bonus = int_of_flt (Farming (Skills a) * lit 10) in inv_add GoodGrain (if bonus < 2 then 2 else bonus) a)"

definition autumnHarvest :: "uint64 \<Rightarrow> Sim \<Rightarrow> Sim" where
  "autumnHarvest tick s =
     (let (s1, harvestCount) = fold (\<lambda>p (s, n). if Alive (agent s p) \<and> AOccupation (agent s p) = OccupationFarmer
              then (upd_agent p harvest_bonus s, n + 1) else (s, n)) (Agents s) (s, 0 :: int)
      in if 0 < harvestCount
         then emit tick (''Autumn harvest: '' @ show_int harvestCount @ '' farmers bring in the crop'') CategoryEconomy s1
         else s1)"

definition winter_one :: "ptr \<Rightarrow> Sim \<Rightarrow> Sim" where
  "winter_one p s =
     (let a = agent s p in
      if \<not> Alive a \<or> 0 < Inventory a GoodClothing \<or> 0 < Inventory a GoodFurs then s
      else let s1 = upd_agent p (\<lambda>a. a\<lparr>AHealth := AHealth a - lit 0.05\<rparr>) s;
               s2 = upd_counted p (ApplyDirectSatBump (- lit 0.1) ''winter.no-warmth'') s1
           in upd_agent p (\<lambda>a. a\<lparr>AHealth := (if AHealth a < 0 then 0 else AHealth a)\<rparr>) s2)"

definition winterHardship :: "Sim \<Rightarrow> Sim" where
  "winterHardship s = fold winter_one (Agents s) s"

definition processSeason :: "uint64 \<Rightarrow> Sim \<Rightarrow> Sim" where
  "processSeason tick s =
     (let s1 = s\<lparr>CurrentSeason := ucast ((tick div TicksPerSimSeason) mod 4)\<rparr>;
          s2 = regenerateResources s1;
          s3 = (if CurrentSeason s2 = SeasonAutumn then autumnHarvest tick s2 else s2)
      in if CurrentSeason s3 = SeasonWinter then winterHardship s3 else s3)"

definition TickSeason :: "uint64 \<Rightarrow> Sim \<Rightarrow> Sim" where
  "TickSeason = processSeason"

end
