(* ===== verification/Intervention.thy ===== *)
theory Intervention
  imports Land Merchant
begin

section \<open>Interventions and production boosts (intervention.go)\<close>

text \<open>
  The operations the gardener and the administrator call on a running world.
  The errors of the code are a datatype with the values its messages quote.
\<close>

datatype InterventionError =
    SettlementNotFound string
  | NoMarket string
  | UnknownGood string
  | GoodNotInMarket string string
  | NoViableTarget string
  | NoAgentsToMove string

definition good_names :: "(string \<times> GoodType) list" where
  "good_names =
     [(''grain'', GoodGrain), (''fish'', GoodFish), (''timber'', GoodTimber), (''iron_ore'', GoodIronOre),
      (''stone'', GoodStone), (''coal'', GoodCoal), (''herbs'', GoodHerbs), (''furs'', GoodFurs),
      (''gems'', GoodGems), (''exotics'', GoodExotics), (''tools'', GoodTools), (''weapons'', GoodWeapons),
      (''clothing'', GoodClothing), (''medicine'', GoodMedicine), (''luxuries'', GoodLuxuries)]"

definition GoodTypeFromString :: "string \<Rightarrow> GoodType option" where
  "GoodTypeFromString = map_of good_names"

definition findSettlementByName :: "string \<Rightarrow> Sim \<Rightarrow> ptr option" where
  "findSettlementByName name s = find_first (\<lambda>sp. SName (settl s sp) = name) (Settlements s)"

definition provision_supply :: "GoodType \<Rightarrow> int \<Rightarrow> Market \<Rightarrow> Market" where
  "provision_supply g quantity m =
     m\<lparr>Entries := (\<lambda>h. if h = g then map_option (\<lambda>e. e\<lparr>Supply := Supply e + flt_of_int quantity\<rparr>) (Entries m h) else Entries m h)\<rparr>"

definition ProvisionSettlement :: "string \<Rightarrow> string \<Rightarrow> int \<Rightarrow> Sim \<Rightarrow> (InterventionError + string) \<times> Sim" where
  "ProvisionSettlement name good quantity s =
     (case findSettlementByName name s of
        None \<Rightarrow> (Inl (SettlementNotFound name), s)
      | Some sp \<Rightarrow>
          (case SMarket (settl s sp) of
             None \<Rightarrow> (Inl (NoMarket name), s)
           | Some m \<Rightarrow>
               (case GoodTypeFromString good of
                  None \<Rightarrow> (Inl (UnknownGood good), s)
                | Some goodType \<Rightarrow>
                    if Entries m goodType = None then (Inl (GoodNotInMarket good name), s)
                    else let desc = ''A merchant caravan arrives in '' @ name @ '' bearing '' @ show_int quantity @ '' units of '' @ good
                         in (Inr desc, emit (LastTick s) desc CategoryGardener
                              (upd_settl sp (\<lambda>t. t\<lparr>SMarket := Some (provision_supply goodType quantity m)\<rparr>) s)))))"

text \<open>
  \<^verbatim>\<open>%.1f\<close>: the exact value, rounded to one decimal, ties to even.
\<close>

definition show_tenths :: "f64 \<Rightarrow> string" where
  "show_tenths x =
     (let n = round_half_even (\<bar>rat_of_flt x\<bar> * 10)
      in (if x < 0 then ''-'' else '''') @ show_int (n div 10) @ ''.'' @ show_int (n mod 10))"

definition CultivateSettlement :: "string \<Rightarrow> f64 \<Rightarrow> int \<Rightarrow> Sim \<Rightarrow> (InterventionError + string) \<times> Sim" where
  "CultivateSettlement name multiplier durationDays s =
     (case findSettlementByName name s of
        None \<Rightarrow> (Inl (SettlementNotFound name), s)
      | Some sp \<Rightarrow>
          let expiresAt = LastTick s + word_of_int durationDays * TicksPerSimDay;
              s1 = s\<lparr>ActiveBoosts := ActiveBoosts s
                      @ [\<lparr>BSettlementID = SID (settl s sp), Multiplier = multiplier, ExpiresAt = expiresAt\<rparr>]\<rparr>;
              desc = ''A bountiful season blesses the workers of '' @ name @ '' ('' @ show_tenths multiplier
                       @ ''x production for '' @ show_int durationDays @ '' days)''
          in (Inr desc, emit (LastTick s1) desc CategoryGardener s1))"

definition nearer_target :: "Sim \<Rightarrow> ptr \<Rightarrow> ptr \<Rightarrow> ptr option \<times> int \<Rightarrow> ptr option \<times> int" where
  "nearer_target s source sp best =
     (let dist = Distance (SPosition (settl s source)) (SPosition (settl s sp)) in
      if SID (settl s sp) = SID (settl s source) \<or> Population (settl s sp) < 50 then best
      else if dist \<le> 8 \<and> dist < snd best then (Some sp, dist) else best)"

definition refuge :: "Sim \<Rightarrow> ptr \<Rightarrow> ptr option" where
  "refuge s source = fst (fold (nearer_target s source) (Settlements s) (None, 999))"

text \<open>\<^verbatim>\<open>reassignIfMismatched\<close> has an empty body.\<close>

definition move_refugee :: "ptr \<Rightarrow> int \<Rightarrow> ptr \<Rightarrow> Sim \<times> int \<Rightarrow> (Sim \<times> int) option" where
  "move_refugee target limit p st =
     (let (s, moved) = st in
      if limit \<le> moved then None
      else if \<not> Alive (agent s p) then Some st
      else Some (upd_agent p (\<lambda>a. a\<lparr>HomeSettID := Some (SID (settl s target)), APosition := SPosition (settl s target)\<rparr>) s, moved + 1))"

definition ConsolidateSettlement :: "string \<Rightarrow> int \<Rightarrow> Sim \<Rightarrow> (InterventionError + string) \<times> Sim" where
  "ConsolidateSettlement name limit s =
     (case findSettlementByName name s of
        None \<Rightarrow> (Inl (SettlementNotFound name), s)
      | Some source \<Rightarrow>
          (case refuge s source of
             None \<Rightarrow> (Inl (NoViableTarget name), s)
           | Some target \<Rightarrow>
               let (s1, moved) = for_break (move_refugee target limit) (SettlementAgents s (SID (settl s source))) (s, 0)
               in if moved = 0 then (Inl (NoAgentsToMove name), s1)
                  else let s2 = rebuildSettlementAgents s1;
                           desc = ''Refugees from '' @ name @ '' ('' @ show_int moved @ '' souls) seek shelter in ''
                                    @ SName (settl s2 target)
                       in (Inr desc, emit (LastTick s2) desc CategoryGardener s2)))"

definition CleanExpiredBoosts :: "uint64 \<Rightarrow> Sim \<Rightarrow> Sim" where
  "CleanExpiredBoosts tick s = s\<lparr>ActiveBoosts := filter (\<lambda>b. tick < ExpiresAt b) (ActiveBoosts s)\<rparr>"

definition GetSettlementBoost :: "uint64 \<Rightarrow> Sim \<Rightarrow> f64" where
  "GetSettlementBoost settlementID s =
     fold (\<lambda>b best. if BSettlementID b = settlementID \<and> best < Multiplier b then Multiplier b else best) (ActiveBoosts s) 1"

end
