(* ===== verification/Ticks.thy ===== *)
theory Ticks
  imports Seasons Intervention
begin

section \<open>The minute and the hour (simulation.go)\<close>

text \<open>
  \<^verbatim>\<open>TickMinute\<close> and \<^verbatim>\<open>TickHour\<close>, composed as the code composes them.
  What the code draws from Go's runtime during a tick is the record \<open>Env\<close>: the
  hourly shuffle, the random draws of the agents, the orders in which maps are
  ranged over, the two sorts of the market, \<^verbatim>\<open>math.Log2\<close> and the
  weather service.
\<close>

record Env =
  shuffle :: "uint64 \<Rightarrow> ptr list \<Rightarrow> ptr list"
  decide_draw :: "uint64 \<Rightarrow> ptr \<Rightarrow> f64"
  first_draw :: "int \<Rightarrow> f64"
  sort_sells :: "Order list \<Rightarrow> Order list"
  sort_buys :: "Order list \<Rightarrow> Order list"
  market_goods :: "ptr \<Rightarrow> GoodType list"
  cargo_goods :: "ptr \<Rightarrow> ptr \<Rightarrow> ptr \<Rightarrow> GoodType list"
  hex_resources :: "HexCoord \<Rightarrow> ResourceType list"
  math_log2 :: "f64 \<Rightarrow> f64"
  weather_fetch :: Fetch

text \<open>A work action: the hex, the modifiers of the settlement and the land, and the work itself.\<close>

definition cached_coherence :: "uint64 \<Rightarrow> Sim \<Rightarrow> f64 \<times> Sim" where
  "cached_coherence settID s =
     (case tickCoherenceCache s settID of
        Some cm \<Rightarrow> (cm, s)
      | None \<Rightarrow> let cm = coherenceExtractionMod settID s
                in (cm, s\<lparr>tickCoherenceCache := (tickCoherenceCache s)(settID \<mapsto> cm)\<rparr>))"

definition work_modifiers :: "ptr \<Rightarrow> Sim \<Rightarrow> f64 \<times> f64 \<times> Sim" where
  "work_modifiers p s =
     (let boostMul = SeasonalProductionMod (CurrentSeason s) in
      case HomeSettID (agent s p) of
        None \<Rightarrow> (boostMul, 1, s)
      | Some i \<Rightarrow> let (cm, s1) = cached_coherence i s in (boostMul * GetSettlementBoost i s, cm, s1))"

definition minute_work :: "Env \<Rightarrow> Action \<Rightarrow> uint64 \<Rightarrow> ptr \<Rightarrow> Sim \<Rightarrow> Sim" where
  "minute_work env action tick p s =
     (let (c, s1) = bestProductionHex p s;
          (boostMul, coherenceMod, s2) = work_modifiers p s1;
          hex = map_Get (WorldMap s2) c;
          conservationMod = (case hex of None \<Rightarrow> 1 | Some h \<Rightarrow> ConservationDamageFactor (ConservationLevel h));
          ((a', n'), hex') = ResolveWork (first_draw env) action tick boostMul coherenceMod conservationMod
                               ((agent s2 p, SatBumps s2), hex);
          s3 = s2\<lparr>agent := (agent s2)(p := a'), SatBumps := n'\<rparr>
      in case hex' of None \<Rightarrow> s3 | Some h' \<Rightarrow> upd_hex c (\<lambda>_. h') s3)"

definition minute_act :: "Env \<Rightarrow> uint64 \<Rightarrow> ptr \<Rightarrow> Sim \<Rightarrow> Sim" where
  "minute_act env tick p s =
     (let action = Decide (Archetypes s) (decide_draw env tick p) (agent s p) in
      case Kind action of
        ActionBuyFood \<Rightarrow> resolveBuyFood p s
      | ActionWork \<Rightarrow> minute_work env action tick p s
      | _ \<Rightarrow> upd_counted p (ApplyAction (first_draw env) action tick) s)"

definition minute_agent :: "Env \<Rightarrow> uint64 \<Rightarrow> ptr \<Rightarrow> Sim \<Rightarrow> Sim" where
  "minute_agent env tick p s =
     (if \<not> Alive (agent s p) \<or> Age (agent s p) < 2 then s
      else let s1 = upd_agent p DecayNeeds s in
        if \<not> Alive (agent s1 p) then handleAgentDeath p tick s1
        else let s2 = minute_act env tick p s1
             in if \<not> Alive (agent s2 p) then handleAgentDeath p tick s2 else s2)"

definition minute_setup :: "Env \<Rightarrow> uint64 \<Rightarrow> Sim \<Rightarrow> Sim" where
  "minute_setup env tick s =
     (let s1 = s\<lparr>LastTick := tick\<rparr>;
          s2 = (if tick mod TicksPerSimHour = 0 then s1\<lparr>Agents := shuffle env tick (Agents s1)\<rparr> else s1);
          s3 = s2\<lparr>tickCoherenceCache := Map.empty\<rparr>
      in if tick mod TicksPerSimHour = 0 then s3\<lparr>prodHexCache := Map.empty\<rparr> else s3)"

definition TickMinute :: "Env \<Rightarrow> uint64 \<Rightarrow> Sim \<Rightarrow> Sim" where
  "TickMinute env tick s = (let s1 = minute_setup env tick s in fold (minute_agent env tick) (Agents s1) s1)"

definition TickHour :: "Env \<Rightarrow> uint64 \<Rightarrow> Sim \<Rightarrow> Sim" where
  "TickHour env tick s =
     (let s1 = resolveMarkets (sort_sells env) (sort_buys env) (market_goods env) s;
          s2 = resolveMerchantTrade (cargo_goods env) tick s1;
          s3 = decayInventories s2;
          s4 = updateWeather (weather_fetch env) s3;
          s5 = hourlyResourceRegen (math_log2 env) (hex_resources env) s4;
          s6 = checkCropFailure tick s5;
          s7 = checkStormDamage tick s6
      in applyWeatherHexDamage tick s7)"

end
