(* ===== verification/Land_Laws.thy ===== *)
theory Land_Laws
  imports Seasons Fiscal_Laws
begin

section \<open>Laws of the land\<close>

text \<open>
  The invariant of a hex (health in [0, 1], no negative resource) holds
  through extraction, regeneration and weather damage; extraction credits
  exactly the whole units it accumulates; regrowth moves every resource
  towards its cap and never past it; the producers of a settlement are spread
  over its neighbourhood in proportion to the weights.
\<close>

definition hex_ok :: "Hex \<Rightarrow> bool" where
  "hex_ok h \<longleftrightarrow> 0 \<le> HexHealth h \<and> HexHealth h \<le> 1 \<and> (\<forall>r x. Resources h r = Some x \<longrightarrow> 0 \<le> x)"

definition land_ok :: "Sim \<Rightarrow> bool" where
  "land_ok s \<longleftrightarrow> (\<forall>c h. Hexes (WorldMap s) c = Some h \<longrightarrow> hex_ok h)"

lemma not_negative_bounds [simp]: "0 \<le> not_negative x"
  by (auto simp: not_negative_def)

lemma not_negative_le: "x \<le> y \<Longrightarrow> 0 \<le> y \<Longrightarrow> not_negative x \<le> y"
  by (auto simp: not_negative_def)

lemma not_negative_id: "0 \<le> x \<Longrightarrow> not_negative x = x"
  by (auto simp: not_negative_def)

subsection \<open>Extraction\<close>

lemma productionAmount_pos: "1 \<le> productionAmount a"
  by (cases "AOccupation a") (simp_all add: productionAmount_def at_least_1_def Let_def)

lemma hex_ok_set_resource: "hex_ok h \<Longrightarrow> 0 \<le> x \<Longrightarrow> hex_ok (set_resource r x h)"
  by (auto simp: hex_ok_def set_resource_def)

lemma hex_ok_wear: "hex_ok h \<Longrightarrow> 0 \<le> d \<Longrightarrow> hex_ok (wear d h)"
  using flt_diff_decrease [of d "HexHealth h"]
  by (auto simp: hex_ok_def wear_def intro: not_negative_le order.trans)

lemma hex_ok_tick: "hex_ok h \<Longrightarrow> hex_ok (h\<lparr>LastExtractedTick := t\<rparr>)"
  by (simp add: hex_ok_def)

lemma extract_hex_ok:
  assumes "hex_ok h" "0 \<le> produced" "0 \<le> full" "0 \<le> coherenceMod" "0 \<le> conservationMod"
  shows "hex_ok (extract_hex r tick produced full coherenceMod conservationMod h)"
proof -
  let ?d = "Agnosis * lit 0.001 * (produced / full) * conservationMod * coherenceMod"
  have d: "0 \<le> ?d" using assms by (intro flt_mult_nonneg flt_divide_nonneg zero_le_lit) simp_all
  have "hex_ok (set_resource r (not_negative (resource h r - produced)) h)"
    using assms(1) by (rule hex_ok_set_resource) simp
  from hex_ok_tick [OF hex_ok_wear [OF this d]] show ?thesis
    by (simp only: extract_hex_def Let_def wear_def)
qed

lemma resource_nonneg: "hex_ok h \<Longrightarrow> 0 \<le> resource h r"
  by (auto simp: hex_ok_def resource_def split: option.split)

lemma credit_units_ok: "hex_ok h \<Longrightarrow> hex_ok (snd (credit_units (a, h)))"
  by (auto simp: credit_units_def Let_def intro: hex_ok_set_resource flt_diff_nonneg)

lemma steward_ok: "hex_ok h \<Longrightarrow> hex_ok (steward a h)"
proof -
  assume h: "hex_ok h"
  have "0 \<le> HexHealth h + Agnosis * lit 0.005"
    using h by (intro flt_add_nonneg flt_mult_nonneg) (simp_all add: hex_ok_def zero_le_lit)
  then show ?thesis using h by (auto simp: steward_def hex_ok_def Let_def)
qed

theorem harvest_hex_ok:
  assumes "hex_ok h" "0 \<le> coherenceMod" "0 \<le> conservationMod"
  shows "hex_ok (snd (harvest r tick boostMul coherenceMod conservationMod a h))"
proof -
  define full :: f64 where "full = (if 1 < boostMul then flt_of_int (productionAmount a) * boostMul else flt_of_int (productionAmount a))"
  have p0: "0 \<le> (flt_of_int (productionAmount a) :: f64)" using productionAmount_pos [of a] by (intro flt_of_int_nonneg) simp
  then have full: "0 \<le> full" using less_trans [OF zero_le_one_flt(2), of boostMul] by (auto simp: full_def intro!: flt_mult_nonneg)
  then have "0 \<le> math_Min full (resource h r)" using resource_nonneg [OF assms(1)] by (auto simp: math_Min_def)
  then have "hex_ok (extract_hex r tick (math_Min full (resource h r)) full coherenceMod conservationMod h)"
    using assms full by (intro extract_hex_ok)
  then show ?thesis
    unfolding harvest_def Let_def full_def [symmetric]
    using assms(1) by (auto simp: split_beta intro!: steward_ok credit_units_ok)
qed

subsection \<open>Whole units\<close>

lemma applySkillGrowth_frame [simp]:
  "Inventory (applySkillGrowth a) = Inventory a" "ProductionProgress (applySkillGrowth a) = ProductionProgress a"
  "Wealth (applySkillGrowth a) = Wealth a" "AOccupation (applySkillGrowth a) = AOccupation a" "Alive (applySkillGrowth a) = Alive a"
  by (cases "AOccupation a"; simp add: applySkillGrowth_def skill_farming_def skill_mining_def skill_combat_def skill_crafting_def)+

lemma clamp_agent_frame [simp]:
  "Inventory (clamp_agent a) = Inventory a" "ProductionProgress (clamp_agent a) = ProductionProgress a"
  "Wealth (clamp_agent a) = Wealth a" "AOccupation (clamp_agent a) = AOccupation a" "Alive (clamp_agent a) = Alive a"
  "HomeSettID (clamp_agent a) = HomeSettID a" "AID (clamp_agent a) = AID a"
  by (simp_all add: clamp_agent_def)

lemma add_needs_frame [simp]:
  "Inventory (add_needs su sa be es pu a) = Inventory a" "ProductionProgress (add_needs su sa be es pu a) = ProductionProgress a"
  "AOccupation (add_needs su sa be es pu a) = AOccupation a" "Alive (add_needs su sa be es pu a) = Alive a"
  "HomeSettID (add_needs su sa be es pu a) = HomeSettID a" "AID (add_needs su sa be es pu a) = AID a"
  by (simp_all add: add_needs_def Let_def)

lemma credit_units_exact:
  assumes "0 \<le> ProductionProgress a"
  shows "Inventory (fst (credit_units (a, h))) (occupationGood (AOccupation a))
      = Inventory a (occupationGood (AOccupation a)) + \<lfloor>rat_of_flt (ProductionProgress a)\<rfloor>"
    and "rat_of_flt (ProductionProgress (fst (credit_units (a, h)))) = frac (rat_of_flt (ProductionProgress a))"
proof -
  have fl: "int_of_flt (ProductionProgress a) = \<lfloor>rat_of_flt (ProductionProgress a)\<rfloor>"
    using assms by (simp add: int_of_flt_def flt_le_iff)
  have small: "\<lfloor>rat_of_flt (ProductionProgress a)\<rfloor> = 0" if "\<not> 1 \<le> ProductionProgress a"
    using that assms by (simp add: flt_le_iff floor_eq_iff)
  show "Inventory (fst (credit_units (a, h))) (occupationGood (AOccupation a))
      = Inventory a (occupationGood (AOccupation a)) + \<lfloor>rat_of_flt (ProductionProgress a)\<rfloor>"
    using small by (cases "AOccupation a") (auto simp: credit_units_def Let_def fl inv_add_def)
  show "rat_of_flt (ProductionProgress (fst (credit_units (a, h)))) = frac (rat_of_flt (ProductionProgress a))"
    using small flt_frac_exact [OF assms] by (auto simp: credit_units_def Let_def inv_add_def frac_def)
qed


lemma land_ok_each_hex:
  assumes "land_ok s" "\<And>c h. hex_ok h \<Longrightarrow> hex_ok (f c h)"
  shows "land_ok (each_hex f s)"
  using assms by (auto simp: land_ok_def each_hex_def split: if_splits)

lemma land_ok_upd_hex:
  assumes "land_ok s" "\<And>h. hex_ok h \<Longrightarrow> hex_ok (f h)"
  shows "land_ok (upd_hex c f s)"
  using assms by (auto simp: land_ok_def upd_hex_def split: if_splits option.splits)

lemma land_ok_cong: "WorldMap t = WorldMap s \<Longrightarrow> land_ok t = land_ok s"
  by (simp add: land_ok_def)

lemma WorldMap_emit [simp]: "WorldMap (emit tick d c s) = WorldMap s"
  by (simp add: emit_def EmitEvent_def Let_def)

subsection \<open>Regrowth\<close>

lemma regrow_bounds:
  assumes "0 \<le> regen (maxQty - qty)"
  shows "qty \<le> regrow maxQty regen qty" "regrow maxQty regen qty \<le> max qty maxQty"
  using flt_add_mono [OF order.refl [of qty] assms] assms by (auto simp: regrow_def Let_def)

lemma regrow_hex_ok:
  assumes "hex_ok h" "\<And>d. 0 \<le> d \<Longrightarrow> 0 \<le> regen d"
  shows "hex_ok (regrow_hex regen h)"
proof -
  have "0 \<le> regrow m regen q" if "0 \<le> q" for m q
  proof (cases "q < m")
    case True
    then have "0 \<le> regen (m - q)" by (intro assms(2) flt_diff_nonneg) simp
    from regrow_bounds(1) [of regen m q, OF this] that show ?thesis by (rule order.trans [rotated])
  qed (use that in \<open>simp add: regrow_def\<close>)
  with assms(1) show ?thesis by (auto simp: hex_ok_def regrow_hex_def)
qed

lemma hex_ok_health: "hex_ok h \<Longrightarrow> 0 \<le> HexHealth h"
  by (simp add: hex_ok_def)

lemma irrigation_nonneg: "0 \<le> IrrigationRegenFactor l"
  unfolding IrrigationRegenFactor_def by (intro flt_add_nonneg flt_mult_nonneg) (simp_all add: flt_of_word_nonneg)

lemma conservation_nonneg: "0 \<le> ConservationDamageFactor l"
proof -
  have "0 \<le> (lit 0.1 :: f64)" by (rule zero_le_lit) simp
  then show ?thesis by (auto simp: ConservationDamageFactor_def Let_def)
qed

lemmas amount_intros = flt_add_nonneg flt_mult_nonneg flt_divide_nonneg irrigation_nonneg conservation_nonneg zero_le_lit
  hex_ok_health regrow_hex_ok

lemma season_regen_hex_ok: "hex_ok h \<Longrightarrow> hex_ok (season_regen_hex h)"
  unfolding season_regen_hex_def by (auto intro!: amount_intros)

lemma fallow_hex_ok: "hex_ok h \<Longrightarrow> 0 \<le> m \<Longrightarrow> hex_ok (fallow_hex t m h)"
proof -
  assume h: "hex_ok h" "0 \<le> m"
  then have "0 \<le> HexHealth h + Agnosis * lit 0.25 * m" by (intro amount_intros) simp_all
  then show ?thesis using h(1) by (auto simp: fallow_hex_def hex_ok_def Let_def)
qed

lemma week_regen_hex_ok: "hex_ok h \<Longrightarrow> 0 \<le> m \<Longrightarrow> hex_ok (week_regen_hex t m h)"
  unfolding week_regen_hex_def Let_def using fallow_hex_ok by (auto intro!: amount_intros)

lemma hour_regen_hex_ok: "hex_ok h \<Longrightarrow> 0 \<le> f \<Longrightarrow> 0 \<le> m \<Longrightarrow> hex_ok (hour_regen_hex f m h)"
  unfolding hour_regen_hex_def by (auto intro!: amount_intros)

subsection \<open>Weather\<close>

definition weather_ok :: "Sim \<Rightarrow> bool" where
  "weather_ok s \<longleftrightarrow> - 1 \<le> TempModifier (CurrentWeather s) \<and> TempModifier (CurrentWeather s) \<le> 1
     \<and> 1 \<le> TravelPenalty (CurrentWeather s) \<and> TravelPenalty (CurrentWeather s) \<le> lit 2"

lemma travel_levels:
  "1 \<le> (lit 2 :: f32)" "1 \<le> (lit 1.5 :: f32)" "1 \<le> (lit 1.2 :: f32)" "- 1 \<le> (1 :: f32)" "(lit 1.5 :: f32) \<le> lit 2" "(lit 1.2 :: f32) \<le> lit 2"
  by code_simp+

lemma temp_modifier_range: "- 1 \<le> temp_modifier t" "temp_modifier t \<le> 1"
  using travel_levels(4) by (auto simp: temp_modifier_def Let_def)

lemma updateWeather_ok:
  assumes "weather_ok s"
  shows "weather_ok (updateWeather f s)"
  using assms
proof (cases f)
  case (Fetched c)
  have "1 \<le> TravelPenalty (MapToSim (Some c) n) \<and> TravelPenalty (MapToSim (Some c) n) \<le> lit 2" for n
    unfolding MapToSim_def option.case SimWeather.select_convs by (simp only: travel_levels order.refl split: if_split) simp
  then show ?thesis using Fetched by (simp add: weather_ok_def updateWeather_def MapToSim_def temp_modifier_range)
qed (use travel_levels(1) in \<open>auto simp: weather_ok_def updateWeather_def MapToSim_def\<close>)

lemma weather_levels: "1 - Agnosis \<le> 1 + Agnosis" "1 - Agnosis \<le> 1" "0 \<le> 1 - Agnosis" "Agnosis \<le> 1 - Agnosis"
proof -
  have up: "1 + 0 \<le> 1 + Agnosis" by (rule flt_add_mono) simp_all
  show down: "1 - Agnosis \<le> 1" by (rule flt_diff_decrease) simp
  show "1 - Agnosis \<le> 1 + Agnosis" using order.trans [OF down] up by simp
  have "lit (1 / 2 ^ 2) \<le> 1 - (lit (1 / 2 ^ 2) :: f64)" by code_simp
  also have "\<dots> \<le> 1 - Agnosis" by (rule flt_diff_mono [OF order.refl agnosis_quarter])
  finally show "Agnosis \<le> 1 - Agnosis" by (rule order.trans [OF agnosis_quarter])
  then show "0 \<le> 1 - Agnosis" by (rule order.trans [OF phi_nonneg(1)])
qed

lemma heat_loss:
  assumes "t \<le> (1 :: f32)" "1 - Agnosis \<le> m"
  shows "0 \<le> m - float64 t * Agnosis * lit 0.5"
proof -
  have "float64 t \<le> float64 (1 :: f32)" using assms(1) by (rule flt_conv_mono)
  also have "\<dots> \<le> 1" by code_simp
  finally have t: "float64 t * Agnosis \<le> 1 * Agnosis" by (intro flt_mult_right_mono) simp_all
  have "float64 t * Agnosis * lit 0.5 \<le> 1 * Agnosis * lit 0.5"
    by (intro flt_mult_right_mono t) (simp add: zero_le_lit)
  also have "\<dots> \<le> 1 * Agnosis * 1"
    by (intro flt_mult_left_mono flt_mult_nonneg) (code_simp, simp_all)
  also have "\<dots> \<le> m" using order.trans [OF weather_levels(4) assms(2)] by simp
  finally show ?thesis by (rule flt_diff_nonneg)
qed

lemma heat_mod_nonneg:
  assumes "t \<le> (1 :: f32)" "1 - Agnosis \<le> m"
  shows "0 \<le> (if 0 < t then m - float64 t * Agnosis * lit 0.5 else m)"
  using heat_loss [OF assms] order.trans [OF weather_levels(3) assms(2)] by presburger

lemma weather_mod_nonneg: "weather_ok s \<Longrightarrow> 0 \<le> weather_mod (CurrentWeather s)"
  unfolding weather_mod_def Let_def weather_ok_def
  by (rule heat_mod_nonneg) (simp_all only: weather_levels order.refl if_cancel split: if_split, simp_all)

lemma fallow_mod_nonneg: "weather_ok s \<Longrightarrow> 0 \<le> fallow_mod (CurrentWeather s)"
  unfolding fallow_mod_def Let_def weather_ok_def
  by (rule heat_mod_nonneg) (simp_all only: weather_levels order.refl split: if_split, simp_all)

lemma damageHexHealth_ok: "land_ok s \<Longrightarrow> 0 \<le> d \<Longrightarrow> land_ok (damageHexHealth c d s)"
  by (auto simp: damageHexHealth_def split: option.split intro!: land_ok_upd_hex hex_ok_wear amount_intros)

lemma fold_preserves: "P s \<Longrightarrow> (\<And>x s. P s \<Longrightarrow> P (f x s)) \<Longrightarrow> P (fold f xs s)"
  by (induction xs arbitrary: s) auto

lemma erode_coast_ok: "land_ok (fst st) \<Longrightarrow> land_ok (fst (erode_coast tick sp st))"
  by (auto simp: erode_coast_def Let_def split_beta split: option.split
      intro!: fold_preserves [where P = land_ok] damageHexHealth_ok amount_intros)

lemma drought_hex_ok: "hex_ok h \<Longrightarrow> hex_ok (drought_hex h)"
proof -
  assume h: "hex_ok h"
  have "0 \<le> 1 - flt_of_word (IrrigationLevel h) / lit 3 * Agnosis" if "IrrigationLevel h < 3"
  proof -
    have "flt_of_word (IrrigationLevel h) \<le> (flt_of_int 3 :: f64)"
      using that by (intro flt_of_int_mono) (simp add: word_less_def)
    then have "flt_of_word (IrrigationLevel h) / lit 3 \<le> flt_of_int 3 / (lit 3 :: f64)"
      by (intro flt_divide_right_mono) (simp_all add: zero_le_lit)
    also have "\<dots> \<le> 1" by code_simp
    finally have "flt_of_word (IrrigationLevel h) / lit 3 * Agnosis \<le> 1 * 1"
      by (intro flt_mult_mono) (simp_all add: flt_divide_nonneg zero_le_lit)
    then show ?thesis by (intro flt_diff_nonneg) simp
  qed
  then show ?thesis using h
    by (auto simp: drought_hex_def Let_def not_le intro!: hex_ok_wear amount_intros)
qed


lemma applyWeatherHexDamage_ok: "land_ok s \<Longrightarrow> land_ok (applyWeatherHexDamage tick s)"
proof -
  assume "land_ok s"
  then have "land_ok (fst (fold (erode_coast tick) (Settlements s) (s, 0)))"
    by (intro fold_preserves [where P = "\<lambda>st. land_ok (fst st)"] erode_coast_ok) simp_all
  then have "land_ok (applyStormErosion tick s)"
    by (simp add: applyStormErosion_def split_beta land_ok_cong [OF WorldMap_emit])
  then show ?thesis using \<open>land_ok s\<close>
    by (auto simp: applyWeatherHexDamage_def applyDroughtDegradation_def Let_def intro!: land_ok_each_hex drought_hex_ok)
qed

lemma seasonal_regen_ok: "land_ok s \<Longrightarrow> land_ok (regenerateResources s)"
  by (auto simp: regenerateResources_def intro!: land_ok_each_hex season_regen_hex_ok)

lemma weekly_regen_ok: "land_ok s \<Longrightarrow> weather_ok s \<Longrightarrow> land_ok (weeklyResourceRegen s)"
  by (auto simp: weeklyResourceRegen_def intro!: land_ok_each_hex week_regen_hex_ok fallow_mod_nonneg)

subsection \<open>Pressure\<close>

text \<open>All the hourly regeneration needs of the logarithm is its sign from 1 on.\<close>

locale log2_sign =
  fixes log2 :: "f64 \<Rightarrow> f64"
  assumes log2_nonneg: "1 \<le> x \<Longrightarrow> 0 \<le> log2 x"
begin

lemma pressure_factor: "0 \<le> p \<Longrightarrow> 1 \<le> 1 + Agnosis * log2 (1 + p)"
proof -
  assume "0 \<le> p"
  then have "1 + 0 \<le> 1 + p" by (intro flt_add_mono) simp_all
  then have "0 \<le> log2 (1 + p)" by (intro log2_nonneg) simp
  then have "1 + 0 \<le> 1 + Agnosis * log2 (1 + p)" by (intro flt_add_mono flt_mult_nonneg) simp_all
  then show ?thesis by simp
qed

lemma note_pressure_ge1:
  assumes "\<forall>c f. m c = Some f \<longrightarrow> 1 \<le> f" "1 \<le> factor"
  shows "\<forall>c f. note_pressure factor d m c = Some f \<longrightarrow> 1 \<le> f"
  using assms by (auto simp: note_pressure_def split: option.splits if_splits)

lemma pressure_of_ge1:
  assumes "\<forall>c f. m c = Some f \<longrightarrow> 1 \<le> f"
  shows "\<forall>c f. pressure_of log2 res s sp m c = Some f \<longrightarrow> 1 \<le> f"
proof -
  let ?P = "\<lambda>m :: HexCoord \<Rightarrow> f64 option. \<forall>c f. m c = Some f \<longrightarrow> 1 \<le> f"
  define p where "p = snd (SettlementCarryingCapacity res (SID (settl s sp)) s)"
  have "?P (note_pressure (1 + Agnosis * log2 (1 + p)) (SPosition (settl s sp))
          (fold (note_pressure (1 + Agnosis * log2 (1 + p))) (Neighbors (SPosition (settl s sp))) m))" if "0 < p"
    using that pressure_factor [of p] assms
    by (intro note_pressure_ge1 fold_preserves [where P = ?P]) (simp_all add: less_imp_le)
  with assms show ?thesis by (auto simp: pressure_of_def Let_def p_def [symmetric])
qed

lemma pressureByHex_ge1: "\<forall>c f. pressureByHex log2 res s c = Some f \<longrightarrow> 1 \<le> f"
  unfolding pressureByHex_def
  by (rule fold_preserves [where P = "\<lambda>m. \<forall>c f. m c = Some f \<longrightarrow> 1 \<le> f"]) (use pressure_of_ge1 in auto)

lemma hourly_regen_ok:
  assumes "land_ok s" "weather_ok s"
  shows "land_ok (hourlyResourceRegen log2 res s)"
  unfolding hourlyResourceRegen_def Let_def
proof (rule land_ok_each_hex [OF assms(1)])
  fix c h assume "hex_ok h"
  moreover have "1 \<le> (case pressureByHex log2 res s c of None \<Rightarrow> 1 | Some f \<Rightarrow> f)"
    using pressureByHex_ge1 by (simp split: option.split)
  ultimately show "hex_ok (hour_regen_hex (case pressureByHex log2 res s c of None \<Rightarrow> 1 | Some f \<Rightarrow> f)
      (weather_mod (CurrentWeather s)) h)"
    using weather_mod_nonneg [OF assms(2)] by (intro hour_regen_hex_ok) (auto intro: order.trans [OF zero_le_one_flt(1)])
qed

end

interpretation floor_log2_sign: log2_sign floor_log2
proof
  fix x :: f64 assume "1 \<le> x"
  then have "1 \<le> rat_of_flt x" by (simp add: flt_le_iff)
  then have "0 \<le> ilog2 (rat_of_flt x)" by (intro ilog2_ge) simp
  then show "0 \<le> floor_log2 x" by (simp add: floor_log2_def flt_of_int_nonneg)
qed


subsection \<open>The spread of the producers\<close>

fun cumul :: "int \<Rightarrow> (HexCoord \<times> int) list \<Rightarrow> (HexCoord \<times> int) list" where
  "cumul b [] = []"
| "cumul b ((c, w) # ws) = (c, b + w) # cumul (b + w) ws"

definition work_hexes :: "Map \<Rightarrow> ResourceType \<Rightarrow> HexCoord list \<Rightarrow> (HexCoord \<times> int) list" where
  "work_hexes m r cs = concat (map (\<lambda>c. case map_Get m c of None \<Rightarrow> []
     | Some h \<Rightarrow> if HexTerrain h = TerrainOcean then [] else [(c, hex_weight r h)]) cs)"

lemma ResourceCap_pos: "\<not> ResourceCap t r \<le> 0"
proof -
  have "\<not> lit x \<le> (0 :: f64)" if "1 \<le> x" for x
  proof -
    have "(1 :: f64) \<le> lit x" using lit_mono [OF that] by simp
    then show ?thesis using zero_le_one_flt(2) by (meson leD order.strict_trans2)
  qed
  then show ?thesis by (simp add: ResourceCap_def split: Terrain.split ResourceType.split)
qed

lemma hex_weight_pos: "1 \<le> hex_weight r h"
proof -
  have "int_of_flt (1 :: f64) \<le> hex_weight r h" unfolding hex_weight_def by (intro int_of_flt_mono) (simp add: math_Max_def less_imp_le)
  moreover have "int_of_flt (1 :: f64) = 1" by code_simp
  ultimately show ?thesis by linarith
qed

lemma fold_add_work_hex:
  "fold (add_work_hex m r) cs (es, b) = (es @ cumul b (work_hexes m r cs), b + sum_list (map snd (work_hexes m r cs)))"
  by (induction cs arbitrary: es b)
    (auto simp: work_hexes_def add_work_hex_def ResourceCap_pos Let_def split: option.split)

lemma pick_slot_head: "k < b + w \<Longrightarrow> pick_slot k (cumul b ((c, w) # ws)) = c"
  by (simp add: pick_slot_def)

lemma pick_slot_tail: "b + w \<le> k \<Longrightarrow> ws \<noteq> [] \<Longrightarrow> pick_slot k (cumul b ((c, w) # ws)) = pick_slot k (cumul (b + w) ws)"
  by (cases ws) (auto simp: pick_slot_def last_ConsR split: option.split)

lemma cumul_fst: "map fst (cumul b ws) = map fst ws"
  by (induction b ws rule: cumul.induct) auto

lemma pick_slot_in: "es \<noteq> [] \<Longrightarrow> pick_slot k es \<in> fst ` set es"
  by (auto simp: pick_slot_def dest!: find_first_Some split: option.split intro: rev_image_eqI)

lemma pick_cumul_in: "ws \<noteq> [] \<Longrightarrow> pick_slot k (cumul b ws) \<in> fst ` set ws"
  using pick_slot_in [of "cumul b ws" k] cumul_fst [of b ws] by (metis list.map_disc_iff list.set_map)

lemma slots_of:
  assumes "\<forall>(c, w) \<in> set ws. 0 \<le> w" "distinct (map fst ws)" "(c, w) \<in> set ws"
  shows "card {k \<in> {b ..< b + sum_list (map snd ws)}. pick_slot k (cumul b ws) = c} = nat w"
  using assms
proof (induction ws arbitrary: b)
  case (Cons e ws)
  obtain d v where e: "e = (d, v)" by fastforce
  let ?t = "b + v + sum_list (map snd ws)" and ?S = "\<lambda>b t ws. {k \<in> {b ..< t}. pick_slot k (cumul b ws) = c}"
  have nn: "0 \<le> v" "0 \<le> sum_list (map snd ws)" using Cons.prems(1) by (force simp: e intro!: sum_list_nonneg)+
  have split: "?S b ?t (e # ws) = (if c = d then {b ..< b + v} else {}) \<union> {k \<in> {b + v ..< ?t}. pick_slot k (cumul (b + v) ws) = c}"
    (is "?L = ?R")
  proof (rule set_eqI)
    fix k
    show "k \<in> ?L \<longleftrightarrow> k \<in> ?R"
      using nn pick_slot_head [of k b v d ws] pick_slot_tail [of b v k ws d]
      by (cases "k < b + v"; cases "ws = []") (auto simp: e)
  qed
  show ?case
  proof (cases "c = d")
    case True
    then have no: "c \<notin> fst ` set ws" "w = v" using Cons.prems by (force simp: e)+
    have "pick_slot k (cumul (b + v) ws) \<noteq> c" if "k \<in> {b + v ..< ?t}" for k
      using that no pick_cumul_in [of ws k "b + v"] by (cases "ws = []") auto
    then have "{k \<in> {b + v ..< ?t}. pick_slot k (cumul (b + v) ws) = c} = {}" by blast
    with split True have "?S b ?t (e # ws) = {b ..< b + v}" by (simp only: if_True Un_empty_right refl)
    then show ?thesis using no by (simp add: e add.assoc)
  next
    case False
    then show ?thesis using split Cons.IH [of "b + v"] Cons.prems by (simp add: e add.assoc)
  qed
qed simp


lemma work_hexes_iff:
  "(c, w) \<in> set (work_hexes m r cs) \<longleftrightarrow>
     c \<in> set cs \<and> (\<exists>h. map_Get m c = Some h \<and> HexTerrain h \<noteq> TerrainOcean \<and> w = hex_weight r h)"
proof (induction cs)
  case (Cons d cs)
  then show ?case by (cases "map_Get m d") (auto simp: work_hexes_def)
qed (simp add: work_hexes_def)

lemma work_hexes_distinct: "distinct cs \<Longrightarrow> distinct (map fst (work_hexes m r cs))"
proof (induction cs)
  case (Cons c cs)
  then have "c \<notin> fst ` set (work_hexes m r cs)" by (auto simp: work_hexes_iff)
  with Cons show ?case by (auto simp: work_hexes_def split: option.split)
qed (simp add: work_hexes_def)
lemma work_hexes_pos: "\<forall>(c, w) \<in> set (work_hexes m r cs). 0 \<le> w"
proof clarify
  fix c w assume "(c, w) \<in> set (work_hexes m r cs)"
  then obtain h where "w = hex_weight r h" unfolding work_hexes_iff by blast
  then show "0 \<le> w" using hex_weight_pos [of r h] by simp
qed

theorem producers_spread:
  fixes r :: ResourceType
  assumes "SettlementIndex s home = Some sp" "map_Get (WorldMap s) c = Some h" "HexTerrain h \<noteq> TerrainOcean"
    and "c \<in> set (SPosition (settl s sp) # Neighbors (SPosition (settl s sp)))"
  defines "d \<equiv> computeHexDistribution home r s"
  shows "card {k \<in> {0 ..< totalWt d}. pick_slot k (hexEntries d) = c} = nat (hex_weight r h)"
proof -
  let ?pos = "SPosition (settl s sp)"
  let ?ws = "work_hexes (WorldMap s) r (?pos # Neighbors ?pos)"
  have "?pos \<notin> set (Neighbors ?pos)" using Neighbors_adjacent [of ?pos ?pos] by (auto simp: Distance_def)
  then have dist: "distinct (?pos # Neighbors ?pos)" using Neighbors_distinct by simp
  have mem: "(c, hex_weight r h) \<in> set ?ws" using assms(2-4) by (simp only: work_hexes_iff) blast
  have "d = \<lparr>hexEntries = cumul 0 ?ws, totalWt = sum_list (map snd ?ws)\<rparr>"
    unfolding d_def computeHexDistribution_def by (simp only: assms(1) option.case Let_def fold_add_work_hex prod.case append_Nil add_0)
  then show ?thesis using slots_of [OF work_hexes_pos work_hexes_distinct [OF dist] mem, of 0] by simp
qed

text \<open>A run of consecutive numbers meets every slot equally often.\<close>

lemma image_filter: "g ` {x \<in> A. f (g x)} = {y \<in> g ` A. f y}"
  by auto

lemma block_mod:
  fixes W :: int
  assumes "0 < W"
  shows "card {x \<in> {a ..< a + W}. f (x mod W)} = card {j \<in> {0 ..< W}. f j}"
proof (rule bij_betw_same_card [of "\<lambda>x. x mod W"])
  have inj: "inj_on (\<lambda>x. x mod W) {a ..< a + W}"
  proof (rule inj_onI)
    fix x y assume x: "x \<in> {a ..< a + W}" and y: "y \<in> {a ..< a + W}" and m: "x mod W = y mod W"
    have "W dvd x - y" using m by (simp add: mod_eq_dvd_iff)
    moreover have "\<bar>x - y\<bar> < W" using x y by auto
    ultimately show "x = y" using zdvd_imp_le [of W "\<bar>x - y\<bar>"] assms by fastforce
  qed
  have sub: "(\<lambda>x. x mod W) ` {a ..< a + W} \<subseteq> {0 ..< W}" using assms by auto
  have "card ((\<lambda>x. x mod W) ` {a ..< a + W}) = card {0 ..< W}" using card_image [OF inj] by simp
  then have "(\<lambda>x. x mod W) ` {a ..< a + W} = {0 ..< W}" using sub by (intro card_subset_eq) auto
  then have "bij_betw (\<lambda>x. x mod W) {a ..< a + W} {0 ..< W}" using inj by (simp add: bij_betw_def)
  then show "bij_betw (\<lambda>x. x mod W) {x \<in> {a ..< a + W}. f (x mod W)} {j \<in> {0 ..< W}. f j}"
    using \<open>(\<lambda>x. x mod W) ` {a ..< a + W} = {0 ..< W}\<close>
    by (elim bij_betw_subset) (auto simp only: image_filter)
qed

lemma blocks_mod:
  fixes W :: int
  assumes "0 < W"
  shows "card {x \<in> {a ..< a + int k * W}. f (x mod W)} = k * card {j \<in> {0 ..< W}. f j}"
proof (induction k)
  case (Suc k)
  let ?b = "a + int k * W"
  have "{a ..< a + int (Suc k) * W} = {a ..< ?b} \<union> {?b ..< ?b + W}"
    using assms by (subst ivl_disj_un_two(3)) (simp_all add: algebra_simps)
  then have "{x \<in> {a ..< a + int (Suc k) * W}. f (x mod W)} =
      {x \<in> {a ..< ?b}. f (x mod W)} \<union> {x \<in> {?b ..< ?b + W}. f (x mod W)}" by blast
  moreover have "card ({x \<in> {a ..< ?b}. f (x mod W)} \<union> {x \<in> {?b ..< ?b + W}. f (x mod W)})
      = card {x \<in> {a ..< ?b}. f (x mod W)} + card {x \<in> {?b ..< ?b + W}. f (x mod W)}"
    by (intro card_Un_disjoint) (auto intro: finite_subset [of _ "{a ..< ?b}"] finite_subset [of _ "{?b ..< ?b + W}"])
  ultimately show ?case using Suc block_mod [OF assms] by simp
qed simp

text \<open>The hex of a producer, from an up-to-date or an empty cache.\<close>

definition cache_fresh :: "Sim \<Rightarrow> uint64 \<Rightarrow> Occupation \<Rightarrow> ResourceType \<Rightarrow> bool" where
  "cache_fresh s home occ r \<longleftrightarrow> (\<forall>d. prodHexCache s (home, occ) = Some d \<longrightarrow> d = computeHexDistribution home r s)"

lemma bestProductionHex_slot:
  assumes "HomeSettID (agent s p) = Some home" "occupationResource (AOccupation (agent s p)) = Some r"
    and "cache_fresh s home (AOccupation (agent s p)) r"
    and "0 < totalWt (computeHexDistribution home r s)" "totalWt (computeHexDistribution home r s) < 2 ^ 64"
  shows "fst (bestProductionHex p s) =
    pick_slot (uint (AID (agent s p)) mod totalWt (computeHexDistribution home r s)) (hexEntries (computeHexDistribution home r s))"
proof -
  have "uint (x mod word_of_int W) = uint x mod W" if "0 < W" "W < 2 ^ 64" for x :: uint64 and W
    using that by (simp add: uint_mod uint_word_of_int_eq take_bit_int_eq_self)
  then show ?thesis
    using assms by (auto simp: bestProductionHex_def cache_fresh_def Let_def split: option.splits)
qed

theorem producers_by_number:
  fixes s home r
  defines "d \<equiv> computeHexDistribution home r s"
  assumes "SettlementIndex s home = Some sp" "map_Get (WorldMap s) c = Some h" "HexTerrain h \<noteq> TerrainOcean"
    and "c \<in> set (SPosition (settl s sp) # Neighbors (SPosition (settl s sp)))"
    and "\<And>p. p \<in> P \<Longrightarrow> HomeSettID (agent s p) = Some home \<and> occupationResource (AOccupation (agent s p)) = Some r
            \<and> cache_fresh s home (AOccupation (agent s p)) r"
    and "bij_betw (\<lambda>p. uint (AID (agent s p))) P {n ..< n + int k * totalWt d}" "totalWt d < 2 ^ 64"
  shows "card {p \<in> P. fst (bestProductionHex p s) = c} = k * nat (hex_weight r h)"
proof -
  have slots: "card {j \<in> {0 ..< totalWt d}. pick_slot j (hexEntries d) = c} = nat (hex_weight r h)"
    unfolding d_def by (rule producers_spread [OF assms(2-5)])
  have "0 < nat (hex_weight r h)" using hex_weight_pos [of r h] by simp
  then have "{j \<in> {0 ..< totalWt d}. pick_slot j (hexEntries d) = c} \<noteq> {}" using slots by (metis card.empty less_irrefl)
  then have pos: "0 < totalWt d" by auto
  let ?f = "\<lambda>x. pick_slot (x mod totalWt d) (hexEntries d) = c"
  have "bij_betw (\<lambda>p. uint (AID (agent s p))) {p \<in> P. fst (bestProductionHex p s) = c} {x \<in> {n ..< n + int k * totalWt d}. ?f x}"
  proof (rule bij_betw_subset [OF assms(7)])
    have e: "fst (bestProductionHex p s) = c \<longleftrightarrow> ?f (uint (AID (agent s p)))" if "p \<in> P" for p
      using bestProductionHex_slot [of s p home r] assms(6) [OF that] pos assms(8) by (simp add: d_def)
    have "(\<lambda>p. uint (AID (agent s p))) ` P = {n ..< n + int k * totalWt d}" using assms(7) by (simp add: bij_betw_def)
    moreover have "{p \<in> P. fst (bestProductionHex p s) = c} = {p \<in> P. ?f (uint (AID (agent s p)))}" using e by blast
    ultimately show "(\<lambda>p. uint (AID (agent s p))) ` {p \<in> P. fst (bestProductionHex p s) = c} = {x \<in> {n ..< n + int k * totalWt d}. ?f x}"
      using image_filter [of "\<lambda>p. uint (AID (agent s p))" P ?f] by simp
  qed blast
  from bij_betw_same_card [OF this] show ?thesis
    using blocks_mod [OF pos, of n k "\<lambda>j. pick_slot j (hexEntries d) = c"] slots by simp
qed

theorem harvest_exact:
  fixes a :: Agent
  assumes "0 \<le> ProductionProgress a" "0 \<le> boostMul" "lit 0.01 \<le> resource h r"
  defines "full \<equiv> (if 1 < boostMul then flt_of_int (productionAmount a) * boostMul else flt_of_int (productionAmount a))"
  defines "p \<equiv> rat_of_flt (ProductionProgress a + float32 (math_Min full (resource h r)))"
  assumes "lit 0.01 \<le> math_Min full (resource h r)"
  shows "Inventory (fst (harvest r tick boostMul cm km a h)) (occupationGood (AOccupation a))
           = Inventory a (occupationGood (AOccupation a)) + \<lfloor>p\<rfloor>"
    and "rat_of_flt (ProductionProgress (fst (harvest r tick boostMul cm km a h))) = frac p"
proof -
  define q where "q = math_Min full (resource h r)"
  define a1 where "a1 = a\<lparr>LastWorkTick := tick, ProductionProgress := ProductionProgress a + float32 q\<rparr>"
  define h1 where "h1 = extract_hex r tick q full cm km h"
  have "0 \<le> q" using assms(6) unfolding q_def by (intro order.trans [OF zero_le_lit]) simp_all
  then have "0 \<le> float32 q" using flt_conv_mono [of 0 q] by simp
  then have nn: "0 \<le> ProductionProgress a1" using assms(1) by (simp add: a1_def flt_add_nonneg)
  have "fst (harvest r tick boostMul cm km a h) = clamp_agent (add_needs (lit 0.006) (lit 0.008) (lit 0.004) (lit 0.012) (lit 0.004)
      (applySkillGrowth (fst (credit_units (a1, h1)))))"
    unfolding harvest_def Let_def full_def [symmetric] q_def [symmetric] a1_def [symmetric] h1_def [symmetric]
    using assms(3,6) unfolding q_def [symmetric] not_less [symmetric]
    by (simp only: if_False split_beta fst_conv)
  moreover have "AOccupation a1 = AOccupation a" "Inventory a1 = Inventory a" "rat_of_flt (ProductionProgress a1) = p"
    by (simp_all add: a1_def p_def q_def)
  ultimately show "Inventory (fst (harvest r tick boostMul cm km a h)) (occupationGood (AOccupation a))
           = Inventory a (occupationGood (AOccupation a)) + \<lfloor>p\<rfloor>"
    and "rat_of_flt (ProductionProgress (fst (harvest r tick boostMul cm km a h))) = frac p"
    using credit_units_exact [OF nn, of h1] by simp_all
qed

end
