(* ===== verification/Ticks_Laws.thy ===== *)
theory Ticks_Laws
  imports Ticks Land_Laws Merchant_Laws Lifecycle_Laws
begin

section \<open>Laws of the minute and the hour\<close>

text \<open>
  What a tick leaves alone, how it moves crowns, and the invariants of land
  and weather it keeps.
\<close>

subsection \<open>The frame of a minute\<close>

text \<open>Like \<^const>\<open>same_frame\<close>, except that agents may die.\<close>

definition minute_frame :: "Sim \<Rightarrow> Sim \<Rightarrow> bool" where
  "minute_frame s t \<longleftrightarrow> Settlements t = Settlements s \<and> Agents t = Agents s \<and> Factions t = Factions s
     \<and> SettlementAgents t = SettlementAgents s \<and> SettlementIndex t = SettlementIndex s
     \<and> (\<forall>p. SID (settl t p) = SID (settl s p) \<and> HomeSettID (agent t p) = HomeSettID (agent s p)
           \<and> (Alive (agent t p) \<longrightarrow> Alive (agent s p)))"

lemma minute_frame_refl [simp, intro]: "minute_frame s s"
  by (simp add: minute_frame_def)

lemma minute_frame_trans: "minute_frame s t \<Longrightarrow> minute_frame t u \<Longrightarrow> minute_frame s u"
  by (simp add: minute_frame_def)

lemma minute_frame_same: "same_frame s t \<Longrightarrow> minute_frame s t"
  by (simp add: minute_frame_def same_frame_def)

lemma minute_frame_ok: "minute_frame s t \<Longrightarrow> sim_ok s \<Longrightarrow> sim_ok t"
  by (simp add: minute_frame_def sim_ok_def)

lemma minute_frame_homed: "minute_frame s t \<Longrightarrow> homed s \<Longrightarrow> homed t"
  by (auto simp: minute_frame_def homed_def list_all_iff split: option.splits)

lemma minute_frame_accts: "minute_frame s t \<Longrightarrow> accts t = accts s"
  by (simp add: minute_frame_def accts_def)

subsection \<open>Actions\<close>

lemma work_by_home [simp]: "HomeSettID (work_by oc a) = HomeSettID a" "AID (work_by oc a) = AID a" "AOccupation (work_by oc a) = AOccupation a"
  by (cases oc; simp add: action_defs)+

lemma ApplyAction_frame [simp]:
  "HomeSettID (fst (ApplyAction fd ax tick ac)) = HomeSettID (fst ac)"
  "AID (fst (ApplyAction fd ax tick ac)) = AID (fst ac)"
  "AOccupation (fst (ApplyAction fd ax tick ac)) = AOccupation (fst ac)"
  by (cases ac; cases "Kind ax"; simp add: action_defs case_prod_beta)+

lemma credit_units_frame [simp]:
  "Wealth (fst (credit_units st)) = Wealth (fst st)" "Alive (fst (credit_units st)) = Alive (fst st)"
  "HomeSettID (fst (credit_units st)) = HomeSettID (fst st)" "AID (fst (credit_units st)) = AID (fst st)"
  "AOccupation (fst (credit_units st)) = AOccupation (fst st)"
  by (simp_all add: credit_units_def Let_def split_beta inv_add_def)

lemma growth_frame [simp]: "HomeSettID (applySkillGrowth a) = HomeSettID a" "AID (applySkillGrowth a) = AID a"
  by (cases "AOccupation a"; simp add: applySkillGrowth_def skill_defs)+

lemma harvest_frame [simp]:
  "Wealth (fst (harvest r t b cm km a h)) = Wealth a" "Alive (fst (harvest r t b cm km a h)) = Alive a"
  "HomeSettID (fst (harvest r t b cm km a h)) = HomeSettID a" "AID (fst (harvest r t b cm km a h)) = AID a"
  "AOccupation (fst (harvest r t b cm km a h)) = AOccupation a"
  by (simp_all add: harvest_def Let_def split_beta showed_up_def)

lemma showed_up_frame [simp]:
  "Wealth (showed_up a) = Wealth a" "Alive (showed_up a) = Alive a" "HomeSettID (showed_up a) = HomeSettID a"
  "AID (showed_up a) = AID a" "AOccupation (showed_up a) = AOccupation a"
  by (simp_all add: showed_up_def)

text \<open>The three things a work action can be.\<close>

lemma ResolveWork_cases:
  obtains (action) "ResolveWork fd ax t b cm km (ac, hex) = (ApplyAction fd ax t ac, hex)"
  | (idle) "ResolveWork fd ax t b cm km (ac, hex) = ((showed_up (fst ac), snd ac), None)" "hex = None"
  | (works) r h where "hex = Some h" "ResolveWork fd ax t b cm km (ac, hex) =
      ((fst (harvest r t b cm km (fst ac) h), snd ac), Some (snd (harvest r t b cm km (fst ac) h)))"
proof -
  let ?c = "Kind ax \<noteq> ActionWork \<or> (AOccupation (fst ac) = OccupationAlchemist \<and> 1 \<le> Inventory (fst ac) GoodHerbs)"
  have eq: "ResolveWork fd ax t b cm km (ac, hex) =
      (if ?c then (ApplyAction fd ax t ac, hex)
       else case occupationResource (AOccupation (fst ac)) of None \<Rightarrow> (ApplyAction fd ax t ac, hex)
         | Some r \<Rightarrow> (case hex of None \<Rightarrow> ((showed_up (fst ac), snd ac), None)
             | Some h \<Rightarrow> ((fst (harvest r t b cm km (fst ac) h), snd ac), Some (snd (harvest r t b cm km (fst ac) h)))))"
    by (simp only: ResolveWork_def Let_def split_beta fst_conv snd_conv prod.collapse)
  show ?thesis
  proof (cases "?c \<or> occupationResource (AOccupation (fst ac)) = None")
    case True
    then have "ResolveWork fd ax t b cm km (ac, hex) = (ApplyAction fd ax t ac, hex)"
      unfolding eq by (elim disjE) (simp_all only: option.case if_cancel if_True simp_thms)
    then show ?thesis by (rule action)
  next
    case False
    then obtain r where r: "\<not> ?c" "occupationResource (AOccupation (fst ac)) = Some r" by blast
    show ?thesis
      by (cases hex) (use eq r idle works in \<open>simp_all only: if_False option.case\<close>)
  qed
qed

lemma ResolveWork_frame [simp]:
  "Wealth (fst (fst (ResolveWork fd ax t b cm km (ac, hex)))) = Wealth (fst ac)"
  "Alive (fst (fst (ResolveWork fd ax t b cm km (ac, hex)))) = Alive (fst ac)"
  "HomeSettID (fst (fst (ResolveWork fd ax t b cm km (ac, hex)))) = HomeSettID (fst ac)"
  "AID (fst (fst (ResolveWork fd ax t b cm km (ac, hex)))) = AID (fst ac)"
  "AOccupation (fst (fst (ResolveWork fd ax t b cm km (ac, hex)))) = AOccupation (fst ac)"
  by (rule ResolveWork_cases [of fd ax t b cm km ac hex]; simp del: ApplyAction.simps)+


subsection \<open>Crowns in a minute\<close>

text \<open>An update of one agent that leaves their purse and home alone.\<close>

lemma minute_agent_write:
  assumes "Wealth a' = Wealth (agent t p)" "HomeSettID a' = HomeSettID (agent t p)" "Alive a' = Alive (agent t p)"
  shows "led (t\<lparr>agent := (agent t)(p := a'), SatBumps := n\<rparr>) = led t"
    and "minute_frame t (t\<lparr>agent := (agent t)(p := a'), SatBumps := n\<rparr>)"
  using assms by (auto intro!: led_eqI simp: minute_frame_def)

lemma upd_hex_frame [simp]: "led (upd_hex c f s) = led s" "minute_frame s (upd_hex c f s)"
  "agent (upd_hex c f s) = agent s"
  by (auto intro!: led_eqI simp: minute_frame_def upd_hex_def)

lemma cached_coherence_frame:
  "led (snd (cached_coherence i s)) = led s" "minute_frame s (snd (cached_coherence i s))"
  "agent (snd (cached_coherence i s)) = agent s" "WorldMap (snd (cached_coherence i s)) = WorldMap s"
  by (auto intro!: led_eqI simp: minute_frame_def cached_coherence_def Let_def split: option.split)

lemma bestProductionHex_frame:
  "led (snd (bestProductionHex p s)) = led s" "minute_frame s (snd (bestProductionHex p s))"
  "agent (snd (bestProductionHex p s)) = agent s" "WorldMap (snd (bestProductionHex p s)) = WorldMap s"
  by (auto intro!: led_eqI simp: minute_frame_def bestProductionHex_def Let_def split: option.split)

lemma work_modifiers_frame:
  "led (snd (snd (work_modifiers p s))) = led s" "minute_frame s (snd (snd (work_modifiers p s)))"
  "agent (snd (snd (work_modifiers p s))) = agent s" "WorldMap (snd (snd (work_modifiers p s))) = WorldMap s"
  by (auto simp: work_modifiers_def Let_def split_beta cached_coherence_frame split: option.split)

lemma minute_work_keeps:
  "led (minute_work env ax tick p s) = led s" "minute_frame s (minute_work env ax tick p s)"
proof -
  obtain c s1 where b: "bestProductionHex p s = (c, s1)" by fastforce
  have s1: "led s1 = led s" "minute_frame s s1" using bestProductionHex_frame [where p = p and s = s] by (simp_all add: b)
  obtain bm cm s2 where m: "work_modifiers p s1 = (bm, cm, s2)" by (metis prod_cases3)
  have s2: "led s2 = led s1" "minute_frame s1 s2" using work_modifiers_frame [where p = p and s = s1] by (simp_all add: m)
  define hex where "hex = map_Get (WorldMap s2) c"
  define km where "km = (case hex of None \<Rightarrow> 1 | Some h \<Rightarrow> ConservationDamageFactor (ConservationLevel h))"
  define w where "w = ResolveWork (first_draw env) ax tick bm cm km ((agent s2 p, SatBumps s2), hex)"
  define s3 where "s3 = s2\<lparr>agent := (agent s2)(p := fst (fst w)), SatBumps := snd (fst w)\<rparr>"
  have s3: "led s3 = led s2" "minute_frame s2 s3" unfolding s3_def by (rule minute_agent_write; simp add: w_def)+
  have "minute_work env ax tick p s = (case snd w of None \<Rightarrow> s3 | Some h' \<Rightarrow> upd_hex c (\<lambda>_. h') s3)"
    unfolding minute_work_def b Let_def prod.case m hex_def [symmetric] km_def [symmetric] w_def [symmetric] s3_def
    by (simp only: split_beta)
  moreover have "minute_frame s s3" using s1 s2 s3 by (blast intro: minute_frame_trans)
  ultimately show "led (minute_work env ax tick p s) = led s" "minute_frame s (minute_work env ax tick p s)"
    using s1 s2 s3 by (auto split: option.split intro: minute_frame_trans [OF _ upd_hex_frame(2)])
qed

lemma buy_food_frame: "same_frame s (resolveBuyFood p s)"
proof -
  have k: "keeps_agent forage_instead" "keeps_agent (\<lambda>a. add_needs su sa be es pu (inv_add g n a))" for su sa be es pu g n
    by (simp_all add: keeps_agent_def forage_instead_def inv_add_def)
  show ?thesis
    unfolding resolveBuyFood_def Let_def split_beta
    by (auto intro!: same_frame_upd_agent same_frame_upd_settl k split: option.split)
qed

lemma keeps_agent_soul: "keeps_agent (\<lambda>b. b\<lparr>Soul := f b\<rparr>)"
  by (simp add: keeps_agent_def)

lemma keeps_AddMemory: "keeps_agent (AddMemory t c im)"
  by (simp add: keeps_agent_def AddMemory_def Let_def)

lemma same_frame_stats [simp]: "same_frame s (s\<lparr>Stats := x\<rparr>)"
  by (simp add: same_frame_def)

lemma same_frame_emit [simp]: "same_frame s (emit tick d c t) \<longleftrightarrow> same_frame s t"
  by (simp add: same_frame_def emit_def EmitEvent_def)

lemma fold_same_frame:
  assumes "\<And>x t. x \<in> set xs \<Longrightarrow> same_frame s t \<Longrightarrow> same_frame s (f x t)" "same_frame s t"
  shows "same_frame s (fold f xs t)"
  using assms by (induction xs arbitrary: t) auto

lemma inheritWealth_same_frame: "same_frame s (inheritWealth p s)"
  unfolding inheritWealth_def bequeath_def Let_def
  by (auto intro!: same_frame_upd_agent same_frame_upd_settl simp: keeps_agent_def keeps_settl_def gain_wealth_def gain_treasury_def split: option.split)

lemma death_frame: "same_frame s (handleAgentDeath p tick s)"
proof -
  have mem: "same_frame u (createSettlementMemories i tick d im t)" if "same_frame u t" for i d im t u
    unfolding createSettlementMemories_def using that by (auto intro!: fold_same_frame same_frame_upd_agent keeps_AddMemory)
  let ?s = "inheritWealth p (emit tick (AName (agent s p) @ '' has died'') CategoryDeath (s\<lparr>Stats := (Stats s)\<lparr>Deaths := Deaths (Stats s) + 1\<rparr>\<rparr>))"
  have "same_frame s ?s" by (rule same_frame_trans [OF _ inheritWealth_same_frame]) simp
  then show ?thesis
    unfolding handleAgentDeath_def Let_def
    by (auto intro!: fold_same_frame same_frame_upd_agent keeps_agent_soul mem split: option.split)
qed

lemma minute_act_pays:
  assumes "sim_ok s" "p \<in> set (Agents s)"
  shows "pays (accts s) (led s) (led (minute_act env tick p s)) \<and> minute_frame s (minute_act env tick p s)"
proof -
  define ax where "ax = Decide (Archetypes s) (decide_draw env tick p) (agent s p)"
  consider "Kind ax = ActionBuyFood" "minute_act env tick p s = resolveBuyFood p s"
    | "Kind ax = ActionWork" "minute_act env tick p s = minute_work env ax tick p s"
    | "minute_act env tick p s = upd_counted p (ApplyAction (first_draw env) ax tick) s"
    unfolding minute_act_def ax_def [symmetric] Let_def by (cases "Kind ax") simp_all
  then show ?thesis
  proof cases
    case 1
    then show ?thesis using resolveBuyFood_pays [OF assms] minute_frame_same [OF buy_food_frame] by simp
  next
    case 2
    then show ?thesis using minute_work_keeps [where s = s] by (simp add: pays_refl)
  next
    case 3
    have "same_frame s (upd_counted p (ApplyAction (first_draw env) ax tick) s)"
      by (rule same_frame_upd_counted) (simp_all del: ApplyAction.simps)
    then show ?thesis unfolding 3 by (simp add: minute_frame_same pays_refl fun_upd_idem del: ApplyAction.simps)
  qed
qed


lemma minute_agent_pays:
  assumes "sim_ok s" "homed s" "p \<in> set (Agents s)"
  shows "pays (accts s) (led s) (led (minute_agent env tick p s)) \<and> minute_frame s (minute_agent env tick p s)"
proof (cases "\<not> Alive (agent s p) \<or> Age (agent s p) < 2")
  case True
  then show ?thesis by (simp add: minute_agent_def pays_refl)
next
  case False
  define s1 where "s1 = upd_agent p DecayNeeds s"
  define s2 where "s2 = minute_act env tick p s1"
  have led1: "led s1 = led s" by (simp add: s1_def fun_upd_idem)
  have fr1: "minute_frame s s1" using False by (auto simp: minute_frame_def s1_def upd_agent_def upd_def)
  have ok1: "sim_ok s1" "accts s1 = accts s" "p \<in> set (Agents s1)"
    using minute_frame_ok [OF fr1 assms(1)] minute_frame_accts [OF fr1] assms(3) by (simp_all add: s1_def)
  note act = minute_act_pays [OF ok1(1,3), of env tick, folded s2_def]
  have fr2: "minute_frame s s2" using fr1 act by (blast intro: minute_frame_trans)
  have ok2: "sim_ok s2" "accts s2 = accts s" "p \<in> set (Agents s2)"
    using minute_frame_ok [OF fr2 assms(1)] minute_frame_accts [OF fr2] assms(3) fr2 by (simp_all add: minute_frame_def)
  obtain i sp where "HomeSettID (agent s p) = Some i" "SettlementIndex s i = Some sp"
    using homedD [OF assms(2,3)] False by blast
  then have home: "Option.bind (HomeSettID (agent t p)) (SettlementIndex t) = Some sp" if "minute_frame s t" for t
    using that by (simp add: minute_frame_def)
  have eq: "minute_agent env tick p s = (if \<not> Alive (agent s1 p) then handleAgentDeath p tick s1
      else if \<not> Alive (agent s2 p) then handleAgentDeath p tick s2 else s2)"
    using False by (simp add: minute_agent_def s1_def s2_def Let_def)
  have d1: "pays (accts s) (led s) (led (handleAgentDeath p tick s1))"
    using handleAgentDeath_pays [OF ok1(1,3) home [OF fr1]] by (simp add: ok1(2) led1)
  have d2: "pays (accts s) (led s2) (led (handleAgentDeath p tick s2))"
    using handleAgentDeath_pays [OF ok2(1,3) home [OF fr2]] by (simp add: ok2(2))
  have a: "pays (accts s) (led s) (led s2)" using act by (simp add: ok1(2) led1)
  show ?thesis unfolding eq
    using a d1 pays_trans [OF a d2] fr1 fr2 minute_frame_trans [OF _ minute_frame_same [OF death_frame]] by auto
qed

theorem TickMinute_pays:
  assumes "sim_ok s" "homed s" "mset (shuffle env tick (Agents s)) = mset (Agents s)"
  shows "pays (accts s) (led s) (led (TickMinute env tick s)) \<and> accts (TickMinute env tick s) = accts s
    \<and> sim_ok (TickMinute env tick s) \<and> homed (TickMinute env tick s)"
proof -
  define u where "u = minute_setup env tick s"
  have set: "set (Agents u) = set (Agents s)" "distinct (Agents u) = distinct (Agents s)"
    using mset_eq_setD [OF assms(3)] mset_eq_imp_distinct_iff [OF assms(3)]
    by (auto simp: u_def minute_setup_def Let_def)
  have f: "settl u = settl s" "agent u = agent s" "fact u = fact s" "Settlements u = Settlements s" "Factions u = Factions s"
    "SettlementIndex u = SettlementIndex s" "SettlementAgents u = SettlementAgents s"
    by (simp_all add: u_def minute_setup_def Let_def)
  have u: "sim_ok u" "homed u" "accts u = accts s"
    using assms(1,2) by (simp_all add: sim_ok_def homed_def list_all_iff accts_def set f cong: option.case_cong)
  have led: "led u = led s" by (rule led_eqI) (simp_all add: f)
  have r: "pays (accts u) (led u) (led (fold (minute_agent env tick) (Agents u) u))"
      "minute_frame u (fold (minute_agent env tick) (Agents u) u)"
  proof -
    have step: "pays (accts u) (led t) (led (minute_agent env tick p t)) \<and> minute_frame u (minute_agent env tick p t)"
      if "p \<in> set (Agents u)" "minute_frame u t" for p t
      using minute_agent_pays [of t p env tick] that minute_frame_ok [OF that(2) u(1)] minute_frame_homed [OF that(2) u(2)]
        minute_frame_accts [OF that(2)] by (auto simp: minute_frame_def)
    show "pays (accts u) (led u) (led (fold (minute_agent env tick) (Agents u) u))"
      "minute_frame u (fold (minute_agent env tick) (Agents u) u)"
      using fold_pays_inv [where L = led and I = "minute_frame u" and s = u, OF step] by simp_all
  qed
  show ?thesis
    using r(1) minute_frame_ok [OF r(2) u(1)] minute_frame_homed [OF r(2) u(2)] minute_frame_accts [OF r(2)]
    by (simp only: TickMinute_def Let_def u_def [symmetric] u(3) led simp_thms)
qed


subsection \<open>What trade leaves alone\<close>

text \<open>The land, the weather and the clock.\<close>

definition outdoors :: "Sim \<Rightarrow> Map \<times> SimWeather \<times> int \<times> uint8 \<times> uint64" where
  "outdoors s = (WorldMap s, CurrentWeather s, HeatStreakHours s, CurrentSeason s, LastTick s)"

lemma outdoors_upd [simp]:
  "outdoors (upd_agent p f s) = outdoors s" "outdoors (upd_settl p g s) = outdoors s"
  "outdoors (upd_counted p h s) = outdoors s" "outdoors (emit tick d c s) = outdoors s"
  "outdoors (s\<lparr>Stats := x\<rparr>) = outdoors s" "outdoors (s\<lparr>agent := hp\<rparr>) = outdoors s"
  "outdoors (s\<lparr>TradeTracker := tt\<rparr>) = outdoors s"
  by (simp_all add: outdoors_def upd_agent_def upd_settl_def upd_counted_def emit_def EmitEvent_def split: prod.split)

lemma outdoors_fold: "(\<And>x t. outdoors (f x t) = outdoors t) \<Longrightarrow> outdoors (fold f xs s) = outdoors s"
  by (induction xs arbitrary: s) simp_all

lemma outdoors_for_break:
  assumes "\<And>x t t'. f x t = Some t' \<Longrightarrow> outdoors (g t') = outdoors (g t)"
  shows "outdoors (g (for_break f xs t)) = outdoors (g t)"
  using for_break_inv [where I = "\<lambda>u. outdoors (g u) = outdoors (g t)" and f = f and xs = xs and s = t] assms by metis

lemma outdoors_fold_fst: "(\<And>x t. outdoors (fst (f x t)) = outdoors (fst t)) \<Longrightarrow> outdoors (fst (fold f xs t)) = outdoors (fst t)"
  by (induction xs arbitrary: t) simp_all

lemma outdoors_markets [simp]: "outdoors (resolveMarkets ss sb goods s) = outdoors s"
  unfolding resolveMarkets_def resolveSettlementMarket_def Let_def
  by (rule outdoors_fold) (simp add: split_beta split: option.split)

lemma outdoors_sell_good: "outdoors (fst (sell_good p sp m g st)) = outdoors (fst st)"
  unfolding sell_good_def Let_def
  by (auto intro!: outdoors_for_break [where g = fst] simp: sell_unit_def Let_def split: option.splits prod.splits if_splits)

lemma outdoors_commission: "outdoors (tier2Commission p sp r s) = outdoors s"
proof -
  have "outdoors (fst (for_break (pay_commission r m p) xs (s, 0))) = outdoors (fst (s, 0 :: uint64))" for m xs
    by (rule outdoors_for_break [where g = fst]) (auto simp: pay_commission_def Let_def split: if_splits prod.splits)
  then show ?thesis by (simp add: tier2Commission_def Let_def)
qed

lemma outdoors_sellMerchantCargo: "outdoors (sellMerchantCargo p m sp s) = outdoors s"
proof -
  have "outdoors (fst (fold (sell_good p sp m) all_goods (s, 0))) = outdoors s"
    using outdoors_fold_fst [of "sell_good p sp m"] outdoors_sell_good by simp
  then show ?thesis by (simp add: sellMerchantCargo_def Let_def split_beta outdoors_commission)
qed

lemma outdoors_arrive: "outdoors (arrive dest p sp s) = outdoors s"
  by (simp add: arrive_def repay_consignment_def RecordInterSettlementTrade_def Let_def outdoors_sellMerchantCargo split: option.split)


lemma outdoors_set_out: "outdoors (set_out home good n p sp s) = outdoors s"
proof -
  have b: "outdoors (fst (for_break (\<lambda>_. buy_unit c p sp) xs (t, 0))) = outdoors (fst (t, 0 :: int))" for c t and xs :: "nat list"
    by (rule outdoors_for_break [where g = fst]) (auto simp: buy_unit_def Let_def split: if_splits prod.splits)
  have m: "outdoors (for_break (\<lambda>_. buy_meal home p sp) xs t) = outdoors t" for t and xs :: "nat list"
    by (rule outdoors_for_break [where g = "\<lambda>x. x"]) (auto simp: buy_meal_def Let_def split: option.splits)
  show ?thesis by (simp add: set_out_def Let_def split_beta b m del: upt_rec_numeral)
qed

lemma outdoors_merchants [simp]: "outdoors (resolveMerchantTrade goods tick s) = outdoors s"
proof -
  have "outdoors (scout gs tick home ns p sp t) = outdoors t" for gs home ns p sp t
    by (simp add: scout_def Let_def outdoors_set_out split: option.split prod.split)
  then have "outdoors (merchant_hour gs tick home ns sp p t) = outdoors t" for gs home ns p sp t
    by (simp add: merchant_hour_def Let_def outdoors_arrive split: option.split bool.split)
  then have "outdoors (merchants_of goods tick sp t) = outdoors t" for sp t
    by (simp add: merchants_of_def Let_def outdoors_fold split: option.split)
  then show ?thesis unfolding resolveMerchantTrade_def by (rule outdoors_fold)
qed

lemma outdoors_decayInventories [simp]: "outdoors (decayInventories s) = outdoors s"
  unfolding decayInventories_def by (rule outdoors_fold) simp

subsection \<open>The hour\<close>

lemma checkCropFailure_fields:
  "WorldMap (checkCropFailure tick s) = WorldMap s" "CurrentWeather (checkCropFailure tick s) = CurrentWeather s"
  "HeatStreakHours s \<le> 71 \<Longrightarrow> HeatStreakHours (checkCropFailure tick s) \<le> 71"
proof -
  define t where "t = s\<lparr>HeatStreakHours := 48\<rparr>"
  define r where "r = fold fail_crops (Settlements s) (t, 0)"
  have spoil: "outdoors (fold (\<lambda>p. upd_agent p f) ps u) = outdoors u" for f ps u by (rule outdoors_fold) simp
  have "outdoors (fst r) = outdoors (fst (t, 0 :: int))"
    unfolding r_def by (rule outdoors_fold_fst) (simp add: fail_crops_def Let_def split_beta spoil)
  then have o: "WorldMap (fst r) = WorldMap s" "CurrentWeather (fst r) = CurrentWeather s" "HeatStreakHours (fst r) = 48"
    by (simp_all add: outdoors_def t_def)
  have e: "WorldMap (emit tick d c u) = WorldMap u" "CurrentWeather (emit tick d c u) = CurrentWeather u"
    "HeatStreakHours (emit tick d c u) = HeatStreakHours u" for d c u by (simp_all add: emit_def EmitEvent_def)
  have eq: "checkCropFailure tick s = (if float32 Agnosis < TempModifier (CurrentWeather s) then
      (if HeatStreakHours s + 1 < 72 then s\<lparr>HeatStreakHours := HeatStreakHours s + 1\<rparr>
       else if 0 < snd r then emit tick (''Sustained heat wave causes crop failure in '' @ show_int (snd r)
              @ '' settlements '' @ map char_of [226, 128, 148 :: nat] @ '' stored grain spoils'') CategoryDisaster (fst r) else fst r)
      else s\<lparr>HeatStreakHours := 0\<rparr>)"
    by (simp only: checkCropFailure_def Let_def r_def t_def split_beta)
  show "WorldMap (checkCropFailure tick s) = WorldMap s" "CurrentWeather (checkCropFailure tick s) = CurrentWeather s"
    unfolding eq by (simp_all add: e o del: map_nth append.simps)
  show "HeatStreakHours s \<le> 71 \<Longrightarrow> HeatStreakHours (checkCropFailure tick s) \<le> 71"
    unfolding eq by (simp add: e o)
qed


lemma outdoors_storms [simp]: "outdoors (checkStormDamage tick s) = outdoors s"
proof -
  have "outdoors (storm_one tick sp t) = outdoors t" for sp t
    unfolding storm_one_def Let_def by (simp only: outdoors_upd if_cancel split: if_split) simp
  then show ?thesis by (simp add: checkStormDamage_def outdoors_fold)
qed

lemma outdoorsD:
  assumes "outdoors t = outdoors s"
  shows "WorldMap t = WorldMap s" "CurrentWeather t = CurrentWeather s" "HeatStreakHours t = HeatStreakHours s"
    "CurrentSeason t = CurrentSeason s" "LastTick t = LastTick s"
  using assms by (simp_all add: outdoors_def)

text \<open>The state in which an hour applies the damage of the weather.\<close>

definition hour_before_damage :: "Env \<Rightarrow> uint64 \<Rightarrow> Sim \<Rightarrow> Sim" where
  "hour_before_damage env tick s =
     checkStormDamage tick (checkCropFailure tick (hourlyResourceRegen (math_log2 env) (hex_resources env)
       (updateWeather (weather_fetch env) (decayInventories (resolveMerchantTrade (cargo_goods env) tick
         (resolveMarkets (sort_sells env) (sort_buys env) (market_goods env) s))))))"

lemma TickHour_split: "TickHour env tick s = applyWeatherHexDamage tick (hour_before_damage env tick s)"
  by (simp add: TickHour_def hour_before_damage_def Let_def)

lemma each_hex_fields [simp]:
  "CurrentWeather (each_hex f s) = CurrentWeather s" "HeatStreakHours (each_hex f s) = HeatStreakHours s"
  by (simp_all add: each_hex_def)

lemma updateWeather_fields [simp]:
  "WorldMap (updateWeather w s) = WorldMap s" "HeatStreakHours (updateWeather w s) = HeatStreakHours s"
  by (cases w; simp add: updateWeather_def)+

lemma storm_erosion_fields:
  "CurrentWeather (applyStormErosion tick s) = CurrentWeather s" "HeatStreakHours (applyStormErosion tick s) = HeatStreakHours s"
proof -
  have d: "CurrentWeather (damageHexHealth c x t) = CurrentWeather t" "HeatStreakHours (damageHexHealth c x t) = HeatStreakHours t" for c x t
    by (simp_all add: damageHexHealth_def upd_hex_def split: option.split)
  have f: "CurrentWeather (fold (\<lambda>c. damageHexHealth c x) cs t) = CurrentWeather t"
    "HeatStreakHours (fold (\<lambda>c. damageHexHealth c x) cs t) = HeatStreakHours t" for x cs t
    by (induction cs arbitrary: t) (simp_all add: d)
  have e: "CurrentWeather (fst (erode_coast tick sp st)) = CurrentWeather (fst st)"
    "HeatStreakHours (fst (erode_coast tick sp st)) = HeatStreakHours (fst st)" for sp st
    by (simp_all add: erode_coast_def Let_def split_beta f d split: option.split)
  have r: "CurrentWeather (fst (fold (erode_coast tick) sps st)) = CurrentWeather (fst st)"
    "HeatStreakHours (fst (fold (erode_coast tick) sps st)) = HeatStreakHours (fst st)" for sps st
    by (induction sps arbitrary: st) (simp_all add: e)
  show "CurrentWeather (applyStormErosion tick s) = CurrentWeather s" "HeatStreakHours (applyStormErosion tick s) = HeatStreakHours s"
    by (simp_all add: applyStormErosion_def split_beta r emit_def EmitEvent_def)
qed

lemma damage_fields:
  "CurrentWeather (applyWeatherHexDamage tick s) = CurrentWeather s" "HeatStreakHours (applyWeatherHexDamage tick s) = HeatStreakHours s"
  by (simp_all add: applyWeatherHexDamage_def Let_def storm_erosion_fields applyDroughtDegradation_def)

lemma hour_before_damage_ok:
  assumes "log2_sign (math_log2 env)" "land_ok s" "weather_ok s" "HeatStreakHours s \<le> 71"
  shows "land_ok (hour_before_damage env tick s)" "weather_ok (hour_before_damage env tick s)"
    "HeatStreakHours (hour_before_damage env tick s) \<le> 71"
proof -
  define s3 where "s3 = decayInventories (resolveMerchantTrade (cargo_goods env) tick
      (resolveMarkets (sort_sells env) (sort_buys env) (market_goods env) s))"
  define s4 where "s4 = updateWeather (weather_fetch env) s3"
  define s5 where "s5 = hourlyResourceRegen (math_log2 env) (hex_resources env) s4"
  have "outdoors s3 = outdoors s" by (simp add: s3_def)
  note o3 = outdoorsD [OF this]
  have "weather_ok s3" using assms(3) by (simp add: weather_ok_def o3)
  then have w4: "weather_ok s4" unfolding s4_def by (rule updateWeather_ok)
  have l4: "land_ok s4" using assms(2) by (simp add: s4_def land_ok_def o3)
  have l5: "land_ok s5" unfolding s5_def by (rule log2_sign.hourly_regen_ok [OF assms(1) l4 w4])
  have w5: "weather_ok s5" "HeatStreakHours s5 \<le> 71"
    using w4 assms(4) by (simp_all add: s5_def hourlyResourceRegen_def Let_def weather_ok_def s4_def o3)
  have eq: "hour_before_damage env tick s = checkStormDamage tick (checkCropFailure tick s5)"
    by (simp add: hour_before_damage_def s5_def s4_def s3_def)
  have o: "outdoors (hour_before_damage env tick s) = outdoors (checkCropFailure tick s5)" by (simp add: eq)
  show "land_ok (hour_before_damage env tick s)"
    using l5 by (simp add: land_ok_def outdoorsD(1) [OF o] checkCropFailure_fields)
  show "weather_ok (hour_before_damage env tick s)"
    using w5 by (simp add: weather_ok_def outdoorsD(2) [OF o] checkCropFailure_fields)
  show "HeatStreakHours (hour_before_damage env tick s) \<le> 71"
    using w5(2) by (simp add: outdoorsD(3) [OF o] checkCropFailure_fields)
qed


subsection \<open>The books of an hour\<close>

lemma same_but_purse_debt: "same_but_purse a b \<Longrightarrow> ConsignmentDebt b = ConsignmentDebt a"
  unfolding same_but_purse_def by (drule arg_cong [of _ _ ConsignmentDebt]) simp

lemma markets_debt:
  assumes "slice_sort ss before" "slice_sort sb before'"
  shows "ConsignmentDebt (agent (resolveMarkets ss sb goods s) q) = ConsignmentDebt (agent s q)"
proof -
  have "members_only (set ps) h (fst (resolve_market ss sb gs season sett ps h m))" for gs season sett ps h m
    by (rule frame_traded.resolve_market_R)
      (simp_all add: slice_sort.set_srt [OF assms(1)] slice_sort.set_srt [OF assms(2)])
  then have "ConsignmentDebt (fst (resolve_market ss sb gs season sett ps h m) q) = ConsignmentDebt (h q)" for gs season sett ps h m
    by (simp add: members_only_def same_but_purse_debt)
  then have step: "ConsignmentDebt (agent (resolveSettlementMarket ss sb gs sp ps season t) q) = ConsignmentDebt (agent t q)" for gs sp ps season t
    by (simp add: resolveSettlementMarket_def split_beta split: option.split)
  show ?thesis
    unfolding resolveMarkets_def by (rule fold_preserves [where P = "\<lambda>t. ConsignmentDebt (agent t q) = ConsignmentDebt (agent s q)"])
      (simp_all add: step Let_def)
qed

text \<open>A phase that moves no crowns, no debt and nothing of the frame.\<close>

definition quiet :: "Sim \<Rightarrow> Sim \<Rightarrow> bool" where
  "quiet s t \<longleftrightarrow> led t = led s \<and> same_frame s t \<and> (\<forall>q. ConsignmentDebt (agent t q) = ConsignmentDebt (agent s q))"

lemma quiet_refl [simp, intro]: "quiet s s"
  by (simp add: quiet_def)

lemma quiet_trans: "quiet s t \<Longrightarrow> quiet t u \<Longrightarrow> quiet s u"
  by (auto simp: quiet_def intro: same_frame_trans)

lemma quiet_if: "quiet s a \<Longrightarrow> quiet s b \<Longrightarrow> quiet s (if c then a else b)"
  by simp

lemma quiet_fold: "(\<And>x t. quiet t (f x t)) \<Longrightarrow> quiet s (fold f xs s)"
  by (induction xs arbitrary: s) (auto intro: quiet_trans)

lemma quiet_fold_fst: "(\<And>x st. quiet (fst st) (fst (f x st))) \<Longrightarrow> quiet (fst st) (fst (fold f xs st))"
proof (induction xs arbitrary: st)
  case (Cons x xs)
  from quiet_trans [OF Cons.prems Cons.IH [OF Cons.prems]] show ?case by simp
qed simp

lemma quiet_upd_agent:
  assumes "keeps_agent f" "\<And>a. Wealth (f a) = Wealth a" "\<And>a. ConsignmentDebt (f a) = ConsignmentDebt a"
  shows "quiet s (upd_agent p f s)"
  using assms by (simp add: quiet_def same_frame_upd_agent fun_upd_idem upd_def)

lemma quiet_upd_settl:
  assumes "keeps_settl f" "\<And>a. Treasury (f a) = Treasury a"
  shows "quiet s (upd_settl p f s)"
  using assms by (simp add: quiet_def same_frame_upd_settl fun_upd_idem)

lemma quiet_emit [simp]: "quiet s (emit tick d c t) \<longleftrightarrow> quiet s t"
proof -
  have "agent (emit tick d c t) = agent t" by (simp add: emit_def)
  then show ?thesis by (simp add: quiet_def)
qed

lemma quiet_sky:
  "quiet s (s\<lparr>CurrentWeather := w\<rparr>)" "quiet s (s\<lparr>HeatStreakHours := n\<rparr>)" "quiet s (s\<lparr>WorldMap := m\<rparr>)"
  by (auto simp: quiet_def same_frame_def intro!: led_eqI)

lemma decayGood_keeps [simp]:
  "Wealth (decayGood g r a) = Wealth a" "ConsignmentDebt (decayGood g r a) = ConsignmentDebt a" "AID (decayGood g r a) = AID a"
  "HomeSettID (decayGood g r a) = HomeSettID a" "Alive (decayGood g r a) = Alive a" "AOccupation (decayGood g r a) = AOccupation a"
  by (simp_all add: decayGood_def Let_def)

lemma quiet_decayInventories: "quiet s (decayInventories s)"
  unfolding decayInventories_def
  by (rule quiet_fold) (auto intro!: quiet_upd_agent simp: keeps_agent_def DecayInventory_def Let_def)

lemma quiet_each_hex: "quiet s (each_hex f s)"
  unfolding each_hex_def by (rule quiet_sky)

lemma quiet_damage: "quiet s (applyWeatherHexDamage tick s)"
proof -
  have d: "quiet t (damageHexHealth c x t)" for c x t
    by (auto simp: damageHexHealth_def upd_hex_def quiet_sky split: option.split)
  have f: "quiet t (fold (\<lambda>c. damageHexHealth c x) cs (damageHexHealth c y t))" for x cs c y t
    by (rule quiet_trans [OF d quiet_fold]) (rule d)
  have "quiet (fst (s, 0 :: int)) (fst (fold (erode_coast tick) (Settlements s) (s, 0)))"
    by (rule quiet_fold_fst) (simp add: erode_coast_def Let_def split_beta f split: option.split)
  then have "quiet s (applyStormErosion tick s)" by (simp add: applyStormErosion_def split_beta)
  then show ?thesis
    by (auto simp: applyWeatherHexDamage_def Let_def applyDroughtDegradation_def intro: quiet_trans quiet_each_hex)
qed

lemma quiet_spoil: "quiet t (fold (\<lambda>p. upd_agent p (spoil_grain x)) ps t)"
  by (rule quiet_fold, rule quiet_upd_agent) (simp_all add: keeps_agent_def spoil_grain_def Let_def)

lemma quiet_fail_crops: "quiet (fst st) (fst (fail_crops sp st))"
  by (cases st) (simp add: fail_crops_def Let_def quiet_spoil)

lemma quiet_crop_failure: "quiet s (checkCropFailure tick s)"
proof -
  define r where "r = fold fail_crops (Settlements s) (s\<lparr>HeatStreakHours := 48\<rparr>, 0)"
  have "quiet (fst (s\<lparr>HeatStreakHours := 48\<rparr>, 0 :: int)) (fst r)" unfolding r_def by (rule quiet_fold_fst, rule quiet_fail_crops)
  then have q: "quiet s (fst r)" unfolding fst_conv by (rule quiet_trans [OF quiet_sky(2)])
  show ?thesis unfolding checkCropFailure_def Let_def r_def [symmetric] split_beta
    by (intro quiet_if q quiet_sky(2) quiet_emit [THEN iffD2])
qed

lemma quiet_storms: "quiet s (checkStormDamage tick s)"
proof -
  have "quiet t (storm_one tick sp t)" for sp t
    unfolding storm_one_def Let_def
    by (simp only: quiet_emit quiet_refl simp_thms if_cancel split: if_split)
      (auto intro!: quiet_upd_settl simp: keeps_settl_def)
  then show ?thesis by (simp add: checkStormDamage_def quiet_fold)
qed

lemma quiet_weather: "quiet s (updateWeather w s)"
  by (cases w) (simp_all add: updateWeather_def quiet_sky)

lemma quiet_regen: "quiet s (hourlyResourceRegen log2 res s)"
  unfolding hourlyResourceRegen_def Let_def by (rule quiet_each_hex)

theorem TickHour_books:
  assumes "slice_sort (sort_sells env) (\<lambda>x y. OPrice x < OPrice y)" "slice_sort (sort_buys env) (\<lambda>x y. OPrice y < OPrice x)"
    and "sim_ok s" "rosters_home s" "\<And>p. p \<in> set (Agents s) \<Longrightarrow> room (accts s) s p" "fits (accts s) (led s)"
  shows "crowns_in (accts s) (led (TickHour env tick s))
      + (\<Sum>p\<in>set (Agents s). debt (TickHour env tick s) p - debt s p) = crowns_in (accts s) (led s)"
    and "same_frame s (TickHour env tick s)"
proof -
  define m where "m = resolveMarkets (sort_sells env) (sort_buys env) (market_goods env) s"
  define t where "t = resolveMerchantTrade (cargo_goods env) tick m"
  have pm: "pays (accts s) (led s) (led m)" "same_frame s m"
    using resolveMarkets_pays_frame [OF assms(1-3)] by (simp_all add: m_def)
  have c: "crowns_in (accts s) (led m) = crowns_in (accts s) (led s)"
    by (rule pays_conserves [OF pm(1) accts_finite assms(6)])
  have dm: "debt m p = debt s p" for p by (simp add: debt_def m_def markets_debt [OF assms(1,2)])
  have ok: "sim_ok m" "accts m = accts s" "Agents m = Agents s"
    using sim_ok_frame [OF pm(2) assms(3)] accts_frame [OF pm(2)] same_frame_simps [OF pm(2)] by simp_all
  have "rosters_home m" using assms(4) pm(2) by (simp add: rosters_home_def same_frame_def)
  moreover have "room (accts m) m p" if "p \<in> set (Agents m)" for p
    using assms(5) that by (simp add: room_def ok dm c)
  ultimately have b: "same_frame m t" "crowns_in (accts s) (led t) + (\<Sum>p\<in>set (Agents s). debt t p - debt s p) = crowns_in (accts s) (led s)"
    using resolveMerchantTrade_books [OF ok(1), of "cargo_goods env" tick] by (simp_all add: t_def ok dm c)
  have "quiet t (TickHour env tick s)"
    unfolding TickHour_def Let_def m_def [symmetric] t_def [symmetric]
    by (rule quiet_trans [OF quiet_decayInventories], rule quiet_trans [OF quiet_weather], rule quiet_trans [OF quiet_regen],
        rule quiet_trans [OF quiet_crop_failure], rule quiet_trans [OF quiet_storms], rule quiet_damage)
  then show "crowns_in (accts s) (led (TickHour env tick s))
      + (\<Sum>p\<in>set (Agents s). debt (TickHour env tick s) p - debt s p) = crowns_in (accts s) (led s)"
    and "same_frame s (TickHour env tick s)"
    using b pm(2) by (auto simp: quiet_def debt_def intro: same_frame_trans)
qed


subsection \<open>The season\<close>

lemma season_of_fold:
  assumes "\<And>x t. CurrentSeason (f x t) = CurrentSeason t"
  shows "CurrentSeason (fold f xs s) = CurrentSeason s"
  using assms by (induction xs arbitrary: s) auto

lemma season_of_autumn: "CurrentSeason (autumnHarvest tick s) = CurrentSeason s"
proof -
  have "CurrentSeason (fst (fold (\<lambda>p (s, n). if Alive (agent s p) \<and> AOccupation (agent s p) = OccupationFarmer
      then (upd_agent p harvest_bonus s, n + 1) else (s, n)) ps (t, n))) = CurrentSeason t" for ps t and n :: int
    by (induction ps arbitrary: t n) auto
  then show ?thesis by (simp add: autumnHarvest_def split_beta emit_def EmitEvent_def)
qed

lemma season_of_winter: "CurrentSeason (winterHardship s) = CurrentSeason s"
  unfolding winterHardship_def
  by (rule season_of_fold) (simp add: winter_one_def Let_def upd_counted_def split: prod.split)

end
