(* ===== verification/Intervention_Laws.thy ===== *)
theory Intervention_Laws
  imports Intervention Market_Laws Lifecycle_Laws Merchant_Laws
begin

section \<open>Laws of the interventions\<close>

text \<open>
  The names of goods, what an intervention changes on each branch, where
  refugees go, and the boosts.  A market hour starts from nothing but the
  inventories, so supply that an intervention adds is gone before a price is
  formed.
\<close>

subsection \<open>Names of goods\<close>

lemma GoodTypeFromString_iff: "GoodTypeFromString n = Some g \<longleftrightarrow> (n, g) \<in> set good_names"
  unfolding GoodTypeFromString_def by (rule map_of_eq_Some_iff) (simp add: good_names_def)

lemma findSettlementByName_Some:
  "findSettlementByName name s = Some sp \<Longrightarrow> sp \<in> set (Settlements s) \<and> SName (settl s sp) = name"
  unfolding findSettlementByName_def by (drule find_first_Some) simp

lemma ProvisionSettlement_error: "fst (ProvisionSettlement name good q s) = Inl err \<Longrightarrow> snd (ProvisionSettlement name good q s) = s"
  by (auto simp: ProvisionSettlement_def Let_def split: option.splits if_splits)

lemma ProvisionSettlement_ok:
  assumes "findSettlementByName name s = Some sp" "SMarket (settl s sp) = Some m" "GoodTypeFromString good = Some g"
    and "Entries m g = Some e"
  shows "\<exists>desc. ProvisionSettlement name good q s = (Inr desc, emit (LastTick s) desc CategoryGardener
           (upd_settl sp (\<lambda>t. t\<lparr>SMarket := Some (provision_supply g q m)\<rparr>) s))"
  using assms by (simp add: ProvisionSettlement_def Let_def)

lemma aggregate_resets: "aggregate living (provision_supply g q m) = aggregate living m"
proof -
  have "map_entries (\<lambda>_ e. e\<lparr>Supply := 0, Demand := 0\<rparr>) (provision_supply g q m) = map_entries (\<lambda>_ e. e\<lparr>Supply := 0, Demand := 0\<rparr>) m"
    by (auto simp: map_entries_def provision_supply_def fun_eq_iff option.map_comp o_def)
  then show ?thesis by (simp add: aggregate_def)
qed

lemma resolve_market_resets:
  "resolve_market ss sb gs season sett ps h (provision_supply g q m) = resolve_market ss sb gs season sett ps h m"
  by (simp only: resolve_market_def aggregate_resets)

text \<open>A provision of one town, and its effect on the market hour of the world.\<close>

definition provisioned :: "ptr \<Rightarrow> GoodType \<Rightarrow> int \<Rightarrow> Sim \<Rightarrow> Sim" where
  "provisioned sp g q s = upd_settl sp (\<lambda>t. t\<lparr>SMarket := map_option (provision_supply g q) (SMarket t)\<rparr>) s"

lemma provisioned_fields [simp]:
  "Settlements (provisioned sp g q s) = Settlements s" "SettlementAgents (provisioned sp g q s) = SettlementAgents s"
  "agent (provisioned sp g q s) = agent s" "CurrentSeason (provisioned sp g q s) = CurrentSeason s"
  "SID (settl (provisioned sp g q s) p) = SID (settl s p)" "p \<noteq> sp \<Longrightarrow> settl (provisioned sp g q s) p = settl s p"
  by (simp_all add: provisioned_def upd_settl_def upd_def)

lemma resolve_market_sett:
  "resolve_market ss sb gs season (sett\<lparr>SMarket := x\<rparr>) ps h m = resolve_market ss sb gs season sett ps h m"
proof -
  have "refPrices (sett\<lparr>SMarket := x\<rparr>) = refPrices sett" "supplyFloor (sett\<lparr>SMarket := x\<rparr>) = supplyFloor sett"
    by (simp_all add: refPrices_def market_mod_def supplyFloor_def fun_eq_iff)
  then show ?thesis by (simp add: resolve_market_def)
qed

lemma provisioned_market_other:
  "sp' \<noteq> sp \<Longrightarrow> resolveSettlementMarket ss sb gs sp' ps season (provisioned sp g q s)
     = provisioned sp g q (resolveSettlementMarket ss sb gs sp' ps season s)"
  by (auto simp: resolveSettlementMarket_def provisioned_def upd_settl_def upd_def fun_upd_twist Let_def split: option.split prod.split)

lemma provisioned_market_same:
  "SMarket (settl s sp) = Some m \<Longrightarrow> resolveSettlementMarket ss sb gs sp ps season (provisioned sp g q s) = resolveSettlementMarket ss sb gs sp ps season s"
  by (auto simp: resolveSettlementMarket_def provisioned_def upd_settl_def upd_def Let_def resolve_market_sett resolve_market_resets
      split: prod.split)

definition market_visit :: "(Order list \<Rightarrow> Order list) \<Rightarrow> (Order list \<Rightarrow> Order list) \<Rightarrow> (ptr \<Rightarrow> GoodType list) \<Rightarrow> ptr \<Rightarrow> Sim \<Rightarrow> Sim" where
  "market_visit ss sb goods sp s =
     (let settAgents = SettlementAgents s (SID (settl s sp)) in
      if settAgents = [] then s else resolveSettlementMarket ss sb (goods sp) sp settAgents (CurrentSeason s) s)"

lemma resolveMarkets_visits: "resolveMarkets ss sb goods s = fold (market_visit ss sb goods) (Settlements s) s"
  by (simp add: resolveMarkets_def market_visit_def [abs_def] Let_def)

lemma market_visit_frame: "SettlementAgents (market_visit ss sb goods sp s) = SettlementAgents s" 
  "q \<noteq> sp \<Longrightarrow> settl (market_visit ss sb goods sp s) q = settl s q"
  by (auto simp: market_visit_def resolveSettlementMarket_def Let_def upd_settl_def upd_def split: option.split prod.split)

lemma provision_absorbed:
  assumes "sp \<in> set sps" "SettlementAgents s (SID (settl s sp)) \<noteq> []" "SMarket (settl s sp) = Some m"
  shows "fold (market_visit ss sb goods) sps (provisioned sp g q s) = fold (market_visit ss sb goods) sps s"
  using assms
proof (induction sps arbitrary: s)
  case (Cons x xs)
  show ?case
  proof (cases "x = sp")
    case True
    then show ?thesis using Cons.prems(2) by (simp add: market_visit_def [of _ _ _ sp] provisioned_market_same [OF Cons.prems(3)])
  next
    case False
    have "market_visit ss sb goods x (provisioned sp g q s) = provisioned sp g q (market_visit ss sb goods x s)"
      using False by (simp add: market_visit_def provisioned_market_other Let_def)
    then show ?thesis using Cons False by (simp add: market_visit_frame)
  qed
qed simp

lemma market_visit_emit: "market_visit ss sb goods sp (emit t d c s) = emit t d c (market_visit ss sb goods sp s)"
  by (auto simp: market_visit_def resolveSettlementMarket_def emit_def EmitEvent_def upd_settl_def Let_def split: option.split prod.split)

lemma resolveMarkets_emit: "resolveMarkets ss sb goods (emit t d c s) = emit t d c (resolveMarkets ss sb goods s)"
proof -
  have "fold (market_visit ss sb goods) sps (emit t d c u) = emit t d c (fold (market_visit ss sb goods) sps u)" for sps u
    by (induction sps arbitrary: u) (simp_all add: market_visit_emit)
  then show ?thesis by (simp add: resolveMarkets_visits)
qed

lemma resolveMarkets_provision:
  assumes "sp \<in> set (Settlements s)" "SettlementAgents s (SID (settl s sp)) \<noteq> []" "SMarket (settl s sp) = Some m"
  shows "resolveMarkets ss sb goods (emit t d c (provisioned sp g q s)) = resolveMarkets ss sb goods (emit t d c s)"
  unfolding resolveMarkets_emit using provision_absorbed [OF assms] by (simp add: resolveMarkets_visits)

lemma deserted_market:
  assumes "SettlementAgents s (SID (settl s sp)) = []"
  shows "settl (resolveMarkets ss sb goods s) sp = settl s sp"
proof -
  have "settl (market_visit ss sb goods x u) sp = settl s sp"
    if "SettlementAgents u = SettlementAgents s" "settl u sp = settl s sp" for x u
    using that assms by (cases "x = sp") (simp_all add: market_visit_frame, simp add: market_visit_def)
  then have "SettlementAgents (fold (market_visit ss sb goods) sps u) = SettlementAgents s
      \<and> settl (fold (market_visit ss sb goods) sps u) sp = settl s sp"
    if "SettlementAgents u = SettlementAgents s" "settl u sp = settl s sp" for sps u
    using that by (induction sps arbitrary: u) (simp_all add: market_visit_frame)
  then show ?thesis by (simp add: resolveMarkets_visits)
qed

subsection \<open>Refuge\<close>

text \<open>The nearest of the eligible settlements, the first in slice order among equals.\<close>

definition eligible :: "Sim \<Rightarrow> ptr \<Rightarrow> ptr \<Rightarrow> bool" where
  "eligible s source sp \<longleftrightarrow> SID (settl s sp) \<noteq> SID (settl s source) \<and> 50 \<le> Population (settl s sp)
     \<and> Distance (SPosition (settl s source)) (SPosition (settl s sp)) \<le> 8"

definition nearest_so_far :: "Sim \<Rightarrow> ptr \<Rightarrow> ptr set \<Rightarrow> ptr option \<times> int \<Rightarrow> bool" where
  "nearest_so_far s source P acc \<longleftrightarrow>
     (\<forall>q. fst acc = Some q \<longrightarrow> q \<in> P \<and> eligible s source q \<and> snd acc = Distance (SPosition (settl s source)) (SPosition (settl s q)))
     \<and> (fst acc = None \<longrightarrow> 8 < snd acc)
     \<and> (\<forall>q\<in>P. eligible s source q \<longrightarrow> snd acc \<le> Distance (SPosition (settl s source)) (SPosition (settl s q)))"

lemma nearer_target_step:
  assumes "nearest_so_far s source P acc"
  shows "nearest_so_far s source (insert sp P) (nearer_target s source sp acc)"
proof (cases "eligible s source sp \<and> Distance (SPosition (settl s source)) (SPosition (settl s sp)) < snd acc")
  case True
  then have "nearer_target s source sp acc = (Some sp, Distance (SPosition (settl s source)) (SPosition (settl s sp)))"
    by (auto simp: nearer_target_def eligible_def Let_def)
  with True assms show ?thesis by (fastforce simp: nearest_so_far_def)
next
  case False
  then have "nearer_target s source sp acc = acc" by (auto simp: nearer_target_def eligible_def Let_def)
  with False assms show ?thesis by (auto simp: nearest_so_far_def)
qed

lemma nearer_target_fold:
  "nearest_so_far s source P acc \<Longrightarrow> nearest_so_far s source (P \<union> set sps) (fold (nearer_target s source) sps acc)"
proof (induction sps arbitrary: P acc)
  case (Cons sp sps)
  show ?case using Cons.IH [OF nearer_target_step [OF Cons.prems, of sp]] by simp
qed simp

lemma refuge_nearest:
  "case refuge s source of
     None \<Rightarrow> (\<forall>q\<in>set (Settlements s). \<not> eligible s source q)
   | Some t \<Rightarrow> t \<in> set (Settlements s) \<and> eligible s source t
       \<and> (\<forall>q\<in>set (Settlements s). eligible s source q \<longrightarrow>
            Distance (SPosition (settl s source)) (SPosition (settl s t)) \<le> Distance (SPosition (settl s source)) (SPosition (settl s q)))"
  using nearer_target_fold [of s source "{}" "(None, 999)" "Settlements s"]
  by (auto simp: refuge_def nearest_so_far_def eligible_def split: option.split)

subsection \<open>Consolidation\<close>

text \<open>The first \<open>n\<close> living agents of a roster.\<close>

definition first_living :: "Sim \<Rightarrow> nat \<Rightarrow> ptr list \<Rightarrow> ptr list" where
  "first_living s n ps = take n (filter (\<lambda>p. Alive (agent s p)) ps)"

definition resettle :: "Sim \<Rightarrow> ptr \<Rightarrow> Agent \<Rightarrow> Agent" where
  "resettle s t a = a\<lparr>HomeSettID := Some (SID (settl s t)), APosition := SPosition (settl s t)\<rparr>"

lemma move_refugees:
  assumes "distinct ps" "settl u = settl s" "\<And>p. p \<in> set ps \<Longrightarrow> agent u p = agent s p" "0 \<le> moved"
  shows "for_break (move_refugee t limit) ps (u, moved) =
    (fold (\<lambda>p. upd_agent p (resettle s t)) (first_living s (nat (limit - moved)) ps) u,
     moved + int (length (first_living s (nat (limit - moved)) ps)))"
  using assms
proof (induction ps arbitrary: u moved)
  case (Cons p ps)
  show ?case
  proof (cases "limit \<le> moved")
    case True
    then show ?thesis by (simp add: move_refugee_def first_living_def)
  next
    case False
    then have n: "nat (limit - moved) = Suc (nat (limit - (moved + 1)))" by simp
    show ?thesis
    proof (cases "Alive (agent s p)")
      case True
      define u' where "u' = upd_agent p (resettle s t) u"
      have "move_refugee t limit p (u, moved) = Some (u', moved + 1)"
        using True False Cons.prems(2,3) by (simp add: move_refugee_def u'_def resettle_def [abs_def])
      moreover have "for_break (move_refugee t limit) ps (u', moved + 1) =
          (fold (\<lambda>p. upd_agent p (resettle s t)) (first_living s (nat (limit - (moved + 1))) ps) u',
           moved + 1 + int (length (first_living s (nat (limit - (moved + 1))) ps)))"
        using Cons.prems by (intro Cons.IH) (auto simp: u'_def upd_def)
      ultimately show ?thesis using True by (simp add: first_living_def n u'_def)
    next
      case dead: False
      then show ?thesis
        using Cons.IH [of u moved] Cons.prems False by (simp add: move_refugee_def first_living_def)
    qed
  qed
qed (simp add: first_living_def)

subsection \<open>Boosts\<close>

lemma boost_fold:
  "fold (\<lambda>x best. if P x \<and> best < f x then f x else best) xs b = fold max (map f (filter P xs)) (b :: f64)"
  by (induction xs arbitrary: b) (auto simp: max_def intro!: arg_cong [where f = "fold max _"])

lemma GetSettlementBoost_max:
  "GetSettlementBoost i s = Max (insert 1 (Multiplier ` {b \<in> set (ActiveBoosts s). BSettlementID b = i}))"
  using Max.set_eq_fold [of 1 "map Multiplier (filter (\<lambda>b. BSettlementID b = i) (ActiveBoosts s))"]
  by (simp add: GetSettlementBoost_def boost_fold)

lemma GetSettlementBoost_ge1: "1 \<le> GetSettlementBoost i s"
  unfolding GetSettlementBoost_max by (rule Max_ge) simp_all

end
