(* ===== verification/Clock.thy ===== *)
theory Clock
  imports Lifecycle
begin

section \<open>The tick engine (tick.go)\<close>

text \<open>
  \<^verbatim>\<open>Engine\<close> drives a world of any type \<open>'w\<close>.  A callback, or a function sent as a
  loop task, is code of the client: running it gives the new world and the calls to
  \<^verbatim>\<open>SetSpeed\<close>, \<^verbatim>\<open>Stop\<close> and \<^verbatim>\<open>SubmitLoopTask\<close> made while it runs
  (by itself or by other goroutines), or \<open>None\<close> when it never returns.  Function
  values in the channel are names of a type \<open>'t\<close>; \<open>call fn\<close> runs the function named
  \<open>fn\<close>, so that a function can submit itself.  Wall-clock time and sleeping are left
  out.
\<close>

datatype 't Request = ReqSpeed f64 | ReqStop | ReqTask 't

type_synonym ('t, 'w) run = "'w \<Rightarrow> ('w \<times> 't Request list) option"

record ('t, 'w) Engine =
  ETickNo :: uint64
  speed :: f64
  running :: bool
  OnTick :: "(uint64 \<Rightarrow> ('t, 'w) run) option"
  OnHour :: "(uint64 \<Rightarrow> ('t, 'w) run) option"
  OnDay :: "(uint64 \<Rightarrow> ('t, 'w) run) option"
  OnWeek :: "(uint64 \<Rightarrow> ('t, 'w) run) option"
  OnSeason :: "(uint64 \<Rightarrow> ('t, 'w) run) option"
  loopTasks :: "'t list"

definition SetSpeed :: "f64 \<Rightarrow> ('t, 'w) Engine \<Rightarrow> ('t, 'w) Engine" where
  "SetSpeed x e = e\<lparr>speed := x\<rparr>"

definition Speed :: "('t, 'w) Engine \<Rightarrow> f64" where
  "Speed e = speed e"

definition Stop :: "('t, 'w) Engine \<Rightarrow> ('t, 'w) Engine" where
  "Stop e = e\<lparr>running := False\<rparr>"

definition IsRunning :: "('t, 'w) Engine \<Rightarrow> bool" where
  "IsRunning e = running e"

definition NewEngine :: "('t, 'w) Engine" where
  "NewEngine = SetSpeed 1 \<lparr>ETickNo = 0, speed = 0, running = False, OnTick = None, OnHour = None, OnDay = None,
     OnWeek = None, OnSeason = None, loopTasks = []\<rparr>"

text \<open>The channel holds eight tasks; a send that stays blocked for two seconds gives up.\<close>

definition SubmitLoopTask :: "'t \<Rightarrow> ('t, 'w) Engine \<Rightarrow> bool \<times> ('t, 'w) Engine" where
  "SubmitLoopTask fn e =
     (if length (loopTasks e) < 8 then (True, e\<lparr>loopTasks := loopTasks e @ [fn]\<rparr>) else (False, e))"

fun request :: "'t Request \<Rightarrow> ('t, 'w) Engine \<Rightarrow> ('t, 'w) Engine" where
  "request (ReqSpeed x) e = SetSpeed x e"
| "request ReqStop e = Stop e"
| "request (ReqTask fn) e = snd (SubmitLoopTask fn e)"

text \<open>
  The loop observes \<^verbatim>\<open>running\<close>, \<^verbatim>\<open>speed\<close> and the channel at its reads only.
  \<open>env n\<close> are the requests other goroutines make before the \<open>n\<close>-th read; the state of the
  loop is the number of the next read, the engine and the world.
\<close>

type_synonym 't environment = "nat \<Rightarrow> 't Request list"
type_synonym ('t, 'w) loop_state = "nat \<times> ('t, 'w) Engine \<times> 'w"

text \<open>
  \<^verbatim>\<open>drainLoopTasks\<close> receives until the channel is empty, tasks that arrive meanwhile
  included; it need not end.
\<close>

partial_function (option) drainLoopTasks ::
  "('t \<Rightarrow> ('t, 'w) run) \<Rightarrow> 't environment \<Rightarrow> ('t, 'w) loop_state \<Rightarrow> ('t, 'w) loop_state option" where
  "drainLoopTasks call env st =
     (case st of (n, e, w) \<Rightarrow>
        let e1 = fold request (env n) e in
        case loopTasks e1 of
          [] \<Rightarrow> Some (Suc n, e1, w)
        | fn # fns \<Rightarrow>
            (case call fn w of
               None \<Rightarrow> None
             | Some (w1, rs) \<Rightarrow> drainLoopTasks call env (Suc n, fold request rs (e1\<lparr>loopTasks := fns\<rparr>), w1)))"

definition call_layer ::
  "(uint64 \<Rightarrow> ('t, 'w) run) option \<Rightarrow> bool \<Rightarrow> uint64 \<Rightarrow> ('t, 'w) Engine \<times> 'w \<Rightarrow> (('t, 'w) Engine \<times> 'w) option" where
  "call_layer cb due tick ew =
     (case cb of
        None \<Rightarrow> Some ew
      | Some f \<Rightarrow> if due then map_option (\<lambda>(w1, rs). (fold request rs (fst ew), w1)) (f tick (snd ew)) else Some ew)"

definition step :: "('t, 'w) Engine \<times> 'w \<Rightarrow> (('t, 'w) Engine \<times> 'w) option" where
  "step ew =
     (let e = fst ew; t = ETickNo e + 1 in
      Option.bind (call_layer (OnTick e) True t (e\<lparr>ETickNo := t\<rparr>, snd ew)) (\<lambda>x.
      Option.bind (call_layer (OnHour e) (t mod TicksPerSimHour = 0) t x) (\<lambda>x.
      Option.bind (call_layer (OnDay e) (t mod TicksPerSimDay = 0) t x) (\<lambda>x.
      Option.bind (call_layer (OnWeek e) (t mod TicksPerSimWeek = 0) t x)
        (call_layer (OnSeason e) (t mod TicksPerSimSeason = 0) t)))))"

text \<open>The body of the loop of \<^verbatim>\<open>Run\<close> up to the drain, after the read of \<^verbatim>\<open>running\<close>.\<close>

definition run_tick :: "'t environment \<Rightarrow> ('t, 'w) loop_state \<Rightarrow> ('t, 'w) loop_state option" where
  "run_tick env st =
     (case st of (n, e, w) \<Rightarrow>
        let e1 = fold request (env n) e in
        if Speed e1 \<le> 0 then Some (Suc n, e1, w) else map_option (Pair (Suc n)) (step (e1, w)))"

partial_function (option) run_loop ::
  "('t \<Rightarrow> ('t, 'w) run) \<Rightarrow> 't environment \<Rightarrow> ('t, 'w) loop_state \<Rightarrow> ('t, 'w) loop_state option" where
  "run_loop call env st =
     (case st of (n, e, w) \<Rightarrow>
        let e1 = fold request (env n) e in
        if \<not> running e1 then Some (Suc n, e1, w)
        else Option.bind (run_tick env (Suc n, e1, w)) (\<lambda>st1.
             Option.bind (drainLoopTasks call env st1) (run_loop call env)))"

definition Run :: "('t \<Rightarrow> ('t, 'w) run) \<Rightarrow> 't environment \<Rightarrow> ('t, 'w) Engine \<times> 'w \<Rightarrow> ('t, 'w) loop_state option" where
  "Run call env ew = run_loop call env (0, (fst ew)\<lparr>running := True\<rparr>, snd ew)"

subsection \<open>The displayed time\<close>

record ClockReading =
  CSeason :: uint64
  CDay :: uint64
  CHour :: uint64
  CMinute :: uint64
  CYear :: uint64

definition sim_clock :: "uint64 \<Rightarrow> ClockReading" where
  "sim_clock tick =
     (let seasonIndex = tick div TicksPerSimSeason
      in \<lparr>CSeason = seasonIndex mod 4, CDay = tick mod TicksPerSimSeason div TicksPerSimDay + 1,
          CHour = tick div 60 mod 24, CMinute = tick mod 60, CYear = seasonIndex div 4 + 1\<rparr>)"

definition season_label :: "uint64 \<Rightarrow> string" where
  "season_label season = [''Spring'', ''Summer'', ''Autumn'', ''Winter''] ! unat season"

definition show_02d :: "uint64 \<Rightarrow> string" where
  "show_02d n = (if n < 10 then ''0'' @ show_word n else show_word n)"

definition SimTime :: "uint64 \<Rightarrow> string" where
  "SimTime tick =
     (let c = sim_clock tick
      in season_label (CSeason c) @ '' Day '' @ show_word (CDay c) @ '', '' @ show_word (CHour c) @ '':'' @ show_02d (CMinute c)
           @ '' Year '' @ show_word (CYear c))"

subsection \<open>Laws of the loop\<close>

fun task_of :: "'t Request \<Rightarrow> 't option" where
  "task_of (ReqTask fn) = Some fn"
| "task_of _ = None"

text \<open>Requests that submit no task, and code that returns and submits none.\<close>

definition taskless :: "'t Request list \<Rightarrow> bool" where
  "taskless rs \<longleftrightarrow> (\<forall>r \<in> set rs. task_of r = None)"

definition returns :: "('t, 'w) run \<Rightarrow> bool" where
  "returns f \<longleftrightarrow> (\<forall>w. f w \<noteq> None)"

definition modest :: "('t, 'w) run \<Rightarrow> bool" where
  "modest f \<longleftrightarrow> (\<forall>w. \<exists>w' rs. f w = Some (w', rs) \<and> taskless rs)"

definition layers_return :: "('t, 'w) Engine \<Rightarrow> bool" where
  "layers_return e \<longleftrightarrow> (\<forall>cb \<in> {OnTick e, OnHour e, OnDay e, OnWeek e, OnSeason e}. \<forall>f t. cb = Some f \<longrightarrow> returns (f t))"

text \<open>The callbacks never change.\<close>

definition same_layers :: "('t, 'w) Engine \<Rightarrow> ('t, 'w) Engine \<Rightarrow> bool" where
  "same_layers e e' \<longleftrightarrow> OnTick e' = OnTick e \<and> OnHour e' = OnHour e \<and> OnDay e' = OnDay e \<and> OnWeek e' = OnWeek e \<and> OnSeason e' = OnSeason e"

lemma same_layers_refl [simp]: "same_layers e e" "same_layers e (e\<lparr>loopTasks := q\<rparr>)" "same_layers e (e\<lparr>ETickNo := t\<rparr>)"
  by (simp_all add: same_layers_def)

lemma same_layers_trans: "same_layers e f \<Longrightarrow> same_layers f g \<Longrightarrow> same_layers e g"
  by (simp add: same_layers_def)

lemma layers_return_same: "same_layers e e' \<Longrightarrow> layers_return e \<Longrightarrow> layers_return e'"
  by (simp add: same_layers_def layers_return_def)

text \<open>What requests, and so every part of the loop, leave alone: the callbacks and a stopped engine.\<close>

definition onward :: "('t, 'w) Engine \<Rightarrow> ('t, 'w) Engine \<Rightarrow> bool" where
  "onward e e' \<longleftrightarrow> same_layers e e' \<and> (running e' \<longrightarrow> running e)"

lemma onward_refl [simp]: "onward e e" "onward e (e\<lparr>loopTasks := q\<rparr>)" "onward e (e\<lparr>ETickNo := t\<rparr>)"
  by (simp_all add: onward_def)

lemma onward_trans: "onward e f \<Longrightarrow> onward f g \<Longrightarrow> onward e g"
  by (auto simp: onward_def intro: same_layers_trans)

lemma request_laws:
  "onward e (request r e)" "ETickNo (request r e) = ETickNo e" "task_of r = None \<Longrightarrow> loopTasks (request r e) = loopTasks e"
  by (cases r; simp add: onward_def same_layers_def SetSpeed_def Stop_def SubmitLoopTask_def)+

lemma requests_laws:
  "onward e (fold request rs e)" "ETickNo (fold request rs e) = ETickNo e"
  "taskless rs \<Longrightarrow> loopTasks (fold request rs e) = loopTasks e"
proof (induction rs arbitrary: e)
  case (Cons r rs)
  { case 1 show ?case using onward_trans [OF request_laws(1) Cons(1)] by simp }
  { case 2 show ?case using Cons(2) [of "request r e"] request_laws(2) [of r e] by simp }
  { case 3 then show ?case using Cons(3) [of "request r e"] request_laws(3) [of r e] by (simp add: taskless_def) }
qed simp_all

lemma stop_sticks: "ReqStop \<in> set rs \<Longrightarrow> \<not> running (fold request rs e)"
proof (induction rs arbitrary: e)
  case (Cons r rs)
  then show ?case using requests_laws(1) [of "request r e" rs] by (cases "r = ReqStop") (auto simp: Stop_def onward_def)
qed simp

text \<open>A step returns when its callbacks do; it advances the clock by one.\<close>

lemma call_layer_returns:
  assumes "\<And>f t. cb = Some f \<Longrightarrow> returns (f t)"
  shows "\<exists>e' w'. call_layer cb due t (e, w) = Some (e', w') \<and> onward e e' \<and> ETickNo e' = ETickNo e"
proof (cases cb)
  case (Some f)
  obtain w' rs where "f t w = Some (w', rs)" using assms [OF Some, of t] unfolding returns_def by fast
  then show ?thesis using requests_laws(1,2) [where rs = rs and e = e] by (simp add: call_layer_def Some)
qed (simp add: call_layer_def)

lemma step_returns:
  assumes "layers_return e"
  shows "\<exists>e' w'. step (e, w) = Some (e', w') \<and> onward e e' \<and> ETickNo e' = ETickNo e + 1"
proof -
  have l: "\<exists>f' w'. call_layer cb due t (f, v) = Some (f', w') \<and> onward f f' \<and> ETickNo f' = ETickNo f"
    if "cb \<in> {OnTick e, OnHour e, OnDay e, OnWeek e, OnSeason e}" for cb due t f v
    by (rule call_layer_returns) (use assms that in \<open>auto simp: layers_return_def\<close>)
  let ?t = "ETickNo e + 1"
  obtain e1 w1 where 1: "call_layer (OnTick e) True ?t (e\<lparr>ETickNo := ?t\<rparr>, w) = Some (e1, w1)" "onward (e\<lparr>ETickNo := ?t\<rparr>) e1" "ETickNo e1 = ?t"
    using l [of "OnTick e" True ?t "e\<lparr>ETickNo := ?t\<rparr>" w] by auto
  obtain e2 w2 where 2: "call_layer (OnHour e) (?t mod TicksPerSimHour = 0) ?t (e1, w1) = Some (e2, w2)" "onward e1 e2" "ETickNo e2 = ?t"
    using l [of "OnHour e" "?t mod TicksPerSimHour = 0" ?t e1 w1] 1(3) by auto
  obtain e3 w3 where 3: "call_layer (OnDay e) (?t mod TicksPerSimDay = 0) ?t (e2, w2) = Some (e3, w3)" "onward e2 e3" "ETickNo e3 = ?t"
    using l [of "OnDay e" "?t mod TicksPerSimDay = 0" ?t e2 w2] 2(3) by auto
  obtain e4 w4 where 4: "call_layer (OnWeek e) (?t mod TicksPerSimWeek = 0) ?t (e3, w3) = Some (e4, w4)" "onward e3 e4" "ETickNo e4 = ?t"
    using l [of "OnWeek e" "?t mod TicksPerSimWeek = 0" ?t e3 w3] 3(3) by auto
  obtain e5 w5 where 5: "call_layer (OnSeason e) (?t mod TicksPerSimSeason = 0) ?t (e4, w4) = Some (e5, w5)" "onward e4 e5" "ETickNo e5 = ?t"
    using l [of "OnSeason e" "?t mod TicksPerSimSeason = 0" ?t e4 w4] 4(3) by auto
  have "step (e, w) = Some (e5, w5)" by (simp add: step_def Let_def 1 2 3 4 5)
  moreover have "onward e e5" using onward_refl(3) [of e ?t] 1(2) 2(2) 3(2) 4(2) 5(2) by (blast intro: onward_trans)
  ultimately show ?thesis using 5(3) by blast
qed

text \<open>
  What a part of the loop that starts at read \<open>n\<close> has done when it gives \<open>st'\<close>: it has used
  up some reads, and a stop among their requests has taken effect.
\<close>

definition proceeds :: "'t environment \<Rightarrow> nat \<Rightarrow> ('t, 'w) Engine \<Rightarrow> ('t, 'w) loop_state \<Rightarrow> bool" where
  "proceeds env n e st' \<longleftrightarrow> (case st' of (m, e', w') \<Rightarrow> n < m \<and> onward e e'
     \<and> (\<forall>k. n \<le> k \<longrightarrow> k < m \<longrightarrow> ReqStop \<in> set (env k) \<longrightarrow> \<not> running e'))"

lemma proceeds_one: "onward (fold request (env n) e) e' \<Longrightarrow> proceeds env n e (Suc n, e', w)"
  using requests_laws(1) [of e "env n"] stop_sticks [of "env n" e]
  by (auto simp: proceeds_def onward_def less_Suc_eq_le intro: same_layers_trans dest: le_antisym)

lemma proceeds_trans: "proceeds env n e (m, e', w) \<Longrightarrow> proceeds env m e' st \<Longrightarrow> proceeds env n e st"
  by (auto simp: proceeds_def onward_def intro: same_layers_trans split: prod.splits)

text \<open>
  With tasks that submit none, a drain returns when nobody else submits any from some read \<open>N\<close>
  on: after it the queue shrinks with every receive.
\<close>

lemma drain_step:
  assumes "call fn w = Some (w1, rs)" "loopTasks (fold request (env n) e) = fn # fns"
    and "drainLoopTasks call env (Suc n, fold request rs ((fold request (env n) e)\<lparr>loopTasks := fns\<rparr>), w1) = Some st"
    and "proceeds env (Suc n) (fold request rs ((fold request (env n) e)\<lparr>loopTasks := fns\<rparr>)) st"
    and "ETickNo (fst (snd st)) = ETickNo (fold request rs ((fold request (env n) e)\<lparr>loopTasks := fns\<rparr>))"
  shows "drainLoopTasks call env (n, e, w) = Some st \<and> proceeds env n e st \<and> ETickNo (fst (snd st)) = ETickNo e"
proof -
  have "onward (fold request (env n) e) (fold request rs ((fold request (env n) e)\<lparr>loopTasks := fns\<rparr>))"
    by (rule onward_trans [OF onward_refl(2) requests_laws(1)])
  from proceeds_trans [OF proceeds_one [where env = env, OF this] assms(4)] show ?thesis
    using assms(5) by (subst drainLoopTasks.simps) (simp add: assms(1-3) requests_laws(2))
qed

lemma drain_end:
  assumes "loopTasks (fold request (env n) e) = []"
  shows "\<exists>st. drainLoopTasks call env (n, e, w) = Some st \<and> proceeds env n e st \<and> ETickNo (fst (snd st)) = ETickNo e"
  using assms proceeds_one [where env = env and n = n and e = e, OF onward_refl(1)]
  by (subst drainLoopTasks.simps) (simp add: requests_laws(2))

lemma drain_returns:
  assumes "\<And>fn. modest (call fn)" "\<And>m. N \<le> m \<Longrightarrow> taskless (env m)"
  shows "\<exists>st. drainLoopTasks call env (n, e, w) = Some st \<and> proceeds env n e st \<and> ETickNo (fst (snd st)) = ETickNo e"
proof (induction "(N - n, length (loopTasks e))" arbitrary: n e w rule: wf_induct_rule [OF wf_lex_prod [OF wf_less_than wf_less_than]])
  case 1
  let ?e1 = "fold request (env n) e"
  show ?case
  proof (cases "loopTasks ?e1")
    case (Cons fn fns)
    obtain w1 rs where c: "call fn w = Some (w1, rs)" "taskless rs" using assms(1) unfolding modest_def by blast
    let ?e2 = "fold request rs (?e1\<lparr>loopTasks := fns\<rparr>)"
    have "loopTasks e = fn # fns" if "N \<le> n" using requests_laws(3) [OF assms(2) [OF that], of e] Cons by simp
    then have "N - Suc n < N - n \<or> N - Suc n = N - n \<and> length (loopTasks ?e2) < length (loopTasks e)"
      using requests_laws(3) [OF c(2), of "?e1\<lparr>loopTasks := fns\<rparr>"] by (cases "N \<le> n") auto
    then have "((N - Suc n, length (loopTasks ?e2)), (N - n, length (loopTasks e))) \<in> less_than <*lex*> less_than" by auto
    from 1 [OF this] obtain st where "drainLoopTasks call env (Suc n, ?e2, w1) = Some st" "proceeds env (Suc n) ?e2 st"
      "ETickNo (fst (snd st)) = ETickNo ?e2" by blast
    then show ?thesis using drain_step [where call = call and fn = fn and w = w and env = env and n = n and e = e, OF c(1) Cons] by blast
  qed (rule drain_end)
qed

lemma run_tick_returns:
  assumes "layers_return e"
  shows "\<exists>st. run_tick env (n, e, w) = Some st \<and> proceeds env n e st
    \<and> (\<exists>j \<le> 1. ETickNo (fst (snd st)) = ETickNo e + of_nat j)"
proof -
  let ?e1 = "fold request (env n) e"
  have "layers_return ?e1" using layers_return_same [OF _ assms] requests_laws(1) [of e "env n"] by (simp add: onward_def)
  from step_returns [OF this, of w] obtain e' w' where s: "step (?e1, w) = Some (e', w')" "onward ?e1 e'" "ETickNo e' = ETickNo e + 1"
    by (auto simp: requests_laws(2))
  show ?thesis
  proof (cases "Speed ?e1 \<le> 0")
    case True
    then show ?thesis using proceeds_one [where env = env and n = n and e = e, OF onward_refl(1)]
      by (auto simp: run_tick_def Let_def requests_laws(2) intro!: exI [of _ 0])
  next
    case False
    then show ?thesis using proceeds_one [where env = env, OF s(2)] s(3)
      by (auto simp: run_tick_def Let_def s(1) intro!: exI [of _ 1])
  qed
qed

text \<open>
  The loop returns when a stop is requested before read \<open>k\<close>, and has run at most one tick per
  three reads until then.
\<close>

lemma run_loop_returns:
  assumes "\<And>fn. modest (call fn)" "\<And>m. N \<le> m \<Longrightarrow> taskless (env m)" "ReqStop \<in> set (env k)"
    and "layers_return e" "n \<le> k \<or> \<not> running e"
  shows "\<exists>m e' w' j. run_loop call env (n, e, w) = Some (m, e', w') \<and> \<not> running e'
    \<and> ETickNo e' = ETickNo e + of_nat j \<and> (if running e then 3 * j + n \<le> k + 3 else j = 0)"
  using assms(4,5)
proof (induction "k - n" arbitrary: n e w rule: less_induct)
  case less
  let ?e1 = "fold request (env n) e"
  note e1 = requests_laws(1) [of e "env n"] requests_laws(2) [where rs = "env n" and e = e]
  show ?case
  proof (cases "running ?e1")
    case False
    then show ?thesis using e1(2) less.prems by (subst run_loop.simps) (auto intro!: exI [of _ 0])
  next
    case True
    have nk: "n \<noteq> k" "running e" "n \<le> k" using True stop_sticks [OF assms(3), of e] e1(1) less.prems(2) by (auto simp: onward_def)
    have "layers_return ?e1" using layers_return_same [OF _ less.prems(1)] e1(1) by (simp add: onward_def)
    from run_tick_returns [OF this, of env "Suc n" w] obtain m2 e2 w2 i where t: "run_tick env (Suc n, ?e1, w) = Some (m2, e2, w2)"
      "proceeds env (Suc n) ?e1 (m2, e2, w2)" "i \<le> 1" "ETickNo e2 = ETickNo e + of_nat i" by (auto simp: e1(2))
    from drain_returns [where call = call and env = env and N = N, OF assms(1,2), of m2 e2 w2] obtain m3 e3 w3 where
      d: "drainLoopTasks call env (m2, e2, w2) = Some (m3, e3, w3)" "proceeds env m2 e2 (m3, e3, w3)" "ETickNo e3 = ETickNo e + of_nat i"
      using t(4) by fastforce
    have p: "proceeds env (Suc n) ?e1 (m3, e3, w3)" using proceeds_trans [OF t(2) d(2)] .
    have m: "n + 3 \<le> m3" using t(2) d(2) by (simp add: proceeds_def)
    have "layers_return e3" using layers_return_same [OF _ \<open>layers_return ?e1\<close>] p by (simp add: proceeds_def onward_def)
    moreover have "\<not> running e3" if "\<not> m3 \<le> k" using p assms(3) nk that by (auto simp: proceeds_def dest!: spec [of _ k])
    moreover have "k - m3 < k - n" using m nk by linarith
    ultimately obtain m' e' w' j where r: "run_loop call env (m3, e3, w3) = Some (m', e', w')" "\<not> running e'"
      "ETickNo e' = ETickNo e3 + of_nat j" "if running e3 then 3 * j + m3 \<le> k + 3 else j = 0"
      using less.hyps [of m3 e3 w3] by blast
    have "run_loop call env (n, e, w) = Some (m', e', w')" using True by (subst run_loop.simps) (simp add: t(1) d(1) r(1))
    moreover have "ETickNo e' = ETickNo e + of_nat (i + j)" using r(3) d(3) by simp
    moreover have "3 * (i + j) + n \<le> k + 3" using r(4) t(3) m nk by (auto split: if_splits)
    ultimately show ?thesis using r(2) nk(2) by metis
  qed
qed

text \<open>A task that submits itself again is received again, for ever.\<close>

lemma drain_starves:
  fixes e :: "('t, 'w) Engine"
  assumes "\<And>w. \<exists>w'. call fn w = Some (w', [ReqTask fn])" "loopTasks e = [fn]" "\<And>n. taskless (env n)"
  shows "drainLoopTasks call env (n, e, w) = None"
proof (rule ccontr)
  assume "drainLoopTasks call env (n, e, w) \<noteq> None"
  then obtain st where st: "drainLoopTasks call env (n, e, w) = Some st" by blast
  define stuck where "stuck u \<longleftrightarrow> loopTasks (fst (snd u)) = [fn]" for u :: "('t, 'w) loop_state"
  have "call = call \<and> env = env \<longrightarrow> \<not> stuck (n, e, w)"
  proof (rule drainLoopTasks.raw_induct [where P = "\<lambda>c v u st. c = call \<and> v = env \<longrightarrow> \<not> stuck u", OF _ st])
    fix f c v u r
    assume IH: "\<And>c v u r. f c v u = Some r \<Longrightarrow> c = call \<and> v = env \<longrightarrow> \<not> stuck u"
      and eq: "(case u of (n, e, w) \<Rightarrow> let e1 = fold request (v n) e in
          case loopTasks e1 of [] \<Rightarrow> Some (Suc n, e1, w)
          | fn # fns \<Rightarrow> (case c fn w of None \<Rightarrow> None
            | Some (w1, rs) \<Rightarrow> f c v (Suc n, fold request rs (e1\<lparr>loopTasks := fns\<rparr>), w1))) = Some r"
    obtain m x y where u: "u = (m, x, y)" by (cases u)
    show "c = call \<and> v = env \<longrightarrow> \<not> stuck u"
    proof (intro impI notI)
      assume cv: "c = call \<and> v = env" and s: "stuck u"
      let ?x1 = "fold request (env m) x"
      obtain y' where y': "call fn y = Some (y', [ReqTask fn])" using assms(1) by blast
      have q: "loopTasks ?x1 = [fn]" using s requests_laws(3) [OF assms(3), where e = x and n1 = m] by (simp add: stuck_def u)
      have "f call env (Suc m, fold request [ReqTask fn] (?x1\<lparr>loopTasks := []\<rparr>), y') = Some r"
        using eq cv by (simp add: u q y')
      from IH [OF this] show False by (simp add: stuck_def SubmitLoopTask_def)
    qed
  qed
  then show False using assms(2) by (simp add: stuck_def)
qed

text \<open>How often a layer of period \<open>d\<close> is due in the ticks after \<open>t\<close>.\<close>

lemma due_count:
  assumes "0 < d"
  shows "card {k \<in> {t<..t + n}. k mod d = 0} = (t + n) div d - t div (d :: nat)"
proof (induction n)
  case (Suc n)
  have "{k \<in> {t<..t + Suc n}. k mod d = 0} =
      (if (t + Suc n) mod d = 0 then insert (t + Suc n) {k \<in> {t<..t + n}. k mod d = 0} else {k \<in> {t<..t + n}. k mod d = 0})"
    by (auto simp: le_Suc_eq)
  moreover have "(t + Suc n) div d = (t + n) div d + (if (t + Suc n) mod d = 0 then 1 else 0)"
    using assms by (simp add: div_Suc)
  moreover have "t div d \<le> (t + n) div d" by (rule div_le_mono) simp
  ultimately show ?case using Suc by (auto simp: Suc_diff_le)
qed simp

subsection \<open>Laws of the displayed time\<close>

definition tick_of_clock :: "ClockReading \<Rightarrow> nat" where
  "tick_of_clock c =
     (let base = ((unat (CYear c) - 1) * 4 + unat (CSeason c)) * 90000 + (unat (CDay c) - 1) * 1440
      in base + (unat (CHour c) * 60 + unat (CMinute c) + 1440 - base mod 1440) mod 1440)"

lemma clock_nat:
  fixes t :: nat
  shows "let base = (t div 90000) * 90000 + (t mod 90000 div 1440) * 1440
         in base + ((t div 60 mod 24) * 60 + t mod 60 + 1440 - base mod 1440) mod 1440 = t"
proof -
  define base where "base = (t div 90000) * 90000 + (t mod 90000 div 1440) * 1440"
  have day: "(t div 60 mod 24) * 60 + t mod 60 = t mod 1440"
    using mod_mult2_eq [of t 60 24] by (simp add: mult.commute)
  have le: "base \<le> t" "t < base + 1440"
    unfolding base_def using div_mult_mod_eq [of t 90000] div_mult_mod_eq [of "t mod 90000" 1440] mod_less_divisor [of 1440 "t mod 90000"]
    by linarith+
  then obtain x where x: "t = base + x" "x < 1440" by (metis add_less_cancel_left le_Suc_ex)
  have "(t mod 1440 + 1440 - base mod 1440) mod 1440 = x"
  proof -
    have "(t mod 1440 + 1440 - base mod 1440) mod 1440 = (t + (1440 - base mod 1440)) mod 1440"
      using mod_add_left_eq [of t 1440 "1440 - base mod 1440"] mod_less_divisor [of 1440 base] by (simp add: less_imp_le)
    also have "\<dots> = (x + (base + (1440 - base mod 1440))) mod 1440" by (simp add: x algebra_simps)
    also have "base + (1440 - base mod 1440) = 1440 * (base div 1440 + 1)"
    proof -
      have "b + (1440 - r) = 1440 * (q + 1)" if "q * 1440 + r = b" "r < 1440" for q r b :: nat using that by simp
      from this [OF div_mult_mod_eq [of base 1440]] show ?thesis by simp
    qed
    also have "(x + 1440 * (base div 1440 + 1)) mod 1440 = x" unfolding mod_mult_self2 using x(2) by simp
    finally show ?thesis .
  qed
  then show ?thesis unfolding base_def [symmetric] Let_def day using x by simp
qed


lemma unat_succ_small: "unat (x :: uint64) < 2 ^ 63 \<Longrightarrow> unat (x + 1) = unat x + 1"
  by (subst unat_add_lem [where 'a = 64, simplified, THEN iffD1]) simp_all

lemma word_unat_less: "unat (t :: uint64) < 2 ^ 64"
  using unsigned_less [of t] by simp

theorem clock_roundtrip: "tick_of_clock (sim_clock t) = unat t"
proof -
  let ?t = "unat t"
  have "?t mod 90000 div 1440 < 2 ^ 63" "?t div 90000 div 4 < 2 ^ 63"
    using word_unat_less [of t] div_le_dividend [of "?t mod 90000" 1440] mod_less_divisor [of 90000 ?t] by (simp_all add: less_mult_imp_div_less)
  then have c: "unat (CYear (sim_clock t)) = ?t div 90000 div 4 + 1" "unat (CSeason (sim_clock t)) = ?t div 90000 mod 4"
    "unat (CDay (sim_clock t)) = ?t mod 90000 div 1440 + 1" "unat (CHour (sim_clock t)) = ?t div 60 mod 24"
    "unat (CMinute (sim_clock t)) = ?t mod 60"
    by (simp_all add: sim_clock_def Let_def TicksPerSimSeason_def TicksPerSimDay_def unat_div unat_mod unat_succ_small)
  show ?thesis
    unfolding tick_of_clock_def c using clock_nat [of ?t] div_mult_mod_eq [of "?t div 90000" 4] by (simp add: Let_def)
qed

end
