(* ===== verification/Factions.thy ===== *)
theory Factions
  imports Lifecycle
begin

section \<open>Factions (factions.go)\<close>

text \<open>
  Membership, influence, dues, patronage, policies, doctrines, defection and
  recruitment.  \<^verbatim>\<open>math.Log1p\<close> is an argument.  Maps whose iteration
  order cannot matter, because every key is written once from its own value,
  are folded over the faction slice.
\<close>

lemma upd_fact_simps [simp]:
  "fact (upd_fact p f s) = upd p f (fact s)" "agent (upd_fact p f s) = agent s" "settl (upd_fact p f s) = settl s"
  "Factions (upd_fact p f s) = Factions s" "Agents (upd_fact p f s) = Agents s" "Settlements (upd_fact p f s) = Settlements s"
  "SettlementAgents (upd_fact p f s) = SettlementAgents s" "SettlementIndex (upd_fact p f s) = SettlementIndex s"
  "AgentIndex (upd_fact p f s) = AgentIndex s" "WorldMap (upd_fact p f s) = WorldMap s"
  by (simp_all add: upd_fact_def)

lemma AgentIndex_ops [simp]:
  "AgentIndex (upd_agent p f s) = AgentIndex s" "AgentIndex (upd_settl q g s) = AgentIndex s"
  "AgentIndex (emit t d c s) = AgentIndex s" "AgentIndex (upd_counted p h s) = AgentIndex s"
  by (simp_all add: upd_agent_def upd_settl_def emit_def EmitEvent_def upd_counted_def split: prod.splits)

definition factionNameByID :: "uint64 \<Rightarrow> Sim \<Rightarrow> string" where
  "factionNameByID fid s =
     (case find_first (\<lambda>f. FID (fact s f) = fid) (Factions s) of None \<Rightarrow> [] | Some f \<Rightarrow> FName (fact s f))"

definition agentFactionName :: "Agent \<Rightarrow> Sim \<Rightarrow> string" where
  "agentFactionName a s = (case FactionID a of None \<Rightarrow> [] | Some fid \<Rightarrow> factionNameByID fid s)"

definition factionIndex :: "Sim \<Rightarrow> uint64 \<Rightarrow> ptr option" where
  "factionIndex s = index_by (\<lambda>f. FID (fact s f)) (Factions s)"

definition home_governance :: "Sim \<Rightarrow> Agent \<Rightarrow> GovernanceType" where
  "home_governance s a =
     (case Option.bind (HomeSettID a) (SettlementIndex s) of None \<Rightarrow> GovCommune | Some sp \<Rightarrow> Governance (settl s sp))"

text \<open>0 stands for no faction.\<close>

definition class_faction :: "Agent \<Rightarrow> uint64" where
  "class_faction a =
     (case SoulClass (Soul a) of
        Devotionalist \<Rightarrow>
          if Role a = RoleNoble \<or> Role a = RoleLeader then 1
          else if Psyche < float64 (CittaCoherence (Soul a)) then 4 else 0
      | Ritualist \<Rightarrow>
          if lit 0.12 < Combat (Skills a) then 3
          else if 150 < Wealth a \<and> lit 0.3 < CittaCoherence (Soul a) then 1 else 0
      | Nihilist \<Rightarrow> 5
      | Transcendentalist \<Rightarrow> 4)"

definition factionForAgent :: "Agent \<Rightarrow> GovernanceType \<Rightarrow> uint64" where
  "factionForAgent a govType =
     (case AOccupation a of
        OccupationSoldier \<Rightarrow> 3
      | OccupationMerchant \<Rightarrow> 2
      | OccupationScholar \<Rightarrow> 4
      | OccupationAlchemist \<Rightarrow> if SoulClass (Soul a) = Nihilist \<or> SoulClass (Soul a) = Transcendentalist then 5 else 4
      | OccupationHunter \<Rightarrow> if lit 0.15 < Combat (Skills a) then 3 else 0
      | _ \<Rightarrow>
          if govType = GovMonarchy \<and> (50 < Wealth a \<or> lit 0.3 < CittaCoherence (Soul a)) then 1
          else if govType = GovMerchantRepublic \<and> (lit 0.1 < TradeSkill (Skills a) \<or> 80 < Wealth a) then 2
          else class_faction a)"

definition join_faction :: "Sim \<Rightarrow> Agent \<Rightarrow> Agent" where
  "join_faction s a =
     (let fid = factionForAgent a (home_governance s a) in if 0 < fid then a\<lparr>FactionID := Some fid\<rparr> else a)"

subsection \<open>Influence\<close>

definition member_weight :: "uint64 \<Rightarrow> Agent \<Rightarrow> f64" where
  "member_weight fid a = (if fid = 3 \<and> AOccupation a = OccupationSoldier then Being else 1)"

definition aligned_influence :: "uint64 \<Rightarrow> GovernanceType \<Rightarrow> f64 \<Rightarrow> f64" where
  "aligned_influence fid gov influence =
     (if fid = 1 \<and> gov = GovMonarchy then influence + lit 15
      else if fid = 2 \<and> gov = GovMerchantRepublic then influence + lit 15
      else if fid = 3 \<and> gov = GovCouncil then influence + lit 5
      else if fid = 4 \<and> gov = GovCouncil then influence + lit 10 else influence)"

text \<open>The members of a faction among the living of a settlement, and their weighted count.\<close>

definition local_influence :: "uint64 \<Rightarrow> GovernanceType \<Rightarrow> Agent list \<Rightarrow> f64 option" where
  "local_influence fid gov living =
     (let members = filter (\<lambda>a. FactionID a = Some fid) living in
      if members = [] then None
      else Some (aligned_influence fid gov (sum_in_order (member_weight fid) members / flt_of_int (int (length living)) * lit 100)))"

definition influence_in :: "(uint64 \<Rightarrow> ptr option) \<Rightarrow> ptr \<Rightarrow> Sim \<Rightarrow> Sim" where
  "influence_in index sp s =
     (let living = filter Alive (map (agent s) (SettlementAgents s (SID (settl s sp)))) in
      if living = [] then s
      else fold (\<lambda>f s. if index (FID (fact s f)) \<noteq> Some f then s
                   else case local_influence (FID (fact s f)) (Governance (settl s sp)) living of
                          None \<Rightarrow> s
                        | Some x \<Rightarrow> upd_fact f (\<lambda>t. t\<lparr>Influence := (Influence t)(SID (settl s sp) \<mapsto> x)\<rparr>) s)
             (Factions s) s)"

definition updateFactionInfluence :: "Sim \<Rightarrow> Sim" where
  "updateFactionInfluence s =
     (let s1 = fold (\<lambda>f. upd_fact f (\<lambda>t. t\<lparr>Influence := Map.empty\<rparr>)) (Factions s) s
      in fold (influence_in (factionIndex s1)) (Settlements s1) s1)"

definition setRelation :: "uint64 \<Rightarrow> uint64 \<Rightarrow> f64 \<Rightarrow> Sim \<Rightarrow> Sim" where
  "setRelation a b value s =
     fold (\<lambda>f s. let s1 = (if FID (fact s f) = a then upd_fact f (\<lambda>t. t\<lparr>FRelations := (FRelations t)(b \<mapsto> value)\<rparr>) s else s)
              in if FID (fact s1 f) = b then upd_fact f (\<lambda>t. t\<lparr>FRelations := (FRelations t)(a \<mapsto> value)\<rparr>) s1 else s1)
       (Factions s) s"

definition seed_relations :: "(uint64 \<times> uint64 \<times> f64) list" where
  "seed_relations = [(1, 2, - lit 20), (1, 3, lit 30), (1, 4, lit 10), (1, 5, - lit 50), (2, 3, - lit 10), (2, 4, lit 20),
     (2, 5, - lit 30), (3, 4, - lit 20), (3, 5, - lit 40), (4, 5, - lit 60)]"

text \<open>\<open>ps\<close> are the fresh addresses of the seed factions.\<close>

definition InitFactions :: "ptr list \<Rightarrow> Sim \<Rightarrow> Sim" where
  "InitFactions ps s =
     (let s1 = fold (\<lambda>(p, f). upd_fact p (\<lambda>_. f)) (zip ps SeedFactions) (s\<lparr>Factions := ps\<rparr>);
          s2 = fold (\<lambda>(a, b, v). setRelation a b v) seed_relations s1;
          s3 = fold (\<lambda>p s. if Alive (agent s p) then upd_agent p (join_faction s) s else s) (Agents s2) s2
      in updateFactionInfluence s3)"

definition SetFactions :: "ptr list \<Rightarrow> Sim \<Rightarrow> Sim" where
  "SetFactions ps s = s\<lparr>Factions := ps\<rparr>"

subsection \<open>Dues and patronage\<close>

definition dues_of :: "Agent \<Rightarrow> uint64" where
  "dues_of a =
     (let d0 = word_of_flt (flt_of_word (Wealth a) * Agnosis * lit 0.01);
          d1 = (if d0 < 1 then 1 else d0)
      in if Wealth a < d1 then Wealth a else d1)"

definition pay_dues :: "(uint64 \<Rightarrow> ptr option) \<Rightarrow> ptr \<Rightarrow> Sim \<Rightarrow> Sim" where
  "pay_dues index p s =
     (let a = agent s p in
      if \<not> Alive a \<or> Wealth a \<le> 30 then s
      else case Option.bind (FactionID a) index of
             None \<Rightarrow> s
           | Some f \<Rightarrow> upd_fact f (\<lambda>t. t\<lparr>FTreasury := FTreasury t + dues_of a\<rparr>) (upd_agent p (lose_wealth (dues_of a)) s))"

definition collectFactionDues :: "Sim \<Rightarrow> Sim" where
  "collectFactionDues s = fold (pay_dues (factionIndex s)) (Agents s) s"

definition verdant_multiplier :: "Occupation \<Rightarrow> f64" where
  "verdant_multiplier oc =
     (if oc \<in> {OccupationFarmer, OccupationFisher, OccupationLaborer, OccupationMiner, OccupationAlchemist} then Nous
      else if oc = OccupationHunter then Being
      else if oc \<in> {OccupationSoldier, OccupationMerchant} then Agnosis * lit 0.5 else Monad)"

definition factionPatronageWeight :: "(f64 \<Rightarrow> f64) \<Rightarrow> uint64 \<Rightarrow> Agent \<Rightarrow> f64" where
  "factionPatronageWeight log1p fid a =
     (let coherence = float64 (CittaCoherence (Soul a)); wealth = flt_of_word (Wealth a) in
      if fid = 1 then (1 + coherence * Being) * (if Role a = RoleNoble \<or> Role a = RoleLeader then Being else 1)
      else if fid = 2 then (float64 (TradeSkill (Skills a)) * Being + Agnosis)
             * (if AOccupation a = OccupationMerchant then Being else 1) / (1 + log1p wealth * Agnosis)
      else if fid = 3 then float64 (Combat (Skills a)) * Nous
             + (case Role a of RoleSoldier \<Rightarrow> Nous | RoleOutlaw \<Rightarrow> Agnosis | _ \<Rightarrow> 0)
      else if fid = 4 then verdant_multiplier (AOccupation a) * (1 + coherence * Psyche)
      else if fid = 5 then
        (let antiWealth = 1 - math_Min (wealth / lit 5000) 1;
             c0 = (if SoulClass (Soul a) = Nihilist \<or> SoulClass (Soul a) = Transcendentalist then Nous else 0);
             classBonus = (if Role a = RoleOutlaw then c0 + Agnosis else c0)
         in Being * antiWealth + classBonus)
      else 0)"

definition applyPatronageNeeds :: "uint64 \<Rightarrow> Agent \<Rightarrow> Agent" where
  "applyPatronageNeeds fid a =
     clamp_agent
       (if fid = 1 then add_needs 0 (lit 0.005) (lit 0.010) (lit 0.015) 0 a
        else if fid = 2 then add_needs 0 (lit 0.008) 0 (lit 0.010) (lit 0.020) a
        else if fid = 3 then add_needs 0 (lit 0.020) (lit 0.015) (lit 0.005) 0 a
        else if fid = 4 then add_needs (lit 0.003) 0 (lit 0.015) 0 (lit 0.020) a
        else if fid = 5 then add_needs 0 (- lit 0.005) (lit 0.020) 0 (lit 0.015) a
        else a)"

text \<open>The weights are taken before any payment is made.\<close>

definition factionMembers :: "(f64 \<Rightarrow> f64) \<Rightarrow> Sim \<Rightarrow> uint64 \<Rightarrow> (ptr \<times> f64) list" where
  "factionMembers log1p s fid =
     concat (map (\<lambda>p. let a = agent s p; w = factionPatronageWeight log1p fid a in
                   if Alive a \<and> FactionID a = Some fid \<and> 0 < w then [(p, w)] else []) (Agents s))"

definition pay_patron :: "uint64 \<Rightarrow> uint64 \<Rightarrow> f64 \<Rightarrow> ptr \<times> f64 \<Rightarrow> Sim \<times> uint64 \<Rightarrow> (Sim \<times> uint64) option" where
  "pay_patron fid budget totalWeight m st =
     (let (s, paid) = st; payment = word_of_flt (flt_of_word budget * snd m / totalWeight) in
      if payment = 0 then Some st
      else if budget < paid + payment then None
      else Some (upd_agent (fst m) (\<lambda>a. applyPatronageNeeds fid (gain_wealth payment a)) s, paid + payment))"

definition patronage_of :: "(uint64 \<Rightarrow> (ptr \<times> f64) list) \<Rightarrow> uint64 \<Rightarrow> ptr \<Rightarrow> Sim \<Rightarrow> Sim" where
  "patronage_of membersOf tick f s =
     (let members = membersOf (FID (fact s f));
          budget = word_of_flt (flt_of_word (FTreasury (fact s f)) * Agnosis * lit 0.1);
          totalWeight = fold (\<lambda>m t. t + snd m) members 0
      in if FTreasury (fact s f) = 0 \<or> members = [] \<or> budget = 0 \<or> totalWeight = 0 then s
         else let (s1, paid) = for_break (pay_patron (FID (fact s f)) budget totalWeight) members (s, 0);
                  s2 = upd_fact f (\<lambda>t. t\<lparr>FTreasury := FTreasury t - paid\<rparr>) s1
              in emit tick (FName (fact s f) @ '' distributes '' @ show_word paid @ '' crowns in patronage to ''
                   @ show_int (int (length members)) @ '' members'') CategoryEconomy s2)"

definition distributeFactionPatronage :: "(f64 \<Rightarrow> f64) \<Rightarrow> uint64 \<Rightarrow> Sim \<Rightarrow> Sim" where
  "distributeFactionPatronage log1p tick s = fold (patronage_of (factionMembers log1p s) tick) (Factions s) s"

subsection \<open>Policies and tension\<close>

text \<open>The faction with the highest positive influence, the first of them, and that influence.\<close>

definition dominantFaction :: "Sim \<Rightarrow> uint64 \<Rightarrow> ptr option \<times> f64" where
  "dominantFaction s settID =
     fold (\<lambda>f (dom, highest). case Influence (fact s f) settID of
             Some infl \<Rightarrow> if highest < infl then (Some f, infl) else (dom, highest)
           | None \<Rightarrow> (dom, highest)) (Factions s) (None, 0)"

definition factionPreferredGov :: "uint64 \<Rightarrow> GovernanceType" where
  "factionPreferredGov fid =
     (if fid = 1 then GovMonarchy else if fid = 2 then GovMerchantRepublic
      else if fid = 4 \<or> fid = 3 then GovCouncil else GovMonarchy)"

definition nudge_tax :: "f64 \<Rightarrow> f64 \<Rightarrow> Settlement \<Rightarrow> Settlement" where
  "nudge_tax preference strength t = t\<lparr>TaxRate := clamp (lit 0.01) (lit 0.30) (TaxRate t + preference * strength)\<rparr>"

definition nudge_governance :: "uint64 \<Rightarrow> uint64 \<Rightarrow> f64 \<Rightarrow> f64 \<Rightarrow> Settlement \<Rightarrow> Settlement" where
  "nudge_governance fid tick highest strength t =
     (if fid = 1 then t\<lparr>GovernanceScore := GovernanceScore t + strength * lit 0.5\<rparr>
      else if fid = 2 then
        (if MarketLevel t < 5 \<and> lit 40 < highest \<and> tick mod ucast (MarketLevel t + 2) = 0
         then t\<lparr>MarketLevel := MarketLevel t + 1\<rparr> else t)
      else if fid = 3 then t\<lparr>GovernanceScore := GovernanceScore t + strength * lit 0.3\<rparr>
      else if fid = 4 then t\<lparr>GovernanceScore := GovernanceScore t + strength * lit 0.4\<rparr>
      else if fid = 5 then t\<lparr>GovernanceScore := GovernanceScore t - strength * lit 0.5\<rparr>
      else t)"

definition drift_culture :: "uint64 \<Rightarrow> f32 \<Rightarrow> Settlement \<Rightarrow> Settlement" where
  "drift_culture fid d t =
     (let tr = CultureTradition t; op = CultureOpenness t; mi = CultureMilitarism t;
          (tr', op', mi') =
            (if fid = 1 then (tr + d, op, mi + d * lit 0.3)
             else if fid = 2 then (tr - d, op + d, mi - d)
             else if fid = 3 then (tr + d * lit 0.5, op - d * lit 0.5, mi + d)
             else if fid = 4 then (tr - d * lit 0.5, op + d * lit 0.5, mi - d * lit 0.5)
             else if fid = 5 then (tr - d, op - d * lit 0.5, mi)
             else (tr, op, mi))
      in t\<lparr>CultureTradition := clamp (- 1) 1 tr', CultureOpenness := clamp (- 1) 1 op',
           CultureMilitarism := clamp (- 1) 1 mi'\<rparr>)"

definition mismatch_pressure :: "uint64 \<Rightarrow> f64 \<Rightarrow> Settlement \<Rightarrow> Settlement" where
  "mismatch_pressure fid highest t =
     (let preferredGov = factionPreferredGov fid;
          t1 = (if preferredGov \<noteq> GovMonarchy \<and> preferredGov \<noteq> Governance t
                then t\<lparr>GovernanceScore := GovernanceScore t - highest / lit 100 * Agnosis * lit 0.05\<rparr> else t)
      in t1\<lparr>GovernanceScore := clamp 0 1 (GovernanceScore t1)\<rparr>)"

definition faction_policy :: "uint64 \<Rightarrow> Faction \<Rightarrow> f64 \<Rightarrow> Settlement \<Rightarrow> Settlement" where
  "faction_policy tick f highest t =
     (let strength = highest / lit 100 * Agnosis * lit 0.1 in
      mismatch_pressure (FID f) highest
        (drift_culture (FID f) (float32 (strength * lit 0.5))
          (nudge_governance (FID f) tick highest strength (nudge_tax (TaxPreference f) strength t))))"

definition applyFactionPolicies :: "uint64 \<Rightarrow> Sim \<Rightarrow> Sim" where
  "applyFactionPolicies tick s =
     fold (\<lambda>sp s. case dominantFaction s (SID (settl s sp)) of
             (None, _) \<Rightarrow> s
           | (Some f, highest) \<Rightarrow>
               if highest < lit 15 then s else upd_settl sp (faction_policy tick (fact s f) highest) s)
       (Settlements s) s"

definition sour :: "ptr \<Rightarrow> ptr \<Rightarrow> Sim \<Rightarrow> Sim" where
  "sour f g s = upd_fact f (\<lambda>t. t\<lparr>FRelations := (FRelations t)(FID (fact s g) \<mapsto>
     (case FRelations t (FID (fact s g)) of None \<Rightarrow> 0 | Some r \<Rightarrow> r) - Agnosis * lit 5)\<rparr>) s"

fun tension_pass :: "uint64 \<Rightarrow> string \<Rightarrow> ptr list \<Rightarrow> Sim \<Rightarrow> Sim" where
  "tension_pass tick place [] s = s"
| "tension_pass tick place (f1 # fs) s =
     tension_pass tick place fs
       (fold (\<lambda>f2 s. emit tick (''Tension rises between '' @ FName (fact s f1) @ '' and '' @ FName (fact s f2)
                         @ '' in '' @ place) CategoryPolitical (sour f2 f1 (sour f1 f2 s))) fs s)"

definition checkFactionTensions :: "uint64 \<Rightarrow> Sim \<Rightarrow> Sim" where
  "checkFactionTensions tick s =
     fold (\<lambda>sp s. tension_pass tick (SName (settl s sp))
             (filter (\<lambda>f. case Influence (fact s f) (SID (settl s sp)) of None \<Rightarrow> False | Some infl \<Rightarrow> lit 40 < infl)
               (Factions s)) s)
       (Settlements s) s"

definition adjustFactionInfluenceFromCrime :: "uint64 \<Rightarrow> Sim \<Rightarrow> Sim" where
  "adjustFactionInfluenceFromCrime settID s =
     fold (\<lambda>f. upd_fact f (\<lambda>t.
            if FID t = 1 then
              (case Influence t settID of
                 None \<Rightarrow> t
               | Some infl \<Rightarrow> if 1 < infl then t\<lparr>Influence := (Influence t)(settID \<mapsto> infl - lit 0.5)\<rparr> else t)
            else if FID t = 5 then
              t\<lparr>Influence := (Influence t)(settID \<mapsto>
                 (case Influence t settID of None \<Rightarrow> 0 | Some infl \<Rightarrow> infl) + lit 0.3)\<rparr>
            else t))
       (Factions s) s"

definition drift_relations :: "Faction \<Rightarrow> Faction" where
  "drift_relations f =
     f\<lparr>FRelations := (\<lambda>other. map_option (\<lambda>rel. rel - rel * Agnosis * lit 0.1) (FRelations f other))\<rparr>"

definition processFactionMaintenance :: "(f64 \<Rightarrow> f64) \<Rightarrow> uint64 \<Rightarrow> Sim \<Rightarrow> Sim" where
  "processFactionMaintenance log1p tick s =
     (let s1 = checkFactionTensions tick (applyFactionPolicies tick
                 (distributeFactionPatronage log1p tick (collectFactionDues (updateFactionInfluence s))))
      in fold (\<lambda>f. upd_fact f drift_relations) (Factions s1) s1)"

subsection \<open>Doctrine, defection and recruitment\<close>

definition processFactionAssignmentFallback :: "Sim \<Rightarrow> Sim" where
  "processFactionAssignmentFallback s =
     fold (\<lambda>p s. if \<not> Alive (agent s p) \<or> FactionID (agent s p) \<noteq> None then s
              else upd_agent p (join_faction s) s) (Agents s) s"

definition home_of :: "Sim \<Rightarrow> Agent \<Rightarrow> Settlement option" where
  "home_of s a = map_option (settl s) (Option.bind (HomeSettID a) (SettlementIndex s))"

definition agentFulfillsDoctrine :: "Map \<Rightarrow> Agent \<Rightarrow> uint64 \<Rightarrow> Settlement option \<Rightarrow> uint64 \<Rightarrow> bool" where
  "agentFulfillsDoctrine m a fid sett tick \<longleftrightarrow>
     (if fid = 1 then (case sett of None \<Rightarrow> False | Some t \<Rightarrow> Psyche < GovernanceScore t)
      else if fid = 2 then AOccupation a = OccupationMerchant \<and> tick - LastWorkTick a < TicksPerSimDay * 7
      else if fid = 3 then AOccupation a = OccupationSoldier
             \<and> (case sett of None \<Rightarrow> False | Some t \<Rightarrow> Agnosis < GovernanceScore t)
      else if fid = 4 then
        (if TicksPerSimDay * 7 \<le> tick - LastWorkTick a then False
         else case sett of None \<Rightarrow> False
              | Some t \<Rightarrow> (case map_Get m (SPosition t) of None \<Rightarrow> False | Some h \<Rightarrow> Psyche < HexHealth h))
      else if fid = 5 then Wealth a < 30 \<or> float32 Matter < Belonging (Needs a)
      else False)"

definition doctrine_boost :: f32 where
  "doctrine_boost = float32 (Agnosis * Agnosis * lit 0.04)"

definition apply_doctrine :: "uint64 \<Rightarrow> ptr \<Rightarrow> Sim \<Rightarrow> Sim" where
  "apply_doctrine tick p s =
     (let a = agent s p in
      case FactionID a of
        None \<Rightarrow> s
      | Some fid \<Rightarrow>
          if \<not> Alive a \<or> Age a < 16 \<or> \<not> agentFulfillsDoctrine (WorldMap s) a fid (home_of s a) tick then s
          else let s1 = upd_agent p (\<lambda>a. a\<lparr>Soul := AdjustCoherence doctrine_boost (Soul a)\<rparr>) s in
               if StateFromCoherence (CittaCoherence (Soul (agent s1 p))) \<noteq> StateFromCoherence (CittaCoherence (Soul a))
                  \<and> Tier1 \<le> Tier a
               then emit tick (AName a @ '' experiences a doctrine awakening through '' @ factionNameByID fid s
                      @ '' teachings'') CategorySpiritual s1
               else s1)"

definition applyFactionDoctrines :: "uint64 \<Rightarrow> Sim \<Rightarrow> Sim" where
  "applyFactionDoctrines tick s = fold (apply_doctrine tick) (Agents s) s"

definition defection_hash :: "uint64 \<Rightarrow> uint64 \<Rightarrow> uint64" where
  "defection_hash aid tick = (aid * 2654435761 + tick * 40503) mod 100000"

definition defect :: "uint64 \<Rightarrow> ptr \<Rightarrow> Sim \<Rightarrow> Sim" where
  "defect tick p s =
     (let a = agent s p; forget = s\<lparr>DoctrineFailWeeks := (DoctrineFailWeeks s)(AID a := None)\<rparr> in
      case FactionID a of
        None \<Rightarrow> forget
      | Some fid \<Rightarrow>
          if \<not> Alive a then forget
          else if agentFulfillsDoctrine (WorldMap s) a fid (home_of s a) tick then forget
          else
            let failWeeks = (case DoctrineFailWeeks s (AID a) of None \<Rightarrow> 0 | Some n \<Rightarrow> n) + 1;
                s1 = s\<lparr>DoctrineFailWeeks := (DoctrineFailWeeks s)(AID a \<mapsto> failWeeks)\<rparr>
            in if failWeeks < 4 then s1
               else if Agnosis \<le> flt_of_word (defection_hash (AID a) tick) / lit 100000 then s1
               else
                 let s2 = upd_agent p (\<lambda>a. a\<lparr>FactionID := None\<rparr>) forget in
                 if Tier1 \<le> Tier a
                 then emit tick (AName a @ '' left '' @ factionNameByID fid s @ '' after failing to fulfill its doctrine'')
                        CategoryPolitical s2
                 else s2)"

definition processFactionDefection :: "uint64 \<Rightarrow> Sim \<Rightarrow> Sim" where
  "processFactionDefection tick s = fold (defect tick) (Agents s) s"

definition recruitmentProbability :: "f64 \<Rightarrow> f64 \<Rightarrow> f64" where
  "recruitmentProbability bestScore totalInfluence =
     (if totalInfluence \<le> 0 then 0 else bestScore / totalInfluence * Psyche)"

definition best_faction :: "uint64 \<Rightarrow> (uint64 \<times> f64) list \<Rightarrow> uint64 \<times> f64" where
  "best_faction affinity active =
     fold (\<lambda>(fid, infl) (bestFID, bestScore).
            let score = (if fid = affinity then infl * Being else infl) in
            if bestScore < score then (fid, score) else (bestFID, bestScore)) active (0, 0)"

definition unaffiliated_adult :: "Agent \<Rightarrow> bool" where
  "unaffiliated_adult a \<longleftrightarrow> Alive a \<and> FactionID a = None \<and> \<not> Age a < 16"

text \<open>\<open>unaffBySett\<close>, built before any recruitment; keyed by the identifier of the settlement found.\<close>

definition unaffBySett :: "Sim \<Rightarrow> uint64 \<Rightarrow> ptr list" where
  "unaffBySett s settID =
     filter (\<lambda>p. unaffiliated_adult (agent s p)
              \<and> map_option (\<lambda>sp. SID (settl s sp)) (Option.bind (HomeSettID (agent s p)) (SettlementIndex s)) = Some settID)
       (Agents s)"

definition local_factions :: "Sim \<Rightarrow> uint64 \<Rightarrow> (uint64 \<times> f64) list" where
  "local_factions s settID =
     concat (map (\<lambda>f. case Influence (fact s f) settID of
                    Some infl \<Rightarrow> if 0 < infl then [(FID (fact s f), infl)] else []
                  | None \<Rightarrow> []) (Factions s))"

definition try_recruit :: "uint64 \<Rightarrow> int \<Rightarrow> Settlement \<Rightarrow> (uint64 \<times> f64) list \<Rightarrow> f64 \<Rightarrow> ptr \<Rightarrow> Sim \<times> int \<Rightarrow> (Sim \<times> int) option" where
  "try_recruit tick limit sett active totalInfluence p st =
     (let (s, recruited) = st; a = agent s p;
          (bestFID, bestScore) = best_faction (factionForAgent a (Governance sett)) active;
          hash = (AID a * 2654435761 + tick * 40503 + SID sett * 7) mod 100000
      in if limit \<le> recruited then None
         else if bestFID = 0 then Some st
         else if recruitmentProbability bestScore totalInfluence \<le> flt_of_word hash / lit 100000 then Some st
         else let s1 = upd_agent p (\<lambda>a. a\<lparr>FactionID := Some bestFID\<rparr>) s in
              Some (if Tier1 \<le> Tier a
                    then emit tick (AName a @ '' joined '' @ factionNameByID bestFID s1 @ '' through local influence in ''
                           @ SName sett) CategoryPolitical s1
                    else s1, recruited + 1))"

definition recruit_in :: "uint64 \<Rightarrow> (uint64 \<Rightarrow> ptr list) \<Rightarrow> ptr \<Rightarrow> Sim \<Rightarrow> Sim" where
  "recruit_in tick pool sp s =
     (let sett = settl s sp; unaffiliated = pool (SID sett);
          limit = int_of_flt (math_Max 1 (flt_of_int (int (length unaffiliated)) * Agnosis));
          active = local_factions s (SID sett);
          totalInfluence = fold (\<lambda>(_, infl) total. total + infl) active 0
      in if unaffiliated = [] \<or> active = [] \<or> totalInfluence = 0 then s
         else fst (for_break (try_recruit tick limit sett active totalInfluence) unaffiliated (s, 0)))"

definition processFactionRecruitmentByInfluence :: "uint64 \<Rightarrow> Sim \<Rightarrow> Sim" where
  "processFactionRecruitmentByInfluence tick s = fold (recruit_in tick (unaffBySett s)) (Settlements s) s"

end
