(* ===== verification/Society.thy ===== *)
theory Society
  imports Factions Relations_Model
begin

section \<open>Bonds, crime, governance and the spiritual week\<close>

text \<open>
  \<^verbatim>\<open>relationships.go\<close>, \<^verbatim>\<open>narrative_memories.go\<close>,
  \<^verbatim>\<open>crime.go\<close>, \<^verbatim>\<open>governance.go\<close>,
  \<^verbatim>\<open>trauma_decay.go\<close>, \<^verbatim>\<open>reincarnation.go\<close> and
  \<^verbatim>\<open>monastic.go\<close>.  The numbers drawn from a seeded generator are
  arguments: a draw \<open>r i\<close> is the \<open>i\<close>-th number of the generator the function
  makes.
\<close>

subsection \<open>Bonds between agents (relationships.go)\<close>

fun adjust_first :: "('a \<Rightarrow> bool) \<Rightarrow> ('a \<Rightarrow> 'a) \<Rightarrow> 'a list \<Rightarrow> 'a list" where
  "adjust_first P f [] = []"
| "adjust_first P f (x # xs) = (if P x then f x # xs else x # adjust_first P f xs)"

definition hasRelationshipWith :: "Agent \<Rightarrow> uint64 \<Rightarrow> bool" where
  "hasRelationshipWith a target = list_ex (\<lambda>rel. TargetID rel = target) (Relationships a)"

definition relationshipSentiment :: "Agent \<Rightarrow> uint64 \<Rightarrow> f32" where
  "relationshipSentiment a target =
     (case find_first (\<lambda>rel. TargetID rel = target) (Relationships a) of None \<Rightarrow> 0 | Some rel \<Rightarrow> Sentiment rel)"

definition cap_one :: "f32 \<Rightarrow> f32" where
  "cap_one x = (if 1 < x then 1 else x)"

definition warm :: "f32 \<Rightarrow> f32 \<Rightarrow> Relationship \<Rightarrow> Relationship" where
  "warm ds dt rel = rel\<lparr>Sentiment := cap_one (Sentiment rel + ds), Trust := cap_one (Trust rel + dt)\<rparr>"

definition boostRelationship :: "uint64 \<Rightarrow> f32 \<Rightarrow> f32 \<Rightarrow> Agent \<Rightarrow> Agent" where
  "boostRelationship target sentimentBoost trustBoost a =
     a\<lparr>Relationships := adjust_first (\<lambda>rel. TargetID rel = target) (warm sentimentBoost trustBoost) (Relationships a)\<rparr>"

definition strengthenBond :: "uint64 \<Rightarrow> Agent \<Rightarrow> Agent" where
  "strengthenBond to a =
     (if hasRelationshipWith a to
      then boostRelationship to (float32 (Agnosis * lit 0.1)) (float32 (Agnosis * lit 0.05)) a
      else if 20 \<le> length (Relationships a) then a
      else a\<lparr>Relationships := Relationships a @
             [\<lparr>TargetID = to, Sentiment = float32 (Agnosis * lit 0.2), Trust = float32 (Agnosis * lit 0.1)\<rparr>]\<rparr>)"

definition chill :: "f32 \<Rightarrow> f32 \<Rightarrow> Relationship \<Rightarrow> Relationship" where
  "chill ds dt rel =
     rel\<lparr>Sentiment := (if Sentiment rel - ds < - 1 then - 1 else Sentiment rel - ds),
         Trust := (if Trust rel - dt < 0 then 0 else Trust rel - dt)\<rparr>"

definition damageRelationship :: "uint64 \<Rightarrow> f32 \<Rightarrow> f32 \<Rightarrow> Agent \<Rightarrow> Agent" where
  "damageRelationship target sentimentDmg trustDmg a =
     (if hasRelationshipWith a target
      then a\<lparr>Relationships := adjust_first (\<lambda>rel. TargetID rel = target) (chill sentimentDmg trustDmg) (Relationships a)\<rparr>
      else if length (Relationships a) < 20
           then a\<lparr>Relationships := Relationships a @ [\<lparr>TargetID = target, Sentiment = - sentimentDmg, Trust = 0\<rparr>]\<rparr>
           else a)"

subsection \<open>Memories of others (narrative\_memories.go)\<close>

definition sageDeathRelationshipThreshold :: f32 where "sageDeathRelationshipThreshold = float32 Psyche"
definition ordinaryDeathRelationshipThreshold :: f32 where "ordinaryDeathRelationshipThreshold = float32 Matter"
definition importanceMarriage :: f32 where "importanceMarriage = lit 0.85"
definition importanceSageDeathClose :: f32 where "importanceSageDeathClose = lit 0.85"
definition importanceSageDeathDistant :: f32 where "importanceSageDeathDistant = lit 0.60"
definition importanceOrdinaryClose :: f32 where "importanceOrdinaryClose = lit 0.70"
definition importanceMentorshipStart :: f32 where "importanceMentorshipStart = lit 0.55"

definition death_imprint :: "string \<Rightarrow> bool \<Rightarrow> string \<Rightarrow> f32 \<Rightarrow> string \<times> f32" where
  "death_imprint name isLiberated settName sentiment =
     (let (content, importance) =
            (if isLiberated \<and> lit 0.7 \<le> sentiment
             then (''Lost '' @ name @ '', a dear friend. Sage of '' @ settName @ ''. Their light withdrawn.'', importanceSageDeathClose)
             else if isLiberated
             then (''Witnessed the passing of '' @ name @ '', sage of '' @ settName @ ''.'', importanceSageDeathDistant)
             else (''Lost '' @ name @ '', a friend, in '' @ settName @ ''.'', importanceOrdinaryClose));
          scaled = (if importance < importance * sentiment then importance else importance * sentiment)
      in (content, if scaled < importance * lit 0.5 then importance * lit 0.5 else scaled))"

definition imprintDeathMemories :: "ptr \<Rightarrow> bool \<Rightarrow> string \<Rightarrow> uint64 \<Rightarrow> Sim \<Rightarrow> Sim" where
  "imprintDeathMemories p isLiberated settName tick s =
     (let deceased = agent s p;
          threshold = (if isLiberated then sageDeathRelationshipThreshold else ordinaryDeathRelationshipThreshold)
      in case HomeSettID deceased of
           None \<Rightarrow> s
         | Some i \<Rightarrow>
             fold (\<lambda>w s. let witness = agent s w; sentiment = relationshipSentiment witness (AID deceased) in
                     if \<not> Alive witness \<or> AID witness = AID deceased then s
                     else if \<not> isLiberated \<and> Tier witness < Tier1 then s
                     else if sentiment < threshold then s
                     else let (content, importance) = death_imprint (AName deceased) isLiberated settName sentiment
                          in upd_agent w (AddMemory tick content importance) s)
               (SettlementAgents s i) s)"

definition imprintMarriageMemories :: "ptr \<Rightarrow> ptr \<Rightarrow> string \<Rightarrow> uint64 \<Rightarrow> Sim \<Rightarrow> Sim" where
  "imprintMarriageMemories p q settName tick s =
     (let contentA = ''Married '' @ AName (agent s q) @ '' in '' @ settName @ ''.'';
          contentB = ''Married '' @ AName (agent s p) @ '' in '' @ settName @ ''.''
      in upd_agent q (AddMemory tick contentB importanceMarriage) (upd_agent p (AddMemory tick contentA importanceMarriage) s))"

definition imprintMentorshipStartMemories :: "ptr \<Rightarrow> ptr \<Rightarrow> string \<Rightarrow> uint64 \<Rightarrow> Sim \<Rightarrow> Sim" where
  "imprintMentorshipStartMemories mentor mentee settName tick s =
     (let mentorContent = ''Took '' @ AName (agent s mentee) @ '' as my student in '' @ settName @ ''.'';
          menteeContent = ''Began studying under '' @ AName (agent s mentor) @ '' in '' @ settName @ ''.''
      in upd_agent mentee (AddMemory tick menteeContent importanceMentorshipStart)
           (upd_agent mentor (AddMemory tick mentorContent importanceMentorshipStart) s))"

subsection \<open>Families, mentors, rivals\<close>

definition home_name :: "Sim \<Rightarrow> Agent \<Rightarrow> string" where
  "home_name s a = (case home_of s a of None \<Rightarrow> ''the wilderness'' | Some t \<Rightarrow> SName t)"

definition add_belonging :: "f32 \<Rightarrow> Agent \<Rightarrow> Agent" where
  "add_belonging x a = a\<lparr>Needs := (Needs a)\<lparr>Belonging := cap_one (Belonging (Needs a) + x)\<rparr>\<rparr>"

definition add_purpose :: "f32 \<Rightarrow> Agent \<Rightarrow> Agent" where
  "add_purpose x a = a\<lparr>Needs := (Needs a)\<lparr>Purpose := cap_one (Purpose (Needs a) + x)\<rparr>\<rparr>"

definition has_partner :: "Agent \<Rightarrow> bool" where
  "has_partner a = list_ex (\<lambda>rel. lit 0.7 < Sentiment rel \<and> lit 0.5 < Trust rel) (Relationships a)"

definition suitor :: "Sim \<Rightarrow> Agent \<Rightarrow> Agent \<Rightarrow> bool" where
  "suitor s a b \<longleftrightarrow> Alive b \<and> \<not> Age b < 18 \<and> ASex b \<noteq> ASex a
     \<and> list_ex (\<lambda>rel. TargetID rel = AID a \<and> lit 0.3 < Sentiment rel) (Relationships b)"

definition best_match :: "Sim \<Rightarrow> Agent \<Rightarrow> ptr option" where
  "best_match s a =
     fst (fold (\<lambda>rel (best, bestScore).
                 if Sentiment rel \<le> bestScore then (best, bestScore)
                 else case AgentIndex s (TargetID rel) of
                        None \<Rightarrow> (best, bestScore)
                      | Some q \<Rightarrow> if suitor s a (agent s q) then (Some q, Sentiment rel) else (best, bestScore))
            (Relationships a) (None, lit 0.4))"

definition marry :: "uint64 \<Rightarrow> ptr \<Rightarrow> ptr \<Rightarrow> Sim \<Rightarrow> Sim" where
  "marry tick p q s =
     (let s1 = upd_agent p (boostRelationship (AID (agent s q)) (lit 0.3) (lit 0.2)) s;
          s2 = upd_agent q (boostRelationship (AID (agent s p)) (lit 0.3) (lit 0.2)) s1;
          s3 = upd_agent q (add_belonging (float32 (Agnosis * lit 0.3)))
                 (upd_agent p (add_belonging (float32 (Agnosis * lit 0.3))) s2);
          settName = home_name s3 (agent s3 p);
          s4 = emit tick (AName (agent s3 p) @ '' and '' @ AName (agent s3 q) @ '' have formed a family in '' @ settName)
                 CategorySocial s3
      in imprintMarriageMemories p q settName tick s4)"

definition formFamilies :: "ptr list \<Rightarrow> uint64 \<Rightarrow> Sim \<Rightarrow> Sim" where
  "formFamilies alive tick s =
     fold (\<lambda>p s. let a = agent s p in
             if Age a < 18 \<or> 50 < Age a \<or> has_partner a then s
             else case best_match s a of None \<Rightarrow> s | Some q \<Rightarrow> marry tick p q s) alive s"

definition mentor_pair :: "uint64 \<Rightarrow> ptr \<times> ptr \<Rightarrow> Sim \<Rightarrow> Sim" where
  "mentor_pair tick pr s =
     (let (mentee, mentor) = pr;
          s1 = upd_agent mentee (\<lambda>a. a\<lparr>Soul := AdjustCoherence (float32 (Agnosis * lit 0.025)) (Soul a)\<rparr>) s;
          s2 = upd_agent mentor (add_purpose (float32 (Agnosis * lit 0.1))) s1;
          firstPairing = (\<not> hasRelationshipWith (agent s2 mentor) (AID (agent s2 mentee)));
          s3 = upd_agent mentee (strengthenBond (AID (agent s2 mentor))) s2;
          s4 = upd_agent mentor (strengthenBond (AID (agent s3 mentee))) s3;
          settName = home_name s4 (agent s4 mentor);
          s5 = (if firstPairing then imprintMentorshipStartMemories mentor mentee settName tick s4 else s4)
      in if Tier1 \<le> Tier (agent s5 mentor)
         then emit tick (AName (agent s5 mentor) @ '' mentors '' @ AName (agent s5 mentee) @ '' in '' @ settName)
                CategorySocial s5
         else s5)"

definition processMentorship :: "ptr list \<Rightarrow> uint64 \<Rightarrow> Sim \<Rightarrow> Sim" where
  "processMentorship alive tick s =
     (let mentors = filter (\<lambda>p. lit 0.6 < CittaCoherence (Soul (agent s p))) alive;
          mentees = filter (\<lambda>p. \<not> lit 0.6 < CittaCoherence (Soul (agent s p))
                               \<and> CittaCoherence (Soul (agent s p)) < lit 0.3) alive
      in fold (mentor_pair tick) (zip mentees mentors) s)"

definition rivalry :: "counted \<Rightarrow> counted" where
  "rivalry ac =
     (let (a, c) = ac;
          (a1, c1) = ApplyDirectSatBump (- lit 0.02) ''rivalry'' (a\<lparr>Skills := (Skills a)\<lparr>TradeSkill := TradeSkill (Skills a) + lit 0.002\<rparr>\<rparr>, c)
      in (if Satisfaction (Wellbeing a1) < - 1 then a1\<lparr>Wellbeing := (Wellbeing a1)\<lparr>Satisfaction := - 1\<rparr>\<rparr> else a1, c1))"

definition rival_with :: "ptr \<Rightarrow> Relationship \<Rightarrow> Sim \<Rightarrow> Sim" where
  "rival_with p rel s =
     (if - lit 0.5 \<le> Sentiment rel then s
      else case AgentIndex s (TargetID rel) of
             None \<Rightarrow> s
           | Some q \<Rightarrow> if \<not> Alive (agent s q) \<or> Wealth (agent s p) \<le> 100 \<or> Wealth (agent s q) \<le> 100 then s
                       else upd_counted p rivalry s)"

definition processRivalries :: "ptr list \<Rightarrow> Sim \<Rightarrow> Sim" where
  "processRivalries alive s = fold (\<lambda>p s. fold (rival_with p) (Relationships (agent s p)) s) alive s"

definition recruit_friend :: "uint64 \<Rightarrow> uint64 \<Rightarrow> ptr \<Rightarrow> Relationship \<Rightarrow> Sim \<Rightarrow> Sim" where
  "recruit_friend tick fid p rel s =
     (if Sentiment rel \<le> lit 0.6 then s
      else case AgentIndex s (TargetID rel) of
             None \<Rightarrow> s
           | Some q \<Rightarrow>
               if \<not> Alive (agent s q) \<or> FactionID (agent s q) \<noteq> None then s
               else let s1 = upd_agent q (\<lambda>a. a\<lparr>FactionID := Some fid\<rparr>) s in
                    emit tick (AName (agent s1 p) @ '' recruited '' @ AName (agent s1 q) @ '' to '' @ factionNameByID fid s1)
                      CategorySocial s1)"

definition processFactionRecruitment :: "ptr list \<Rightarrow> uint64 \<Rightarrow> Sim \<Rightarrow> Sim" where
  "processFactionRecruitment alive tick s =
     fold (\<lambda>p s. case FactionID (agent s p) of
             None \<Rightarrow> s | Some fid \<Rightarrow> fold (recruit_friend tick fid p) (Relationships (agent s p)) s) alive s"

definition ProcessBetrayalExpulsion :: "ptr \<Rightarrow> ptr \<Rightarrow> uint64 \<Rightarrow> Sim \<Rightarrow> Sim" where
  "ProcessBetrayalExpulsion criminal victim tick s =
     (case (FactionID (agent s criminal), FactionID (agent s victim)) of
        (Some f, Some g) \<Rightarrow>
          if f \<noteq> g then s
          else let s1 = upd_agent criminal (\<lambda>a. a\<lparr>FactionID := None\<rparr>) s in
               emit tick (AName (agent s criminal) @ '' expelled from '' @ factionNameByID f s @ '' for betrayal against ''
                 @ AName (agent s victim)) CategoryPolitical s1
      | _ \<Rightarrow> s)"

text \<open>The pair of agents who meet in the \<open>i\<close>-th interaction of a day.\<close>

definition meeting :: "uint64 \<Rightarrow> uint64 \<Rightarrow> nat \<Rightarrow> nat \<Rightarrow> nat \<times> nat" where
  "meeting simDay settID n i =
     (let idx1 = unat ((simDay * of_nat (i + 1) + settID * 7) mod of_nat n);
          idx2 = unat ((simDay * of_nat (i + 1) * 3 + settID * 13 + 1) mod of_nat n)
      in (idx1, if idx1 = idx2 then (idx2 + 1) mod n else idx2))"

definition interactions :: "nat \<Rightarrow> nat" where
  "interactions n = min 20 (max 1 (n div 10))"

definition meet :: "uint64 \<Rightarrow> uint64 \<Rightarrow> ptr list \<Rightarrow> nat \<Rightarrow> Sim \<Rightarrow> Sim" where
  "meet simDay settID alive i s =
     (let (i1, i2) = meeting simDay settID (length alive) i; p = alive ! i1; q = alive ! i2;
          s1 = upd_agent p (strengthenBond (AID (agent s q))) s
      in upd_agent q (strengthenBond (AID (agent s1 p))) s1)"

definition relate_in :: "uint64 \<Rightarrow> ptr \<Rightarrow> Sim \<Rightarrow> Sim" where
  "relate_in tick sp s =
     (let simDay = tick div TicksPerSimDay; settID = SID (settl s sp);
          alive = filter (\<lambda>p. Alive (agent s p) \<and> \<not> Age (agent s p) < 10) (SettlementAgents s settID)
      in if length alive < 2 then s
         else
           let s1 = fold (meet simDay settID alive) [0 ..< interactions (length alive)] s;
               s2 = (if simDay mod 7 = 0
                     then processFactionRecruitment alive tick (processMentorship alive tick (formFamilies alive tick s1))
                     else s1)
           in processRivalries alive s2)"

definition processRelationships :: "uint64 \<Rightarrow> Sim \<Rightarrow> Sim" where
  "processRelationships tick s = fold (relate_in tick) (Settlements s) s"

subsection \<open>Crime (crime.go)\<close>

definition deterrence_of :: "Sim \<Rightarrow> Settlement \<Rightarrow> nat \<Rightarrow> f64" where
  "deterrence_of s sett soldierCount =
     (let people = flt_of_word (Population sett) + 1;
          soldierRatio = flt_of_int (int soldierCount) / people;
          militaryBonus = 1 + soldierRatio * Being * lit 10;
          wallBonus = 1 + flt_of_word (WallLevel sett) * Psyche;
          cultureBonus = 1 + float64 (CultureMilitarism sett) * Agnosis * lit 0.5;
          diplomacyBonus = 1 + GetDiplomacyCrimeBonus s (SID sett);
          guardStrength = flt_of_word (Treasury sett) / people * GovernanceScore sett
            * militaryBonus * wallBonus * cultureBonus * diplomacyBonus
      in guardStrength / (guardStrength + Totality))"

definition is_soldier :: "Agent \<Rightarrow> bool" where
  "is_soldier a \<longleftrightarrow> Alive a \<and> AOccupation a = OccupationSoldier"

definition honour_soldier :: "f32 \<Rightarrow> f32 \<Rightarrow> Agent \<Rightarrow> Agent" where
  "honour_soldier purposeBoost esteemBoost a =
     a\<lparr>Needs := (Needs a)\<lparr>Purpose := cap_one (Purpose (Needs a) + purposeBoost),
                          Esteem := cap_one (Esteem (Needs a) + esteemBoost)\<rparr>\<rparr>"

definition steal_good :: "GoodType \<Rightarrow> ptr \<Rightarrow> ptr \<Rightarrow> Sim \<Rightarrow> Sim" where
  "steal_good g p v s = upd_agent p (inv_add g 1) (upd_agent v (inv_add g (- 1)) s)"

definition aggrieve :: "uint64 \<Rightarrow> f32 \<Rightarrow> f32 \<Rightarrow> ptr \<Rightarrow> ptr \<Rightarrow> Sim \<Rightarrow> Sim" where
  "aggrieve settID ds dt p v s =
     adjustFactionInfluenceFromCrime settID (upd_agent v (damageRelationship (AID (agent s p)) ds dt) s)"

definition steal_crowns :: "ptr \<Rightarrow> ptr \<Rightarrow> Sim \<Rightarrow> Sim" where
  "steal_crowns p v s =
     (let stolen = (if Wealth (agent s v) < 3 then Wealth (agent s v) else 3)
      in upd_agent p (gain_wealth stolen) (upd_agent v (lose_wealth stolen) s))"

definition theft :: "uint64 \<Rightarrow> ptr \<Rightarrow> ptr \<Rightarrow> Sim \<Rightarrow> Sim" where
  "theft settID p v s =
     (let a = agent s p; victim = agent s v in
      if Survival (Needs a) < lit 0.2 then
        (if 1 < Inventory victim GoodGrain then aggrieve settID (lit 0.3) (lit 0.2) p v (steal_good GoodGrain p v s)
         else if 1 < Inventory victim GoodFish then aggrieve settID (lit 0.3) (lit 0.2) p v (steal_good GoodFish p v s)
         else s)
      else if Wealth a < 5 \<and> 20 < Wealth victim then aggrieve settID (lit 0.4) (lit 0.3) p v (steal_crowns p v s)
      else s)"

definition fine_of :: "Agent \<Rightarrow> uint64" where
  "fine_of a =
     (let fine = word_of_flt (flt_of_word (Wealth a) * Agnosis) in if Wealth a < fine then Wealth a else fine)"

definition caught :: "uint64 \<Rightarrow> ptr \<Rightarrow> ptr \<Rightarrow> Sim \<Rightarrow> Sim" where
  "caught tick sp p s =
     (let s1 = upd_agent p (\<lambda>a. a\<lparr>Role := RoleOutlaw\<rparr>) s;
          s2 = upd_counted p (ApplyDirectSatBump (- lit 0.2) ''crime.caught'') s1;
          fine = fine_of (agent s2 p);
          s3 = upd_settl sp (gain_treasury fine) (upd_agent p (lose_wealth fine) s2)
      in emit tick (AName (agent s3 p) @ '' was caught stealing and branded an outlaw in '' @ SName (settl s3 sp))
           CategoryCrime s3)"

definition tempted :: "uint64 \<Rightarrow> f64 \<Rightarrow> Agent \<Rightarrow> bool" where
  "tempted simDay deterrence a \<longleftrightarrow>
     Alive a \<and> \<not> (lit 0.3 < Survival (Needs a) \<and> lit 0.2 < Safety (Needs a))
     \<and> \<not> float32 Matter < CittaCoherence (Soul a)
     \<and> \<not> (1 - float64 (Survival (Needs a))) * (1 - deterrence) * Agnosis
         < flt_of_word ((simDay * AID a) mod 100) / lit 100"

definition crime_of :: "uint64 \<Rightarrow> ptr \<Rightarrow> ptr list \<Rightarrow> f64 \<Rightarrow> nat \<times> ptr \<Rightarrow> Sim \<Rightarrow> Sim" where
  "crime_of tick sp settAgents deterrence ip s =
     (let (i, p) = ip; simDay = tick div TicksPerSimDay;
          v = settAgents ! unat ((simDay + of_nat i * 7) mod of_nat (length settAgents))
      in if \<not> tempted simDay deterrence (agent s p) then s
         else if AID (agent s v) = AID (agent s p) \<or> \<not> Alive (agent s v) then s
         else
           let s1 = ProcessBetrayalExpulsion p v tick (theft (SID (settl s sp)) p v s) in
           if lit 0.3 < deterrence
              \<and> flt_of_word ((simDay + AID (agent s1 p) * 3) mod 100) / lit 100 < deterrence
           then caught tick sp p s1 else s1)"

definition crime_in :: "uint64 \<Rightarrow> ptr \<Rightarrow> Sim \<Rightarrow> Sim" where
  "crime_in tick sp s =
     (let settAgents = SettlementAgents s (SID (settl s sp));
          soldiers = filter (\<lambda>p. is_soldier (agent s p)) settAgents;
          deterrence = deterrence_of s (settl s sp) (length soldiers);
          s1 = fold (\<lambda>p s. if is_soldier (agent s p)
                      then upd_agent p (honour_soldier (float32 (deterrence * Agnosis * lit 0.3))
                                          (float32 (deterrence * Agnosis * lit 0.2))) s
                      else s) settAgents s
      in if settAgents = [] then s
         else fold (crime_of tick sp settAgents deterrence) (enumerate 0 settAgents) s1)"

definition processCrime :: "uint64 \<Rightarrow> Sim \<Rightarrow> Sim" where
  "processCrime tick s = fold (crime_in tick) (Settlements s) s"

subsection \<open>Governance (governance.go)\<close>

definition select_best :: "(ptr \<Rightarrow> bool) \<Rightarrow> (ptr \<Rightarrow> 'k::linorder) \<Rightarrow> ptr list \<Rightarrow> ptr option" where
  "select_best ok key ps =
     fold (\<lambda>p best. if \<not> ok p then best
             else case best of None \<Rightarrow> Some p | Some b \<Rightarrow> if key b < key p then Some p else best) ps None"

definition selectLeaderByWealth :: "(ptr \<Rightarrow> Agent) \<Rightarrow> ptr list \<Rightarrow> CognitionTier \<Rightarrow> ptr option" where
  "selectLeaderByWealth h alive minTier =
     select_best (\<lambda>p. \<not> Tier (h p) < minTier) (\<lambda>p. Wealth (h p)) alive"

definition selectLeaderByCoherence :: "(ptr \<Rightarrow> Agent) \<Rightarrow> ptr list \<Rightarrow> ptr option" where
  "selectLeaderByCoherence h alive = select_best (\<lambda>_. True) (\<lambda>p. CittaCoherence (Soul (h p))) alive"

definition living_leader :: "Sim \<Rightarrow> Settlement \<Rightarrow> ptr option" where
  "living_leader s sett =
     (case Option.bind (SLeaderID sett) (AgentIndex s) of
        Some l \<Rightarrow> if Alive (agent s l) then Some l else None | None \<Rightarrow> None)"

definition succession_crisis :: "uint64 \<Rightarrow> uint64 \<Rightarrow> ptr \<Rightarrow> Sim \<Rightarrow> Sim" where
  "succession_crisis tick leaderID sp s =
     (let leaderName = (case AgentIndex s leaderID of None \<Rightarrow> ''the leader'' | Some l \<Rightarrow> AName (agent s l));
          s1 = upd_settl sp (\<lambda>t. t\<lparr>GovernanceScore :=
                 (if GovernanceScore t - lit 0.2 < 0 then 0 else GovernanceScore t - lit 0.2), SLeaderID := None\<rparr>) s
      in emit tick (leaderName @ '' of '' @ SName (settl s1 sp) @ '' has died, causing a succession crisis'')
           CategoryPolitical s1)"

definition choose_leader :: "uint64 \<Rightarrow> GovernanceType \<Rightarrow> (ptr \<Rightarrow> Agent) \<Rightarrow> ptr list \<Rightarrow> ptr option" where
  "choose_leader tick gov h alive =
     (case gov of
        GovMonarchy \<Rightarrow> (case selectLeaderByWealth h alive Tier2 of
                          None \<Rightarrow> selectLeaderByCoherence h alive | Some l \<Rightarrow> Some l)
      | GovCouncil \<Rightarrow> selectLeaderByCoherence h alive
      | GovMerchantRepublic \<Rightarrow> selectLeaderByWealth h alive Tier0
      | GovCommune \<Rightarrow> Some (alive ! unat (tick mod of_nat (length alive))))"

definition install_leader :: "uint64 \<Rightarrow> ptr \<Rightarrow> ptr \<Rightarrow> Sim \<Rightarrow> Sim" where
  "install_leader tick sp l s =
     (let s1 = upd_settl sp (\<lambda>t. t\<lparr>SLeaderID := Some (AID (agent s l))\<rparr>) s;
          s2 = upd_agent l (\<lambda>a. a\<lparr>Role := RoleLeader\<rparr>) s1
      in emit tick (AName (agent s2 l) @ '' becomes leader of '' @ SName (settl s2 sp)) CategoryPolitical s2)"

definition ensureLeader :: "ptr \<Rightarrow> ptr list \<Rightarrow> uint64 \<Rightarrow> Sim \<Rightarrow> Sim" where
  "ensureLeader sp alive tick s =
     (if living_leader s (settl s sp) \<noteq> None then s
      else
        let s1 = (case SLeaderID (settl s sp) of None \<Rightarrow> s | Some i \<Rightarrow> succession_crisis tick i sp s) in
        case choose_leader tick (Governance (settl s1 sp)) (agent s1) alive of
          None \<Rightarrow> s1 | Some l \<Rightarrow> install_leader tick sp l s1)"

definition decayGovernance :: "ptr \<Rightarrow> Sim \<Rightarrow> Sim" where
  "decayGovernance sp s =
     (let sett = settl s sp;
          target = (case living_leader s sett of
                      None \<Rightarrow> lit 0.3
                    | Some l \<Rightarrow> lit 0.3 + float64 (CittaCoherence (Soul (agent s l))) * lit 0.5);
          drift = (target - GovernanceScore sett) * Agnosis * lit 0.05
      in upd_settl sp (\<lambda>t. t\<lparr>GovernanceScore := clamp 0 1 (GovernanceScore t + drift)\<rparr>) s)"

text \<open>The second test compares the influence of \<open>f\<close> with itself, as the source does.\<close>

definition revolt_faction :: "Sim \<Rightarrow> uint64 \<Rightarrow> ptr option" where
  "revolt_faction s settID =
     fold (\<lambda>f dom. case Influence (fact s f) settID of
             None \<Rightarrow> dom
           | Some infl \<Rightarrow> if lit 40 < infl \<and> (dom = None \<or> the (Influence (fact s f) settID) < infl) then Some f else dom)
       (Factions s) None"

definition revolutionary :: "(ptr \<Rightarrow> Agent) \<Rightarrow> ptr list \<Rightarrow> ptr option" where
  "revolutionary h alive =
     select_best (\<lambda>p. float32 Psyche < CittaCoherence (Soul (h p))) (\<lambda>p. CittaCoherence (Soul (h p))) alive"

definition revolt_governance :: "uint64 \<Rightarrow> GovernanceType \<Rightarrow> GovernanceType" where
  "revolt_governance fid old =
     (if fid = 1 then GovMonarchy else if fid = 2 then GovMerchantRepublic else if fid = 3 then GovCouncil
      else if fid = 4 \<or> fid = 5 then GovCommune else old)"

definition govName :: "GovernanceType \<Rightarrow> string" where
  "govName g = (case g of GovMonarchy \<Rightarrow> ''Monarchy'' | GovCouncil \<Rightarrow> ''Council''
     | GovMerchantRepublic \<Rightarrow> ''Merchant Republic'' | GovCommune \<Rightarrow> ''Commune'')"

definition seized_of :: "Settlement \<Rightarrow> uint64" where
  "seized_of t = word_of_flt (flt_of_word (Treasury t) * lit 0.3 :: f64)"

definition revolt :: "uint64 \<Rightarrow> ptr \<Rightarrow> ptr \<Rightarrow> ptr \<Rightarrow> Sim \<Rightarrow> Sim" where
  "revolt tick sp f r s =
     (let old = settl s sp;
          s1 = upd_settl sp (\<lambda>t. t\<lparr>Governance := revolt_governance (FID (fact s f)) (Governance t)\<rparr>) s;
          s2 = (case living_leader s1 (settl s1 sp) of
                  None \<Rightarrow> s1 | Some l \<Rightarrow> upd_agent l (\<lambda>a. a\<lparr>Role := RoleCommoner\<rparr>) s1);
          s3 = upd_settl sp (\<lambda>t. t\<lparr>SLeaderID := Some (AID (agent s2 r))\<rparr>) s2;
          s4 = upd_agent r (\<lambda>a. a\<lparr>Role := RoleLeader\<rparr>) s3;
          seized = seized_of (settl s4 sp);
          s5 = upd_fact f (\<lambda>t. t\<lparr>FTreasury := FTreasury t + seized\<rparr>) (upd_settl sp (lose_treasury seized) s4);
          s6 = upd_settl sp (\<lambda>t. t\<lparr>GovernanceScore := lit 0.5\<rparr>) s5
      in emit tick (''REVOLUTION in '' @ SName old @ ''! '' @ AName (agent s6 r) @ '' leads uprising backed by ''
           @ FName (fact s6 f) @ ''. Governance changes from '' @ govName (Governance old) @ '' to ''
           @ govName (Governance (settl s6 sp)) @ ''. '' @ show_word seized @ '' crowns seized.'') CategoryPolitical s6)"

definition checkRevolution :: "ptr \<Rightarrow> ptr list \<Rightarrow> uint64 \<Rightarrow> Sim \<Rightarrow> Sim" where
  "checkRevolution sp alive tick s =
     (let sett = settl s sp; threshold = lit 0.3 - float64 (CultureTradition sett) * Agnosis * lit 0.1 in
      if threshold \<le> GovernanceScore sett then s
      else case revolt_faction s (SID sett) of
             None \<Rightarrow> s
           | Some f \<Rightarrow> (case revolutionary (agent s) alive of None \<Rightarrow> s | Some r \<Rightarrow> revolt tick sp f r s))"

definition govern :: "uint64 \<Rightarrow> ptr \<Rightarrow> Sim \<Rightarrow> Sim" where
  "govern tick sp s =
     (let alive = filter (\<lambda>p. Alive (agent s p) \<and> \<not> Age (agent s p) < 16) (SettlementAgents s (SID (settl s sp))) in
      if alive = [] then s
      else checkRevolution sp alive tick (decayGovernance sp (ensureLeader sp alive tick s)))"

definition processGovernance :: "uint64 \<Rightarrow> Sim \<Rightarrow> Sim" where
  "processGovernance tick s = fold (govern tick) (Settlements s) s"

subsection \<open>Trauma (trauma\_decay.go)\<close>

definition traumaWitnessBase :: f32 where "traumaWitnessBase = float32 (Agnosis * lit 0.05)"
definition traumaWitnessCap :: f32 where "traumaWitnessCap = float32 (Agnosis * lit 0.5)"
definition traumaVictimBase :: f32 where "traumaVictimBase = float32 (Agnosis * lit 0.025)"
definition traumaVictimCap :: f32 where "traumaVictimCap = float32 (Agnosis * lit 0.25)"
definition traumaLibMult :: f32 where "traumaLibMult = lit 2"

definition trauma_decay :: "f32 \<Rightarrow> f32 \<Rightarrow> f32 \<Rightarrow> f32 \<Rightarrow> Agent \<Rightarrow> f32" where
  "trauma_decay base cap intensity r a =
     (let jitter = lit 0.7 + r * lit 0.3;
          d0 = base * intensity * jitter;
          d1 = (if lit 0.7 \<le> CittaCoherence (Soul a) then d0 * traumaLibMult else d0)
      in if cap < d1 then cap else d1)"

definition traumatize :: "f32 \<Rightarrow> f32 \<Rightarrow> f32 \<Rightarrow> f32 \<Rightarrow> Agent \<Rightarrow> Agent" where
  "traumatize base cap intensity r a =
     a\<lparr>Soul := AdjustCoherence (- trauma_decay base cap intensity r a) (Soul a)\<rparr>"

definition applyTraumaToWitnesses :: "(nat \<Rightarrow> f32) \<Rightarrow> uint64 \<Rightarrow> f32 \<Rightarrow> Sim \<Rightarrow> Sim" where
  "applyTraumaToWitnesses r settID intensity s =
     (if intensity \<le> 0 then s
      else fst (fold (\<lambda>w (s, i). if \<not> Alive (agent s w) then (s, i)
                        else (upd_agent w (traumatize traumaWitnessBase traumaWitnessCap intensity (r i)) s, i + 1))
                  (SettlementAgents s settID) (s, 0)))"

definition applyTraumaToVictim :: "f32 \<Rightarrow> ptr \<Rightarrow> f32 \<Rightarrow> Sim \<Rightarrow> Sim" where
  "applyTraumaToVictim r victim intensity s =
     (if \<not> Alive (agent s victim) \<or> intensity \<le> 0 then s
      else upd_agent victim (traumatize traumaVictimBase traumaVictimCap intensity r) s)"

definition settlementHasTrauma :: "Settlement option \<Rightarrow> int \<Rightarrow> int \<Rightarrow> bool" where
  "settlementHasTrauma sett recentRaids recentDeaths \<longleftrightarrow>
     (case sett of
        None \<Rightarrow> False
      | Some t \<Rightarrow> Population t \<noteq> 0
          \<and> Agnosis * lit 0.05 < flt_of_int (recentRaids + recentDeaths) / flt_of_word (Population t))"

subsection \<open>The pool of liberated spirits (reincarnation.go)\<close>

definition ReincarnationAgeFloor :: uint16 where "ReincarnationAgeFloor = 30"

text \<open>A product of untyped constants, exact in Go and rounded once.\<close>

definition ReincarnationDenomFactor :: f64 where
  "ReincarnationDenomFactor = lit (1.6180339887498948 ^ 5)"

definition PoolDecayPerWeek :: f64 where
  "PoolDecayPerWeek = Agnosis * lit 0.05"

definition processSpiritsPoolDecay :: "(nat \<Rightarrow> f64) \<Rightarrow> Sim \<Rightarrow> Sim" where
  "processSpiritsPoolDecay r s =
     (if LiberatedSpiritsPool s \<le> 0 then s
      else s\<lparr>LiberatedSpiritsPool :=
             int (length (filter (\<lambda>i. PoolDecayPerWeek \<le> r i) [0 ..< nat (LiberatedSpiritsPool s)]))\<rparr>)"

text \<open>\<open>r1\<close> and \<open>r2\<close> are the two fractions drawn and \<open>n\<close> the integer below 200.\<close>

definition rollReincarnation :: "f64 \<Rightarrow> f64 \<Rightarrow> int \<Rightarrow> Sim \<Rightarrow> (f32 \<times> uint32) option \<times> Sim" where
  "rollReincarnation r1 r2 n s =
     (if LiberatedSpiritsPool s \<le> 0 \<or> Agents s = [] then (None, s)
      else if flt_of_int (LiberatedSpiritsPool s) / (flt_of_int (int (length (Agents s))) * ReincarnationDenomFactor) \<le> r1
      then (None, s)
      else (Some (float32 (lit 0.7 + r2 * lit 0.15), of_int (100 + n)),
            s\<lparr>LiberatedSpiritsPool := LiberatedSpiritsPool s - 1\<rparr>))"

definition em_dash :: string where
  "em_dash = map char_of [226, 128, 148 :: nat]"

definition applyReincarnation :: "ptr \<Rightarrow> f32 \<Rightarrow> uint32 \<Rightarrow> uint64 \<Rightarrow> Sim \<Rightarrow> Sim" where
  "applyReincarnation child seedCoherence seedWisdom tick s =
     (let s1 = upd_agent child (\<lambda>a. a\<lparr>Soul := UpdateState ((Soul a)\<lparr>CittaCoherence := seedCoherence,
                 WisdomEffort := seedWisdom, Reincarnated := True\<rparr>)\<rparr>) s
      in emit tick (AName (agent s1 child) @ '' is born in '' @ home_name s1 (agent s1 child)
           @ '' carrying the clarity of an elder sage '' @ em_dash @ '' a reincarnated soul'') CategoryBirth s1)"

subsection \<open>Monastic settlements (monastic.go)\<close>

definition MonasticVCThreshold :: f64 where "MonasticVCThreshold = lit 40"

definition averageCoherence :: "Sim \<Rightarrow> uint64 \<Rightarrow> f64" where
  "averageCoherence s settID = mean_coherence (map (agent s) (SettlementAgents s settID))"

definition circle_influence :: "Sim \<Rightarrow> uint64 \<Rightarrow> f64" where
  "circle_influence s settID =
     (case find_first (\<lambda>f. FID (fact s f) = 4) (Factions s) of
        None \<Rightarrow> 0
      | Some f \<Rightarrow> (case Influence (fact s f) settID of None \<Rightarrow> 0 | Some infl \<Rightarrow> infl))"

definition computeSettlementMonasticScore :: "Sim \<Rightarrow> Settlement \<Rightarrow> f64" where
  "computeSettlementMonasticScore s sett =
     (if Population sett = 0 then 0
      else
        let avgC = averageCoherence s (SID sett);
            vc = circle_influence s (SID sett);
            vcNorm = (if vc < MonasticVCThreshold then 0 else vc) / lit 100;
            conflictScore = (if WallLevel sett < 1 then lit 0.3 else 0)
        in clamp 0 1 (avgC * vcNorm * (1 - conflictScore)))"

definition monastic_boost :: "Sim \<Rightarrow> uint64 \<Rightarrow> f32 option" where
  "monastic_boost s =
     fold (\<lambda>sp m. if Population (settl s sp) = 0 then m
             else m(SID (settl s sp) \<mapsto>
                    float32 (1 + computeSettlementMonasticScore s (settl s sp) * Agnosis * Being)))
       (Settlements s) Map.empty"

definition computeMonasticBoosts :: "Sim \<Rightarrow> Sim" where
  "computeMonasticBoosts s =
     fold (\<lambda>p s'. if \<not> Alive (agent s' p) then s'
             else upd_agent p (\<lambda>a. a\<lparr>PracticeBoost :=
                    (case Option.bind (HomeSettID a) (monastic_boost s) of None \<Rightarrow> 1 | Some b \<Rightarrow> b)\<rparr>) s')
       (Agents s) s"

definition settlementHasMonasticBoost :: "Sim \<Rightarrow> uint64 \<Rightarrow> bool" where
  "settlementHasMonasticBoost s settID \<longleftrightarrow>
     (case SettlementIndex s settID of
        None \<Rightarrow> False | Some sp \<Rightarrow> lit 0.20 < computeSettlementMonasticScore s (settl s sp))"

end
