(* ===== verification/Society_Laws.thy ===== *)
theory Society_Laws
  imports Society Ticks_Laws
begin

section \<open>Laws of the social day and week\<close>

text \<open>
  Faction dues and patronage, theft, fines and the treasuries seized in
  revolutions are solvent payments; everything else in these phases moves no
  crowns.  Scores, taxes and cultural axes stay in their ranges, bonds stay
  well formed, and leaders are alive and best by the rule of their
  government.
\<close>

subsection \<open>Civic steps\<close>

text \<open>A step that only pays, within the accounts there are, and keeps the frame.\<close>

definition civic :: "Sim \<Rightarrow> Sim \<Rightarrow> bool" where
  "civic s t \<longleftrightarrow> pays (accts s) (led s) (led t) \<and> same_frame s t"

lemma civic_refl [intro]: "civic s s"
  by (simp add: civic_def pays_refl)

lemma civic_trans: "civic s t \<Longrightarrow> civic t u \<Longrightarrow> civic s u"
  unfolding civic_def using accts_frame by (metis pays_trans same_frame_trans)

lemma quiet_civic: "quiet s t \<Longrightarrow> civic s t"
  by (simp add: quiet_def civic_def pays_refl)

lemma civic_quiet: "civic s t \<Longrightarrow> quiet t u \<Longrightarrow> civic s u"
  by (blast intro: civic_trans quiet_civic)

lemma civic_ok: "civic s t \<Longrightarrow> sim_ok s \<Longrightarrow> sim_ok t"
  unfolding civic_def by (blast intro: sim_ok_frame)

text \<open>A loop of civic steps over the pointers of a fixed slice.\<close>

lemma civic_fold:
  assumes "\<And>x t. x \<in> set xs \<Longrightarrow> civic s t \<Longrightarrow> civic t (f x t)"
  shows "civic s (fold f xs s)"
proof -
  have "civic s t \<Longrightarrow> civic s (fold f ys t)" if "set ys \<subseteq> set xs" for ys t
    using that
  proof (induction ys arbitrary: t)
    case (Cons y ys)
    have "civic s (f y t)" using assms [of y t] Cons.prems civic_trans by simp
    then show ?case using Cons by simp
  qed simp
  then show ?thesis using civic_refl by simp
qed

lemma civic_conserves:
  "civic s t \<Longrightarrow> fits (accts s) (led s) \<Longrightarrow> crowns_in (accts s) (led t) = crowns_in (accts s) (led s)"
  unfolding civic_def using pays_conserves [OF _ accts_finite] by blast

lemma same_frame_upd_fact [frame]: "same_frame s t \<Longrightarrow> same_frame s (upd_fact p f t)"
  by (simp add: same_frame_def upd_fact_def)

lemma quiet_upd_fact: "(\<And>t. FTreasury (f t) = FTreasury t) \<Longrightarrow> quiet s (upd_fact p f s)"
  by (simp add: quiet_def same_frame_upd_fact fun_upd_idem)

lemma quiet_upd_counted:
  assumes "\<And>a c. AID (fst (f (a, c))) = AID a \<and> HomeSettID (fst (f (a, c))) = HomeSettID a
      \<and> Alive (fst (f (a, c))) = Alive a \<and> AOccupation (fst (f (a, c))) = AOccupation a
      \<and> Wealth (fst (f (a, c))) = Wealth a \<and> ConsignmentDebt (fst (f (a, c))) = ConsignmentDebt a"
  shows "quiet s (upd_counted p f s)"
proof -
  have "same_frame s (upd_counted p f s)" using assms by (intro same_frame_upd_counted) auto
  moreover have "led (upd_counted p f s) = led s" using assms by (simp add: fun_upd_idem)
  moreover have "ConsignmentDebt (agent (upd_counted p f s) q) = ConsignmentDebt (agent s q)" for q
    using assms [of "agent s p" "SatBumps s"] by (auto simp: upd_counted_def split: prod.splits)
  ultimately show ?thesis by (simp add: quiet_def)
qed

lemma pays_agent_fact [crowns]:
  "c \<le> Wealth (agent s p) \<Longrightarrow> Purse p \<in> A \<Longrightarrow> Guild f \<in> A \<Longrightarrow>
   pays A (led s) (led (upd_fact f (\<lambda>t. t\<lparr>FTreasury := FTreasury t + c\<rparr>) (upd_agent p (lose_wealth c) s)))"
proof -
  have "led (upd_fact f (\<lambda>t. t\<lparr>FTreasury := FTreasury t + c\<rparr>) (upd_agent p (lose_wealth c) s))
    = transfer (Purse p) (Guild f) c (led s)"
    by (auto simp: transfer_def lose_wealth_def fun_eq_iff)
  then show "c \<le> Wealth (agent s p) \<Longrightarrow> Purse p \<in> A \<Longrightarrow> Guild f \<in> A \<Longrightarrow> ?thesis" by (simp only:) (rule pays_one, simp_all)
qed

lemma pays_settl_fact [crowns]:
  "c \<le> Treasury (settl s p) \<Longrightarrow> Chest p \<in> A \<Longrightarrow> Guild f \<in> A \<Longrightarrow>
   pays A (led s) (led (upd_fact f (\<lambda>t. t\<lparr>FTreasury := FTreasury t + c\<rparr>) (upd_settl p (lose_treasury c) s)))"
proof -
  have "led (upd_fact f (\<lambda>t. t\<lparr>FTreasury := FTreasury t + c\<rparr>) (upd_settl p (lose_treasury c) s))
    = transfer (Chest p) (Guild f) c (led s)"
    by (auto simp: transfer_def lose_treasury_def fun_eq_iff)
  then show "c \<le> Treasury (settl s p) \<Longrightarrow> Chest p \<in> A \<Longrightarrow> Guild f \<in> A \<Longrightarrow> ?thesis" by (simp only:) (rule pays_one, simp_all)
qed

subsection \<open>Dues\<close>

lemma pay_dues_civic:
  assumes "p \<in> set (Agents s)" "\<And>i f. index i = Some f \<Longrightarrow> f \<in> set (Factions s)"
  shows "civic s (pay_dues index p s)"
proof (cases "\<not> Alive (agent s p) \<or> Wealth (agent s p) \<le> 30 \<or> Option.bind (FactionID (agent s p)) index = None")
  case False
  then obtain f where f: "Option.bind (FactionID (agent s p)) index = Some f" by auto
  then have "f \<in> set (Factions s)" using assms(2) by (auto simp: bind_eq_Some_conv)
  moreover have "dues_of (agent s p) \<le> Wealth (agent s p)" unfolding dues_of_def Let_def by (rule cap_le)
  ultimately have "pays (accts s) (led s)
      (led (upd_fact f (\<lambda>t. t\<lparr>FTreasury := FTreasury t + dues_of (agent s p)\<rparr>) (upd_agent p (lose_wealth (dues_of (agent s p))) s)))"
    using assms(1) by (intro pays_agent_fact) auto
  then show ?thesis using False f
    by (simp add: pay_dues_def Let_def civic_def same_frame_upd_fact same_frame_upd_agent del: led_upd_fact led_upd_agent)
qed (auto simp: pay_dues_def Let_def)

lemma civicD:
  assumes "civic s t"
  shows "Agents t = Agents s" "Settlements t = Settlements s" "Factions t = Factions s"
    "SettlementAgents t = SettlementAgents s" "SettlementIndex t = SettlementIndex s"
    "SID (settl t p) = SID (settl s p)" "AID (agent t p) = AID (agent s p)" "Alive (agent t p) = Alive (agent s p)"
    "HomeSettID (agent t p) = HomeSettID (agent s p)" "AOccupation (agent t p) = AOccupation (agent s p)" "accts t = accts s"
  using assms accts_frame [of s t] by (simp_all add: civic_def same_frame_def)

lemma factionIndex_in: "factionIndex s i = Some f \<Longrightarrow> f \<in> set (Factions s)"
  unfolding factionIndex_def using index_by_Some by fast

theorem collectFactionDues_civic: "civic s (collectFactionDues s)"
  unfolding collectFactionDues_def
  by (rule civic_fold, rule pay_dues_civic) (auto simp: civicD [of s] dest: factionIndex_in)

subsection \<open>Patronage\<close>

lemma share_below:
  fixes x :: f64 and w :: uint64
  assumes "0 \<le> x" "x \<le> flt_of_word w * r" "0 \<le> r" "lit 2 * r \<le> 1"
  shows "word_of_flt x \<le> w"
proof -
  have "int_of_flt x \<le> int_of_flt (flt_of_word w * r)" by (rule int_of_flt_mono [OF assms(2)])
  also have "\<dots> \<le> uint w" using assms(3,4) by (intro half_share) simp_all
  finally have i: "int_of_flt x \<le> uint w" .
  moreover have "0 \<le> int_of_flt x" by (rule int_of_flt_nonneg [OF assms(1)])
  moreover have "int_of_flt x < 2 ^ 64" using i uint_lt2p [of w] by simp
  ultimately show ?thesis by (simp add: word_of_flt_def word_le_def uint_word_of_int)
qed

lemma two_agnosis: "lit 2 * Agnosis \<le> 1"
proof -
  have "lit 2 * Agnosis \<le> lit 2 * lit (1 / 2 ^ 1)"
    by (rule flt_mult_left_mono) (simp_all add: zero_le_lit le_lit phi_rats)
  also have "\<dots> = 1"
    using rat_of_lit_pow2 [of 1, where 'a = 53 and 'b = 1074] unfolding times_flt_def
    by (subst rat_of_lit_inv_pow2) simp_all
  finally show ?thesis .
qed

lemma patronage_budget:
  defines "b \<equiv> \<lambda>w :: uint64. word_of_flt (flt_of_word w * Agnosis * lit 0.1) :: uint64"
  shows "b w \<le> w" "unat (b w) \<le> 2 ^ 62"
proof -
  let ?x = "flt_of_word w * Agnosis * lit 0.1 :: f64"
  have nn: "0 \<le> ?x" by (intro flt_mult_nonneg) (simp_all add: zero_le_lit)
  have "?x \<le> flt_of_word w * Agnosis * 1"
    by (intro flt_mult_left_mono flt_mult_nonneg) (simp_all add: lit_le_one)
  then have le: "?x \<le> flt_of_word w * Agnosis" by simp
  show "b w \<le> w" unfolding b_def using nn le by (rule share_below) (simp_all add: two_agnosis)
  have "flt_of_word w * Agnosis \<le> lit (2 ^ 64) * lit (1 / 2 ^ 2)"
    using flt_of_word_le [of w] by (intro flt_mult_mono) (simp_all add: le_lit phi_rats zero_le_lit)
  also have "\<dots> = lit (2 ^ 62)"
    unfolding times_flt_def by (subst rat_of_lit_inv_pow2, simp, subst rat_of_lit_pow2) simp
  finally have "?x \<le> lit (2 ^ 62)" using le by simp
  then show "unat (b w) \<le> 2 ^ 62" unfolding b_def using nn by (intro unat_word_of_flt(2)) simp_all
qed

lemma fold_weight_mono: "(\<And>m. m \<in> set ms \<Longrightarrow> 0 \<le> snd m) \<Longrightarrow> (t :: f64) \<le> fold (\<lambda>m t. t + snd m) ms t"
proof (induction ms arbitrary: t)
  case (Cons m ms)
  then have "t \<le> t + snd m" by (simp add: flt_add_increase)
  also have "\<dots> \<le> fold (\<lambda>m t. t + snd m) ms (t + snd m)" using Cons by simp
  finally show ?case by simp
qed simp

lemma weight_le_total:
  assumes "\<And>m. m \<in> set ms \<Longrightarrow> 0 \<le> snd m" "x \<in> set ms" "0 \<le> (t :: f64)"
  shows "snd x \<le> fold (\<lambda>m t. t + snd m) ms t"
  using assms
proof (induction ms arbitrary: t)
  case (Cons m ms)
  have t: "0 \<le> t + snd m" using Cons.prems by (simp add: flt_add_nonneg)
  show ?case
  proof (cases "x = m")
    case True
    have "snd m \<le> t + snd m" using Cons.prems flt_add_mono [of 0 t "snd m" "snd m"] by simp
    also have "\<dots> \<le> fold (\<lambda>m t. t + snd m) ms (t + snd m)" using Cons.prems by (intro fold_weight_mono) simp
    finally show ?thesis using True by simp
  next
    case False
    then show ?thesis using Cons t by simp
  qed
qed simp

lemma patron_share:
  assumes "\<And>m. m \<in> set ms \<Longrightarrow> 0 \<le> snd m" "x \<in> set ms" "unat (b :: uint64) \<le> 2 ^ 62"
  shows "unat (word_of_flt (flt_of_word b * snd x / fold (\<lambda>m t. t + snd m) ms (0 :: f64)) :: uint64) \<le> 2 ^ 62"
proof (rule unat_word_of_flt(2))
  have w: "0 \<le> snd x" "snd x \<le> fold (\<lambda>m t. t + snd m) ms 0" using assms weight_le_total [of ms x 0] by simp_all
  show "flt_of_word b * snd x / fold (\<lambda>m t. t + snd m) ms 0 \<le> lit (2 ^ 62)"
    by (rule flt_share_le [OF w flt_of_word_pow2 [OF assms(3)]])
  show "0 \<le> flt_of_word b * snd x / fold (\<lambda>m t. t + snd m) ms 0"
    using w by (intro flt_divide_nonneg flt_mult_nonneg) (auto intro: order_trans)
qed simp

text \<open>The ledger in which what was paid out so far is already booked to the fund.\<close>

definition drawn :: "ptr \<Rightarrow> uint64 \<Rightarrow> Sim \<Rightarrow> ledger" where
  "drawn f c s = (led s)(Guild f := led s (Guild f) - c)"

lemma drawn_pay:
  assumes "Wealth (g (agent s p)) = Wealth (agent s p) + c"
  shows "drawn f (paid + c) (upd_agent p g s) = transfer (Guild f) (Purse p) c (drawn f paid s)"
  using assms by (auto simp: drawn_def transfer_def fun_eq_iff diff_diff_eq)

lemma keeps_patronage:
  "keeps_agent (\<lambda>a. applyPatronageNeeds fid (gain_wealth c a))"
  "Wealth (applyPatronageNeeds fid (gain_wealth c a)) = Wealth a + c"
  by (simp_all only: keeps_agent_def applyPatronageNeeds_def clamp_agent_def add_needs_def gain_wealth_def Let_def
      Agent.simps Agent.update_convs if_distrib [of Wealth] if_distrib [of AID] if_cancel)
    (simp_all split: if_split)

lemma patron_loop:
  fixes fid :: uint64
  assumes "\<And>m. m \<in> set ms \<Longrightarrow> Purse (fst m) \<in> A" "Guild f \<in> A"
    and "\<And>m. m \<in> set ms \<Longrightarrow> unat (word_of_flt (flt_of_word b * snd m / tw) :: uint64) \<le> 2 ^ 62"
    and "unat b \<le> 2 ^ 62" "paid \<le> b" "b \<le> FTreasury (fact s f)"
  defines "r \<equiv> for_break (pay_patron fid b tw) ms (s, paid)"
  shows "pays A (drawn f paid s) (drawn f (snd r) (fst r)) \<and> same_frame s (fst r)"
  using assms(1,3,5,6) unfolding r_def
proof (induction ms arbitrary: s paid)
  case (Cons m ms)
  let ?c = "word_of_flt (flt_of_word b * snd m / tw) :: uint64"
  show ?case
  proof (cases "?c = 0 \<or> b < paid + ?c")
    case False
    let ?s = "upd_agent (fst m) (\<lambda>a. applyPatronageNeeds fid (gain_wealth ?c a)) s"
    have step: "pay_patron fid b tw m (s, paid) = Some (?s, paid + ?c)" using False by (simp add: pay_patron_def Let_def)
    have "?c \<le> drawn f paid s (Guild f)"
      using wage_within [of ?c b paid "FTreasury (fact s f)"] Cons.prems assms(4) False by (simp add: drawn_def not_less)
    then have "pays A (drawn f paid s) (drawn f (paid + ?c) ?s)"
      using Cons.prems(1) assms(2) by (subst drawn_pay) (simp_all add: keeps_patronage pays_one)
    moreover have "same_frame s ?s" by (rule same_frame_upd_agent) (simp_all add: keeps_patronage)
    moreover have "pays A (drawn f (paid + ?c) ?s) (drawn f (snd (for_break (pay_patron fid b tw) ms (?s, paid + ?c)))
        (fst (for_break (pay_patron fid b tw) ms (?s, paid + ?c))))
      \<and> same_frame ?s (fst (for_break (pay_patron fid b tw) ms (?s, paid + ?c)))"
      using Cons.prems False by (intro Cons.IH) (auto simp: not_less)
    ultimately show ?thesis using step by (auto intro: pays_trans same_frame_trans)
  next
    case True
    then have "pay_patron fid b tw m (s, paid) = Some (s, paid) \<or> pay_patron fid b tw m (s, paid) = None"
      by (auto simp: pay_patron_def Let_def)
    then show ?thesis
    proof
      assume "pay_patron fid b tw m (s, paid) = Some (s, paid)"
      then show ?thesis using Cons.prems by (simp add: Cons.IH)
    qed (simp add: pays_refl)
  qed
qed (simp add: pays_refl)

lemma patronage_of_civic:
  assumes "f \<in> set (Factions s)" "\<And>m. m \<in> set (membersOf (FID (fact s f))) \<Longrightarrow> fst m \<in> set (Agents s) \<and> 0 \<le> snd m"
  shows "civic s (patronage_of membersOf tick f s)"
proof -
  define ms where "ms = membersOf (FID (fact s f))"
  define b :: uint64 where "b = word_of_flt (flt_of_word (FTreasury (fact s f)) * Agnosis * lit 0.1)"
  define tw :: f64 where "tw = fold (\<lambda>m t. t + snd m) ms 0"
  define r where "r = for_break (pay_patron (FID (fact s f)) b tw) ms (s, 0)"
  have b: "b \<le> FTreasury (fact s f)" "unat b \<le> 2 ^ 62" unfolding b_def by (rule patronage_budget)+
  have loop: "pays (accts s) (drawn f 0 s) (drawn f (snd r) (fst r)) \<and> same_frame s (fst r)"
    unfolding r_def
  proof (rule patron_loop)
    fix m assume m: "m \<in> set ms"
    show "Purse (fst m) \<in> accts s" using assms(2) [OF m [unfolded ms_def]] by (simp add: accts_intros)
    show "unat (word_of_flt (flt_of_word b * snd m / tw) :: uint64) \<le> 2 ^ 62"
      unfolding tw_def by (rule patron_share [OF _ m b(2)]) (simp add: assms(2) ms_def)
  qed (rule accts_intros(3) [OF assms(1)], rule b(2), simp, rule b(1))
  have "drawn f 0 s = led s" by (simp add: drawn_def fun_upd_idem_iff)
  moreover have "led (upd_fact f (\<lambda>t. t\<lparr>FTreasury := FTreasury t - snd r\<rparr>) (fst r)) = drawn f (snd r) (fst r)"
    by (simp add: drawn_def)
  ultimately have "civic s (upd_fact f (\<lambda>t. t\<lparr>FTreasury := FTreasury t - snd r\<rparr>) (fst r))"
    using loop by (simp only: civic_def same_frame_upd_fact)
  then have *: "civic s (emit tick d c (upd_fact f (\<lambda>t. t\<lparr>FTreasury := FTreasury t - snd r\<rparr>) (fst r)))" for d c
    by (rule civic_quiet) simp
  show ?thesis
    unfolding patronage_of_def Let_def ms_def [symmetric] b_def [symmetric] tw_def [symmetric] r_def [symmetric] split_beta
    using * civic_refl by presburger
qed

theorem distributeFactionPatronage_civic: "civic s (distributeFactionPatronage log1p tick s)"
  unfolding distributeFactionPatronage_def
  by (rule civic_fold, rule patronage_of_civic) (auto simp: civicD [of s] factionMembers_def Let_def split: if_splits)

subsection \<open>Phases that move no crowns\<close>

named_theorems calm \<open>steps that move no crowns\<close>

lemma quiet_case [calm]: "(x = None \<Longrightarrow> quiet s a) \<Longrightarrow> (\<And>y. x = Some y \<Longrightarrow> quiet s (b y)) \<Longrightarrow> quiet s (case x of None \<Rightarrow> a | Some y \<Rightarrow> b y)"
  by (cases x) simp_all

lemma quiet_upd_fact_influence [calm]:
  "quiet s (upd_fact p (\<lambda>t. t\<lparr>Influence := g t\<rparr>) s)" "quiet s (upd_fact p (\<lambda>t. t\<lparr>FRelations := h t\<rparr>) s)"
  by (simp_all add: quiet_upd_fact)

lemma influence_in_quiet: "quiet s (influence_in index sp s)"
proof -
  have "quiet t (fold (\<lambda>f s. if index (FID (fact s f)) \<noteq> Some f then s
       else case local_influence (FID (fact s f)) (Governance (settl s sp)) l of
              None \<Rightarrow> s | Some x \<Rightarrow> upd_fact f (\<lambda>t. t\<lparr>Influence := (Influence t)(SID (settl s sp) \<mapsto> x)\<rparr>) s) fs t)" for fs t l
    by (rule quiet_fold) (simp add: quiet_upd_fact split: option.split)
  then show ?thesis by (simp add: influence_in_def Let_def)
qed

lemma updateFactionInfluence_quiet: "quiet s (updateFactionInfluence s)"
  unfolding updateFactionInfluence_def Let_def
  by (rule quiet_trans [OF quiet_fold quiet_fold]) (rule calm influence_in_quiet)+

lemma faction_policy_keeps: "keeps_settl (faction_policy tick f h)" "Treasury (faction_policy tick f h t) = Treasury t"
  by (simp_all add: faction_policy_def mismatch_pressure_def drift_culture_def nudge_governance_def nudge_tax_def
      keeps_settl_def Let_def split_beta)

lemma applyFactionPolicies_quiet: "quiet s (applyFactionPolicies tick s)"
  unfolding applyFactionPolicies_def
  by (rule quiet_fold) (simp add: quiet_upd_settl faction_policy_keeps split: prod.split option.split)

lemma sour_quiet: "quiet s (sour f g s)"
  by (simp add: sour_def quiet_upd_fact)

lemma tension_pass_quiet: "quiet s (tension_pass tick place fs s)"
proof (induction fs arbitrary: s)
  case (Cons f fs)
  have *: "quiet t (emit tick d c (sour f2 f1 (sour f1 f2 t)))" for t d c f1 f2
    using quiet_trans [OF sour_quiet sour_quiet] by simp
  show ?case unfolding tension_pass.simps by (rule quiet_trans [OF quiet_fold Cons.IH], rule *)
qed simp

lemma checkFactionTensions_quiet: "quiet s (checkFactionTensions tick s)"
  unfolding checkFactionTensions_def by (rule quiet_fold, rule tension_pass_quiet)

lemma adjustFactionInfluenceFromCrime_quiet: "quiet s (adjustFactionInfluenceFromCrime i s)"
  unfolding adjustFactionInfluenceFromCrime_def
  by (rule quiet_fold, rule quiet_upd_fact) (simp split: option.split)

theorem processFactionMaintenance_civic: "civic s (processFactionMaintenance log1p tick s)"
proof -
  let ?u = "checkFactionTensions tick (applyFactionPolicies tick
    (distributeFactionPatronage log1p tick (collectFactionDues (updateFactionInfluence s))))"
  have "civic s ?u"
    by (rule civic_quiet [OF _ checkFactionTensions_quiet], rule civic_quiet [OF _ applyFactionPolicies_quiet],
        rule civic_trans [OF _ distributeFactionPatronage_civic], rule civic_trans [OF _ collectFactionDues_civic],
        rule quiet_civic [OF updateFactionInfluence_quiet])
  moreover have "quiet t (fold (\<lambda>f. upd_fact f drift_relations) fs t)" for fs t
    by (rule quiet_fold, rule quiet_upd_fact) (simp add: drift_relations_def)
  ultimately show ?thesis unfolding processFactionMaintenance_def Let_def by (rule civic_quiet)
qed

lemma quiet_upd_soul [calm]: "quiet s (upd_agent p (\<lambda>a. a\<lparr>Soul := g a\<rparr>) s)"
  "quiet s (upd_agent p (\<lambda>a. a\<lparr>FactionID := fid\<rparr>) s)" "quiet s (upd_agent p (\<lambda>a. a\<lparr>Role := r\<rparr>) s)"
  "quiet s (upd_agent p (AddMemory tick content imp) s)" "quiet s (upd_agent p (strengthenBond i) s)"
  "quiet s (upd_agent p (boostRelationship i x y) s)" "quiet s (upd_agent p (damageRelationship i x y) s)"
  "quiet s (upd_agent p (add_belonging x) s)" "quiet s (upd_agent p (add_purpose x) s)"
  "quiet s (upd_agent p (inv_add good n) s)" "quiet s (upd_agent p (honour_soldier x y) s)"
  "quiet s (upd_agent p (join_faction u) s)"
  by (rule quiet_upd_agent; simp add: keeps_agent_def AddMemory_def strengthenBond_def boostRelationship_def
      damageRelationship_def add_belonging_def add_purpose_def inv_add_def honour_soldier_def join_faction_def Let_def)+

lemma quiet_fail_weeks [calm]: "quiet s (s\<lparr>DoctrineFailWeeks := w\<rparr>)" "quiet s (s\<lparr>LiberatedSpiritsPool := n\<rparr>)"
  by (auto simp: quiet_def same_frame_def intro!: led_eqI)

lemma apply_doctrine_quiet: "quiet s (apply_doctrine tick p s)"
  unfolding apply_doctrine_def Let_def by (simp add: calm split: option.split)

lemma defect_quiet: "quiet s (defect tick p s)"
  unfolding defect_def Let_def
  by (simp add: calm quiet_trans [OF quiet_fail_weeks(1) quiet_upd_soul(2)] split: option.split)

lemma try_recruit_quiet: "try_recruit tick limit sett active ti p st = Some st' \<Longrightarrow> quiet (fst st) (fst st')"
  by (cases st) (auto simp: try_recruit_def Let_def split_beta calm split: if_splits)

lemma quiet_for_break:
  "(\<And>x st st'. f x st = Some st' \<Longrightarrow> quiet (fst st) (fst st')) \<Longrightarrow> quiet (fst st) (fst (for_break f xs st))"
proof (induction xs arbitrary: st)
  case (Cons x xs)
  show ?case
  proof (cases "f x st")
    case (Some st')
    from quiet_trans [OF Cons.prems [OF Some] Cons.IH [OF Cons.prems]] Some show ?thesis by simp
  qed simp
qed simp

lemma recruit_in_quiet: "quiet s (recruit_in tick pool sp s)"
proof -
  have "quiet (fst (s, 0 :: int)) (fst (for_break (try_recruit tick limit sett active ti) ps (s, 0)))" for limit sett active ti ps
    by (rule quiet_for_break) (rule try_recruit_quiet)
  then show ?thesis by (simp add: recruit_in_def Let_def)
qed

lemma faction_week_quiet:
  "quiet s (applyFactionDoctrines tick s)" "quiet s (processFactionDefection tick s)"
  "quiet s (processFactionRecruitmentByInfluence tick s)" "quiet s (processFactionAssignmentFallback s)"
  unfolding applyFactionDoctrines_def processFactionDefection_def processFactionRecruitmentByInfluence_def
    processFactionAssignmentFallback_def
  by (rule quiet_fold; simp add: apply_doctrine_quiet defect_quiet recruit_in_quiet calm)+

subsection \<open>The social day\<close>

lemma quiet_then: "quiet s t \<Longrightarrow> (\<And>u. quiet u (f u)) \<Longrightarrow> quiet s (f t)"
  by (blast intro: quiet_trans)

lemma imprint_quiet [calm]:
  "quiet s (imprintMarriageMemories p q n tick s)" "quiet s (imprintMentorshipStartMemories p q n tick s)"
  unfolding imprintMarriageMemories_def imprintMentorshipStartMemories_def Let_def
  by (rule quiet_trans [OF quiet_upd_soul(4) quiet_upd_soul(4)])+

lemma marry_quiet [calm]: "quiet s (marry tick p q s)"
  unfolding marry_def Let_def
  by (rule quiet_then [OF _ imprint_quiet(1)], simp only: quiet_emit,
      rule quiet_then [OF _ quiet_upd_soul(8)], rule quiet_then [OF _ quiet_upd_soul(8)],
      rule quiet_then [OF _ quiet_upd_soul(6)], rule quiet_upd_soul(6))

lemma formFamilies_quiet: "quiet s (formFamilies alive tick s)"
  unfolding formFamilies_def Let_def by (rule quiet_fold) (simp add: calm split: option.split)

lemma mentor_pair_quiet: "quiet s (mentor_pair tick pr s)"
proof (cases pr)
  case (Pair mentee mentor)
  let ?g = "\<lambda>a. a\<lparr>Soul := AdjustCoherence (float32 (Agnosis * lit 0.025)) (Soul a)\<rparr>"
  let ?u = "upd_agent mentor (add_purpose (float32 (Agnosis * lit 0.1))) (upd_agent mentee ?g s)"
  let ?v = "upd_agent mentor (strengthenBond (AID (agent (upd_agent mentee (strengthenBond (AID (agent ?u mentor))) ?u) mentee)))
    (upd_agent mentee (strengthenBond (AID (agent ?u mentor))) ?u)"
  have "quiet s ?v"
    by (rule quiet_then [OF _ quiet_upd_soul(5)], rule quiet_then [OF _ quiet_upd_soul(5)],
        rule quiet_then [OF _ quiet_upd_soul(9)], rule quiet_upd_soul(1))
  then have "quiet s (if c then imprintMentorshipStartMemories mentor mentee n tick ?v else ?v)" for c n
    using quiet_trans [OF _ imprint_quiet(2)] by simp
  then show ?thesis unfolding mentor_pair_def Let_def Pair prod.case by (simp only: quiet_emit split: if_split) blast
qed

lemma rivalry_quiet: "quiet s (upd_counted p rivalry s)"
  by (rule quiet_upd_counted) (simp add: rivalry_def Let_def split_beta ApplyDirectSatBump_fst)

lemma processRivalries_quiet: "quiet s (processRivalries alive s)"
  unfolding processRivalries_def
  by (rule quiet_fold, rule quiet_fold) (simp add: rival_with_def rivalry_quiet split: option.split)

lemma processFactionRecruitment_quiet: "quiet s (processFactionRecruitment alive tick s)"
proof -
  have "quiet t (recruit_friend tick fid p rel t)" for tick fid p rel t
    by (simp add: recruit_friend_def Let_def calm split: option.split)
  then show ?thesis
    unfolding processFactionRecruitment_def by (intro quiet_fold quiet_case) simp_all
qed

lemma meet_quiet: "quiet s (meet d i alive k s)"
  unfolding meet_def Let_def split_beta by (rule quiet_trans [OF quiet_upd_soul(5) quiet_upd_soul(5)])

lemma processMentorship_quiet: "quiet s (processMentorship alive tick s)"
  unfolding processMentorship_def Let_def by (rule quiet_fold, rule mentor_pair_quiet)

theorem processRelationships_quiet: "quiet s (processRelationships tick s)"
proof -
  have "quiet t (relate_in tick sp t)" for sp t
    unfolding relate_in_def Let_def
    by (simp only: quiet_refl split: if_split)
      (intro conjI impI TrueI quiet_then [OF _ processRivalries_quiet] quiet_then [OF _ processFactionRecruitment_quiet]
        quiet_then [OF _ processMentorship_quiet] quiet_then [OF _ formFamilies_quiet] quiet_fold meet_quiet)
  then show ?thesis unfolding processRelationships_def by (rule quiet_fold)
qed

subsection \<open>Crime\<close>

lemma steal_crowns_civic:
  assumes "p \<in> set (Agents s)" "v \<in> set (Agents s)"
  shows "civic s (steal_crowns p v s)"
  unfolding steal_crowns_def Let_def civic_def using assms
  by (intro conjI pays_agent_agent same_frame_upd_agent cap_le) auto

lemma aggrieve_quiet: "quiet s (aggrieve i x y p v s)"
  unfolding aggrieve_def by (rule quiet_trans [OF quiet_upd_soul(7) adjustFactionInfluenceFromCrime_quiet])

lemma theft_civic:
  assumes "p \<in> set (Agents s)" "v \<in> set (Agents s)"
  shows "civic s (theft i p v s)"
proof -
  have "quiet s (steal_good g p v s)" for g
    unfolding steal_good_def by (rule quiet_trans [OF quiet_upd_soul(10) quiet_upd_soul(10)])
  then have "civic s (aggrieve i x y p v (steal_good g p v s))" for x y g
    by (intro quiet_civic quiet_trans [OF _ aggrieve_quiet])
  then show ?thesis
    unfolding theft_def Let_def using civic_quiet [OF steal_crowns_civic [OF assms] aggrieve_quiet] civic_refl by presburger
qed

lemma ProcessBetrayalExpulsion_quiet: "quiet s (ProcessBetrayalExpulsion p v tick s)"
  by (simp add: ProcessBetrayalExpulsion_def Let_def calm split: option.split)

lemma caught_civic:
  assumes "p \<in> set (Agents s)" "sp \<in> set (Settlements s)"
  shows "civic s (caught tick sp p s)"
proof -
  let ?u = "upd_counted p (ApplyDirectSatBump (- lit 0.2) ''crime.caught'') (upd_agent p (\<lambda>a. a\<lparr>Role := RoleOutlaw\<rparr>) s)"
  have u: "quiet s ?u"
    by (rule quiet_trans [OF quiet_upd_soul(3) quiet_upd_counted]) (simp add: ApplyDirectSatBump_fst)
  have f: "fine_of a \<le> Wealth a" for a unfolding fine_of_def Let_def by (rule cap_le)
  have "accts ?u = accts s" using u by (simp add: quiet_def accts_frame)
  then have "pays (accts ?u) (led ?u) (led (upd_settl sp (gain_treasury (fine_of (agent ?u p)))
      (upd_agent p (lose_wealth (fine_of (agent ?u p))) ?u)))"
    using assms by (intro pays_agent_settl f) auto
  then have "civic ?u (upd_settl sp (gain_treasury (fine_of (agent ?u p))) (upd_agent p (lose_wealth (fine_of (agent ?u p))) ?u))"
    unfolding civic_def by (simp only: same_frame_upd_agent same_frame_upd_settl keeps_wealth same_frame_refl)
  then show ?thesis unfolding caught_def Let_def
    by (rule civic_quiet [OF civic_trans [OF quiet_civic [OF u]]]) simp
qed

text \<open>An index reduced by the length of a slice is in the slice.\<close>

lemma mod_length_in:
  assumes "ps \<noteq> []"
  shows "ps ! unat ((x :: uint64) mod of_nat (length ps)) \<in> set ps"
proof (rule nth_mem, cases "of_nat (length ps) = (0 :: uint64)")
  case True
  then have "2 ^ 64 dvd length ps" by (simp add: word_of_nat_eq_0_iff)
  then have "2 ^ 64 \<le> length ps" using assms by (intro dvd_imp_le) simp_all
  then show "unat (x mod of_nat (length ps)) < length ps" using True unsigned_less [of x, where 'a = nat] by simp
next
  case False
  then have "0 < unat (of_nat (length ps) :: uint64)" by (simp add: unat_gt_0)
  then have "unat (x mod of_nat (length ps)) < unat (of_nat (length ps) :: uint64)" by (simp add: unat_mod_distrib)
  also have "\<dots> \<le> length ps" by (simp add: unat_of_nat)
  finally show "unat (x mod of_nat (length ps)) < length ps" .
qed

lemma crime_of_civic:
  assumes "snd ip \<in> set (Agents s)" "set ps \<subseteq> set (Agents s)" "ps \<noteq> []" "sp \<in> set (Settlements s)"
  shows "civic s (crime_of tick sp ps d ip s)"
proof -
  define p where "p = snd ip"
  define v where "v = ps ! unat ((tick div TicksPerSimDay + of_nat (fst ip) * 7) mod of_nat (length ps))"
  define u where "u = ProcessBetrayalExpulsion p v tick (theft (SID (settl s sp)) p v s)"
  have "v \<in> set (Agents s)" unfolding v_def using mod_length_in [OF assms(3)] assms(2) by blast
  then have u: "civic s u"
    unfolding u_def using assms(1) by (intro civic_quiet [OF theft_civic ProcessBetrayalExpulsion_quiet]) (simp_all add: p_def)
  have "civic u (caught tick sp p u)"
    using assms(1,4) by (intro caught_civic) (simp_all add: civicD [OF u] p_def)
  then have "civic s (caught tick sp p u)" by (rule civic_trans [OF u])
  then show ?thesis
    unfolding crime_of_def Let_def split_beta p_def [symmetric] v_def [symmetric] u_def [symmetric]
    using u civic_refl by presburger
qed

theorem processCrime_civic:
  assumes "sim_ok s"
  shows "civic s (processCrime tick s)"
  unfolding processCrime_def
proof (rule civic_fold)
  fix sp t assume sp: "sp \<in> set (Settlements s)" and t: "civic s t"
  let ?ps = "SettlementAgents t (SID (settl t sp))"
  have ps: "set ?ps \<subseteq> set (Agents t)" using civic_ok [OF t assms] sim_okD(1) by blast
  have h: "quiet t (fold (\<lambda>p s. if is_soldier (agent s p) then upd_agent p (honour_soldier x y) s else s) ?ps t)" for x y
    by (rule quiet_fold) (simp add: calm)
  have "civic t (fold (crime_of tick sp ?ps d) (enumerate 0 ?ps) t')" if "quiet t t'" "?ps \<noteq> []" for t' d
  proof (rule civic_trans [OF quiet_civic [OF that(1)]], rule civic_fold)
    fix ip u assume ip: "ip \<in> set (enumerate 0 ?ps)" and u: "civic t' u"
    have "Agents u = Agents t" "Settlements u = Settlements s"
      using civicD [OF u] civicD [OF quiet_civic [OF that(1)]] civicD [OF t] by simp_all
    moreover have "snd ip \<in> set ?ps" using ip nth_mem [of "fst ip" ?ps] by (simp add: in_set_enumerate_eq)
    ultimately show "civic u (crime_of tick sp ?ps d ip u)"
      using ps sp that(2) by (intro crime_of_civic) auto
  qed
  then show "civic t (crime_in tick sp t)"
    unfolding crime_in_def Let_def using h civic_refl by presburger
qed

subsection \<open>Governance\<close>

lemma quiet_upd_government [calm]:
  "quiet s (upd_settl sp (\<lambda>t. t\<lparr>GovernanceScore := x t\<rparr>) s)" "quiet s (upd_settl sp (\<lambda>t. t\<lparr>SLeaderID := i t\<rparr>) s)"
  "quiet s (upd_settl sp (\<lambda>t. t\<lparr>GovernanceScore := x t, SLeaderID := i t\<rparr>) s)"
  "quiet s (upd_settl sp (\<lambda>t. t\<lparr>Governance := g t\<rparr>) s)"
  by (rule quiet_upd_settl; simp add: keeps_settl_def)+

lemma ensureLeader_quiet: "quiet s (ensureLeader sp alive tick s)"
proof -
  have c: "quiet t (succession_crisis tick i sp t)" for i t by (simp add: succession_crisis_def Let_def calm)
  have i: "quiet t (install_leader tick sp l t)" for l t
    unfolding install_leader_def Let_def quiet_emit by (rule quiet_trans [OF quiet_upd_government(2) quiet_upd_soul(3)])
  have "quiet s (case SLeaderID (settl s sp) of None \<Rightarrow> s | Some i \<Rightarrow> succession_crisis tick i sp s)"
    by (simp add: c split: option.split)
  then show ?thesis
    unfolding ensureLeader_def Let_def
    by (intro quiet_if quiet_refl quiet_case) (auto intro: quiet_trans [OF _ i])
qed

lemma seized_le: "seized_of t \<le> Treasury t"
proof -
  have "lit 2 * (lit 0.3 :: f64) \<le> lit 2 * lit (1 / 2 ^ 1)"
    by (intro flt_mult_left_mono lit_mono) (simp_all add: zero_le_lit)
  also have "\<dots> = 1"
    using rat_of_lit_pow2 [of 1, where 'a = 53 and 'b = 1074] unfolding times_flt_def
    by (subst rat_of_lit_inv_pow2) simp_all
  finally show ?thesis unfolding seized_of_def by (intro half_share_word zero_le_lit) simp_all
qed

lemma revolt_civic:
  assumes "sp \<in> set (Settlements s)" "f \<in> set (Factions s)"
  shows "civic s (revolt tick sp f r s)"
proof -
  define u where "u = upd_settl sp (\<lambda>t. t\<lparr>Governance := revolt_governance (FID (fact s f)) (Governance t)\<rparr>) s"
  define v where "v = (case living_leader u (settl u sp) of None \<Rightarrow> u | Some l \<Rightarrow> upd_agent l (\<lambda>a. a\<lparr>Role := RoleCommoner\<rparr>) u)"
  define w where "w = upd_agent r (\<lambda>a. a\<lparr>Role := RoleLeader\<rparr>) (upd_settl sp (\<lambda>t. t\<lparr>SLeaderID := Some (AID (agent v r))\<rparr>) v)"
  have "quiet s u" unfolding u_def by (rule quiet_upd_government(4))
  moreover have "quiet u v" unfolding v_def by (rule quiet_case) (simp_all only: quiet_refl quiet_upd_soul)
  moreover have "quiet v w" unfolding w_def by (rule quiet_trans [OF quiet_upd_government(2) quiet_upd_soul(3)])
  ultimately have q: "quiet s w" by (metis quiet_trans)
  have "accts w = accts s" using q by (simp add: quiet_def accts_frame)
  then have "pays (accts w) (led w) (led (upd_fact f (\<lambda>t. t\<lparr>FTreasury := FTreasury t + seized_of (settl w sp)\<rparr>)
      (upd_settl sp (lose_treasury (seized_of (settl w sp))) w)))"
    using assms by (intro pays_settl_fact seized_le) (simp_all only: accts_intros)
  then have "civic w (upd_fact f (\<lambda>t. t\<lparr>FTreasury := FTreasury t + seized_of (settl w sp)\<rparr>)
      (upd_settl sp (lose_treasury (seized_of (settl w sp))) w))"
    unfolding civic_def by (simp only: same_frame_upd_fact same_frame_upd_settl keeps_wealth same_frame_refl)
  then have "civic s (upd_settl sp (\<lambda>t. t\<lparr>GovernanceScore := lit 0.5\<rparr>)
      (upd_fact f (\<lambda>t. t\<lparr>FTreasury := FTreasury t + seized_of (settl w sp)\<rparr>) (upd_settl sp (lose_treasury (seized_of (settl w sp))) w)))"
    by (rule civic_quiet [OF civic_trans [OF quiet_civic [OF q]] quiet_upd_government(1)])
  then show ?thesis
    unfolding revolt_def Let_def u_def [symmetric] v_def [symmetric] w_def [symmetric] by (rule civic_quiet) simp
qed

lemma revolt_faction_in: "revolt_faction s i = Some f \<Longrightarrow> f \<in> set (Factions s)"
proof -
  let ?step = "\<lambda>f dom. case Influence (fact s f) i of None \<Rightarrow> dom
    | Some infl \<Rightarrow> if lit 40 < infl \<and> (dom = None \<or> the (Influence (fact s f) i) < infl) then Some f else dom"
  have "fold ?step fs d = Some f \<Longrightarrow> f \<in> set fs \<or> d = Some f" for fs d
    by (induction fs arbitrary: d) (auto split: option.splits if_splits)
  from this [of "Factions s" None] show "revolt_faction s i = Some f \<Longrightarrow> f \<in> set (Factions s)"
    by (simp add: revolt_faction_def)
qed

theorem processGovernance_civic: "civic s (processGovernance tick s)"
  unfolding processGovernance_def
proof (rule civic_fold)
  fix sp t assume sp: "sp \<in> set (Settlements s)" and t: "civic s t"
  have d: "quiet u (decayGovernance sp u)" for u by (simp add: decayGovernance_def Let_def calm)
  have r: "civic u (checkRevolution sp alive tick u)" if "Settlements u = Settlements s" for u alive
    unfolding checkRevolution_def Let_def using that sp
    by (auto intro!: revolt_civic dest: revolt_faction_in split: option.split)
  have "civic t (checkRevolution sp alive tick (decayGovernance sp (ensureLeader sp alive tick t)))" for alive
  proof -
    have q: "quiet t (decayGovernance sp (ensureLeader sp alive tick t))" by (rule quiet_trans [OF ensureLeader_quiet d])
    show ?thesis
      by (rule civic_trans [OF quiet_civic [OF q] r]) (use civicD(2) [OF t] q in \<open>simp add: quiet_def same_frame_def\<close>)
  qed
  then show "civic t (govern tick sp t)" unfolding govern_def Let_def using civic_refl by presburger
qed

subsection \<open>Ranges of the scores of a settlement\<close>

definition town_ok :: "Settlement \<Rightarrow> bool" where
  "town_ok t \<longleftrightarrow> 0 \<le> GovernanceScore t \<and> GovernanceScore t \<le> 1 \<and> lit 0.01 \<le> TaxRate t \<and> TaxRate t \<le> lit 0.30
     \<and> - 1 \<le> CultureTradition t \<and> CultureTradition t \<le> 1 \<and> - 1 \<le> CultureOpenness t \<and> CultureOpenness t \<le> 1
     \<and> - 1 \<le> CultureMilitarism t \<and> CultureMilitarism t \<le> 1"

lemma nudges_keep_tax:
  "TaxRate (nudge_governance i tick h x t) = TaxRate t" "TaxRate (drift_culture i d t) = TaxRate t"
  "TaxRate (mismatch_pressure i h t) = TaxRate t"
  by (simp_all add: nudge_governance_def drift_culture_def mismatch_pressure_def Let_def split_beta)

lemma mismatch_keeps_culture:
  "CultureTradition (mismatch_pressure i h t) = CultureTradition t" "CultureOpenness (mismatch_pressure i h t) = CultureOpenness t"
  "CultureMilitarism (mismatch_pressure i h t) = CultureMilitarism t"
  by (simp_all add: mismatch_pressure_def Let_def)

lemma drift_culture_ranges:
  "- 1 \<le> CultureTradition (drift_culture i d t)" "CultureTradition (drift_culture i d t) \<le> 1"
  "- 1 \<le> CultureOpenness (drift_culture i d t)" "CultureOpenness (drift_culture i d t) \<le> 1"
  "- 1 \<le> CultureMilitarism (drift_culture i d t)" "CultureMilitarism (drift_culture i d t) \<le> 1"
proof -
  have m: "- 1 \<le> (1 :: f32)" by (simp add: flt_le_iff)
  show "- 1 \<le> CultureTradition (drift_culture i d t)" "CultureTradition (drift_culture i d t) \<le> 1"
    "- 1 \<le> CultureOpenness (drift_culture i d t)" "CultureOpenness (drift_culture i d t) \<le> 1"
    "- 1 \<le> CultureMilitarism (drift_culture i d t)" "CultureMilitarism (drift_culture i d t) \<le> 1"
    unfolding drift_culture_def Let_def split_beta by (simp_all add: clamp_bounds m)
qed

text \<open>A week of policy puts every axis into its range, whatever it was.\<close>

lemma faction_policy_ok: "town_ok (faction_policy tick f h t)"
proof -
  have "lit 0.01 \<le> (lit 0.30 :: f64)" by (rule lit_mono) simp
  then have tax: "lit 0.01 \<le> TaxRate (nudge_tax x y t)" "TaxRate (nudge_tax x y t) \<le> lit 0.30" for x y
    unfolding nudge_tax_def by (simp_all add: clamp_bounds del: divide_numeral_1)
  have gov: "0 \<le> GovernanceScore (mismatch_pressure i h u)" "GovernanceScore (mismatch_pressure i h u) \<le> 1" for i u
    by (simp_all add: mismatch_pressure_def Let_def clamp_bounds zero_le_one_flt)
  show ?thesis
    unfolding town_ok_def faction_policy_def Let_def nudges_keep_tax mismatch_keeps_culture
    by (intro conjI tax gov drift_culture_ranges)
qed

lemma applyFactionPolicies_ok:
  assumes "\<And>p. town_ok (settl s p)"
  shows "town_ok (settl (applyFactionPolicies tick s) p)"
proof -
  have step: "(\<forall>q. town_ok (settl (case dominantFaction t (SID (settl t sp)) of (None, _) \<Rightarrow> t
      | (Some f, h) \<Rightarrow> if h < lit 15 then t else upd_settl sp (faction_policy tick (fact t f) h) t) q))"
    if "\<forall>q. town_ok (settl t q)" for t sp
    using that faction_policy_ok by (simp split: prod.split option.split)
  have "\<forall>q. town_ok (settl (applyFactionPolicies tick s) q)"
    unfolding applyFactionPolicies_def
    by (rule fold_preserves [where P = "\<lambda>t. \<forall>q. town_ok (settl t q)"]) (simp add: assms, rule step)
  then show ?thesis by blast
qed

abbreviation towns_ok :: "Sim \<Rightarrow> bool" where
  "towns_ok s \<equiv> \<forall>p. town_ok (settl s p)"

lemma towns_ok_upd: "towns_ok s \<Longrightarrow> (\<And>t. town_ok t \<Longrightarrow> town_ok (f t)) \<Longrightarrow> towns_ok (upd_settl p f s)"
  by simp

lemma towns_ok_other:
  "towns_ok s \<Longrightarrow> towns_ok (upd_agent p g s)" "towns_ok s \<Longrightarrow> towns_ok (upd_fact p h s)" "towns_ok s \<Longrightarrow> towns_ok (emit t d c s)"
  "towns_ok s \<Longrightarrow> towns_ok (case x of None \<Rightarrow> s | Some l \<Rightarrow> upd_agent l g s)"
  by (simp_all split: option.split)

lemma town_ok_score: "town_ok t \<Longrightarrow> 0 \<le> x \<Longrightarrow> x \<le> 1 \<Longrightarrow> town_ok (t\<lparr>GovernanceScore := x\<rparr>)"
  "town_ok t \<Longrightarrow> 0 \<le> x \<Longrightarrow> x \<le> 1 \<Longrightarrow> town_ok (t\<lparr>GovernanceScore := x, SLeaderID := i\<rparr>)"
  "town_ok t \<Longrightarrow> town_ok (t\<lparr>SLeaderID := i\<rparr>)" "town_ok t \<Longrightarrow> town_ok (t\<lparr>Governance := g\<rparr>)"
  "town_ok (lose_treasury c t) = town_ok t"
  by (simp_all add: town_ok_def lose_treasury_def)

lemma succession_score: "(0 :: f64) \<le> g \<Longrightarrow> g \<le> 1 \<Longrightarrow> (if g - lit 0.2 < 0 then 0 else g - lit 0.2) \<le> 1"
  using flt_diff_mono [of g 1 0 "lit 0.2"] by (auto simp: zero_le_lit intro: order_trans)

lemma ensureLeader_ok: "towns_ok s \<Longrightarrow> towns_ok (ensureLeader sp alive tick s)"
proof -
  assume s: "towns_ok s"
  have crisis: "towns_ok (succession_crisis tick i sp s)" for i
    unfolding succession_crisis_def Let_def
  proof (intro towns_ok_other towns_ok_upd [OF s] town_ok_score(2))
    fix t :: Settlement assume "town_ok t"
    then show "(if GovernanceScore t - lit 0.2 < 0 then 0 else GovernanceScore t - lit 0.2) \<le> 1"
      by (intro succession_score) (simp_all add: town_ok_def)
  qed (simp_all add: not_less)
  have "towns_ok (install_leader tick sp l t)" if "towns_ok t" for l t
    using that by (simp add: install_leader_def Let_def town_ok_score(3))
  then show ?thesis using s crisis by (auto simp: ensureLeader_def Let_def split: option.split)
qed

lemma revolt_ok: "towns_ok s \<Longrightarrow> towns_ok (revolt tick sp f r s)"
proof -
  assume s: "towns_ok s"
  have half: "0 \<le> (lit 0.5 :: f64)" "(lit 0.5 :: f64) \<le> 1" by (simp_all add: zero_le_lit lit_le_one)
  show ?thesis unfolding revolt_def Let_def
    by (intro towns_ok_other towns_ok_upd s town_ok_score half) (simp_all only: town_ok_score)
qed

theorem processGovernance_ok: "towns_ok s \<Longrightarrow> towns_ok (processGovernance tick s)"
  unfolding processGovernance_def
proof (rule fold_preserves [where P = towns_ok])
  fix sp t assume t: "towns_ok t"
  have "towns_ok (decayGovernance sp u)" if "towns_ok u" for u
    unfolding decayGovernance_def Let_def
    by (rule towns_ok_upd [OF that], rule town_ok_score(1)) (simp_all add: clamp_bounds zero_le_one_flt)
  then have "towns_ok (decayGovernance sp (ensureLeader sp alive tick t))" for alive
    using ensureLeader_ok [OF t] by blast
  then have "towns_ok (checkRevolution sp alive tick (decayGovernance sp (ensureLeader sp alive tick t)))" for alive
    unfolding checkRevolution_def Let_def by (auto simp: revolt_ok split: option.split)
  then show "towns_ok (govern tick sp t)" using t by (auto simp: govern_def Let_def)
qed

subsection \<open>Leaders\<close>

text \<open>The first of the best among those that qualify.\<close>

lemma select_best_spec:
  assumes "select_best ok key ps = Some b"
  shows "b \<in> set ps" "ok b" "\<And>p. p \<in> set ps \<Longrightarrow> ok p \<Longrightarrow> key p \<le> key b"
proof -
  let ?f = "\<lambda>p best. if \<not> ok p then best
    else case best of None \<Rightarrow> Some p | Some b \<Rightarrow> if key b < key p then Some p else best"
  define I where "I xs r \<longleftrightarrow> (case r of None \<Rightarrow> \<forall>p \<in> set xs. \<not> ok p
    | Some b \<Rightarrow> b \<in> set xs \<and> ok b \<and> (\<forall>p \<in> set xs. ok p \<longrightarrow> key p \<le> key b))" for xs r
  have "I xs (fold ?f xs None)" for xs
  proof (induction xs rule: rev_induct)
    case (snoc x xs)
    then show ?case by (auto simp: I_def split: option.splits)
  qed (simp add: I_def)
  from this [of ps] show "b \<in> set ps" "ok b" "\<And>p. p \<in> set ps \<Longrightarrow> ok p \<Longrightarrow> key p \<le> key b"
    using assms by (simp_all add: I_def select_best_def)
qed

lemma select_best_None: "select_best ok key ps = None \<longleftrightarrow> (\<forall>p \<in> set ps. \<not> ok p)"
proof -
  let ?f = "\<lambda>p best. if \<not> ok p then best
    else case best of None \<Rightarrow> Some p | Some b \<Rightarrow> if key b < key p then Some p else best"
  have "fold ?f xs r = None \<longleftrightarrow> r = None \<and> (\<forall>p \<in> set xs. \<not> ok p)" for xs r
    by (induction xs arbitrary: r) (auto split: option.split)
  then show ?thesis by (simp add: select_best_def)
qed

lemma select_best_total:
  assumes "ps \<noteq> []"
  shows "\<exists>l. select_best (\<lambda>_. True) key ps = Some l \<and> l \<in> set ps \<and> list_all (\<lambda>p. key p \<le> key l) ps"
proof (cases "select_best (\<lambda>_. True) key ps")
  case None
  then have "set ps = {}" by (auto simp: select_best_None)
  then show ?thesis using assms by simp
next
  case (Some l)
  then show ?thesis using select_best_spec [OF Some] by (simp add: list_all_iff)
qed

text \<open>What each form of government asks of a new leader.\<close>

definition rightful :: "uint64 \<Rightarrow> GovernanceType \<Rightarrow> (ptr \<Rightarrow> Agent) \<Rightarrow> ptr list \<Rightarrow> ptr \<Rightarrow> bool" where
  "rightful tick gov h alive l \<longleftrightarrow> l \<in> set alive \<and>
     (case gov of
        GovMonarchy \<Rightarrow> if list_ex (\<lambda>p. Tier (h p) = Tier2) alive
          then Tier (h l) = Tier2 \<and> list_all (\<lambda>p. Tier (h p) = Tier2 \<longrightarrow> Wealth (h p) \<le> Wealth (h l)) alive
          else list_all (\<lambda>p. CittaCoherence (Soul (h p)) \<le> CittaCoherence (Soul (h l))) alive
      | GovCouncil \<Rightarrow> list_all (\<lambda>p. CittaCoherence (Soul (h p)) \<le> CittaCoherence (Soul (h l))) alive
      | GovMerchantRepublic \<Rightarrow> list_all (\<lambda>p. Wealth (h p) \<le> Wealth (h l)) alive
      | GovCommune \<Rightarrow> l = alive ! unat (tick mod of_nat (length alive)))"

lemma top_tier: "\<not> t < Tier2 \<longleftrightarrow> t = Tier2" "\<not> t < Tier0"
  by (cases t; simp add: less_CognitionTier_def)+

lemma choose_leader_rightful:
  assumes "alive \<noteq> []"
  shows "\<exists>l. choose_leader tick gov h alive = Some l \<and> rightful tick gov h alive l"
proof -
  have c: "\<exists>l. selectLeaderByCoherence h alive = Some l \<and> l \<in> set alive
      \<and> list_all (\<lambda>p. CittaCoherence (Soul (h p)) \<le> CittaCoherence (Soul (h l))) alive"
    unfolding selectLeaderByCoherence_def by (rule select_best_total [OF assms])
  have w: "\<exists>l. selectLeaderByWealth h alive Tier0 = Some l \<and> l \<in> set alive \<and> list_all (\<lambda>p. Wealth (h p) \<le> Wealth (h l)) alive"
    unfolding selectLeaderByWealth_def using select_best_total [OF assms] by (simp add: top_tier)
  show ?thesis
  proof (cases gov)
    case GovMonarchy
    show ?thesis
    proof (cases "selectLeaderByWealth h alive Tier2")
      case None
      then have "\<not> list_ex (\<lambda>p. Tier (h p) = Tier2) alive"
        by (simp add: selectLeaderByWealth_def select_best_None top_tier list_ex_iff)
      then show ?thesis using c None GovMonarchy by (auto simp: choose_leader_def rightful_def)
    next
      case (Some l)
      note best = select_best_spec [OF Some [unfolded selectLeaderByWealth_def]]
      have "list_ex (\<lambda>p. Tier (h p) = Tier2) alive" "Tier (h l) = Tier2"
        using best(1,2) by (auto simp: top_tier list_ex_iff)
      then show ?thesis using best Some GovMonarchy by (simp add: choose_leader_def rightful_def list_all_iff top_tier)
    qed
  next
    case GovCommune
    then show ?thesis using mod_length_in [OF assms] by (simp add: choose_leader_def rightful_def)
  qed (use c w in \<open>auto simp: choose_leader_def rightful_def\<close>)
qed

text \<open>
  After \<^verbatim>\<open>ensureLeader\<close> the settlement has a living leader: the one it
  had, or a rightful one.
\<close>

theorem ensureLeader_leads:
  fixes sp :: ptr and tick :: uint64
  assumes "alive \<noteq> []" "\<And>p. p \<in> set alive \<Longrightarrow> Alive (agent s p) \<and> AgentIndex s (AID (agent s p)) = Some p"
  defines "t \<equiv> ensureLeader sp alive tick s"
  shows "\<exists>l. living_leader t (settl t sp) = Some l
    \<and> (if living_leader s (settl s sp) = None
       then rightful tick (Governance (settl s sp)) (agent s) alive l \<and> Role (agent t l) = RoleLeader
       else t = s)"
proof (cases "living_leader s (settl s sp)")
  case None
  define u where "u = (case SLeaderID (settl s sp) of None \<Rightarrow> s | Some i \<Rightarrow> succession_crisis tick i sp s)"
  have u: "agent u = agent s" "AgentIndex u = AgentIndex s" "Governance (settl u sp) = Governance (settl s sp)"
    by (simp_all add: u_def succession_crisis_def Let_def split: option.split)
  obtain l where l: "choose_leader tick (Governance (settl s sp)) (agent s) alive = Some l"
    "rightful tick (Governance (settl s sp)) (agent s) alive l"
    using choose_leader_rightful [OF assms(1)] by blast
  have "t = install_leader tick sp l u" using None l(1) unfolding t_def ensureLeader_def u_def [symmetric] by (simp add: u)
  moreover have "Alive (agent s l) \<and> AgentIndex s (AID (agent s l)) = Some l"
    using assms(2) l(2) by (simp add: rightful_def)
  ultimately have "living_leader t (settl t sp) = Some l" "Role (agent t l) = RoleLeader"
    by (simp_all add: install_leader_def living_leader_def Let_def u)
  then show ?thesis using None l(2) by simp
qed (auto simp: t_def ensureLeader_def)

text \<open>
  The faction a revolution serves is the first of the slice with an influence
  above 40: the comparison meant to prefer the strongest compares the
  influence with itself.
\<close>

theorem revolt_faction_first:
  "revolt_faction s i = find_first (\<lambda>f. case Influence (fact s f) i of None \<Rightarrow> False | Some infl \<Rightarrow> lit 40 < infl) (Factions s)"
proof -
  let ?step = "\<lambda>f dom. case Influence (fact s f) i of None \<Rightarrow> dom
    | Some infl \<Rightarrow> if lit 40 < infl \<and> (dom = None \<or> the (Influence (fact s f) i) < infl) then Some f else dom"
  let ?P = "\<lambda>f. case Influence (fact s f) i of None \<Rightarrow> False | Some infl \<Rightarrow> lit 40 < infl"
  have "fold ?step fs (Some d) = Some d" for fs d by (induction fs) (auto split: option.split)
  then have "fold ?step fs None = find_first ?P fs" for fs
    by (induction fs) (auto split: option.split)
  then show ?thesis by (simp add: revolt_faction_def)
qed

end
