(* ===== verification/Bond_Laws.thy ===== *)
theory Bond_Laws
  imports Society_Laws
begin

section \<open>Bonds, trauma and the inner life\<close>

text \<open>
  Relationship lists stay short, without duplicates and in range; trauma never
  takes more than its cap; the pool of spirits only shrinks; the practice boost
  stays between its bounds.
\<close>

subsection \<open>Bonds\<close>

definition bond_ok :: "Relationship \<Rightarrow> bool" where
  "bond_ok r \<longleftrightarrow> - 1 \<le> Sentiment r \<and> Sentiment r \<le> 1 \<and> 0 \<le> Trust r \<and> Trust r \<le> 1"

definition bonds_ok :: "Relationship list \<Rightarrow> bool" where
  "bonds_ok rs \<longleftrightarrow> length rs \<le> 20 \<and> distinct (map TargetID rs) \<and> list_all bond_ok rs"

abbreviation all_bonds_ok :: "Sim \<Rightarrow> bool" where
  "all_bonds_ok s \<equiv> \<forall>p. bonds_ok (Relationships (agent s p))"

lemma cap_one_range: "x \<le> y \<Longrightarrow> x \<le> 1 \<Longrightarrow> x \<le> cap_one y" "cap_one y \<le> 1"
  by (auto simp: cap_one_def)

lemma warm_ok:
  assumes "bond_ok r" "0 \<le> ds" "0 \<le> dt"
  shows "bond_ok (warm ds dt r)"
proof -
  have "Sentiment r \<le> Sentiment r + ds" "Trust r \<le> Trust r + dt" using assms by (simp_all add: flt_add_increase)
  moreover have "- 1 \<le> (1 :: f32)" "0 \<le> (1 :: f32)" by (simp_all add: flt_le_iff)
  ultimately show ?thesis using assms(1) unfolding bond_ok_def warm_def
    by (auto intro!: cap_one_range intro: order_trans)
qed

lemma chill_ok:
  assumes "bond_ok r" "0 \<le> ds" "0 \<le> dt"
  shows "bond_ok (chill ds dt r)"
proof -
  have "Sentiment r - ds \<le> Sentiment r - 0" "Trust r - dt \<le> Trust r - 0"
    using assms by (simp_all only: flt_diff_mono order_refl)
  then have "Sentiment r - ds \<le> Sentiment r" "Trust r - dt \<le> Trust r" by simp_all
  then show ?thesis using assms(1) unfolding bond_ok_def chill_def by (auto simp: not_less flt_le_iff)
qed

lemma adjust_first_targets: "(\<And>r. TargetID (f r) = TargetID r) \<Longrightarrow> map TargetID (adjust_first P f rs) = map TargetID rs"
  by (induction rs) auto

lemma adjust_first_all: "list_all Q rs \<Longrightarrow> (\<And>r. Q r \<Longrightarrow> Q (f r)) \<Longrightarrow> list_all Q (adjust_first P f rs)"
  by (induction rs) auto

lemma length_adjust_first [simp]: "length (adjust_first P f rs) = length rs"
  by (induction rs) auto

lemma adjust_bonds_ok:
  "bonds_ok rs \<Longrightarrow> (\<And>r. TargetID (f r) = TargetID r) \<Longrightarrow> (\<And>r. bond_ok r \<Longrightarrow> bond_ok (f r)) \<Longrightarrow> bonds_ok (adjust_first P f rs)"
  by (simp add: bonds_ok_def adjust_first_targets adjust_first_all)

lemma boost_bonds_ok:
  "bonds_ok (Relationships a) \<Longrightarrow> 0 \<le> x \<Longrightarrow> 0 \<le> y \<Longrightarrow> bonds_ok (Relationships (boostRelationship i x y a))"
  by (auto simp: boostRelationship_def warm_def [abs_def] intro!: adjust_bonds_ok warm_ok [unfolded warm_def])

lemma new_bond_ok:
  assumes "bonds_ok rs" "length rs < 20" "\<not> list_ex (\<lambda>r. TargetID r = i) rs" "bond_ok r" "TargetID r = i"
  shows "bonds_ok (rs @ [r])"
  using assms by (auto simp: bonds_ok_def list_ex_iff)

lemma tenth_agnosis32: "0 \<le> float32 (Agnosis * lit x)" if "0 \<le> x" for x
  using that by (simp add: flt_conv_unit flt_mult_nonneg zero_le_lit)

lemma agnosis32_le_one: "float32 (Agnosis * lit x) \<le> 1" if "0 \<le> x" "x \<le> 1" for x
proof -
  have "Agnosis * lit x \<le> 1 * 1" using that by (intro flt_mult_mono) (simp_all add: lit_le_one zero_le_lit)
  then show ?thesis by (intro flt_conv_unit(2)) simp
qed

lemma strengthen_bonds_ok:
  assumes "bonds_ok (Relationships a)"
  shows "bonds_ok (Relationships (strengthenBond i a))"
proof (cases "hasRelationshipWith a i \<or> 20 \<le> length (Relationships a)")
  case True
  then show ?thesis unfolding strengthenBond_def using assms
    by (auto intro!: boost_bonds_ok tenth_agnosis32)
next
  case False
  have "- 1 \<le> (0 :: f32)" by (simp add: flt_le_iff)
  then have m: "- 1 \<le> float32 (Agnosis * lit x)" if "0 \<le> x" for x using tenth_agnosis32 [OF that] by (rule order_trans)
  define r where "r = \<lparr>TargetID = i, Sentiment = float32 (Agnosis * lit 0.2), Trust = float32 (Agnosis * lit 0.1)\<rparr>"
  have "bond_ok r" unfolding r_def bond_ok_def Relationship.simps
    by (intro conjI m tenth_agnosis32 agnosis32_le_one) simp_all
  then have "bonds_ok (Relationships a @ [r])"
    using False assms by (intro new_bond_ok [where i = i]) (simp_all add: hasRelationshipWith_def r_def)
  moreover have "Relationships (strengthenBond i a) = Relationships a @ [r]"
    using False by (simp add: strengthenBond_def r_def)
  ultimately show ?thesis by simp
qed

lemma damage_bonds_ok:
  assumes "bonds_ok (Relationships a)" "0 \<le> x" "x \<le> 1" "0 \<le> y"
  shows "bonds_ok (Relationships (damageRelationship i x y a))"
proof (cases "hasRelationshipWith a i \<or> \<not> length (Relationships a) < 20")
  case True
  then show ?thesis unfolding damageRelationship_def using assms
    by (auto intro!: adjust_bonds_ok chill_ok simp: chill_def)
next
  case False
  have "bond_ok \<lparr>TargetID = i, Sentiment = - x, Trust = 0\<rparr>"
    using assms(2,3) by (simp add: bond_ok_def flt_le_iff)
  then show ?thesis using False assms(1) unfolding damageRelationship_def
    by (simp add: new_bond_ok [where i = i] hasRelationshipWith_def)
qed

text \<open>Every step of the social day and of crime keeps all bonds in order.\<close>

named_theorems bonded \<open>steps that keep bonds in order\<close>

lemma bonds_upd: "all_bonds_ok s \<Longrightarrow> (\<And>a. bonds_ok (Relationships a) \<Longrightarrow> bonds_ok (Relationships (f a))) \<Longrightarrow> all_bonds_ok (upd_agent p f s)"
  by simp

lemma bonds_other [bonded]:
  "all_bonds_ok s \<Longrightarrow> all_bonds_ok (upd_settl q g s)" "all_bonds_ok s \<Longrightarrow> all_bonds_ok (upd_fact f h s)"
  "all_bonds_ok s \<Longrightarrow> all_bonds_ok (emit t d c s)"
  by simp_all

lemma bonds_upd_same [bonded]:
  "all_bonds_ok s \<Longrightarrow> all_bonds_ok (upd_agent p (\<lambda>a. a\<lparr>Soul := soul a\<rparr>) s)"
  "all_bonds_ok s \<Longrightarrow> all_bonds_ok (upd_agent p (\<lambda>a. a\<lparr>FactionID := fid\<rparr>) s)"
  "all_bonds_ok s \<Longrightarrow> all_bonds_ok (upd_agent p (\<lambda>a. a\<lparr>Role := r\<rparr>) s)"
  "all_bonds_ok s \<Longrightarrow> all_bonds_ok (upd_agent p (AddMemory tick content imp) s)"
  "all_bonds_ok s \<Longrightarrow> all_bonds_ok (upd_agent p (add_belonging x) s)"
  "all_bonds_ok s \<Longrightarrow> all_bonds_ok (upd_agent p (add_purpose x) s)"
  "all_bonds_ok s \<Longrightarrow> all_bonds_ok (upd_agent p (inv_add good n) s)"
  "all_bonds_ok s \<Longrightarrow> all_bonds_ok (upd_agent p (honour_soldier x y) s)"
  "all_bonds_ok s \<Longrightarrow> all_bonds_ok (upd_agent p (gain_wealth w) s)"
  "all_bonds_ok s \<Longrightarrow> all_bonds_ok (upd_agent p (lose_wealth w) s)"
  by (erule bonds_upd; simp add: AddMemory_def add_belonging_def add_purpose_def inv_add_def honour_soldier_def
      gain_wealth_def lose_wealth_def Let_def)+

lemma bonds_upd_bond [bonded]:
  "all_bonds_ok s \<Longrightarrow> all_bonds_ok (upd_agent p (strengthenBond i) s)"
  "all_bonds_ok s \<Longrightarrow> all_bonds_ok (upd_agent p (boostRelationship i (lit 0.3) (lit 0.2)) s)"
  "all_bonds_ok s \<Longrightarrow> all_bonds_ok (upd_agent p (damageRelationship i (lit 0.3) (lit 0.2)) s)"
  "all_bonds_ok s \<Longrightarrow> all_bonds_ok (upd_agent p (damageRelationship i (lit 0.4) (lit 0.3)) s)"
  by (erule bonds_upd; intro strengthen_bonds_ok boost_bonds_ok damage_bonds_ok zero_le_lit lit_le_one; simp)+

lemma bonds_counted:
  assumes "all_bonds_ok s" "\<And>a c. Relationships (fst (f (a, c))) = Relationships a"
  shows "all_bonds_ok (upd_counted p f s)"
proof
  fix q
  have "Relationships (agent (upd_counted p f s) q) = Relationships (agent s q)"
    using assms(2) [of "agent s p" "SatBumps s"] by (auto simp: upd_counted_def split: prod.splits)
  then show "bonds_ok (Relationships (agent (upd_counted p f s) q))" using assms(1) by simp
qed

lemma bonds_fold [bonded]: "all_bonds_ok s \<Longrightarrow> (\<And>x t. all_bonds_ok t \<Longrightarrow> all_bonds_ok (f x t)) \<Longrightarrow> all_bonds_ok (fold f xs s)"
  by (rule fold_preserves)

lemma bonds_if [bonded]: "all_bonds_ok a \<Longrightarrow> all_bonds_ok b \<Longrightarrow> all_bonds_ok (if c then a else b)"
  by simp

lemma bonds_case [bonded]:
  "all_bonds_ok a \<Longrightarrow> (\<And>y. x = Some y \<Longrightarrow> all_bonds_ok (b y)) \<Longrightarrow> all_bonds_ok (case x of None \<Rightarrow> a | Some y \<Rightarrow> b y)"
  by (cases x) simp_all

lemma relate_in_bonds: "all_bonds_ok s \<Longrightarrow> all_bonds_ok (relate_in tick sp s)"
proof -
  have meet: "all_bonds_ok (meet d i al k t)" if "all_bonds_ok t" for d i al k t
    unfolding meet_def Let_def split_beta by (intro bonded that)
  have families: "all_bonds_ok (formFamilies al tick t)" if "all_bonds_ok t" for al t
    unfolding formFamilies_def marry_def imprintMarriageMemories_def Let_def by (intro bonded that)
  have mentors: "all_bonds_ok (processMentorship al tick t)" if "all_bonds_ok t" for al t
    unfolding processMentorship_def mentor_pair_def imprintMentorshipStartMemories_def Let_def split_beta by (intro bonded that)
  have recruits: "all_bonds_ok (processFactionRecruitment al tick t)" if "all_bonds_ok t" for al t
    unfolding processFactionRecruitment_def recruit_friend_def Let_def by (intro bonded that)
  have rivals: "all_bonds_ok (upd_counted p rivalry t)" if "all_bonds_ok t" for p t
    by (rule bonds_counted [OF that]) (simp add: rivalry_def Let_def split_beta ApplyDirectSatBump_fst)
  assume "all_bonds_ok s"
  then show ?thesis unfolding relate_in_def processRivalries_def rival_with_def Let_def
    by (intro bonded meet families mentors recruits rivals)
qed

theorem processRelationships_bonds: "all_bonds_ok s \<Longrightarrow> all_bonds_ok (processRelationships tick s)"
  unfolding processRelationships_def by (erule bonds_fold) (rule relate_in_bonds)

theorem processCrime_bonds: "all_bonds_ok s \<Longrightarrow> all_bonds_ok (processCrime tick s)"
proof -
  have caught: "all_bonds_ok (upd_counted p (ApplyDirectSatBump x n) t)" if "all_bonds_ok t" for p t x n
    by (rule bonds_counted [OF that]) (simp add: ApplyDirectSatBump_fst)
  have betray: "all_bonds_ok (ProcessBetrayalExpulsion p v tick t)" if "all_bonds_ok t" for p v t
    using that unfolding ProcessBetrayalExpulsion_def by (auto simp: Let_def split: option.split)
  have theft: "all_bonds_ok (theft i p v t)" if "all_bonds_ok t" for i p v t
    unfolding theft_def aggrieve_def adjustFactionInfluenceFromCrime_def steal_good_def steal_crowns_def Let_def
    by (intro bonded that)
  assume "all_bonds_ok s"
  then show ?thesis unfolding processCrime_def crime_in_def crime_of_def caught_def Let_def split_beta
    by (intro bonded caught betray theft)
qed

subsection \<open>Trauma\<close>

lemma trauma_decay_range:
  assumes "0 \<le> base" "0 \<le> cap" "0 \<le> intensity" "0 \<le> r"
  shows "0 \<le> trauma_decay base cap intensity r a" "trauma_decay base cap intensity r a \<le> cap"
proof -
  have "0 \<le> base * intensity * (lit 0.7 + r * lit 0.3)"
    using assms by (intro flt_mult_nonneg flt_add_nonneg zero_le_lit) simp_all
  then have "0 \<le> base * intensity * (lit 0.7 + r * lit 0.3) * traumaLibMult"
    by (rule flt_mult_nonneg) (simp add: traumaLibMult_def zero_le_lit)
  then show "0 \<le> trauma_decay base cap intensity r a" "trauma_decay base cap intensity r a \<le> cap"
    using assms(2) \<open>0 \<le> base * intensity * (lit 0.7 + r * lit 0.3)\<close> unfolding trauma_decay_def Let_def by auto
qed

text \<open>One event lowers coherence, by at most its cap, and keeps it a coherence.\<close>

lemma traumatize_bounds:
  assumes "0 \<le> base" "0 \<le> cap" "0 \<le> intensity" "0 \<le> r" "0 \<le> CittaCoherence (Soul a)" "CittaCoherence (Soul a) \<le> 1"
  defines "c' \<equiv> CittaCoherence (Soul (traumatize base cap intensity r a))"
  shows "clamp 0 1 (CittaCoherence (Soul a) - cap) \<le> c'" "c' \<le> CittaCoherence (Soul a)"
proof -
  let ?c = "CittaCoherence (Soul a)" and ?d = "trauma_decay base cap intensity r a"
  have d: "0 \<le> ?d" "?d \<le> cap" using trauma_decay_range assms by blast+
  have "c' = clamp 0 1 (?c - ?d)"
    using d(1) unfolding c'_def traumatize_def
    by (simp add: AdjustCoherence_neg flt_le_iff UpdateState_def plus_flt_def minus_flt_def)
  moreover have "?c - cap \<le> ?c - ?d" using d by (simp add: flt_diff_mono)
  moreover have "?c - ?d \<le> ?c - 0" using d by (intro flt_diff_mono) simp_all
  then have "clamp 0 1 (?c - ?d) \<le> clamp 0 1 ?c" by (intro clamp_mono) simp
  ultimately show "clamp 0 1 (?c - cap) \<le> c'" "c' \<le> ?c" using assms(5,6) by (simp_all add: clamp_mono clamp_id)
qed

subsection \<open>Spirits and monasteries\<close>

lemma pool_shrinks:
  "0 \<le> LiberatedSpiritsPool s \<Longrightarrow> 0 \<le> LiberatedSpiritsPool (processSpiritsPoolDecay r s)"
  "LiberatedSpiritsPool (processSpiritsPoolDecay r s) \<le> LiberatedSpiritsPool s"
proof -
  have "length (filter P [0 ..< nat n]) \<le> nat n" for P and n :: int using length_filter_le [of P "[0 ..< nat n]"] by simp
  then have "int (length (filter P [0 ..< nat n])) \<le> n" if "0 < n" for P and n :: int using that by (metis int_nat_eq of_nat_le_iff order_less_imp_le)
  then show "0 \<le> LiberatedSpiritsPool s \<Longrightarrow> 0 \<le> LiberatedSpiritsPool (processSpiritsPoolDecay r s)"
    "LiberatedSpiritsPool (processSpiritsPoolDecay r s) \<le> LiberatedSpiritsPool s"
    by (auto simp: processSpiritsPoolDecay_def not_le)
qed

text \<open>A roll that succeeds takes exactly one spirit and seeds a liberated soul below certainty.\<close>

lemma roll_seeds:
  assumes "rollReincarnation r1 r2 n s = (Some (c, w), t)" "0 \<le> r2" "r2 \<le> 1" "0 \<le> n" "n < 200"
  shows "float32 (lit 0.7) \<le> c" "c \<le> 1" "100 \<le> w" "w < 300"
    "t = s\<lparr>LiberatedSpiritsPool := LiberatedSpiritsPool s - 1\<rparr>" "0 \<le> LiberatedSpiritsPool t"
proof -
  have c: "c = float32 (lit 0.7 + r2 * lit 0.15)" and w: "w = of_int (100 + n)"
    and t: "t = s\<lparr>LiberatedSpiritsPool := LiberatedSpiritsPool s - 1\<rparr>" and p: "0 < LiberatedSpiritsPool s"
    using assms(1) by (auto simp: rollReincarnation_def split: if_splits)
  have "lit 0.7 \<le> lit 0.7 + r2 * lit 0.15" using assms(2) by (simp add: flt_add_increase flt_mult_nonneg zero_le_lit)
  then show "float32 (lit 0.7) \<le> c" unfolding c by (rule flt_conv_mono)
  have "r2 * lit 0.15 \<le> 1 * lit 0.15" by (rule flt_mult_right_mono) (simp_all add: assms(3) zero_le_lit)
  then have "lit 0.7 + r2 * lit 0.15 \<le> lit 0.7 + lit 0.15" by (intro flt_add_mono) simp_all
  also have "\<dots> \<le> 1" by code_simp
  finally show "c \<le> 1" unfolding c by (rule flt_conv_unit(2))
  have u: "uint w = 100 + n" unfolding w uint_word_of_int using assms(4,5) by simp
  then show "100 \<le> w" "w < 300" using assms(4,5) by (simp_all add: word_le_def word_less_def)
  show "t = s\<lparr>LiberatedSpiritsPool := LiberatedSpiritsPool s - 1\<rparr>" "0 \<le> LiberatedSpiritsPool t" using t p by simp_all
qed

lemma monastic_score_range: "0 \<le> computeSettlementMonasticScore s t" "computeSettlementMonasticScore s t \<le> 1"
  by (simp_all add: computeSettlementMonasticScore_def Let_def clamp_bounds zero_le_one_flt)

definition monastic_max :: f32 where
  "monastic_max = float32 (1 + Agnosis * Being)"

lemma monastic_boost_range:
  assumes "monastic_boost s i = Some b"
  shows "1 \<le> b" "b \<le> monastic_max"
proof -
  have v: "1 \<le> float32 (1 + x * Agnosis * Being) \<and> float32 (1 + x * Agnosis * Being) \<le> monastic_max"
    if "0 \<le> x" "x \<le> 1" for x
  proof
    have "1 \<le> 1 + x * Agnosis * Being" using that by (simp add: flt_add_increase flt_mult_nonneg)
    then show "1 \<le> float32 (1 + x * Agnosis * Being)" using flt_conv_mono [of 1 "1 + x * Agnosis * Being"] by simp
    have "x * Agnosis * Being \<le> 1 * Agnosis * Being" by (intro flt_mult_right_mono) (simp_all add: that)
    then show "float32 (1 + x * Agnosis * Being) \<le> monastic_max"
      unfolding monastic_max_def by (intro flt_conv_mono flt_add_mono) simp_all
  qed
  have "fold (\<lambda>sp m. if Population (settl s sp) = 0 then m else m(SID (settl s sp) \<mapsto>
      float32 (1 + computeSettlementMonasticScore s (settl s sp) * Agnosis * Being))) sps m i = Some b
    \<Longrightarrow> m i = Some b \<or> (\<exists>x. 0 \<le> x \<and> x \<le> 1 \<and> b = float32 (1 + x * Agnosis * Being))" for sps m
  proof (induction sps arbitrary: m)
    case (Cons sp sps)
    let ?x = "computeSettlementMonasticScore s (settl s sp)"
    let ?m = "if Population (settl s sp) = 0 then m else m(SID (settl s sp) \<mapsto> float32 (1 + ?x * Agnosis * Being))"
    have "?m i = Some b \<or> (\<exists>x. 0 \<le> x \<and> x \<le> 1 \<and> b = float32 (1 + x * Agnosis * Being))"
      by (rule Cons.IH) (use Cons.prems in simp)
    moreover have "?m i = Some b \<Longrightarrow> m i = Some b \<or> b = float32 (1 + ?x * Agnosis * Being)" by (simp split: if_splits)
    ultimately show ?case using monastic_score_range [of s "settl s sp"] by blast
  qed simp
  from this [of "Settlements s" Map.empty] obtain x where "0 \<le> x" "x \<le> 1" "b = float32 (1 + x * Agnosis * Being)"
    using assms by (auto simp: monastic_boost_def)
  then show "1 \<le> b" "b \<le> monastic_max" using v by simp_all
qed

theorem computeMonasticBoosts_range:
  assumes "p \<in> set (Agents s)" "Alive (agent s p)"
  shows "1 \<le> PracticeBoost (agent (computeMonasticBoosts s) p)" "PracticeBoost (agent (computeMonasticBoosts s) p) \<le> monastic_max"
proof -
  let ?b = "\<lambda>a. case Option.bind (HomeSettID a) (monastic_boost s) of None \<Rightarrow> 1 | Some b \<Rightarrow> b"
  let ?f = "\<lambda>p s'. if \<not> Alive (agent s' p) then s' else upd_agent p (\<lambda>a. a\<lparr>PracticeBoost := ?b a\<rparr>) s'"
  have "1 \<le> 1 + Agnosis * Being" by (simp add: flt_add_increase flt_mult_nonneg)
  then have one: "1 \<le> monastic_max" unfolding monastic_max_def using flt_conv_mono [of 1 "1 + Agnosis * Being"] by simp
  have b: "1 \<le> ?b a" "?b a \<le> monastic_max" for a
    using monastic_boost_range one by (auto simp: bind_eq_Some_conv split: option.split)
  have "Alive (agent t p) \<Longrightarrow> (1 \<le> PracticeBoost (agent t p) \<and> PracticeBoost (agent t p) \<le> monastic_max) \<or> p \<in> set ps
    \<Longrightarrow> 1 \<le> PracticeBoost (agent (fold ?f ps t) p) \<and> PracticeBoost (agent (fold ?f ps t) p) \<le> monastic_max" for ps t
  proof (induction ps arbitrary: t)
    case (Cons q ps)
    show ?case unfolding fold_simps using Cons.prems b by (intro Cons.IH) auto
  qed auto
  then show "1 \<le> PracticeBoost (agent (computeMonasticBoosts s) p)" "PracticeBoost (agent (computeMonasticBoosts s) p) \<le> monastic_max"
    unfolding computeMonasticBoosts_def using assms by blast+
qed

end
