(* ===== verification/Faction_Laws.thy ===== *)
theory Faction_Laws
  imports Society_Laws
begin

section \<open>Influence, recruitment and defection\<close>

text \<open>
  \<^verbatim>\<open>updateFactionInfluence\<close> computes, for every faction and settlement,
  the weighted share of its members among the living; recruitment stays within
  its weekly cap and only takes unaffiliated adults of the settlement;
  defection takes four weeks in breach of doctrine.
\<close>

subsection \<open>Influence is what the members make it\<close>

definition living_in :: "Sim \<Rightarrow> ptr \<Rightarrow> Agent list" where
  "living_in s sp = filter Alive (map (agent s) (SettlementAgents s (SID (settl s sp))))"

definition set_influence :: "uint64 \<Rightarrow> f64 option \<Rightarrow> Faction \<Rightarrow> Faction" where
  "set_influence i x t = (case x of None \<Rightarrow> t | Some y \<Rightarrow> t\<lparr>Influence := (Influence t)(i \<mapsto> y)\<rparr>)"

lemma influence_fold:
  fixes sp :: ptr and l :: "Agent list"
  assumes "distinct fs" "\<And>f. f \<in> set fs \<Longrightarrow> index (FID (fact s f)) = Some f"
  defines "r \<equiv> fold (\<lambda>f s. if index (FID (fact s f)) \<noteq> Some f then s
      else case local_influence (FID (fact s f)) (Governance (settl s sp)) l of
             None \<Rightarrow> s | Some x \<Rightarrow> upd_fact f (\<lambda>t. t\<lparr>Influence := (Influence t)(SID (settl s sp) \<mapsto> x)\<rparr>) s) fs s"
  shows "fact r f = (if f \<in> set fs then set_influence (SID (settl s sp)) (local_influence (FID (fact s f)) (Governance (settl s sp)) l) (fact s f)
      else fact s f)
    \<and> settl r = settl s \<and> agent r = agent s \<and> Factions r = Factions s \<and> SettlementAgents r = SettlementAgents s"
  using assms(1,2) unfolding r_def
proof (induction fs arbitrary: s)
  case (Cons g fs)
  define t where "t = (case local_influence (FID (fact s g)) (Governance (settl s sp)) l of
    None \<Rightarrow> s | Some x \<Rightarrow> upd_fact g (\<lambda>t. t\<lparr>Influence := (Influence t)(SID (settl s sp) \<mapsto> x)\<rparr>) s)"
  have t: "fact t f = (if f = g then set_influence (SID (settl s sp)) (local_influence (FID (fact s g)) (Governance (settl s sp)) l) (fact s g)
      else fact s f)" "settl t = settl s" "agent t = agent s" "Factions t = Factions s" "SettlementAgents t = SettlementAgents s" for f
    by (auto simp: t_def set_influence_def split: option.split)
  have "index (FID (fact t f)) = Some f" if "f \<in> set fs" for f using Cons.prems that by (auto simp: t)
  from Cons.IH [OF _ this, unfolded t] Cons.prems show ?case by (auto simp: t_def [symmetric] t)
qed simp

definition measured :: "Sim \<Rightarrow> ptr \<Rightarrow> ptr \<Rightarrow> f64 option" where
  "measured s f sp =
     (if living_in s sp = [] then None else local_influence (FID (fact s f)) (Governance (settl s sp)) (living_in s sp))"

text \<open>States that differ only in the influence of factions.\<close>

definition same_world :: "Sim \<Rightarrow> Sim \<Rightarrow> bool" where
  "same_world s t \<longleftrightarrow> settl t = settl s \<and> agent t = agent s \<and> Factions t = Factions s
     \<and> Settlements t = Settlements s \<and> SettlementAgents t = SettlementAgents s \<and> (\<forall>f. FID (fact t f) = FID (fact s f))"

lemma same_world_measured: "same_world s t \<Longrightarrow> measured t = measured s"
  unfolding same_world_def by (rule ext)+ (simp add: measured_def living_in_def)

lemma same_world_trans: "same_world s t \<Longrightarrow> same_world t u \<Longrightarrow> same_world s u"
  by (simp add: same_world_def)

lemma set_influence_simps [simp]:
  "set_influence i None t = t"
  "FID (set_influence i x t) = FID t"
  "Influence (set_influence i x t) j = (if j = i then (case x of None \<Rightarrow> Influence t j | Some y \<Rightarrow> Some y) else Influence t j)"
  by (auto simp: set_influence_def split: option.split)

lemma influence_in_step:
  assumes "distinct (Factions s)" "\<And>f. f \<in> set (Factions s) \<Longrightarrow> index (FID (fact s f)) = Some f"
  shows "fact (influence_in index sp s) f = (if f \<in> set (Factions s) then set_influence (SID (settl s sp)) (measured s f sp) (fact s f) else fact s f)"
    and "same_world s (influence_in index sp s)"
proof -
  define l where "l = living_in s sp"
  let ?f = "\<lambda>f s. if index (FID (fact s f)) \<noteq> Some f then s
      else case local_influence (FID (fact s f)) (Governance (settl s sp)) l of
             None \<Rightarrow> s | Some x \<Rightarrow> upd_fact f (\<lambda>t. t\<lparr>Influence := (Influence t)(SID (settl s sp) \<mapsto> x)\<rparr>) s"
  note r = influence_fold [OF assms, where sp = sp and l = l]
  have "Settlements (fold ?f fs t) = Settlements t" for fs t
    by (induction fs arbitrary: t) (auto split: option.split)
  moreover have "influence_in index sp s = (if l = [] then s else fold ?f (Factions s) s)"
    unfolding influence_in_def Let_def living_in_def [symmetric] l_def [symmetric] ..
  ultimately show "fact (influence_in index sp s) f =
      (if f \<in> set (Factions s) then set_influence (SID (settl s sp)) (measured s f sp) (fact s f) else fact s f)"
    "same_world s (influence_in index sp s)"
    using r by (auto simp: measured_def l_def [symmetric] same_world_def)
qed

lemma influence_outer:
  assumes "distinct (Factions s)" "\<And>f. f \<in> set (Factions s) \<Longrightarrow> index (FID (fact s f)) = Some f"
    and "distinct (map (\<lambda>sp. SID (settl s sp)) sps)" "f \<in> set (Factions s)"
  shows "Influence (fact (fold (influence_in index) sps s) f) i =
      (case find_first (\<lambda>sp. SID (settl s sp) = i) sps of
         None \<Rightarrow> Influence (fact s f) i
       | Some sp \<Rightarrow> (case measured s f sp of None \<Rightarrow> Influence (fact s f) i | Some x \<Rightarrow> Some x))
    \<and> same_world s (fold (influence_in index) sps s)"
  using assms
proof (induction sps arbitrary: s)
  case (Cons sp sps)
  let ?t = "influence_in index sp s"
  note t = influence_in_step [OF Cons.prems(1,2), of sp]
  have w: "same_world s ?t" by (rule t(2))
  then have eqs: "settl ?t = settl s" "Factions ?t = Factions s" "\<And>f. FID (fact ?t f) = FID (fact s f)"
    by (simp_all add: same_world_def)
  have "Influence (fact (fold (influence_in index) sps ?t) f) i =
      (case find_first (\<lambda>sp. SID (settl ?t sp) = i) sps of
         None \<Rightarrow> Influence (fact ?t f) i
       | Some sp \<Rightarrow> (case measured ?t f sp of None \<Rightarrow> Influence (fact ?t f) i | Some x \<Rightarrow> Some x))
    \<and> same_world ?t (fold (influence_in index) sps ?t)"
    by (rule Cons.IH) (use Cons.prems in \<open>simp_all add: eqs\<close>)
  then have ih: "Influence (fact (fold (influence_in index) sps ?t) f) i =
      (case find_first (\<lambda>sp. SID (settl s sp) = i) sps of
         None \<Rightarrow> Influence (fact ?t f) i
       | Some sp \<Rightarrow> (case measured s f sp of None \<Rightarrow> Influence (fact ?t f) i | Some x \<Rightarrow> Some x))"
    and ws: "same_world s (fold (influence_in index) sps ?t)"
    unfolding eqs same_world_measured [OF w] using same_world_trans [OF w] by simp_all
  have none: "find_first (\<lambda>sp. SID (settl s sp) = SID (settl s sp')) sps = None" if "sp' = sp" for sp'
    using Cons.prems(3) that by (auto simp: find_first_None) (metis imageI)
  show ?case using ih ws none Cons.prems(4)
    by (auto simp: t(1) split: option.splits)
qed (simp add: same_world_def)

theorem updateFactionInfluence_measures:
  assumes "distinct (map (\<lambda>f. FID (fact s f)) (Factions s))" "distinct (map (\<lambda>sp. SID (settl s sp)) (Settlements s))"
    and "f \<in> set (Factions s)"
  shows "Influence (fact (updateFactionInfluence s) f) i =
    Option.bind (find_first (\<lambda>sp. SID (settl s sp) = i) (Settlements s)) (measured s f)"
proof -
  define t where "t = fold (\<lambda>f. upd_fact f (\<lambda>t. t\<lparr>Influence := Map.empty\<rparr>)) (Factions s) s"
  have reset: "fact (fold (\<lambda>f. upd_fact f (\<lambda>t. t\<lparr>Influence := Map.empty\<rparr>)) fs u) g =
      (if g \<in> set fs then (fact u g)\<lparr>Influence := Map.empty\<rparr> else fact u g)
    \<and> settl (fold (\<lambda>f. upd_fact f (\<lambda>t. t\<lparr>Influence := Map.empty\<rparr>)) fs u) = settl u
    \<and> agent (fold (\<lambda>f. upd_fact f (\<lambda>t. t\<lparr>Influence := Map.empty\<rparr>)) fs u) = agent u
    \<and> Factions (fold (\<lambda>f. upd_fact f (\<lambda>t. t\<lparr>Influence := Map.empty\<rparr>)) fs u) = Factions u
    \<and> Settlements (fold (\<lambda>f. upd_fact f (\<lambda>t. t\<lparr>Influence := Map.empty\<rparr>)) fs u) = Settlements u
    \<and> SettlementAgents (fold (\<lambda>f. upd_fact f (\<lambda>t. t\<lparr>Influence := Map.empty\<rparr>)) fs u) = SettlementAgents u" for fs g u
    by (induction fs arbitrary: u) auto
  have t: "same_world s t" "Influence (fact t f) = Map.empty"
    using reset [of "Factions s" s] assms(3) by (simp_all add: t_def same_world_def)
  then have eqs: "settl t = settl s" "Factions t = Factions s" "Settlements t = Settlements s" "\<And>f. FID (fact t f) = FID (fact s f)"
    by (simp_all add: same_world_def)
  have idx: "factionIndex t (FID (fact t g)) = Some g" if "g \<in> set (Factions t)" for g
    unfolding factionIndex_def using index_by_distinct [of "\<lambda>f. FID (fact t f)" "Factions t" g] assms(1) that by (simp add: eqs)
  have "Influence (fact (fold (influence_in (factionIndex t)) (Settlements t) t) f) i =
      (case find_first (\<lambda>sp. SID (settl t sp) = i) (Settlements t) of
         None \<Rightarrow> Influence (fact t f) i
       | Some sp \<Rightarrow> (case measured t f sp of None \<Rightarrow> Influence (fact t f) i | Some x \<Rightarrow> Some x))"
    using influence_outer [OF _ idx, of "Settlements t" f i] assms by (simp add: eqs distinct_map)
  then show ?thesis
    unfolding updateFactionInfluence_def t_def [symmetric] Let_def
    by (auto simp: t eqs same_world_measured [OF t(1)] split: option.split)
qed

subsection \<open>Recruitment\<close>

definition switched :: "Sim \<Rightarrow> Sim \<Rightarrow> ptr set" where
  "switched s t = {p. FactionID (agent t p) \<noteq> FactionID (agent s p)}"

definition recruitment_cap :: "nat \<Rightarrow> int" where
  "recruitment_cap n = int_of_flt (math_Max 1 (flt_of_int (int n) * Agnosis))"

lemma recruitment_cap_range: "1 \<le> recruitment_cap n" "recruitment_cap n \<le> max 1 (int n)"
proof -
  have one: "int_of_flt (1 :: f64) = 1" by (simp add: int_of_flt_def)
  have "int_of_flt (flt_of_int (int n) * Agnosis) \<le> int n" by (intro half_share) (simp_all add: two_agnosis)
  then show "recruitment_cap n \<le> max 1 (int n)" by (auto simp: recruitment_cap_def math_Max_def one)
  show "1 \<le> recruitment_cap n"
    using int_of_flt_mono [of 1 "flt_of_int (int n) * Agnosis"] by (auto simp: recruitment_cap_def math_Max_def one)
qed

lemma try_recruit_step:
  assumes "try_recruit tick limit sett active ti p st = Some st'" "p \<in> P"
    and "switched s (fst st) \<subseteq> P" "finite (switched s (fst st))" "int (card (switched s (fst st))) \<le> snd st" "snd st \<le> limit"
  shows "switched s (fst st') \<subseteq> P \<and> finite (switched s (fst st')) \<and> int (card (switched s (fst st'))) \<le> snd st' \<and> snd st' \<le> limit"
proof (cases "st' = st")
  case False
  obtain t n where st: "st = (t, n)" by (cases st)
  have n: "snd st' = n + 1" "n < limit" and "switched s (fst st') \<subseteq> insert p (switched s t)"
    using assms(1) False unfolding st try_recruit_def Let_def split_beta switched_def
    by (auto split: if_splits)
  moreover have "card (switched s (fst st')) \<le> Suc (card (switched s t))"
    using \<open>switched s (fst st') \<subseteq> _\<close> assms(4) card_insert_le_m1 [of "Suc (card (switched s t))" "switched s t" p]
      card_mono [of "insert p (switched s t)" "switched s (fst st')"] by (simp add: st)
  ultimately show ?thesis using assms(2-5) by (auto simp: st intro: finite_subset)
qed (use assms in simp)

theorem recruit_in_capped:
  fixes s :: Sim
  defines "sett \<equiv> \<lambda>sp. SID (settl s sp)"
  shows "switched s (recruit_in tick pool sp s) \<subseteq> set (pool (sett sp))"
    and "int (card (switched s (recruit_in tick pool sp s))) \<le> recruitment_cap (length (pool (sett sp)))"
proof -
  let ?ps = "pool (sett sp)"
  let ?I = "\<lambda>st. switched s (fst st) \<subseteq> set ?ps \<and> finite (switched s (fst st)) \<and> int (card (switched s (fst st))) \<le> snd st
    \<and> snd st \<le> recruitment_cap (length ?ps)"
  have start: "?I (s, 0 :: int)" using recruitment_cap_range(1) [of "length ?ps"] by (simp add: switched_def)
  have "?I (for_break (try_recruit tick (recruitment_cap (length ?ps)) t active ti) ?ps (s, 0))" for t active ti
    using for_break_rel [of "\<lambda>_ _. True" ?ps ?I "try_recruit tick (recruitment_cap (length ?ps)) t active ti" "(s, 0)"]
      try_recruit_step [where P = "set ?ps" and s = s] start by blast
  then have "switched s (recruit_in tick pool sp s) \<subseteq> set ?ps \<and>
      int (card (switched s (recruit_in tick pool sp s))) \<le> recruitment_cap (length ?ps)"
    using start unfolding recruit_in_def Let_def recruitment_cap_def sett_def by (auto intro: order_trans)
  then show "switched s (recruit_in tick pool sp s) \<subseteq> set ?ps"
    "int (card (switched s (recruit_in tick pool sp s))) \<le> recruitment_cap (length ?ps)" by simp_all
qed

end
