(* ===== verification/Spawner.thy ===== *)
theory Spawner
  imports Behavior "HOL-Library.State_Monad"
begin

section \<open>Creating agents (internal/agents/spawner.go)\<close>

text \<open>
  A \<^verbatim>\<open>Spawner\<close> owns a random generator and the next identifier.
  \<^verbatim>\<open>math/rand\<close> is the record \<open>Rand\<close> of the generator's methods,
  an argument of the definitions; its contract is the locale \<open>rand_contract\<close>.
  The methods of the spawner run in the state monad over the spawner.  The
  wealth of an agent, \<^verbatim>\<open>startingWealth\<close>, is a number of crowns created
  with the agent; a child is born with none.
\<close>

record 'g Rand =
  rand_Float32 :: "'g \<Rightarrow> f32 \<times> 'g"
  rand_Float64 :: "'g \<Rightarrow> f64 \<times> 'g"
  rand_NormFloat64 :: "'g \<Rightarrow> f64 \<times> 'g"
  rand_Intn :: "int \<Rightarrow> 'g \<Rightarrow> int \<times> 'g"

record 'g Spawner =
  rng :: 'g
  nextID :: uint64

type_synonym ('g, 'a) spawn = "('g Spawner, 'a) state"

definition draw :: "('g \<Rightarrow> 'a \<times> 'g) \<Rightarrow> ('g, 'a) spawn" where
  "draw f = State (\<lambda>sp. let (x, g) = f (rng sp) in (x, sp\<lparr>rng := g\<rparr>))"

definition fresh_id :: "('g, uint64) spawn" where
  "fresh_id = State (\<lambda>sp. (nextID sp, sp\<lparr>nextID := nextID sp + 1\<rparr>))"

definition NewSpawner :: "(int \<Rightarrow> 'g) \<Rightarrow> int \<Rightarrow> 'g Spawner" where
  "NewSpawner newRand seed = \<lparr>rng = newRand (seed + 300), nextID = 1\<rparr>"

definition SetNextID :: "uint64 \<Rightarrow> 'g Spawner \<Rightarrow> 'g Spawner" where
  "SetNextID i sp = sp\<lparr>nextID := i\<rparr>"

text \<open>\<^verbatim>\<open>lo + rng.Float32()*width\<close>\<close>

definition unit_draw :: "'g Rand \<Rightarrow> f32 \<Rightarrow> f32 \<Rightarrow> ('g, f32) spawn" where
  "unit_draw R lo width = do { r \<leftarrow> draw (rand_Float32 R); State_Monad.return (lo + r * width) }"

definition draw_sex :: "'g Rand \<Rightarrow> ('g, Sex) spawn" where
  "draw_sex R = do { r \<leftarrow> draw (rand_Float32 R); State_Monad.return (if r < lit 0.5 then SexFemale else SexMale) }"

definition weightedAge :: "'g Rand \<Rightarrow> ('g, uint16) spawn" where
  "weightedAge R = do {
     n \<leftarrow> draw (rand_NormFloat64 R);
     State_Monad.return (word_of_flt (clamp (lit 5) (lit 70) (lit 30 + n * lit 12)))
   }"

definition occupation_by :: "Terrain \<Rightarrow> f32 \<Rightarrow> Occupation" where
  "occupation_by terrain r =
     (if terrain = TerrainPlains \<or> terrain = TerrainRiver then
        if r < lit 0.45 then OccupationFarmer else if r < lit 0.62 then OccupationLaborer
        else if r < lit 0.77 then OccupationCrafter else if r < lit 0.88 then OccupationMerchant
        else if r < lit 0.94 then OccupationSoldier else OccupationScholar
      else if terrain = TerrainMountain then
        if r < lit 0.40 then OccupationMiner else if r < lit 0.60 then OccupationLaborer
        else if r < lit 0.75 then OccupationCrafter else if r < lit 0.85 then OccupationMerchant
        else if r < lit 0.95 then OccupationSoldier else OccupationScholar
      else if terrain = TerrainCoast then
        if r < lit 0.35 then OccupationFisher else if r < lit 0.55 then OccupationMerchant
        else if r < lit 0.72 then OccupationCrafter else if r < lit 0.85 then OccupationLaborer
        else if r < lit 0.93 then OccupationSoldier else OccupationScholar
      else if terrain = TerrainForest then
        if r < lit 0.28 then OccupationHunter else if r < lit 0.45 then OccupationFarmer
        else if r < lit 0.60 then OccupationLaborer else if r < lit 0.74 then OccupationCrafter
        else if r < lit 0.82 then OccupationAlchemist else if r < lit 0.92 then OccupationSoldier else OccupationScholar
      else if terrain = TerrainSwamp then
        if r < lit 0.35 then OccupationAlchemist else if r < lit 0.60 then OccupationHunter
        else if r < lit 0.80 then OccupationLaborer else if r < lit 0.92 then OccupationSoldier else OccupationScholar
      else OccupationLaborer)"

definition occupationForTerrain :: "'g Rand \<Rightarrow> Terrain \<Rightarrow> ('g, Occupation) spawn" where
  "occupationForTerrain R terrain = do { r \<leftarrow> draw (rand_Float32 R); State_Monad.return (occupation_by terrain r) }"

definition boost_primary :: "Occupation \<Rightarrow> f32 \<Rightarrow> SkillSet \<Rightarrow> SkillSet" where
  "boost_primary occ primary skills =
     (case occ of
        OccupationFarmer \<Rightarrow> skills\<lparr>Farming := primary\<rparr>
      | OccupationMiner \<Rightarrow> skills\<lparr>Mining := primary\<rparr>
      | OccupationCrafter \<Rightarrow> skills\<lparr>Crafting := primary\<rparr>
      | OccupationMerchant \<Rightarrow> skills\<lparr>TradeSkill := primary\<rparr>
      | OccupationSoldier \<Rightarrow> skills\<lparr>Combat := primary\<rparr>
      | OccupationFisher \<Rightarrow> skills\<lparr>Farming := primary * lit 0.8\<rparr>
      | OccupationHunter \<Rightarrow> skills\<lparr>Combat := primary * lit 0.7, Farming := primary * lit 0.5\<rparr>
      | OccupationScholar \<Rightarrow> skills\<lparr>Crafting := primary * lit 0.6, TradeSkill := primary * lit 0.4\<rparr>
      | OccupationAlchemist \<Rightarrow> skills\<lparr>Crafting := primary * lit 0.6, TradeSkill := primary * lit 0.4\<rparr>
      | _ \<Rightarrow> skills\<lparr>Farming := primary * lit 0.5\<rparr>)"

definition draw_skills :: "'g Rand \<Rightarrow> f32 \<Rightarrow> f32 \<Rightarrow> f32 \<Rightarrow> ('g, SkillSet) spawn" where
  "draw_skills R lo combat width = do {
     f \<leftarrow> unit_draw R lo width;
     m \<leftarrow> unit_draw R lo width;
     c \<leftarrow> unit_draw R lo width;
     b \<leftarrow> unit_draw R combat width;
     t \<leftarrow> unit_draw R lo width;
     State_Monad.return \<lparr>Farming = f, Mining = m, Crafting = c, Combat = b, TradeSkill = t\<rparr>
   }"

definition skillsForOccupation :: "'g Rand \<Rightarrow> Occupation \<Rightarrow> ('g, SkillSet) spawn" where
  "skillsForOccupation R occ = do {
     skills \<leftarrow> draw_skills R (lit 0.1) (lit 0.05) (lit 0.1);
     primary \<leftarrow> unit_draw R (lit 0.4) (lit 0.3);
     State_Monad.return (boost_primary occ primary skills)
   }"

definition class_by :: "f32 \<Rightarrow> AgentClass" where
  "class_by r = (if r < lit 0.45 then Devotionalist else if r < lit 0.80 then Ritualist
     else if r < lit 0.97 then Nihilist else Transcendentalist)"

definition randomClass :: "'g Rand \<Rightarrow> ('g, AgentClass) spawn" where
  "randomClass R = do { r \<leftarrow> draw (rand_Float32 R); State_Monad.return (class_by r) }"

definition natural_coherence :: "f64 \<Rightarrow> f32" where
  "natural_coherence n = clamp (lit 0.01) (float32 Matter) (float32 (Agnosis + n * Agnosis * lit 0.5))"

definition bodily :: "f64 \<Rightarrow> f32" where
  "bodily n = clamp 0 1 (float32 (n * lit 0.2 + lit 0.35))"

definition new_soul :: "f32 \<Rightarrow> f32 \<Rightarrow> f32 \<Rightarrow> AgentClass \<Rightarrow> AgentSoul" where
  "new_soul coherence mass gauss cls =
     UpdateState \<lparr>CittaCoherence = coherence, Mass = mass, Gauss = gauss, SoulState = Embodied, SoulClass = cls,
       WisdomScore = 0, WisdomEffort = 0, Reincarnated = False\<rparr>"

definition generateSoul :: "'g Rand \<Rightarrow> ('g, AgentSoul) spawn" where
  "generateSoul R = do {
     n \<leftarrow> draw (rand_NormFloat64 R);
     m \<leftarrow> draw (rand_NormFloat64 R);
     g \<leftarrow> draw (rand_NormFloat64 R);
     cls \<leftarrow> randomClass R;
     State_Monad.return (new_soul (natural_coherence n) (bodily m) (bodily g) cls)
   }"

definition startingWealth :: "'g Rand \<Rightarrow> Occupation \<Rightarrow> ('g, uint64) spawn" where
  "startingWealth R occ = do {
     n \<leftarrow> draw (rand_Intn R 100);
     let base = of_int (50 + n);
     (case occ of
        OccupationMerchant \<Rightarrow> do { k \<leftarrow> draw (rand_Intn R 200); State_Monad.return (base + of_int k) }
      | OccupationCrafter \<Rightarrow> do { k \<leftarrow> draw (rand_Intn R 100); State_Monad.return (base + of_int k) }
      | OccupationLaborer \<Rightarrow> State_Monad.return (base - 20)
      | _ \<Rightarrow> State_Monad.return base)
   }"

definition maleNames :: "string list" where
  "maleNames = [
    ''Aldric'', ''Bram'', ''Cedric'', ''Doran'', ''Erik'', ''Finn'', ''Gareth'', ''Halvard'', ''Ivan'',
    ''Jasper'', ''Kael'', ''Leif'', ''Magnus'', ''Nils'', ''Oswin'', ''Per'', ''Quinn'', ''Rowan'',
    ''Stellan'', ''Theron'', ''Ulric'', ''Varen'', ''Wren'', ''Yorick'', ''Zander'', ''Arlen'',
    ''Beric'', ''Cade'', ''Dorian'', ''Edric'', ''Falk'', ''Gunnar'', ''Hugo'', ''Ivar'', ''Jorik'']"

definition femaleNames :: "string list" where
  "femaleNames = [
    ''Astrid'', ''Brenna'', ''Calla'', ''Daria'', ''Elara'', ''Freya'', ''Greta'', ''Helene'', ''Iris'',
    ''Juno'', ''Kira'', ''Lena'', ''Mira'', ''Nessa'', ''Olwen'', ''Petra'', ''Runa'', ''Senna'',
    ''Thea'', ''Una'', ''Vera'', ''Willa'', ''Yara'', ''Zara'', ''Ava'', ''Birgit'', ''Cora'',
    ''Dagny'', ''Eira'', ''Fern'', ''Gwen'', ''Hilde'', ''Inga'', ''Johanna'', ''Katla'']"

definition lastNames :: "string list" where
  "lastNames = [
    ''Voss'', ''Thornwood'', ''Blackwood'', ''Ashford'', ''Ironhand'', ''Dunmore'', ''Greenvale'',
    ''Stormcrow'', ''Frostborn'', ''Hearthstone'', ''Millward'', ''Copperfield'', ''Ravenmoor'',
    ''Silverdale'', ''Wolfsbane'', ''Stoneheart'', ''Deepwell'', ''Brightwater'', ''Oakenshield'',
    ''Redforge'', ''Windholm'', ''Marshwood'', ''Goldhaven'', ''Nightingale'', ''Riverstone'',
    ''Steelworth'', ''Embercroft'', ''Holloway'', ''Dawnridge'', ''Farrow'', ''Wyatt'', ''Thatcher'',
    ''Briar'', ''Caldwell'', ''Frost'', ''Harper'', ''Mercer'', ''Ward'', ''Cross'']"

definition generateName :: "'g Rand \<Rightarrow> Sex \<Rightarrow> ('g, string) spawn" where
  "generateName R sex = (let firsts = (if sex = SexMale then maleNames else femaleNames) in do {
     i \<leftarrow> draw (rand_Intn R (int (length firsts)));
     j \<leftarrow> draw (rand_Intn R (int (length lastNames)));
     State_Monad.return (firsts ! nat i @ '' '' @ lastNames ! nat j)
   })"

text \<open>The zero values of the fields a spawner leaves out.\<close>

definition blank_agent :: Agent where
  "blank_agent =
     \<lparr>AID = 0, AName = [], Age = 0, AgeMonths = 0, ASex = SexMale, AHealth = 0, APosition = \<lparr>coordQ = 0, coordR = 0\<rparr>,
      HomeSettID = None, Destination = None, AOccupation = OccupationFarmer, Inventory = (\<lambda>_. 0), Wealth = 0,
      Skills = \<lparr>Farming = 0, Mining = 0, Crafting = 0, Combat = 0, TradeSkill = 0\<rparr>, Relationships = [], FactionID = None,
      Role = RoleCommoner, Tier = Tier0, Archetype = [], Wellbeing = \<lparr>Satisfaction = 0, Alignment = 0, EffectiveMood = 0\<rparr>,
      Soul = \<lparr>CittaCoherence = 0, Mass = 0, Gauss = 0, SoulState = Embodied, SoulClass = Devotionalist, WisdomScore = 0,
        WisdomEffort = 0, Reincarnated = False\<rparr>,
      Needs = \<lparr>Survival = 0, Safety = 0, Belonging = 0, Esteem = 0, Purpose = 0\<rparr>, TradeDestSett = None,
      TradeCargo = (\<lambda>_. 0), TravelTicksLeft = 0, ConsignmentDebt = 0, TradePreferredDest = None, Memories = [],
      ProductionProgress = 0, PracticeBoost = 0, BornTick = 0, LastWorkTick = 0, Alive = False\<rparr>"

definition spawnOne :: "'g Rand \<Rightarrow> HexCoord \<Rightarrow> uint64 \<Rightarrow> Terrain \<Rightarrow> ('g, Agent) spawn" where
  "spawnOne R position settlementID terrain = do {
     i \<leftarrow> fresh_id;
     sex \<leftarrow> draw_sex R;
     age \<leftarrow> weightedAge R;
     occ \<leftarrow> occupationForTerrain R terrain;
     skills \<leftarrow> skillsForOccupation R occ;
     soul \<leftarrow> generateSoul R;
     wealth \<leftarrow> startingWealth R occ;
     su \<leftarrow> unit_draw R (lit 0.7) (lit 0.3);
     sa \<leftarrow> unit_draw R (lit 0.6) (lit 0.3);
     be \<leftarrow> unit_draw R (lit 0.5) (lit 0.3);
     es \<leftarrow> unit_draw R (lit 0.3) (lit 0.3);
     pu \<leftarrow> unit_draw R (lit 0.2) (lit 0.3);
     name \<leftarrow> generateName R sex;
     months \<leftarrow> draw (rand_Intn R 12);
     health \<leftarrow> unit_draw R (lit 0.8) (lit 0.2);
     mood \<leftarrow> draw (rand_Float32 R);
     State_Monad.return (blank_agent\<lparr>AID := i, AName := name, Age := age, AgeMonths := of_int months, ASex := sex,
       AHealth := health, APosition := position, HomeSettID := Some settlementID, AOccupation := occ, Wealth := wealth,
       Skills := skills, Wellbeing := \<lparr>Satisfaction = mood * lit 0.6 - lit 0.1, Alignment = 0, EffectiveMood = 0\<rparr>,
       Soul := soul, Needs := \<lparr>Survival = su, Safety = sa, Belonging = be, Esteem = es, Purpose = pu\<rparr>, Alive := True\<rparr>)
   }"

primrec spawn_many :: "'g Rand \<Rightarrow> nat \<Rightarrow> HexCoord \<Rightarrow> uint64 \<Rightarrow> Terrain \<Rightarrow> ('g, Agent list) spawn" where
  "spawn_many R 0 position settlementID terrain = State_Monad.return []"
| "spawn_many R (Suc n) position settlementID terrain = do {
     a \<leftarrow> spawnOne R position settlementID terrain;
     as \<leftarrow> spawn_many R n position settlementID terrain;
     State_Monad.return (a # as)
   }"

definition SpawnPopulation :: "'g Rand \<Rightarrow> uint32 \<Rightarrow> HexCoord \<Rightarrow> uint64 \<Rightarrow> Terrain \<Rightarrow> ('g, Agent list) spawn" where
  "SpawnPopulation R cnt = spawn_many R (unat cnt)"

definition inherited_coherence :: "f64 \<Rightarrow> Agent \<Rightarrow> f32" where
  "inherited_coherence n parent =
     (let c = natural_coherence n + CittaCoherence (Soul parent) * float32 (Agnosis * lit 0.5)
      in if float32 Matter < c then float32 Matter else c)"

definition SpawnChild :: "'g Rand \<Rightarrow> HexCoord \<Rightarrow> uint64 \<Rightarrow> Terrain \<Rightarrow> uint64 \<Rightarrow> Agent \<Rightarrow> ('g, Agent) spawn" where
  "SpawnChild R position settlementID terrain tick parent = do {
     i \<leftarrow> fresh_id;
     sex \<leftarrow> draw_sex R;
     occ0 \<leftarrow> occupationForTerrain R terrain;
     r \<leftarrow> draw (rand_Float32 R);
     let occ = (if r < lit 0.4 then AOccupation parent else occ0);
     skills \<leftarrow> draw_skills R (lit 0.05) (lit 0.02) (lit 0.05);
     n \<leftarrow> draw (rand_NormFloat64 R);
     m \<leftarrow> draw (rand_NormFloat64 R);
     g \<leftarrow> draw (rand_NormFloat64 R);
     cls \<leftarrow> randomClass R;
     name \<leftarrow> generateName R sex;
     happy \<leftarrow> unit_draw R (lit 0.3) (lit 0.3);
     State_Monad.return (blank_agent\<lparr>AID := i, AName := name, ASex := sex, AHealth := 1, APosition := position,
       HomeSettID := Some settlementID, AOccupation := occ, Skills := skills,
       Wellbeing := \<lparr>Satisfaction = happy, Alignment = 0, EffectiveMood = 0\<rparr>,
       Soul := new_soul (inherited_coherence n parent) (bodily m) (bodily g) cls,
       Needs := \<lparr>Survival = lit 0.8, Safety = lit 0.7, Belonging = lit 0.8, Esteem = lit 0.1, Purpose = lit 0.1\<rparr>,
       BornTick := tick, Alive := True\<rparr>)
   }"

subsection \<open>Promotions\<close>

text \<open>The selection sort of the promotions: each place takes the larger score of the pairs it meets.\<close>

fun settle_place :: "('a \<times> 'k::linorder) \<Rightarrow> ('a \<times> 'k) list \<Rightarrow> ('a \<times> 'k) \<times> ('a \<times> 'k) list" where
  "settle_place x [] = (x, [])"
| "settle_place x (y # ys) =
     (if snd x < snd y then let (z, zs) = settle_place y ys in (z, x # zs)
      else let (z, zs) = settle_place x ys in (z, y # zs))"

lemma settle_place_length [simp]: "length (snd (settle_place x ys)) = length ys"
  by (induction x ys rule: settle_place.induct) (auto simp: split_beta)

function exchange_sort :: "('a \<times> 'k::linorder) list \<Rightarrow> ('a \<times> 'k) list" where
  "exchange_sort [] = []"
| "exchange_sort (x # xs) = (let (z, zs) = settle_place x xs in z # exchange_sort zs)"
  by pat_completeness auto
termination
  by (relation "measure length") (auto, metis settle_place_length snd_conv less_Suc_eq)

definition notability :: "Agent \<Rightarrow> f64" where
  "notability a = float64 (CittaCoherence (Soul a)) * Nous + float64 (Gauss (Soul a)) * Being"

text \<open>The pointers promoted, for a heap \<open>h\<close>.\<close>

definition tier2_chosen :: "(ptr \<Rightarrow> Agent) \<Rightarrow> ptr list \<Rightarrow> int \<Rightarrow> ptr list" where
  "tier2_chosen h ps cnt =
     (if cnt \<le> 0 \<or> ps = [] then []
      else map fst (take (nat cnt) (exchange_sort (map (\<lambda>p. (p, notability (h p))) (filter (\<lambda>p. \<not> Age (h p) < 16) ps)))))"

definition PromoteToTier2 :: "ptr list \<Rightarrow> int \<Rightarrow> (ptr \<Rightarrow> Agent) \<Rightarrow> ptr \<Rightarrow> Agent" where
  "PromoteToTier2 ps cnt h = fold (\<lambda>p. upd p (\<lambda>a. a\<lparr>Tier := Tier2\<rparr>)) (tier2_chosen h ps cnt) h"

definition tier1_eligible :: "Agent \<Rightarrow> bool" where
  "tier1_eligible a \<longleftrightarrow> Tier a = Tier0 \<and> Alive a \<and> \<not> Age a < 16
     \<and> lit 0.15 \<le> CittaCoherence (Soul a) \<and> CittaCoherence (Soul a) \<le> lit 0.6"

definition middling :: "Agent \<Rightarrow> f64" where
  "middling a =
     (let d = float64 (CittaCoherence (Soul a) - lit 0.4); dist = (if d < 0 then - d else d)
      in (1 - dist) + float64 (Gauss (Soul a)) * lit 0.5)"

definition tier1_chosen :: "(ptr \<Rightarrow> Agent) \<Rightarrow> ptr list \<Rightarrow> f64 \<Rightarrow> ptr list" where
  "tier1_chosen h ps fraction =
     (let eligible = filter (\<lambda>p. tier1_eligible (h p)) ps;
          cnt = int_of_flt (flt_of_int (int (length eligible)) * fraction)
      in if fraction \<le> 0 \<or> ps = [] \<or> cnt \<le> 0 then []
         else map fst (take (nat cnt) (exchange_sort (map (\<lambda>p. (p, middling (h p))) eligible))))"

definition PromoteToTier1 :: "ptr list \<Rightarrow> f64 \<Rightarrow> (ptr \<Rightarrow> Agent) \<Rightarrow> ptr \<Rightarrow> Agent" where
  "PromoteToTier1 ps fraction h =
     fold (\<lambda>p. upd p (\<lambda>a. let b = a\<lparr>Tier := Tier1\<rparr> in b\<lparr>Archetype := AssignArchetype b\<rparr>)) (tier1_chosen h ps fraction) h"

end
