(* ===== verification/Population.thy ===== *)
theory Population
  imports Society Spawner
begin

section \<open>Population dynamics (population.go)\<close>

text \<open>
  Aging, mortality, births, recovery, refugees and the weekly promotions.
  \<^verbatim>\<open>math.Exp\<close> and \<^verbatim>\<open>math.Log1p\<close> are arguments; so is
  \<^verbatim>\<open>rand.New(rand.NewSource(seed))\<close>, as \<open>newRand seed\<close>.  The spawner,
  a field of the simulation in Go, is threaded beside it.
\<close>

definition SimDaysPerYear :: uint64 where "SimDaysPerYear = 360"
definition SimDaysPerMonth :: uint64 where "SimDaysPerMonth = SimDaysPerYear div 12"
definition MaxWorldPopulation :: int where "MaxWorldPopulation = 400000"

subsection \<open>Aging\<close>

definition age_month :: "uint64 \<Rightarrow> ptr \<Rightarrow> Sim \<Rightarrow> Sim" where
  "age_month tick p s =
     (let s1 = upd_agent p (\<lambda>a. a\<lparr>AgeMonths := AgeMonths a + 1\<rparr>) s in
      if \<not> Alive (agent s p) then s
      else if AgeMonths (agent s1 p) < 12 then s1
      else
        let s2 = upd_agent p (\<lambda>a. a\<lparr>AgeMonths := 0, Age := Age a + 1\<rparr>) s1 in
        if Age (agent s2 p) = 16
        then let s3 = upd_agent p (add_belonging (float32 (Agnosis * lit 0.5))) s2 in
             if Tier1 \<le> Tier (agent s3 p)
             then emit tick (AName (agent s3 p) @ '' comes of age in '' @ home_name s3 (agent s3 p)) CategorySocial s3
             else s3
        else s2)"

definition ageAgentsMonthly :: "uint64 \<Rightarrow> Sim \<Rightarrow> Sim" where
  "ageAgentsMonthly tick s = fold (age_month tick) (Agents s) s"

subsection \<open>Mortality\<close>

definition overcap_weight :: "uint16 \<Rightarrow> f64" where
  "overcap_weight age = (if age < 2 then Agnosis else if age < 16 then Psyche
     else if 18 \<le> age \<and> age \<le> 45 then Psyche else 1)"

definition background_mortality :: "f32 \<Rightarrow> f64" where
  "background_mortality c =
     (let agnosis6 = Agnosis * Agnosis * Agnosis * Agnosis * Agnosis * Agnosis;
          agnosis7 = agnosis6 * Agnosis
      in agnosis7 + agnosis6 * (1 - float64 c))"

definition age_mortality :: "(f64 \<Rightarrow> f64) \<Rightarrow> uint16 \<Rightarrow> f64" where
  "age_mortality mexp age =
     (let agnosis3 = Agnosis * Agnosis * Agnosis;
          ageOffset = flt_of_word age - lit 50;
          sigmoid = 1 / (1 + mexp (- ageOffset / lit 12))
      in agnosis3 * sigmoid * sigmoid)"

definition agentDailyMortalityChance :: "(f64 \<Rightarrow> f64) \<Rightarrow> Agent \<Rightarrow> int \<Rightarrow> f64" where
  "agentDailyMortalityChance mexp a population =
     (let chance = (if 16 \<le> Age a then background_mortality (CittaCoherence (Soul a)) + age_mortality mexp (Age a) else 0)
      in if MaxWorldPopulation < population
         then let overshoot = flt_of_int population / flt_of_int MaxWorldPopulation - 1;
                  pressure = Agnosis * Agnosis * overshoot
              in chance + pressure * overcap_weight (Age a)
         else chance)"

definition death_description :: "Sim \<Rightarrow> Agent \<Rightarrow> string" where
  "death_description s a =
     (if SoulState (Soul a) = Liberated
      then AName a @ '', a sage of '' @ home_name s a @ '', has passed at age '' @ show_word (Age a)
             @ ''. Their light is extinguished.''
      else if 50 < Age a then AName a @ '' has died of old age at '' @ show_word (Age a)
      else AName a @ '' has died at age '' @ show_word (Age a))"

definition witness_death :: "bool \<Rightarrow> uint64 \<Rightarrow> ptr \<Rightarrow> Sim \<Rightarrow> Sim" where
  "witness_death isLiberated deadID w s =
     (let b = agent s w; c = CittaCoherence (Soul b) in
      if isLiberated then
        (if Alive b \<and> AID b \<noteq> deadID
         then upd_agent w (\<lambda>b. b\<lparr>Soul := AdjustCoherence (- float32 (Agnosis * lit 0.05) * c) (Soul b)\<rparr>) s else s)
      else if mourns deadID b
           then upd_agent w (\<lambda>b. b\<lparr>Soul := AdjustCoherence (float32 (Agnosis * lit 0.025) * (1 - c * lit 0.5)) (Soul b)\<rparr>) s
           else s)"

definition natural_death :: "uint64 \<Rightarrow> ptr \<Rightarrow> Sim \<Rightarrow> Sim" where
  "natural_death tick p s =
     (let s1 = upd_agent p (\<lambda>a. a\<lparr>Alive := False, AHealth := 0\<rparr>) s;
          s2 = s1\<lparr>Stats := (Stats s1)\<lparr>Deaths := Deaths (Stats s1) + 1\<rparr>\<rparr>;
          a = agent s2 p;
          isLiberated = (SoulState (Soul a) = Liberated);
          desc = death_description s2 a;
          s3 = (if isLiberated \<and> ReincarnationAgeFloor \<le> Age a
                then s2\<lparr>LiberatedSpiritsPool := LiberatedSpiritsPool s2 + 1\<rparr> else s2);
          s4 = emit tick desc CategoryDeath s3;
          s5 = inheritWealth p s4
      in case HomeSettID a of
           None \<Rightarrow> s5
         | Some i \<Rightarrow>
             let s6 = createSettlementMemories i tick desc (lit 0.6) s5;
                 s7 = imprintDeathMemories p isLiberated (home_name s6 a) tick s6
             in fold (witness_death isLiberated (AID a)) (SettlementAgents s7 i) s7)"

definition disease :: "uint64 \<Rightarrow> ptr \<Rightarrow> Sim \<Rightarrow> Sim" where
  "disease tick p s =
     (if AHealth (agent s p) < lit 0.15 \<and> 0 < AHealth (agent s p)
      then let s1 = upd_agent p (\<lambda>a. a\<lparr>AHealth := AHealth a - lit 0.01\<rparr>) s in
           if AHealth (agent s1 p) \<le> 0
           then let s2 = upd_agent p (\<lambda>a. a\<lparr>Alive := False\<rparr>) s1;
                    s3 = s2\<lparr>Stats := (Stats s2)\<lparr>Deaths := Deaths (Stats s2) + 1\<rparr>\<rparr>
                in inheritWealth p (emit tick (AName (agent s3 p) @ '' has died of illness'') CategoryDeath s3)
           else s1
      else s)"

definition daily_hash :: "uint64 \<Rightarrow> uint64 \<Rightarrow> uint64 \<Rightarrow> uint64" where
  "daily_hash aid simDay m = (aid * 2654435761 + simDay * 40503) mod m"

definition mortality_check :: "(f64 \<Rightarrow> f64) \<Rightarrow> uint64 \<Rightarrow> ptr \<Rightarrow> Sim \<Rightarrow> Sim" where
  "mortality_check mexp tick p s =
     (let a = agent s p; simDay = tick div TicksPerSimDay;
          chance = agentDailyMortalityChance mexp a (TotalPopulation (Stats s))
      in if \<not> Alive a then s
         else if 0 < chance \<and> flt_of_word (daily_hash (AID a) simDay 100000) / lit 100000 < chance
         then natural_death tick p s
         else disease tick p s)"

definition processNaturalDeaths :: "(f64 \<Rightarrow> f64) \<Rightarrow> uint64 \<Rightarrow> Sim \<Rightarrow> Sim" where
  "processNaturalDeaths mexp tick s = fold (mortality_check mexp tick) (Agents s) s"

definition recovery_target :: "Agent \<Rightarrow> f64" where
  "recovery_target a = Matter + float64 (CittaCoherence (Soul a)) * (Nous - Matter)"

definition recover_health :: "Agent \<Rightarrow> Agent" where
  "recover_health a =
     (let target = recovery_target a; h = float64 (AHealth a) in
      if h < target then a\<lparr>AHealth := cap_one (AHealth a + float32 ((target - h) * Agnosis * lit 0.1))\<rparr> else a)"

definition processHealthRecovery :: "Sim \<Rightarrow> Sim" where
  "processHealthRecovery s = fold (\<lambda>p s. if Alive (agent s p) then upd_agent p recover_health s else s) (Agents s) s"

subsection \<open>Births\<close>

text \<open>An address no agent of the simulation has.\<close>

definition fresh_ptr :: "Sim \<Rightarrow> ptr" where
  "fresh_ptr s = Suc (fold max (Agents s) 0)"

definition addAgent :: "ptr \<Rightarrow> Sim \<Rightarrow> Sim" where
  "addAgent p s =
     (let a = agent s p;
          s1 = s\<lparr>Agents := Agents s @ [p], AgentIndex := (AgentIndex s)(AID a \<mapsto> p)\<rparr>;
          s2 = (case HomeSettID a of
                  None \<Rightarrow> s1
                | Some i \<Rightarrow> s1\<lparr>SettlementAgents := (SettlementAgents s1)(i := SettlementAgents s1 i @ [p])\<rparr>)
      in if FactionID a = None then upd_agent p (join_faction s2) s2 else s2)"

definition birthEligible :: "(f64 \<Rightarrow> f64) \<Rightarrow> Agent \<Rightarrow> uint64 \<Rightarrow> bool" where
  "birthEligible mexp a simDay \<longleftrightarrow>
     (let b = float64 (Belonging (Needs a));
          steepness = lit 10 * Being;
          prob = 1 / (1 + mexp (- steepness * (b - lit 0.3)))
      in \<not> b < lit 0.15 \<and> flt_of_word (daily_hash (AID a) simDay 1000) / lit 1000 < prob)"

definition eligible_parent :: "(f64 \<Rightarrow> f64) \<Rightarrow> uint64 \<Rightarrow> Agent \<Rightarrow> bool" where
  "eligible_parent mexp simDay a \<longleftrightarrow> Alive a \<and> 18 \<le> Age a \<and> Age a \<le> 45 \<and> lit 0.5 < AHealth a
     \<and> lit 0.3 < Survival (Needs a) \<and> birthEligible mexp a simDay"

definition cap_factor :: "int \<Rightarrow> f64" where
  "cap_factor population = flt_of_int (MaxWorldPopulation - population) / (flt_of_int MaxWorldPopulation * Agnosis)"

definition birth_count :: "(f64 \<Rightarrow> f64) \<Rightarrow> f64 \<Rightarrow> nat \<Rightarrow> uint64 \<Rightarrow> Settlement \<Rightarrow> int" where
  "birth_count log1p capFactor parents simDay sett =
     (let prosperity = flt_of_word (Treasury sett) / (flt_of_word (Population sett) + 1);
          mod0 = log1p prosperity * Agnosis;
          prosperityMod = (if 1 < mod0 then 1 else mod0);
          birthChance = flt_of_int (int parents) / lit 30 * (lit 0.5 + prosperityMod) * capFactor;
          birthCount = int_of_flt birthChance;
          fractional = birthChance - flt_of_int birthCount
      in if 0 < fractional \<and> (simDay + SID sett) mod word_of_flt (1 / fractional + 1) = 0 then birthCount + 1 else birthCount)"

definition terrain_at :: "Sim \<Rightarrow> HexCoord \<Rightarrow> Terrain" where
  "terrain_at s pos = (case map_Get (WorldMap s) pos of None \<Rightarrow> TerrainPlains | Some h \<Rightarrow> HexTerrain h)"

definition roll_birth :: "'g Rand \<Rightarrow> (int \<Rightarrow> 'g) \<Rightarrow> uint64 \<Rightarrow> ptr \<Rightarrow> Sim \<Rightarrow> Sim" where
  "roll_birth R newRand tick child s =
     (let (r1, g1) = rand_Float64 R (newRand (sint (tick + AID (agent s child))));
          (r2, g2) = rand_Float64 R g1;
          (n, _) = rand_Intn R 200 g2
      in case rollReincarnation r1 r2 n s of
           (Some (seedC, seedW), s1) \<Rightarrow> applyReincarnation child seedC seedW tick s1
         | (None, s1) \<Rightarrow> s1)"

definition birth :: "'g Rand \<Rightarrow> (int \<Rightarrow> 'g) \<Rightarrow> uint64 \<Rightarrow> ptr \<Rightarrow> ptr list \<Rightarrow> nat \<Rightarrow> Sim \<times> 'g Spawner \<Rightarrow> Sim \<times> 'g Spawner" where
  "birth R newRand tick sp parents i st =
     (let (s, spw) = st; sett = settl s sp; simDay = tick div TicksPerSimDay;
          parent = agent s (parents ! unat ((simDay + of_nat i) mod of_nat (length parents)));
          (child, spw1) = run_state (SpawnChild R (SPosition sett) (SID sett) (terrain_at s (SPosition sett)) tick parent) spw;
          p = fresh_ptr s;
          s1 = s\<lparr>agent := (agent s)(p := child)\<rparr>;
          s2 = addAgent p (roll_birth R newRand tick p s1);
          s3 = emit tick (AName (agent s2 p) @ '' is born in '' @ SName (settl s2 sp)) CategoryBirth s2;
          s4 = s3\<lparr>Stats := (Stats s3)\<lparr>Births := Births (Stats s3) + 1\<rparr>\<rparr>
      in (upd_settl sp (\<lambda>t. t\<lparr>Population := Population t + 1\<rparr>) s4, spw1))"

definition births_in :: "(f64 \<Rightarrow> f64) \<Rightarrow> (f64 \<Rightarrow> f64) \<Rightarrow> 'g Rand \<Rightarrow> (int \<Rightarrow> 'g) \<Rightarrow> uint64 \<Rightarrow> f64 \<Rightarrow> ptr \<Rightarrow> Sim \<times> 'g Spawner \<Rightarrow> Sim \<times> 'g Spawner" where
  "births_in mexp log1p R newRand tick capFactor sp st =
     (let s = fst st; sett = settl s sp; simDay = tick div TicksPerSimDay;
          parents = filter (\<lambda>p. eligible_parent mexp simDay (agent s p)) (SettlementAgents s (SID sett));
          birthCount = birth_count log1p capFactor (length parents) simDay sett
      in if length parents < 2 then st
         else fold (birth R newRand tick sp parents) [0 ..< nat (min birthCount 3)] st)"

definition processBirths :: "(f64 \<Rightarrow> f64) \<Rightarrow> (f64 \<Rightarrow> f64) \<Rightarrow> 'g Rand \<Rightarrow> (int \<Rightarrow> 'g) \<Rightarrow> uint64 \<Rightarrow> Sim \<times> 'g Spawner option \<Rightarrow> Sim \<times> 'g Spawner option" where
  "processBirths mexp log1p R newRand tick st =
     (case snd st of
        None \<Rightarrow> st
      | Some spw \<Rightarrow>
          let c = cap_factor (TotalPopulation (Stats (fst st))); capFactor = (if 1 < c then 1 else c) in
          if c \<le> 0 then st
          else let (s1, spw1) = fold (births_in mexp log1p R newRand tick capFactor) (Settlements (fst st)) (fst st, spw)
               in (s1, Some spw1))"

subsection \<open>Refugees and relief\<close>

definition admit :: "uint64 \<Rightarrow> Agent \<Rightarrow> Sim \<Rightarrow> Sim" where
  "admit tick r s =
     (let p = fresh_ptr s in addAgent p (s\<lparr>agent := (agent s)(p := r\<lparr>BornTick := tick\<rparr>)\<rparr>))"

definition refugees :: "'g Rand \<Rightarrow> uint64 \<Rightarrow> ptr \<Rightarrow> nat \<Rightarrow> Sim \<times> 'g Spawner \<Rightarrow> Sim \<times> 'g Spawner" where
  "refugees R tick sp aliveCount st =
     (let (s, spw) = st; sett = settl s sp; needed = 10 - aliveCount;
          (rs, spw1) = run_state (SpawnPopulation R (of_nat needed) (SPosition sett) (SID sett) (terrain_at s (SPosition sett))) spw;
          s1 = fold (admit tick) rs s;
          s2 = upd_settl sp (\<lambda>t. t\<lparr>Population := of_nat (aliveCount + needed)\<rparr>) s1
      in (emit tick (show_int (int needed) @ '' refugees arrive in '' @ SName (settl s2 sp)) CategorySocial s2, spw1))"

definition starving :: "Agent \<Rightarrow> bool" where
  "starving a \<longleftrightarrow> Alive a \<and> Survival (Needs a) < lit 0.1"

definition famine_relief :: "uint64 \<Rightarrow> ptr \<Rightarrow> ptr list \<Rightarrow> Sim \<Rightarrow> Sim" where
  "famine_relief tick sp ps s =
     emit tick (''Emergency food relief arrives in '' @ SName (settl s sp)) CategoryEconomy
       (fold (\<lambda>p s. if starving (agent s p) then upd_agent p (inv_add GoodGrain 3) s else s) ps s)"

definition anti_collapse_in :: "'g Rand \<Rightarrow> uint64 \<Rightarrow> ptr \<Rightarrow> Sim \<times> 'g Spawner \<Rightarrow> Sim \<times> 'g Spawner" where
  "anti_collapse_in R tick sp st =
     (let s = fst st; i = SID (settl s sp); settAgents = SettlementAgents s i;
          aliveCount = length (filter (\<lambda>p. Alive (agent s p)) settAgents);
          starvingCount = length (filter (\<lambda>p. starving (agent s p)) settAgents);
          (s1, spw1) = (if aliveCount < 10 \<and> NonViableWeeks s i < 2 then refugees R tick sp aliveCount st else st)
      in if 0 < aliveCount \<and> lit 0.2 < (flt_of_int (int starvingCount) / flt_of_int (int aliveCount) :: f64)
         then (famine_relief tick sp settAgents s1, spw1) else (s1, spw1))"

definition processAntiCollapse :: "'g Rand \<Rightarrow> uint64 \<Rightarrow> Sim \<times> 'g Spawner option \<Rightarrow> Sim \<times> 'g Spawner option" where
  "processAntiCollapse R tick st =
     (case snd st of
        None \<Rightarrow> st
      | Some spw \<Rightarrow>
          if MaxWorldPopulation \<le> TotalPopulation (Stats (fst st)) then st
          else let (s1, spw1) = fold (anti_collapse_in R tick) (Settlements (fst st)) (fst st, spw) in (s1, Some spw1))"

definition processPopulation :: "(f64 \<Rightarrow> f64) \<Rightarrow> (f64 \<Rightarrow> f64) \<Rightarrow> 'g Rand \<Rightarrow> (int \<Rightarrow> 'g) \<Rightarrow> uint64 \<Rightarrow> Sim \<times> 'g Spawner option \<Rightarrow> Sim \<times> 'g Spawner option" where
  "processPopulation mexp log1p R newRand tick st =
     (let (s, spw) = st; simDay = tick div TicksPerSimDay;
          s1 = (if 0 < simDay \<and> simDay mod SimDaysPerMonth = 0 then ageAgentsMonthly tick s else s);
          s2 = processNaturalDeaths mexp tick (processHealthRecovery s1)
      in processAntiCollapse R tick (processBirths mexp log1p R newRand tick (s2, spw)))"

subsection \<open>Promotion of the notable\<close>

definition occupationLabel :: "Occupation \<Rightarrow> string" where
  "occupationLabel occ =
     (case occ of OccupationFarmer \<Rightarrow> ''farming'' | OccupationMiner \<Rightarrow> ''mining'' | OccupationFisher \<Rightarrow> ''fishing''
      | OccupationHunter \<Rightarrow> ''hunting'' | OccupationCrafter \<Rightarrow> ''crafting'' | OccupationMerchant \<Rightarrow> ''trade''
      | OccupationLaborer \<Rightarrow> ''labor'' | OccupationSoldier \<Rightarrow> ''the military'' | OccupationScholar \<Rightarrow> ''scholarship''
      | OccupationAlchemist \<Rightarrow> ''alchemy'')"

definition allOccupations :: "Occupation list" where
  "allOccupations = [OccupationFarmer, OccupationMiner, OccupationCrafter, OccupationMerchant, OccupationLaborer,
     OccupationFisher, OccupationHunter, OccupationAlchemist, OccupationScholar, OccupationSoldier]"

definition rise :: "ptr \<Rightarrow> Sim \<Rightarrow> Sim" where
  "rise p s = emit (LastTick s) (AName (agent s p) @ '' rises to prominence in '' @ occupationLabel (AOccupation (agent s p)))
     CategorySocial s"

definition promote_diverse :: "(Occupation \<Rightarrow> nat) \<Rightarrow> ptr list \<Rightarrow> Occupation \<Rightarrow> Sim \<times> nat \<Rightarrow> (Sim \<times> nat) option" where
  "promote_diverse tier2ByOcc eligible occ st =
     (let (s, promoted) = st in
      if 4 \<le> promoted then None
      else if 0 < tier2ByOcc occ then Some st
      else case select_best (\<lambda>p. AOccupation (agent s p) = occ) (\<lambda>p. notability (agent s p)) eligible of
             None \<Rightarrow> Some st
           | Some b \<Rightarrow> Some (rise b (upd_agent b (\<lambda>a. a\<lparr>Tier := Tier2\<rparr>) s), promoted + 1))"

definition already_logged :: "Sim \<Rightarrow> Agent \<Rightarrow> bool" where
  "already_logged s a = list_ex (\<lambda>e. ETick e = LastTick s \<and> ECategory e = CategorySocial
     \<and> length (AName a) < length (Description e) \<and> take (length (AName a)) (Description e) = AName a) (Events s)"

definition log_promotion :: "nat \<Rightarrow> ptr \<Rightarrow> Sim \<times> nat \<Rightarrow> Sim \<times> nat" where
  "log_promotion vacancies p st =
     (let (s, promoted) = st in
      if Tier (agent s p) = Tier2 \<and> promoted < vacancies \<and> \<not> already_logged s (agent s p)
      then (rise p s, promoted + 1) else st)"

definition processWeeklyTier2Replenishment :: "Sim \<Rightarrow> Sim" where
  "processWeeklyTier2Replenishment s =
     (let tier2 = filter (\<lambda>p. Alive (agent s p) \<and> Tier (agent s p) = Tier2) (Agents s);
          tier2ByOcc = (\<lambda>occ. length (filter (\<lambda>p. AOccupation (agent s p) = occ) tier2));
          eligible = filter (\<lambda>p. Alive (agent s p) \<and> Tier (agent s p) = Tier0 \<and> \<not> Age (agent s p) < 16) (Agents s);
          offset = unat (LastTick s div (TicksPerSimDay * 7) mod 10);
          (s1, diversity) = for_break (promote_diverse tier2ByOcc eligible) (rotate offset allOccupations) (s, 0);
          vacancies = min 2 (30 - int (length tier2) - int diversity);
          maxPerOcc = max 3 ((int (length tier2) + int diversity + vacancies) * 40 div 100);
          capped0 = filter (\<lambda>p. int (tier2ByOcc (AOccupation (agent s1 p))) < maxPerOcc) eligible;
          capped = (if capped0 = [] then eligible else capped0)
      in if eligible = [] then s
         else if vacancies \<le> 0 then s1
         else fst (fold (log_promotion (nat vacancies)) capped
                     (s1\<lparr>agent := PromoteToTier2 capped vacancies (agent s1)\<rparr>, 0)))"

end
