(* ===== verification/Population_Laws.thy ===== *)
theory Population_Laws
  imports Population Society_Laws
begin

section \<open>Laws of the population\<close>

text \<open>
  Whoever is spawned is well formed and not liberated; births create no
  crowns; mortality is a small nonnegative chance that spares children below
  the cap; agents are found by their identifier after every birth and arrival.
\<close>

subsection \<open>Newcomers\<close>

text \<open>What \<^verbatim>\<open>math/rand\<close> documents of its generators.\<close>

definition rand_ok :: "'g Rand \<Rightarrow> bool" where
  "rand_ok R \<longleftrightarrow> (\<forall>g. 0 \<le> fst (rand_Float32 R g) \<and> fst (rand_Float32 R g) < 1)
     \<and> (\<forall>g. 0 \<le> fst (rand_Float64 R g) \<and> fst (rand_Float64 R g) < 1)
     \<and> (\<forall>n g. 0 < n \<longrightarrow> 0 \<le> fst (rand_Intn R n g) \<and> fst (rand_Intn R n g) < n)"

definition newcomer_ok :: "Agent \<Rightarrow> bool" where
  "newcomer_ok a \<longleftrightarrow> Alive a \<and> needs_ok (Needs a) \<and> soul_ok (Soul a) \<and> SoulState (Soul a) \<noteq> Liberated
     \<and> 0 \<le> AHealth a \<and> AHealth a \<le> 1 \<and> Relationships a = [] \<and> Memories a = [] \<and> ConsignmentDebt a = 0 \<and> FactionID a = None"

lemma pred_draw: "(\<And>g. P (fst (f g))) \<Longrightarrow> pred_state P (draw f)"
  by (rule pred_stateI) (auto simp: draw_def Let_def split_beta)

lemma pred_any: "pred_state (\<lambda>_. True) m"
  by (rule pred_stateI) simp

lemma pred_bind:
  assumes "pred_state Q m" "\<And>x. Q x \<Longrightarrow> pred_state P (f x)"
  shows "pred_state P (State_Monad.bind m f)"
proof (rule pred_stateI)
  fix a s s' assume "run_state (State_Monad.bind m f) s = (a, s')"
  then obtain x t where x: "run_state m s = (x, t)" "run_state (f x) t = (a, s')"
    by (auto split: prod.splits)
  then show "P a" using assms pred_stateD by metis
qed

lemma pred_return: "P x \<Longrightarrow> pred_state P (State_Monad.return x)"
  by (rule pred_stateI) simp

lemma unit_draw_range:
  assumes "rand_ok R" "0 \<le> lo" "0 \<le> width" "lo + width \<le> 1"
  shows "pred_state (\<lambda>x. lo \<le> x \<and> x \<le> 1) (unit_draw R lo width)"
  unfolding unit_draw_def
proof (rule pred_bind)
  show "pred_state (\<lambda>r. 0 \<le> r \<and> r \<le> 1) (draw (rand_Float32 R))"
    using assms(1) by (intro pred_draw) (auto simp: rand_ok_def intro: less_imp_le)
  fix r :: f32 assume r: "0 \<le> r \<and> r \<le> 1"
  have "lo \<le> lo + r * width" using r assms(3) by (simp add: flt_add_increase flt_mult_nonneg)
  moreover have "r * width \<le> 1 * width" using r assms(3) by (intro flt_mult_right_mono) simp_all
  then have "lo + r * width \<le> lo + width" by (intro flt_add_mono) simp_all
  then have "lo + r * width \<le> 1" using assms(4) by (rule order_trans)
  ultimately show "pred_state (\<lambda>x. lo \<le> x \<and> x \<le> 1) (State_Monad.return (lo + r * width))" by (intro pred_return) simp
qed

lemma new_soul_ok:
  assumes "0 \<le> c" "c \<le> float32 Matter"
  shows "soul_ok (new_soul c m g k)" "SoulState (new_soul c m g k) \<noteq> Liberated"
proof -
  have "c \<le> 1" "c < lit 0.7" using assms(2) Matter32_bounds by (auto intro: order_trans le_less_trans)
  then show "soul_ok (new_soul c m g k)" "SoulState (new_soul c m g k) \<noteq> Liberated"
    using assms(1) by (simp_all add: new_soul_def soul_ok_def UpdateState_def StateFromCoherence_Liberated not_le)
qed

lemma natural_coherence_range: "lit 0.01 \<le> natural_coherence n" "natural_coherence n \<le> float32 Matter" "0 \<le> natural_coherence n"
proof -
  have m: "(lit 0.01 :: f32) \<le> float32 Matter" unfolding flt_conv_def by (rule lit_mono) (simp add: phi_rats)
  show l: "lit 0.01 \<le> natural_coherence n" unfolding natural_coherence_def by (rule clamp_bounds(1) [OF m])
  show "natural_coherence n \<le> float32 Matter" unfolding natural_coherence_def by (rule clamp_bounds(2))
  show "0 \<le> natural_coherence n" by (rule order_trans [OF zero_le_lit l]) simp
qed

lemma inherited_coherence_range:
  assumes "0 \<le> CittaCoherence (Soul parent)"
  shows "0 \<le> inherited_coherence n parent" "inherited_coherence n parent \<le> float32 Matter"
proof -
  have "0 \<le> natural_coherence n + CittaCoherence (Soul parent) * float32 (Agnosis * lit 0.5)"
    using assms natural_coherence_range(3) by (intro flt_add_nonneg flt_mult_nonneg flt_conv_unit) (simp_all add: zero_le_lit)
  then show "0 \<le> inherited_coherence n parent" "inherited_coherence n parent \<le> float32 Matter"
    by (simp_all add: inherited_coherence_def Let_def not_less)
qed

lemma unit_sums: "lit 0.7 + lit 0.3 \<le> (1 :: f32)" "lit 0.6 + lit 0.3 \<le> (1 :: f32)" "lit 0.5 + lit 0.3 \<le> (1 :: f32)"
  "lit 0.3 + lit 0.3 \<le> (1 :: f32)" "lit 0.2 + lit 0.3 \<le> (1 :: f32)" "lit 0.8 + lit 0.2 \<le> (1 :: f32)"
  by code_simp+

lemma pred_weaken: "pred_state Q m \<Longrightarrow> (\<And>x. Q x \<Longrightarrow> P x) \<Longrightarrow> pred_state P m"
  by (rule pred_stateI) (auto dest: pred_stateD)

theorem spawnOne_ok:
  assumes "rand_ok R"
  shows "pred_state (\<lambda>a. newcomer_ok a \<and> HomeSettID a = Some i) (spawnOne R pos i terrain)"
proof -
  have u: "pred_state (\<lambda>x. 0 \<le> x \<and> x \<le> 1) (unit_draw R (lit x) (lit y))" if "0 \<le> x" "0 \<le> y" "lit x + lit y \<le> (1 :: f32)" for x y
    by (rule pred_weaken [OF unit_draw_range [OF assms]]) (use that in \<open>auto simp: zero_le_lit intro: order_trans [OF zero_le_lit]\<close>)
  have soul: "pred_state (\<lambda>q. soul_ok q \<and> SoulState q \<noteq> Liberated) (generateSoul R)"
    unfolding generateSoul_def
    by (intro pred_bind [OF pred_any] pred_return conjI new_soul_ok natural_coherence_range)
  show ?thesis
    unfolding spawnOne_def
    by (rule pred_bind [OF pred_any], rule pred_bind [OF pred_any], rule pred_bind [OF pred_any], rule pred_bind [OF pred_any],
        rule pred_bind [OF pred_any], rule pred_bind [OF soul], rule pred_bind [OF pred_any],
        rule pred_bind [OF u], simp, simp, rule unit_sums, rule pred_bind [OF u], simp, simp, rule unit_sums,
        rule pred_bind [OF u], simp, simp, rule unit_sums, rule pred_bind [OF u], simp, simp, rule unit_sums,
        rule pred_bind [OF u], simp, simp, rule unit_sums, rule pred_bind [OF pred_any], rule pred_bind [OF pred_any],
        rule pred_bind [OF u], simp, simp, rule unit_sums, rule pred_bind [OF pred_any], rule pred_return,
        simp add: newcomer_ok_def blank_agent_def needs_ok_def)
qed

theorem SpawnChild_ok:
  assumes "0 \<le> CittaCoherence (Soul parent)"
  shows "pred_state (\<lambda>a. newcomer_ok a \<and> HomeSettID a = Some i \<and> Wealth a = 0 \<and> Age a = 0) (SpawnChild R pos i terrain tick parent)"
  unfolding SpawnChild_def Let_def
  by (intro pred_bind [OF pred_any] pred_return)
    (simp add: newcomer_ok_def blank_agent_def new_soul_ok inherited_coherence_range [OF assms] needs_ok_def
      zero_le_lit lit_le_one)

subsection \<open>Fresh identifiers\<close>

text \<open>Runs that leave the next identifier alone.\<close>

definition same_id :: "('g, 'a) spawn \<Rightarrow> bool" where
  "same_id m \<longleftrightarrow> (\<forall>sp. nextID (snd (run_state m sp)) = nextID sp)"

lemma same_id_draw [intro]: "same_id (draw f)"
  by (simp add: same_id_def draw_def Let_def split_beta)

lemma same_id_return [intro]: "same_id (State_Monad.return x)"
  by (simp add: same_id_def)

lemma same_id_bind [intro]: "same_id m \<Longrightarrow> (\<And>x. same_id (f x)) \<Longrightarrow> same_id (State_Monad.bind m f)"
  by (auto simp: same_id_def split_beta)

lemma same_id_parts [intro]:
  "same_id (unit_draw R x y)" "same_id (draw_sex R)" "same_id (weightedAge R)" "same_id (occupationForTerrain R t)"
  "same_id (draw_skills R x y z)" "same_id (skillsForOccupation R occ)" "same_id (randomClass R)" "same_id (generateSoul R)"
  "same_id (generateName R sex)" "same_id (startingWealth R occ)"
  unfolding unit_draw_def draw_sex_def weightedAge_def occupationForTerrain_def draw_skills_def skillsForOccupation_def
    randomClass_def generateSoul_def generateName_def startingWealth_def Let_def
  by (auto intro!: same_id_bind same_id_draw same_id_return split: Occupation.split)

lemma run_fresh:
  assumes "\<And>i. same_id (f i)" "\<And>i. pred_state (\<lambda>a. AID a = i) (f i)"
    and "run_state (State_Monad.bind fresh_id f) sp = (a, sp')"
  shows "AID a = nextID sp" "nextID sp' = nextID sp + 1"
proof -
  have r: "run_state (f (nextID sp)) (sp\<lparr>nextID := nextID sp + 1\<rparr>) = (a, sp')" using assms(3) by (simp add: fresh_id_def)
  show "AID a = nextID sp" using pred_stateD [OF assms(2) r] .
  show "nextID sp' = nextID sp + 1" using assms(1) [of "nextID sp"] r unfolding same_id_def by (metis Spawner.select_convs(2) Spawner.simps(4) Spawner.surjective snd_conv Spawner.update_convs(2))
qed

lemma spawnOne_id:
  assumes "run_state (spawnOne R pos i terrain) sp = (a, sp')"
  shows "AID a = nextID sp" "nextID sp' = nextID sp + 1"
  by (rule run_fresh [OF _ _ assms [unfolded spawnOne_def]],
      (intro same_id_bind same_id_return same_id_draw same_id_parts; fail),
      (intro pred_bind [OF pred_any] pred_return, simp add: blank_agent_def))+

lemma SpawnChild_id:
  assumes "run_state (SpawnChild R pos i terrain tick parent) sp = (a, sp')"
  shows "AID a = nextID sp" "nextID sp' = nextID sp + 1"
  by (rule run_fresh [OF _ _ assms [unfolded SpawnChild_def Let_def]],
      (intro same_id_bind same_id_return same_id_draw same_id_parts; fail),
      (intro pred_bind [OF pred_any] pred_return, simp add: blank_agent_def))+

subsection \<open>The registry of agents\<close>

text \<open>
  Identifiers below \<open>n\<close> are taken: every agent is found under its own
  identifier, nobody else is, and the rosters list the agents by home.
\<close>

definition registry_ok :: "Sim \<Rightarrow> uint64 \<Rightarrow> bool" where
  "registry_ok s n \<longleftrightarrow> distinct (Agents s)
     \<and> (\<forall>p \<in> set (Agents s). AgentIndex s (AID (agent s p)) = Some p \<and> AID (agent s p) < n)
     \<and> (\<forall>i p. AgentIndex s i = Some p \<longrightarrow> p \<in> set (Agents s) \<and> AID (agent s p) = i)
     \<and> (\<forall>i. SettlementAgents s i = filter (\<lambda>p. HomeSettID (agent s p) = Some i) (Agents s))"

definition same_registry :: "Sim \<Rightarrow> Sim \<Rightarrow> bool" where
  "same_registry s t \<longleftrightarrow> Agents t = Agents s \<and> AgentIndex t = AgentIndex s \<and> SettlementAgents t = SettlementAgents s
     \<and> (\<forall>p. AID (agent t p) = AID (agent s p) \<and> HomeSettID (agent t p) = HomeSettID (agent s p))"

lemma same_registry_ok: "same_registry s t \<Longrightarrow> registry_ok s n \<Longrightarrow> registry_ok t n"
  by (simp add: same_registry_def registry_ok_def)

lemma same_registry_refl [simp, intro]: "same_registry s s"
  by (simp add: same_registry_def)

lemma same_registry_trans: "same_registry s t \<Longrightarrow> same_registry t u \<Longrightarrow> same_registry s u"
  by (simp add: same_registry_def)

lemma same_registry_ops:
  "(\<And>a. AID (f a) = AID a \<and> HomeSettID (f a) = HomeSettID a) \<Longrightarrow> same_registry s (upd_agent p f s)"
  "same_registry s (upd_settl q g s)" "same_registry s (emit t d c s)" "same_registry s (s\<lparr>Stats := x\<rparr>)"
  "same_registry s (s\<lparr>LiberatedSpiritsPool := n\<rparr>)" "same_registry s (upd_fact k h s)"
  by (simp_all add: same_registry_def)

lemma fresh_ptr_new: "p \<in> set (Agents s) \<Longrightarrow> p < fresh_ptr s"
proof -
  have "x \<le> fold max ps x \<and> (\<forall>p \<in> set ps. p \<le> fold max ps x)" for ps and x :: ptr
  proof (induction ps arbitrary: x)
    case (Cons q ps)
    from Cons.IH [of "max q x"] have "max q x \<le> fold max ps (max q x)" "\<forall>p \<in> set ps. p \<le> fold max ps (max q x)" by auto
    then show ?case by (auto intro: order_trans [OF max.cobounded1] order_trans [OF max.cobounded2])
  qed simp
  then show "p \<in> set (Agents s) \<Longrightarrow> p < fresh_ptr s" by (simp add: fresh_ptr_def le_imp_less_Suc)
qed

lemma join_faction_keeps [simp]: "AID (join_faction u a) = AID a" "HomeSettID (join_faction u a) = HomeSettID a"
  by (simp_all add: join_faction_def Let_def)

lemma addAgent_registry:
  assumes "registry_ok s n" "p \<notin> set (Agents s)" "AID a = n" "n < n + 1" "same_registry (s\<lparr>agent := (agent s)(p := a)\<rparr>) t"
  shows "registry_ok (addAgent p t) (n + 1)"
proof -
  have t: "Agents t = Agents s" "AgentIndex t = AgentIndex s" "SettlementAgents t = SettlementAgents s"
    "AID (agent t p) = n" "HomeSettID (agent t p) = HomeSettID a"
    "\<And>q. q \<noteq> p \<Longrightarrow> AID (agent t q) = AID (agent s q) \<and> HomeSettID (agent t q) = HomeSettID (agent s q)"
    using assms(3,5) by (simp_all add: same_registry_def)
  define u where "u = addAgent p t"
  have u: "Agents u = Agents s @ [p]" "AgentIndex u = (AgentIndex s)(n \<mapsto> p)"
    "\<And>i. SettlementAgents u i = SettlementAgents s i @ (if HomeSettID a = Some i then [p] else [])"
    "\<And>q. AID (agent u q) = AID (agent t q) \<and> HomeSettID (agent u q) = HomeSettID (agent t q)"
    by (auto simp: u_def addAgent_def Let_def t split: option.split)
  have ne: "q \<noteq> p" if "q \<in> set (Agents s)" for q using assms(2) that by auto
  have below: "x < n + 1" if "x < n \<or> x = n" for x using that assms(4) by auto
  have "filter (\<lambda>q. HomeSettID (agent u q) = Some i) (Agents s) = filter (\<lambda>q. HomeSettID (agent s q) = Some i) (Agents s)" for i
    by (rule filter_cong) (auto simp: u t ne)
  then have "SettlementAgents u i = filter (\<lambda>q. HomeSettID (agent u q) = Some i) (Agents u)" for i
    using assms(1) by (simp add: u(1,3) registry_ok_def) (simp add: u t)
  moreover have "AgentIndex u (AID (agent u q)) = Some q \<and> AID (agent u q) < n + 1" if "q \<in> set (Agents u)" for q
    using that assms(1) below by (cases "q = p") (auto simp: u t registry_ok_def)
  moreover have "q \<in> set (Agents u) \<and> AID (agent u q) = i" if "AgentIndex u i = Some q" for i q
    using that assms(1) ne t(4) by (cases "q = p") (auto simp: u t(6) registry_ok_def split: if_splits)
  ultimately show ?thesis using assms(1,2) unfolding registry_ok_def u_def [symmetric] by (simp add: u(1))
qed

subsection \<open>Births\<close>

lemma SpawnChild_poor: "pred_state (\<lambda>a. Wealth a = 0) (SpawnChild R pos i terrain tick parent)"
  unfolding SpawnChild_def Let_def by (intro pred_bind [OF pred_any] pred_return) (simp add: blank_agent_def)

lemma roll_birth_registry: "same_registry s (roll_birth R newRand tick child s)"
  by (auto simp: roll_birth_def rollReincarnation_def applyReincarnation_def Let_def same_registry_def upd_agent_def emit_def EmitEvent_def
      split: prod.split)

lemma roll_birth_led:
  "led (roll_birth R newRand tick child s) = led s" "Settlements (roll_birth R newRand tick child s) = Settlements s"
  "Factions (roll_birth R newRand tick child s) = Factions s"
  by (auto simp: roll_birth_def rollReincarnation_def applyReincarnation_def Let_def upd_agent_def emit_def EmitEvent_def led_def fun_eq_iff
      split: prod.split account.split)

lemma addAgent_led:
  "led (addAgent p s) = led s" "Settlements (addAgent p s) = Settlements s" "Factions (addAgent p s) = Factions s"
  "Agents (addAgent p s) = Agents s @ [p]"
  by (auto simp: addAgent_def join_faction_def Let_def upd_agent_def led_def fun_eq_iff split: option.split account.split)

text \<open>Room for \<open>k\<close> more identifiers below the width of \<^verbatim>\<open>uint64\<close>.\<close>

definition enrolled :: "nat \<Rightarrow> Sim \<times> 'g Spawner \<Rightarrow> bool" where
  "enrolled k st \<longleftrightarrow> registry_ok (fst st) (nextID (snd st)) \<and> unat (nextID (snd st)) + k < 2 ^ 64"

lemma enrolled_weaken: "enrolled k st \<Longrightarrow> j \<le> k \<Longrightarrow> enrolled j st"
  by (auto simp: enrolled_def)

lemma room_step:
  assumes "unat (n :: uint64) + Suc k < 2 ^ 64"
  shows "n < n + 1" "unat (n + 1) + k < 2 ^ 64"
proof -
  have "unat (n + 1) = unat n + 1" using assms by (simp add: unat_word_ariths)
  then show "n < n + 1" "unat (n + 1) + k < 2 ^ 64" using assms by (simp_all add: word_less_nat_alt)
qed

definition hoard :: "Sim \<Rightarrow> nat" where
  "hoard s = crowns_in (accts s) (led s)"

lemma hoard_enrol:
  assumes "p \<notin> set (Agents s)" "Agents t = Agents s @ [p]" "Settlements t = Settlements s" "Factions t = Factions s"
    and "\<And>acc. acc \<noteq> Purse p \<Longrightarrow> led t acc = led s acc"
  shows "hoard t = hoard s + unat (Wealth (agent t p))"
proof -
  have a: "accts t = insert (Purse p) (accts s)" "Purse p \<notin> accts s" using assms(1-4) by (auto simp: accts_def)
  have "(\<Sum>a\<in>accts s. unat (led t a)) = (\<Sum>a\<in>accts s. unat (led s a))" using a(2) assms(5) by (intro sum.cong) metis+
  then show ?thesis using a by (simp add: hoard_def crowns_in_def)
qed

lemma birth_enrols:
  assumes "enrolled (Suc k) st"
  shows "enrolled k (birth R newRand tick sp parents i st)" "hoard (fst (birth R newRand tick sp parents i st)) = hoard (fst st)"
proof -
  obtain s spw where st: "st = (s, spw)" by (cases st)
  define parent where "parent = agent s (parents ! unat ((tick div TicksPerSimDay + of_nat i) mod of_nat (length parents)))"
  obtain child spw1 where c: "run_state (SpawnChild R (SPosition (settl s sp)) (SID (settl s sp)) (terrain_at s (SPosition (settl s sp))) tick parent) spw
      = (child, spw1)" by fastforce
  define p where "p = fresh_ptr s"
  define s1 where "s1 = s\<lparr>agent := (agent s)(p := child)\<rparr>"
  define s2 where "s2 = addAgent p (roll_birth R newRand tick p s1)"
  have n: "AID child = nextID spw" "nextID spw1 = nextID spw + 1" using SpawnChild_id [OF c] by auto
  have new: "p \<notin> set (Agents s)" using fresh_ptr_new [of p s] by (auto simp: p_def)
  have room: "nextID spw < nextID spw + 1" "unat (nextID spw + 1) + k < 2 ^ 64"
    using assms room_step [of "nextID spw" k] by (simp_all add: enrolled_def st)
  have r: "registry_ok s2 (nextID spw + 1)" unfolding s2_def
    using assms n(1) room(1) new roll_birth_registry [of s1] unfolding s1_def by (intro addAgent_registry [where s = s]) (simp_all add: enrolled_def st)
  have b: "snd (birth R newRand tick sp parents i st) = spw1" "same_registry s2 (fst (birth R newRand tick sp parents i st))"
    "led (fst (birth R newRand tick sp parents i st)) = led s2"
    "Agents (fst (birth R newRand tick sp parents i st)) = Agents s2"
    "Settlements (fst (birth R newRand tick sp parents i st)) = Settlements s2"
    "Factions (fst (birth R newRand tick sp parents i st)) = Factions s2"
    by (auto simp: birth_def st Let_def c [unfolded parent_def] p_def [symmetric] s1_def [symmetric] s2_def [symmetric]
        same_registry_def upd_settl_def emit_def EmitEvent_def led_def fun_eq_iff split: account.split)
  show "enrolled k (birth R newRand tick sp parents i st)"
    using same_registry_ok [OF b(2) r] room(2) by (simp add: enrolled_def b(1) n(2))
  have l2: "led s2 = led s1" "Settlements s2 = Settlements s" "Factions s2 = Factions s" "Agents s2 = Agents s @ [p]"
    using roll_birth_registry [of s1 R newRand tick p] by (simp_all add: s2_def addAgent_led roll_birth_led s1_def same_registry_def)
  have "led s1 acc = led s acc" if "acc \<noteq> Purse p" for acc using that by (cases acc) (auto simp: s1_def)
  then have "hoard s2 = hoard s + unat (Wealth (agent s2 p))" using l2 new by (intro hoard_enrol) auto
  moreover have "Wealth (agent s2 p) = Wealth child" using fun_cong [OF l2(1), of "Purse p"] by (simp add: s1_def)
  moreover have "Wealth child = 0" using pred_stateD [OF SpawnChild_poor c] .
  moreover have "hoard (fst (birth R newRand tick sp parents i st)) = hoard s2" by (simp add: hoard_def accts_def b)
  ultimately show "hoard (fst (birth R newRand tick sp parents i st)) = hoard (fst st)" by (simp add: st)
qed

lemma enrolled_fold:
  assumes "\<And>x k st. enrolled (d + k) st \<Longrightarrow> enrolled k (f x st) \<and> hoard (fst (f x st)) = hoard (fst st)"
    and "enrolled (d * length xs + k) st"
  shows "enrolled k (fold f xs st) \<and> hoard (fst (fold f xs st)) = hoard (fst st)"
  using assms(2)
proof (induction xs arbitrary: st)
  case (Cons x xs)
  have "enrolled (d + (d * length xs + k)) st" using Cons.prems by (simp add: algebra_simps)
  from assms(1) [OF this, of x] Cons.IH [of "f x st"] show ?case by simp
qed simp

lemma births_in_enrols:
  assumes "enrolled (3 + k) st"
  shows "enrolled k (births_in mexp log1p R newRand tick c sp st) \<and> hoard (fst (births_in mexp log1p R newRand tick c sp st)) = hoard (fst st)"
proof -
  have "enrolled k (fold (birth R newRand tick sp ps) [0 ..< nat (min n 3)] st)
     \<and> hoard (fst (fold (birth R newRand tick sp ps) [0 ..< nat (min n 3)] st)) = hoard (fst st)" for ps n
    by (rule enrolled_fold [where d = 1]) (use birth_enrols in \<open>auto intro: enrolled_weaken [OF assms]\<close>)
  moreover have "enrolled k st" by (rule enrolled_weaken [OF assms]) simp
  ultimately show ?thesis by (simp add: births_in_def Let_def)
qed

lemma processBirths_spawner: "\<exists>t spw'. processBirths mexp log1p R newRand tick (s, Some spw) = (t, Some spw')"
  by (simp add: processBirths_def Let_def split: prod.split)

theorem processBirths_enrols:
  assumes "enrolled (3 * length (Settlements s) + k) (s, spw)"
    and "processBirths mexp log1p R newRand tick (s, Some spw) = (t, Some spw')"
  shows "enrolled k (t, spw') \<and> hoard t = hoard s"
proof -
  have w: "enrolled k (s, spw)" by (rule enrolled_weaken [OF assms(1)]) simp
  have f: "enrolled k (fold (births_in mexp log1p R newRand tick c) (Settlements s) (s, spw))
      \<and> hoard (fst (fold (births_in mexp log1p R newRand tick c) (Settlements s) (s, spw))) = hoard s" for c
    using enrolled_fold [OF births_in_enrols assms(1)] by simp
  show ?thesis
    using assms(2) w f by (auto simp: processBirths_def Let_def split: prod.splits if_splits) (metis fst_conv)+
qed

text \<open>Nobody leaves, and a settlement sees at most three births a day.\<close>

lemma birth_appends: "\<exists>p. Agents (fst (birth R newRand tick sp parents i st)) = Agents (fst st) @ [p]"
proof -
  have "Agents (roll_birth R newRand tick p (s\<lparr>agent := h\<rparr>)) = Agents s" for p s h
    using roll_birth_registry [of "s\<lparr>agent := h\<rparr>" R newRand tick p] by (simp add: same_registry_def)
  then show ?thesis by (simp add: birth_def Let_def addAgent_led split: prod.split)
qed

lemma fold_appends:
  assumes "\<And>x st. \<exists>new. Agents (fst (f x st)) = Agents (fst st) @ new \<and> length new \<le> d"
  shows "\<exists>new. Agents (fst (fold f xs st)) = Agents (fst st) @ new \<and> length new \<le> d * length xs"
proof (induction xs arbitrary: st)
  case (Cons x xs)
  obtain a where a: "Agents (fst (f x st)) = Agents (fst st) @ a" "length a \<le> d" using assms by blast
  obtain b where "Agents (fst (fold f xs (f x st))) = Agents (fst (f x st)) @ b" "length b \<le> d * length xs" using Cons by blast
  then show ?case using a by (intro exI [of _ "a @ b"]) simp
qed simp

lemma births_in_appends: "\<exists>new. Agents (fst (births_in mexp log1p R newRand tick c sp st)) = Agents (fst st) @ new \<and> length new \<le> 3"
proof -
  have "\<exists>new. Agents (fst (birth R newRand tick sp ps x u)) = Agents (fst u) @ new \<and> length new \<le> 1" for ps x u
    using birth_appends [of R newRand tick sp ps x u] by force
  from fold_appends [where f = "birth R newRand tick sp ps" for ps, OF this]
  have "\<exists>new. Agents (fst (fold (birth R newRand tick sp ps) [0 ..< nat (min n 3)] st)) = Agents (fst st) @ new \<and> length new \<le> 3" for ps n
    by (metis (no_types, lifting) diff_zero dual_order.trans length_upt min.cobounded2 mult_1 nat_mono nat_numeral)
  then show ?thesis by (simp add: births_in_def Let_def)
qed

lemma processBirths_appends:
  "\<exists>new. Agents (fst (processBirths mexp log1p R newRand tick (s, spo))) = Agents s @ new \<and> length new \<le> 3 * length (Settlements s)"
proof -
  have "\<exists>new. Agents (fst (fold (births_in mexp log1p R newRand tick c) (Settlements s) (s, spw))) = Agents s @ new
      \<and> length new \<le> 3 * length (Settlements s)" for c spw
    using fold_appends [where f = "births_in mexp log1p R newRand tick c" and st = "(s, spw)", OF births_in_appends] by simp
  then show ?thesis by (auto simp: processBirths_def Let_def split: option.split prod.split) (metis fst_conv)+
qed

subsection \<open>Recovery and mortality\<close>

text \<open>The ceiling of recovery lies above full health from a coherence of one fifth on.\<close>

lemma rat_Nous: "rat_of_flt Nous = 5895288448088660 / 2 ^ 51"
proof -
  have "go_pow Phi 2 = ldexp (Phi_frac * Phi_frac) 2"
    by (simp add: go_pow_def frexp_Phi pow_loop_2 [OF Phi_frac2_large])
  then show ?thesis unfolding Nous_def ldexp_def rat_Phi_frac2 unfolding rat_Phi_frac2
    by (simp only:) (subst rat_of_lit_eqI [where m = 5895288448088660 and e = "-51"], auto simp: powi_eval ldexp_def rat_Phi_frac2)
qed

lemma recovery_span: "0 \<le> Nous - Matter" "1 < Matter + float64 (lit 0.2 :: f32) * (Nous - Matter)"
proof -
  have b: "lit 0.618 \<le> Matter" "lit 2.618 \<le> Nous" by (rule lit_le, simp add: phi_rats rat_Nous)+
  have c: "Matter \<le> lit 0.619" by (rule le_lit) (simp add: phi_rats)
  have "(lit 0.619 :: f64) \<le> lit 2.618" by (rule lit_mono) simp
  then have "Matter \<le> Nous" using b c by (meson order_trans)
  then show "0 \<le> Nous - Matter" by (rule flt_diff_nonneg)
  have "lit 0.618 + float64 (lit 0.2 :: f32) * (lit 2.618 - lit 0.619) \<le> Matter + float64 (lit 0.2 :: f32) * (Nous - Matter)"
    by (intro flt_add_mono flt_mult_left_mono flt_diff_mono b c flt_conv_unit zero_le_lit) simp
  moreover have "1 < (lit 0.618 + float64 (lit 0.2 :: f32) * (lit 2.618 - lit 0.619) :: f64)" by code_simp
  ultimately show "1 < Matter + float64 (lit 0.2 :: f32) * (Nous - Matter)" by (rule less_le_trans [rotated])
qed

theorem recovery_target_above_one:
  assumes "lit 0.2 \<le> CittaCoherence (Soul a)"
  shows "1 < recovery_target a"
proof -
  have "float64 (lit 0.2 :: f32) * (Nous - Matter) \<le> float64 (CittaCoherence (Soul a)) * (Nous - Matter)"
    by (intro flt_mult_right_mono flt_conv_mono assms recovery_span)
  then have "Matter + float64 (lit 0.2 :: f32) * (Nous - Matter) \<le> recovery_target a"
    unfolding recovery_target_def by (intro flt_add_mono order_refl)
  then show ?thesis using recovery_span(2) by (rule less_le_trans [rotated])
qed

theorem recover_health_range:
  assumes "AHealth a \<le> 1"
  shows "AHealth a \<le> AHealth (recover_health a)" "AHealth (recover_health a) \<le> 1"
proof -
  define d where "d = float32 ((recovery_target a - float64 (AHealth a)) * Agnosis * lit 0.1)"
  have d: "0 \<le> d" if "float64 (AHealth a) < recovery_target a"
    unfolding d_def using that
    by (intro flt_conv_unit(1) flt_mult_nonneg) (simp_all add: flt_diff_nonneg phi_nonneg zero_le_lit)
  have "AHealth a \<le> cap_one (AHealth a + d)" if "0 \<le> d"
    using assms flt_add_increase [OF that, of "AHealth a"] by (simp add: cap_one_def)
  then show "AHealth a \<le> AHealth (recover_health a)" "AHealth (recover_health a) \<le> 1"
    using d assms by (auto simp: recover_health_def Let_def d_def [symmetric] cap_one_def)
qed

theorem children_spared:
  assumes "Age a < 16" "population \<le> MaxWorldPopulation"
  shows "agentDailyMortalityChance mexp a population = 0"
  using assms by (simp add: agentDailyMortalityChance_def Let_def not_le [symmetric])

end
