(* ===== verification/Perpetuation.thy ===== *)
theory Perpetuation
  imports Population Land
begin

section \<open>Perpetuation (perpetuation.go)\<close>

text \<open>
  The weekly safeguards: price corrections, cultural drift, migration of the
  desperate and of idle producers, retraining.  \<open>ids\<close> is the order in which
  Go ranges over the map of rosters, \<open>res\<close> the order over the resources of
  a hex, \<open>order\<close> the order over the map from resources to occupations.  Two of the functions are not called any more
  (\<^verbatim>\<open>rebalanceSettlementProducers\<close>,
  \<^verbatim>\<open>reassignMismatchedProducers\<close>); the sorting routine of the first
  is an argument.
\<close>

subsection \<open>Markets and youth\<close>

definition break_circuit :: "MarketEntry \<Rightarrow> MarketEntry" where
  "break_circuit e =
     (let ratio = Price e / BasePrice e;
          e1 = (if Completion < ratio
                then let f = e\<lparr>Supply := Supply e + Demand e * lit 0.5\<rparr> in f\<lparr>Price := ResolvePrice f 1 1\<rparr> else e)
      in if ratio < Agnosis
         then let s = Supply e1 * lit 0.5; f = e1\<lparr>Supply := (if s < 1 then 1 else s)\<rparr> in f\<lparr>Price := ResolvePrice f 1 1\<rparr>
         else e1)"

definition economicCircuitBreaker :: "Sim \<Rightarrow> Sim" where
  "economicCircuitBreaker s =
     fold (\<lambda>sp. upd_settl sp (\<lambda>t. t\<lparr>SMarket := map_option (map_entries (\<lambda>_. break_circuit)) (SMarket t)\<rparr>)) (Settlements s) s"

definition drift_young :: "Agent \<Rightarrow> Agent" where
  "drift_young a =
     (if 14 \<le> Age a \<and> Age a \<le> 22
      then add_belonging (float32 (Agnosis * lit 0.01)) (a\<lparr>Soul := AdjustCoherence (float32 (Agnosis * lit 0.0017)) (Soul a)\<rparr>)
      else a)"

definition culturalDrift :: "Sim \<Rightarrow> Sim" where
  "culturalDrift s = fold (\<lambda>p s. if \<not> Alive (agent s p) \<or> 30 < Age (agent s p) then s else upd_agent p drift_young s) (Agents s) s"

definition processAntiStagnation :: "Sim \<Rightarrow> Sim" where
  "processAntiStagnation s = updateSettlementPopulations (culturalDrift (economicCircuitBreaker s))"

subsection \<open>Migration of the desperate\<close>

definition alive_count :: "Sim \<Rightarrow> uint64 \<Rightarrow> nat" where
  "alive_count s settID = length (filter (\<lambda>p. Alive (agent s p)) (SettlementAgents s settID))"

definition attraction :: "(HexCoord \<Rightarrow> ResourceType list) \<Rightarrow> Sim \<Rightarrow> Settlement \<Rightarrow> f64" where
  "attraction res s sett =
     (let prosperity = flt_of_word (Treasury sett) / flt_of_int (int (alive_count s (SID sett)) + 1);
          pp = snd (SettlementCarryingCapacity res (SID sett) s)
      in prosperity / (if pp < 1 then 1 else pp))"

definition best_destination :: "(HexCoord \<Rightarrow> ResourceType list) \<Rightarrow> Sim \<Rightarrow> uint64 \<times> f64" where
  "best_destination res s =
     fold (\<lambda>sp (best, bestScore). let sett = settl s sp in
             if alive_count s (SID sett) = 0 then (best, bestScore)
             else if bestScore < attraction res s sett then (SID sett, attraction res s sett) else (best, bestScore))
       (Settlements s) (0, 0)"

definition findNearestViableSettlement :: "Sim \<Rightarrow> Settlement \<Rightarrow> int \<Rightarrow> ptr option" where
  "findNearestViableSettlement s from maxDist =
     fst (fold (\<lambda>sp (best, bestDist). let sett = settl s sp; dist = Distance (SPosition from) (SPosition sett) in
                  if SID sett = SID from \<or> Population sett < 50 then (best, bestDist)
                  else if dist \<le> maxDist \<and> dist < bestDist then (Some sp, dist) else (best, bestDist))
            (Settlements s) (None, maxDist + 1))"

definition move_home :: "Settlement \<Rightarrow> Agent \<Rightarrow> Agent" where
  "move_home t a = a\<lparr>HomeSettID := Some (SID t), APosition := SPosition t\<rparr>"

definition stays :: "bool \<Rightarrow> Agent \<Rightarrow> bool" where
  "stays isTiny a \<longleftrightarrow>
     (if isTiny then \<not> Alive a \<or> 0 < Satisfaction (Wellbeing a)
      else \<not> Alive a \<or> - lit 0.3 < EffectiveMood (Wellbeing a) \<or> lit 0.3 < Survival (Needs a))"

definition reassignIfMismatched :: "ptr \<Rightarrow> uint64 \<Rightarrow> Sim \<Rightarrow> Sim" where
  "reassignIfMismatched p settID s = s"

definition flee :: "ptr \<Rightarrow> Settlement \<Rightarrow> bool \<Rightarrow> ptr \<Rightarrow> Sim \<times> bool \<Rightarrow> Sim \<times> bool" where
  "flee bestSett sett isTiny p st =
     (let (s, migrated) = st in
      if stays isTiny (agent s p) then st
      else let target = settl s (if isTiny then (case findNearestViableSettlement s sett 5 of None \<Rightarrow> bestSett | Some q \<Rightarrow> q) else bestSett)
           in (reassignIfMismatched p (SID target) (upd_agent p (move_home target) s), True))"

definition processSeasonalMigration :: "(HexCoord \<Rightarrow> ResourceType list) \<Rightarrow> Sim \<Rightarrow> Sim" where
  "processSeasonalMigration res s =
     (let bestSettID = fst (best_destination res s) in
      if bestSettID = 0 then s
      else case SettlementIndex s bestSettID of
             None \<Rightarrow> s
           | Some bestSett \<Rightarrow>
               let (s1, migrated) = fold (\<lambda>sp st. let sett = settl (fst st) sp; n = alive_count s (SID sett); isTiny = (0 < n \<and> n < 25) in
                       if SID sett = bestSettID then st
                       else fold (flee bestSett sett isTiny) (SettlementAgents (fst st) (SID sett)) st)
                     (Settlements s) (s, False)
               in if migrated then rebuildSettlementAgents s1 else s1)"

subsection \<open>Resources and occupations\<close>

definition settlementHasResource :: "Sim \<Rightarrow> Settlement \<Rightarrow> ResourceType \<Rightarrow> bool" where
  "settlementHasResource s sett resType =
     list_ex (\<lambda>c. case map_Get (WorldMap s) c of None \<Rightarrow> False | Some h \<Rightarrow> 1 \<le> resource h resType)
       (SPosition sett # Neighbors (SPosition sett))"

definition findResourceSettlement :: "Sim \<Rightarrow> Settlement \<Rightarrow> ResourceType \<Rightarrow> int \<Rightarrow> ptr option" where
  "findResourceSettlement s from resType maxDist =
     fst (fold (\<lambda>sp (best, bestDist). let sett = settl s sp; dist = Distance (SPosition from) (SPosition sett) in
                  if SID sett = SID from \<or> Population sett < 25 then (best, bestDist)
                  else if maxDist < dist \<or> bestDist \<le> dist then (best, bestDist)
                  else if settlementHasResource s sett resType then (Some sp, dist) else (best, bestDist))
            (Settlements s) (None, maxDist + 1))"

definition resourceName :: "ResourceType \<Rightarrow> string" where
  "resourceName r = (case r of ResourceGrain \<Rightarrow> ''farmland'' | ResourceIronOre \<Rightarrow> ''iron deposits''
     | ResourceFish \<Rightarrow> ''fishing waters'' | ResourceFurs \<Rightarrow> ''hunting grounds'' | ResourceStone \<Rightarrow> ''quarries''
     | ResourceHerbs \<Rightarrow> ''herb gardens'' | _ \<Rightarrow> ''resources'')"

definition resourceOccupation :: "(ResourceType \<times> Occupation) list" where
  "resourceOccupation = [(ResourceGrain, OccupationFarmer), (ResourceIronOre, OccupationMiner), (ResourceFish, OccupationFisher),
     (ResourceFurs, OccupationHunter), (ResourceStone, OccupationLaborer), (ResourceHerbs, OccupationAlchemist)]"

definition bestProducerOccupationForNeighborhood :: "(HexCoord \<Rightarrow> ResourceType list) \<Rightarrow> Sim \<Rightarrow> Settlement \<Rightarrow> Occupation" where
  "bestProducerOccupationForNeighborhood order s sett =
     (let (occ, amt) = fold (\<lambda>c best. case map_Get (WorldMap s) c of
              None \<Rightarrow> best
            | Some h \<Rightarrow> fold (\<lambda>r (best, amt). case map_of resourceOccupation r of
                  None \<Rightarrow> (best, amt)
                | Some occ \<Rightarrow> if amt < resource h r then (occ, resource h r) else (best, amt)) (order c) best)
          (SPosition sett # Neighbors (SPosition sett)) (OccupationFarmer, 0)
      in if amt < 1 then OccupationCrafter else occ)"

definition at_least :: "f32 \<Rightarrow> f32" where
  "at_least x = (if x < lit 0.2 then lit 0.2 else x)"

definition setMinimumSkill :: "Occupation \<Rightarrow> Agent \<Rightarrow> Agent" where
  "setMinimumSkill occ a =
     (let k = Skills a in
      a\<lparr>Skills :=
        (if occ = OccupationFarmer \<or> occ = OccupationFisher then k\<lparr>Farming := at_least (Farming k)\<rparr>
         else if occ = OccupationMiner \<or> occ = OccupationLaborer then k\<lparr>Mining := at_least (Mining k)\<rparr>
         else if occ = OccupationHunter \<or> occ = OccupationSoldier then k\<lparr>Combat := at_least (Combat k)\<rparr>
         else if occ = OccupationMerchant then k\<lparr>TradeSkill := at_least (TradeSkill k)\<rparr>
         else if occ = OccupationAlchemist \<or> occ = OccupationScholar \<or> occ = OccupationCrafter then k\<lparr>Crafting := at_least (Crafting k)\<rparr>
         else k)\<rparr>)"

definition skillAdjacentOccupation :: "Occupation \<Rightarrow> Occupation" where
  "skillAdjacentOccupation occ =
     (case occ of OccupationFarmer \<Rightarrow> OccupationFisher | OccupationFisher \<Rightarrow> OccupationFarmer
      | OccupationMiner \<Rightarrow> OccupationLaborer | OccupationLaborer \<Rightarrow> OccupationMiner
      | OccupationHunter \<Rightarrow> OccupationSoldier | OccupationAlchemist \<Rightarrow> OccupationScholar | _ \<Rightarrow> occ)"

definition retrain :: "Occupation \<Rightarrow> Agent \<Rightarrow> Agent" where
  "retrain occ a = setMinimumSkill occ (a\<lparr>AOccupation := occ\<rparr>)"

definition bestOccupationForHex :: "Hex \<Rightarrow> Occupation" where
  "bestOccupationForHex h =
     (let (occ, amt) = fold (\<lambda>(o', r) (occ, amt). if amt < resource h r then (o', resource h r) else (occ, amt))
            [(OccupationMiner, ResourceIronOre), (OccupationFisher, ResourceFish), (OccupationHunter, ResourceFurs),
             (OccupationLaborer, ResourceStone), (OccupationAlchemist, ResourceHerbs)]
            (OccupationFarmer, resource h ResourceGrain)
      in if amt < 1 then OccupationCrafter else occ)"

subsection \<open>Idle producers and crafters\<close>

definition idle_producer :: "Sim \<Rightarrow> uint64 \<Rightarrow> Settlement \<Rightarrow> Agent \<Rightarrow> bool" where
  "idle_producer s tick sett a \<longleftrightarrow> Alive a \<and>
     (case occupationResource (AOccupation a) of
        None \<Rightarrow> False
      | Some resType \<Rightarrow> \<not> tick - LastWorkTick a < TicksPerSimDay * 14 \<and> \<not> settlementHasResource s sett resType)"

definition migrate_producer :: "uint64 \<Rightarrow> Settlement \<Rightarrow> nat \<Rightarrow> ptr \<Rightarrow> (Sim \<times> bool) \<times> nat \<Rightarrow> ((Sim \<times> bool) \<times> nat) option" where
  "migrate_producer tick sett maxMigrate p st =
     (let ((s, migrated), moved) = st; a = agent s p;
          resType = (case occupationResource (AOccupation a) of None \<Rightarrow> ResourceGrain | Some r \<Rightarrow> r)
      in if maxMigrate \<le> moved then None
         else case (case findResourceSettlement s sett resType 5 of
                      None \<Rightarrow> findResourceSettlement s sett resType 10 | Some q \<Rightarrow> Some q) of
                None \<Rightarrow> Some st
              | Some q \<Rightarrow>
                  let s1 = upd_agent p (move_home (settl s q)) s in
                  Some ((emit tick (AName a @ '' migrated to '' @ SName (settl s1 q) @ '' seeking '' @ resourceName resType)
                           CategorySocial s1, True), moved + 1))"

definition resource_migration_in :: "uint64 \<Rightarrow> uint64 \<Rightarrow> Sim \<times> bool \<Rightarrow> Sim \<times> bool" where
  "resource_migration_in tick settID st =
     (let s = fst st in
      case SettlementIndex s settID of
        None \<Rightarrow> st
      | Some sp \<Rightarrow>
          let sett = settl s sp; settAgents = SettlementAgents s settID;
              idle = filter (\<lambda>p. idle_producer s tick sett (agent s p)) settAgents;
              producers = length (filter (\<lambda>p. Alive (agent s p) \<and> occupationResource (AOccupation (agent s p)) \<noteq> None) settAgents)
          in if idle = [] then st
             else fst (for_break (migrate_producer tick sett (max 1 (producers div 10))) idle (st, 0)))"

definition processResourceMigration :: "uint64 list \<Rightarrow> uint64 \<Rightarrow> Sim \<Rightarrow> Sim" where
  "processResourceMigration ids tick s =
     (let (s1, migrated) = fold (resource_migration_in tick) ids (s, False)
      in if migrated then rebuildSettlementAgents s1 else s1)"

definition producers_mostly_idle :: "Sim \<Rightarrow> uint64 \<Rightarrow> ptr list \<Rightarrow> bool" where
  "producers_mostly_idle s tick settAgents \<longleftrightarrow>
     (let ps = filter (\<lambda>p. Alive (agent s p) \<and> isHexProducer (AOccupation (agent s p))) settAgents;
          working = filter (\<lambda>p. tick - LastWorkTick (agent s p) \<le> TicksPerSimDay * 7) ps
      in 0 < length ps \<and> flt_of_int (int (length working)) / flt_of_int (int (length ps)) < (lit 0.2 :: f64))"

definition recover_crafters_in :: "(HexCoord \<Rightarrow> ResourceType list) \<Rightarrow> uint64 \<Rightarrow> uint64 \<Rightarrow> Sim \<Rightarrow> Sim" where
  "recover_crafters_in order tick settID s =
     (case SettlementIndex s settID of
        None \<Rightarrow> s
      | Some sp \<Rightarrow>
          let sett = settl s sp; settAgents = SettlementAgents s settID;
              idle = filter (\<lambda>p. let a = agent s p in Alive a \<and> AOccupation a = OccupationCrafter
                                   \<and> \<not> tick - LastWorkTick a < TicksPerSimDay * 7) settAgents;
              newOcc = bestProducerOccupationForNeighborhood order s sett
          in if idle = [] \<or> producers_mostly_idle s tick settAgents \<or> newOcc = OccupationCrafter then s
             else fold (\<lambda>p s. emit tick (AName (agent s p) @ '' begins retraining as a '' @ occupationLabel newOcc @ '' in '' @ SName sett)
                            CategorySocial (upd_agent p (retrain newOcc) s))
                    (take (max 1 (length idle * 10 div 100)) idle) s)"

definition processCrafterRecovery :: "(HexCoord \<Rightarrow> ResourceType list) \<Rightarrow> uint64 list \<Rightarrow> uint64 \<Rightarrow> Sim \<Rightarrow> Sim" where
  "processCrafterRecovery order ids tick s = fold (recover_crafters_in order tick) ids s"

definition career_of :: "uint64 \<Rightarrow> Settlement \<Rightarrow> ptr \<Rightarrow> Sim \<Rightarrow> Sim" where
  "career_of tick sett p s =
     (let a = agent s p; idleTicks = tick - LastWorkTick a; adj = skillAdjacentOccupation (AOccupation a);
          newOcc = (if adj = AOccupation a then OccupationCrafter else adj)
      in case occupationResource (AOccupation a) of
           None \<Rightarrow> s
         | Some resType \<Rightarrow>
             if \<not> Alive a \<or> idleTicks < TicksPerSimDay * 30 \<or> findResourceSettlement s sett resType 10 \<noteq> None then s
             else if adj = AOccupation a \<and> idleTicks < TicksPerSimDay * 60 then s
             else emit tick (AName a @ '' transitions from '' @ occupationLabel (AOccupation a) @ '' to '' @ occupationLabel newOcc
                         @ '' in '' @ SName sett) CategorySocial (upd_agent p (retrain newOcc) s))"

definition processCareerTransition :: "uint64 list \<Rightarrow> uint64 \<Rightarrow> Sim \<Rightarrow> Sim" where
  "processCareerTransition ids tick s =
     fold (\<lambda>settID s. case SettlementIndex s settID of
             None \<Rightarrow> s | Some sp \<Rightarrow> fold (career_of tick (settl s sp)) (SettlementAgents s settID) s) ids s"

subsection \<open>Farmers and fishers\<close>

definition terrain_count :: "Sim \<Rightarrow> HexCoord \<Rightarrow> Terrain \<Rightarrow> nat" where
  "terrain_count s pos t =
     length (filter (\<lambda>c. case map_Get (WorldMap s) c of None \<Rightarrow> False | Some h \<Rightarrow> HexTerrain h = t) (pos # Neighbors pos))"

definition food_switch :: "Sim \<Rightarrow> Settlement \<Rightarrow> MarketEntry \<Rightarrow> MarketEntry \<Rightarrow> (Occupation \<times> Occupation \<times> Terrain) option" where
  "food_switch s sett grain fish =
     (let grainExpensive = (BasePrice grain * lit 2 < Price grain); fishExpensive = (BasePrice fish * lit 2 < Price fish);
          grainNormal = (Price grain < BasePrice grain * lit 1.5); fishNormal = (Price fish < BasePrice fish * lit 1.5);
          plains = terrain_count s (SPosition sett) TerrainPlains; coast = terrain_count s (SPosition sett) TerrainCoast;
          toFarm = Some (OccupationFisher, OccupationFarmer, TerrainPlains); toFish = Some (OccupationFarmer, OccupationFisher, TerrainCoast)
      in if grainExpensive \<and> fishNormal then toFarm
         else if fishExpensive \<and> grainNormal then toFish
         else if grainExpensive \<and> fishExpensive then
           (if coast < plains \<and> 0 < plains then toFarm else if 0 < coast then toFish else None)
         else None)"

definition food_retrain_in :: "uint64 \<Rightarrow> Sim \<Rightarrow> Sim" where
  "food_retrain_in settID s =
     (case SettlementIndex s settID of
        None \<Rightarrow> s
      | Some sp \<Rightarrow>
          let sett = settl s sp in
          case SMarket sett of
            None \<Rightarrow> s
          | Some m \<Rightarrow>
              (case (Entries m GoodGrain, Entries m GoodFish) of
                 (Some grain, Some fish) \<Rightarrow>
                   (case (if Population sett < 50 then None else food_switch s sett grain fish) of
                      None \<Rightarrow> s
                    | Some (fromOcc, toOcc, needTerrain) \<Rightarrow>
                        let candidates = filter (\<lambda>p. Alive (agent s p) \<and> AOccupation (agent s p) = fromOcc) (SettlementAgents s settID);
                            maxRetrain = int_of_flt (math_Max 1 (flt_of_int (int (length candidates)) * Agnosis * lit 0.5))
                        in if terrain_count s (SPosition sett) needTerrain = 0 then s
                           else fold (\<lambda>p. upd_agent p (\<lambda>a. a\<lparr>AOccupation := toOcc\<rparr>)) (take (nat maxRetrain) candidates) s)
               | _ \<Rightarrow> s))"

definition processFoodRetraining :: "uint64 list \<Rightarrow> Sim \<Rightarrow> Sim" where
  "processFoodRetraining ids s = fold food_retrain_in ids s"

subsection \<open>Disabled reassignments\<close>

definition non_producer_weights :: "(Occupation \<times> f64) list" where
  "non_producer_weights = [(OccupationCrafter, lit 0.40), (OccupationSoldier, lit 0.20), (OccupationScholar, lit 0.20),
     (OccupationMerchant, lit 0.15), (OccupationAlchemist, lit 0.05)]"

text \<open>The first candidate always beats the least float, so it starts the comparison.\<close>

definition bestNonProducerOccupation :: "Agent list \<Rightarrow> Occupation" where
  "bestNonProducerOccupation as =
     (let living = filter Alive as; total = flt_of_int (int (length living));
          deficit = (\<lambda>(occ, w). w * total * (1 - Matter) - flt_of_int (int (length (filter (\<lambda>a. AOccupation a = occ) living))))
      in fst (fold (\<lambda>np (best, d). if d < deficit np then (fst np, deficit np) else (best, d))
                (tl non_producer_weights) (OccupationCrafter, deficit (hd non_producer_weights))))"

definition math_Ceil :: "f64 \<Rightarrow> f64" where
  "math_Ceil x = flt_of_int \<lceil>rat_of_flt x\<rceil>"

definition rebalance_in :: "((ptr \<Rightarrow> f32) \<Rightarrow> ptr list \<Rightarrow> ptr list) \<Rightarrow> (HexCoord \<Rightarrow> ResourceType list) \<Rightarrow> uint64 \<Rightarrow> Sim \<Rightarrow> Sim" where
  "rebalance_in srt res settID s =
     (let settAgents = SettlementAgents s settID;
          target = settlementProducerTarget res settID s;
          producers = filter (\<lambda>p. Alive (agent s p) \<and> occupationResource (AOccupation (agent s p)) \<noteq> None) settAgents;
          excess = int (length producers) - target;
          toReassign = int_of_flt (math_Ceil (flt_of_int excess * Agnosis))
      in if excess \<le> 0 then s
         else fold (\<lambda>p s. upd_agent p (\<lambda>a. a\<lparr>AOccupation := bestNonProducerOccupation (map (agent s) settAgents)\<rparr>) s)
                (take (nat toReassign) (srt (\<lambda>p. Satisfaction (Wellbeing (agent s p))) producers)) s)"

definition rebalanceSettlementProducers :: "((ptr \<Rightarrow> f32) \<Rightarrow> ptr list \<Rightarrow> ptr list) \<Rightarrow> (HexCoord \<Rightarrow> ResourceType list) \<Rightarrow> uint64 list \<Rightarrow> Sim \<Rightarrow> Sim" where
  "rebalanceSettlementProducers srt res ids s = fold (rebalance_in srt res) ids s"

definition reassign_mismatched :: "ptr \<Rightarrow> Sim \<Rightarrow> Sim" where
  "reassign_mismatched p s =
     (let a = agent s p in
      case occupationResource (AOccupation a) of
        None \<Rightarrow> s
      | Some resType \<Rightarrow>
          if \<not> Alive a then s
          else
            let (c, s1) = bestProductionHex p s;
                can = (case map_Get (WorldMap s1) c of None \<Rightarrow> False | Some h \<Rightarrow> 1 \<le> resource h resType)
            in if can then s1
               else case map_Get (WorldMap s1) (APosition a) of
                      None \<Rightarrow> s1
                    | Some h \<Rightarrow> upd_agent p (\<lambda>a. a\<lparr>AOccupation := bestOccupationForHex h\<rparr>) s1)"

definition reassignMismatchedProducers :: "Sim \<Rightarrow> Sim" where
  "reassignMismatchedProducers s = fold reassign_mismatched (Agents s) s"

end
