(* ===== verification/Sample_World.thy ===== *)
theory Sample_World
  imports Lifecycle_Laws Relations_Laws Market_Laws Merchant_Laws Ticks_Laws Intervention_Laws Clock Bond_Laws Faction_Laws Population_Laws Perpetuation
begin

section \<open>A small concrete world\<close>

text \<open>
  Two towns three hexes apart and three agents, built by \<open>NewSimulation\<close>:
  the input at which the theorems with hypotheses are instantiated.
\<close>

definition sample_agent :: "uint64 \<Rightarrow> uint64 \<Rightarrow> Occupation \<Rightarrow> uint64 \<Rightarrow> Agent" where
  "sample_agent i home occ wealth =
     \<lparr>AID = i, AName = ''Ada'', Age = 30, AgeMonths = 0, ASex = SexFemale, AHealth = 1,
      APosition = \<lparr>coordQ = 0, coordR = 0\<rparr>, HomeSettID = Some home, Destination = None, AOccupation = occ,
      Inventory = (\<lambda>g. if g = GoodGrain then 20 else 0), Wealth = wealth,
      Skills = \<lparr>Farming = 0, Mining = 0, Crafting = 0, Combat = 0, TradeSkill = 0\<rparr>, Relationships = [],
      FactionID = None, Role = RoleCommoner, Tier = Tier0, Archetype = [],
      Wellbeing = \<lparr>Satisfaction = 0, Alignment = 0, EffectiveMood = 0\<rparr>,
      Soul = \<lparr>CittaCoherence = 0, Mass = 0, Gauss = 0, SoulState = Embodied, SoulClass = Devotionalist,
        WisdomScore = 0, WisdomEffort = 0, Reincarnated = False\<rparr>,
      Needs = \<lparr>Survival = 1, Safety = 1, Belonging = 1, Esteem = 1, Purpose = 1\<rparr>,
      TradeDestSett = None, TradeCargo = (\<lambda>_. 0), TravelTicksLeft = 0, ConsignmentDebt = 0,
      TradePreferredDest = None, Memories = [], ProductionProgress = 0, PracticeBoost = 1, BornTick = 0,
      LastWorkTick = 0, Alive = True\<rparr>"

definition sample_town :: "uint64 \<Rightarrow> int \<Rightarrow> uint32 \<Rightarrow> uint64 \<Rightarrow> Settlement" where
  "sample_town i q pop treasury =
     \<lparr>SID = i, SName = ''Oakford'', SPosition = \<lparr>coordQ = q, coordR = 0\<rparr>, Population = pop, Governance = GovCouncil,
      SLeaderID = None, TaxRate = lit 0.1, Treasury = treasury, CultureTradition = 0, CultureOpenness = 0,
      CultureMilitarism = 0, WallLevel = 1, RoadLevel = 1, MarketLevel = 1, GovernanceScore = lit 0.5,
      SMarket = None, CulturalMemory = 0\<rparr>"

definition sample_people :: "ptr \<Rightarrow> Agent" where
  "sample_people p = (if p = 0 then sample_agent 11 1 OccupationFarmer 100
     else if p = 1 then sample_agent 12 1 OccupationSoldier 5 else sample_agent 13 2 OccupationMerchant 40)"

definition sample_towns :: "ptr \<Rightarrow> Settlement" where
  "sample_towns p = (if p = 0 then sample_town 1 0 2 500 else sample_town 2 3 1 300)"

definition no_faction :: Faction where
  "no_faction = seed_faction 0 [] 0 0 0"

definition sample :: Sim where
  "sample = NewSimulation (NewMap 5) sample_people [0, 1, 2] sample_towns [0, 1] (\<lambda>_. no_faction)"

lemma sample_fields [simp]:
  "agent sample = sample_people" "Agents sample = [0, 1, 2]" "Settlements sample = [0, 1]" "Factions sample = []"
  "Relations sample = Map.empty" "Events sample = []"
  by (simp_all add: sample_def NewSimulation_fields)

lemma sample_settl [simp]:
  "settl sample p = (if p \<in> {0, 1} then (sample_towns p)\<lparr>SMarket := Some (NewMarket (SID (sample_towns p)))\<rparr>
     else sample_towns p)"
  by (simp add: sample_def NewSimulation_fields)

lemma sample_index: "SettlementIndex sample i = (if i = 1 then Some 0 else if i = 2 then Some 1 else None)"
  by (simp add: sample_def NewSimulation_fields index_by_def sample_towns_def sample_town_def)

lemma sample_roster: "SettlementAgents sample i = (if i = 1 then [0, 1] else if i = 2 then [2] else [])"
  by (simp add: sample_def NewSimulation_fields residents_filter sample_people_def sample_agent_def)

lemma sample_ok: "sim_ok sample"
  unfolding sample_def by (rule NewSimulation_ok) (simp_all add: sample_towns_def sample_town_def)

lemma sample_homed: "homed sample"
  by (simp add: homed_def sample_index sample_people_def sample_agent_def)

lemma sample_accts: "accts sample = {Purse 0, Purse 1, Purse 2, Chest 0, Chest 1}"
  by (auto simp: accts_def)

lemma sample_crowns: "crowns_in (accts sample) (led sample) = 945"
  by (simp add: sample_accts crowns_in_def sample_people_def sample_agent_def sample_towns_def sample_town_def)

lemma sample_fits: "fits (accts sample) (led sample)"
  by (simp add: fits_def sample_crowns)

lemma sample_rosters_home: "rosters_home sample"
  by (auto simp: rosters_home_def sample_roster sample_people_def sample_agent_def)

lemma sample_room: "p \<in> set (Agents sample) \<Longrightarrow> room (accts sample) sample p"
  by (auto simp: room_def debt_def sample_crowns sample_people_def sample_agent_def)

lemmas sample_facts = sample_ok sample_homed sample_crowns sample_fits

text \<open>The same world after the soldier has died, mourned by the farmer.\<close>

definition bereaved :: Sim where
  "bereaved = upd_agent 0 (\<lambda>a. a\<lparr>Relationships := [\<lparr>TargetID = 12, Sentiment = 1, Trust = 1\<rparr>, \<lparr>TargetID = 13, Sentiment = 1, Trust = 1\<rparr>]\<rparr>)
     (upd_agent 1 (\<lambda>a. a\<lparr>Alive := False\<rparr>) sample)"

lemma bereaved_ok: "sim_ok bereaved"
  by (rule sim_ok_cong [OF sample_ok]) (simp_all add: bereaved_def)

lemma bereaved_agents: "Agents bereaved = [0, 1, 2]" "Alive (agent bereaved p) \<longleftrightarrow> p \<noteq> 1"
  "AID (agent bereaved p) = AID (sample_people p)"
  by (simp_all add: bereaved_def upd_def sample_people_def sample_agent_def)

text \<open>The same world in a week of brisk trade on a route that is one week old, and in other weekly situations.\<close>

definition sample_key :: SettRelKey where
  "sample_key = SettRelKey 1 2"

definition trading :: Sim where
  "trading = sample\<lparr>TradeTracker := [sample_key \<mapsto> lit 5],
     TradeRoutes := [sample_key \<mapsto> \<lparr>Level = 0, RouteName = [], RSustainedWeeks = 1, DormantWeeks = 0, WeeklyTrade = lit 4\<rparr>]\<rparr>"

definition friendly :: Sim where
  "friendly = sample\<lparr>Relations := [sample_key \<mapsto> \<lparr>RSentiment = Matter, RTrade = 0\<rparr>],
     Agreements := [sample_key \<mapsto> \<lparr>AgType = 1, SustainedWeeks = 2, FormedAtTick = 5\<rparr>]\<rparr>"

definition raided :: Sim where
  "raided = sample\<lparr>Relations := [sample_key \<mapsto> \<lparr>RSentiment = - 1, RTrade = 0\<rparr>], RaidCounts := [sample_key \<mapsto> 3]\<rparr>"

lemma sample_treaties [simp]: "PeaceTreaties sample = Map.empty"
  using initSettlementClaims_frame [of "fresh_sim (NewMap 5) sample_people [0, 1, 2] sample_towns [0, 1] (\<lambda>_. no_faction)"]
  by (auto simp: sample_def NewSimulation_def updateStats_def Let_def fresh_sim_def)

lemma sample_soul_ok:
  "soul_ok \<lparr>CittaCoherence = 0, Mass = 0, Gauss = 0, SoulState = Embodied, SoulClass = Devotionalist,
        WisdomScore = 0, WisdomEffort = 0, Reincarnated = False\<rparr>"
  by code_simp

text \<open>What the runtime supplies to the small world: no reordering, no draws, no weather service.\<close>

definition sample_env :: Env where
  "sample_env = \<lparr>shuffle = (\<lambda>_ ps. ps), decide_draw = (\<lambda>_ _. 0), first_draw = (\<lambda>_. 0), sort_sells = sort_by OPrice,
     sort_buys = sort_desc OPrice, market_goods = (\<lambda>_. all_goods), cargo_goods = (\<lambda>_ _ _. all_goods),
     hex_resources = (\<lambda>_. []), math_log2 = floor_log2, weather_fetch = NoClient\<rparr>"

lemma sample_sorts:
  "slice_sort (sort_sells sample_env) (\<lambda>x y. OPrice x < OPrice y)" "slice_sort (sort_buys sample_env) (\<lambda>x y. OPrice y < OPrice x)"
  by (simp_all add: sample_env_def sort_by_slice_sort sort_desc_slice_sort)

text \<open>One hex of plains with grain, in fair weather.\<close>

definition sample_hex :: Hex where
  "sample_hex = \<lparr>Coord = \<lparr>coordQ = 0, coordR = 0\<rparr>, HexTerrain = TerrainPlains, Resources = [ResourceGrain \<mapsto> lit 50],
     Elevation = 0, Rainfall = 0, Temperature = 0, HexSettlementID = Some 1, HexHealth = 1, LastExtractedTick = 0,
     IrrigationLevel = 0, ConservationLevel = 0, ClaimedBy = Some 1\<rparr>"

definition farmland :: Sim where
  "farmland = sample\<lparr>WorldMap := \<lparr>Hexes = [\<lparr>coordQ = 0, coordR = 0\<rparr> \<mapsto> sample_hex], Radius = 5\<rparr>,
     CurrentWeather := \<lparr>TempModifier = 0, FoodDecayMod = 1, TravelPenalty = 1, WDescription = []\<rparr>, HeatStreakHours := 71\<rparr>"

lemma sample_hex_ok: "hex_ok sample_hex"
  by (simp add: hex_ok_def sample_hex_def zero_le_lit)

lemma farmland_ok: "land_ok farmland" "weather_ok farmland" "HeatStreakHours farmland \<le> 71"
proof -
  show "land_ok farmland" by (auto simp: land_ok_def farmland_def sample_hex_ok split: if_splits)
  show "weather_ok farmland" using travel_levels(1,4) by (simp add: weather_ok_def farmland_def)
qed (simp add: farmland_def)

text \<open>Two exhausted hexes, each of weight one, and two farmers with consecutive numbers.\<close>

definition barren :: Sim where
  "barren = upd_agent 1 (\<lambda>a. a\<lparr>AOccupation := OccupationFarmer\<rparr>) (farmland\<lparr>WorldMap :=
     \<lparr>Hexes = [\<lparr>coordQ = 0, coordR = 0\<rparr> \<mapsto> sample_hex\<lparr>HexHealth := 0\<rparr>, \<lparr>coordQ = 1, coordR = 0\<rparr> \<mapsto> sample_hex\<lparr>HexHealth := 0\<rparr>],
      Radius = 5\<rparr>\<rparr>)"

lemma barren_weight: "hex_weight ResourceGrain (sample_hex\<lparr>HexHealth := 0\<rparr>) = 1"
  by code_simp

lemma barren_workers:
  "HomeSettID (agent barren 0) = Some 1" "HomeSettID (agent barren 1) = Some 1" "AID (agent barren 0) = 11" "AID (agent barren 1) = 12"
  "occupationResource (AOccupation (agent barren 0)) = Some ResourceGrain"
  "occupationResource (AOccupation (agent barren 1)) = Some ResourceGrain" "cache_fresh barren i oc r"
proof -
  have "prodHexCache sample = Map.empty"
    using initSettlementClaims_frame [of "fresh_sim (NewMap 5) sample_people [0, 1, 2] sample_towns [0, 1] (\<lambda>_. no_faction)"]
    by (auto simp: sample_def NewSimulation_def updateStats_def Let_def fresh_sim_def)
  then show "cache_fresh barren i oc r" by (simp add: cache_fresh_def barren_def farmland_def upd_agent_def)
qed (simp_all add: barren_def farmland_def sample_people_def sample_agent_def)

lemma barren_total: "totalWt (computeHexDistribution 1 ResourceGrain barren) = 2"
proof -
  have s: "SettlementIndex barren 1 = Some 0" "SPosition (settl barren 0) = \<lparr>coordQ = 0, coordR = 0\<rparr>"
    by (simp_all add: barren_def farmland_def sample_index sample_towns_def sample_town_def)
  have "\<not> ResourceCap TerrainPlains ResourceGrain \<le> 0" by code_simp
  then have w: "add_work_hex (WorldMap barren) ResourceGrain c st =
      (if c \<in> {\<lparr>coordQ = 0, coordR = 0\<rparr>, \<lparr>coordQ = 1, coordR = 0\<rparr>} then (fst st @ [(c, snd st + 1)], snd st + 1) else st)" for c st
    using barren_weight by (auto simp: add_work_hex_def Let_def map_Get_def barren_def farmland_def sample_hex_def split: prod.split)
  show ?thesis
    by (simp add: computeHexDistribution_def s w Let_def Neighbors_def HexNeighborDirections_def)
qed

text \<open>
  A busy route that nobody uses any more and an alliance of two towns that no longer like each
  other, week after week.
\<close>

definition present :: "(SettRelKey \<rightharpoonup> 'v) \<Rightarrow> SettRelKey list" where
  "present m = (if m sample_key = None then [] else [sample_key])"

primrec idle_world :: "nat \<Rightarrow> Sim" where
  "idle_world 0 = sample\<lparr>TradeTracker := Map.empty,
     TradeRoutes := [sample_key \<mapsto> \<lparr>Level = 3, RouteName = [], RSustainedWeeks = 9, DormantWeeks = 0, WeeklyTrade = 0\<rparr>]\<rparr>"
| "idle_world (Suc i) = processTradeRoutes [] (present (TradeRoutes (idle_world i))) 10080 (idle_world i)"

primrec cold_world :: "nat \<Rightarrow> Sim" where
  "cold_world 0 = sample\<lparr>Relations := [sample_key \<mapsto> \<lparr>RSentiment = 0, RTrade = 0\<rparr>],
     Agreements := [sample_key \<mapsto> \<lparr>AgType = 3, SustainedWeeks = 9, FormedAtTick = 5\<rparr>]\<rparr>"
| "cold_world (Suc i) = processDiplomacy [sample_key]
     (present (Agreements (pact_review 10080 sample_key (cold_world i)))) 10080 (cold_world i)"

lemma present_dom: "dom m \<subseteq> {sample_key} \<Longrightarrow> set (present m) = dom m" "distinct (present m)"
  by (auto simp: present_def dom_def)

lemma single_key: "dom m \<subseteq> {k} \<longleftrightarrow> (\<forall>j. j \<noteq> k \<longrightarrow> m j = None)"
  by (auto simp: dom_def)

lemma idle_world_inv: "TradeTracker (idle_world i) = Map.empty \<and> dom (TradeRoutes (idle_world i)) \<subseteq> {sample_key}"
proof (induction i)
  case (Suc i)
  have "TradeRoutes (route_review t sample_key s) k = TradeRoutes s k" if "k \<noteq> sample_key" for t s k
    using that by (simp add: route_review_def Let_def split: option.splits)
  then have "dom (TradeRoutes (route_review 10080 sample_key (idle_world i))) \<subseteq> {sample_key}"
    using Suc unfolding single_key by simp
  then show ?case using Suc by (simp add: processTradeRoutes_def present_def)
qed (simp add: single_key)

lemma idle_world_orders: "route_orders [] (present (TradeRoutes (idle_world i))) 10080 (idle_world i)"
  using idle_world_inv [of i] by (simp add: route_orders_def present_dom)

lemma cold_world_inv:
  "Relations (cold_world i) = [sample_key \<mapsto> \<lparr>RSentiment = 0, RTrade = 0\<rparr>] \<and> dom (Agreements (cold_world i)) \<subseteq> {sample_key}"
proof (induction i)
  case (Suc i)
  let ?s = "pact_review 10080 sample_key (cold_world i)"
  have v: "pact_view (pact_review t sample_key s) k = pact_view s k" if "k \<noteq> sample_key" for t s k
    using pacts.other_keys [of k sample_key t s] that by simp
  have r: "Relations (pact_review t k s) = Relations s" "Relations (pact_orphan t k s) = Relations s" for t k s
    by (simp_all add: pact_review_def pact_warm_def pact_cool_def pact_orphan_def Let_def split: option.splits)
  have "Agreements ?s k = None" if "k \<noteq> sample_key" for k
    using v [OF that, of 10080 "cold_world i"] Suc that by (simp add: pact_view_def single_key)
  then have "dom (Agreements ?s) \<subseteq> {sample_key}" unfolding single_key by blast
  moreover have "pact_orphan 10080 sample_key ?s = ?s" using Suc by (simp add: pact_orphan_def r split: option.split)
  ultimately show ?case using Suc by (auto simp: processDiplomacy_def present_def r)
qed (simp add: single_key)

lemma cold_world_orders:
  "pact_orders [sample_key] (present (Agreements (pact_review 10080 sample_key (cold_world i)))) 10080 (cold_world i)"
proof -
  have "dom (Agreements (pact_review 10080 sample_key (cold_world i))) \<subseteq> {sample_key}"
    using cold_world_inv [of i] pacts.other_keys [of _ sample_key 10080 "cold_world i"] by (simp add: pact_view_def single_key)
  then show ?thesis using cold_world_inv [of i] by (simp add: pact_orders_def present_dom)
qed

text \<open>The small world with a second town large enough to take in others.\<close>

definition grown :: Sim where
  "grown = upd_settl 1 (\<lambda>t. t\<lparr>Population := 60\<rparr>) sample"

lemma grown_ok: "sim_ok grown"
  by (rule sim_ok_cong [OF sample_ok]) (simp_all add: grown_def upd_settl_def upd_def)

text \<open>Two towns at the top of mutual sentiment, three weeks into a pact of non-aggression.\<close>

definition beloved :: Sim where
  "beloved = sample\<lparr>Relations := [sample_key \<mapsto> \<lparr>RSentiment = 1, RTrade = 0\<rparr>],
     Agreements := [sample_key \<mapsto> \<lparr>AgType = 2, SustainedWeeks = 3, FormedAtTick = 5\<rparr>]\<rparr>"

lemma beloved_orders: "pact_orders [sample_key] [sample_key] 9 beloved"
proof -
  have "Agreements (pact_review 9 sample_key beloved) = [sample_key \<mapsto> warm_week 9 1 \<lparr>AgType = 2, SustainedWeeks = 3, FormedAtTick = 5\<rparr>]"
    by (simp add: pact_review_def beloved_def pact_warm_view)
  then show ?thesis by (simp add: pact_orders_def) (simp add: beloved_def)
qed

lemma sample_agent_index: "AgentIndex sample i = (if i = 11 then Some 0 else if i = 12 then Some 1 else if i = 13 then Some 2 else None)"
  by (simp add: sample_def NewSimulation_fields index_by_def sample_people_def sample_agent_def)

text \<open>The farmer as the only member of a faction.\<close>

definition factional :: Sim where
  "factional = upd_agent 0 (\<lambda>a. a\<lparr>FactionID := Some 1\<rparr>) (sample\<lparr>Factions := [7], fact := (\<lambda>_. seed_faction 1 [] 0 0 0)\<rparr>)"

lemma factional_fields:
  "agent factional = sample_people(0 := (sample_people 0)\<lparr>FactionID := Some 1\<rparr>)" "Factions factional = [7]"
  "FID (fact factional p) = 1" "settl factional = settl sample" "Settlements factional = [0, 1]"
  "SettlementAgents factional = SettlementAgents sample"
  by (simp_all add: factional_def upd_agent_def upd_def seed_faction_def)

text \<open>A generator without chance, and a spawner that follows the agents of the small world.\<close>

definition still_rand :: "unit Rand" where
  "still_rand = \<lparr>rand_Float32 = (\<lambda>g. (0, g)), rand_Float64 = (\<lambda>g. (0, g)), rand_NormFloat64 = (\<lambda>g. (0, g)), rand_Intn = (\<lambda>_ g. (0, g))\<rparr>"

definition sample_spawner :: "unit Spawner" where
  "sample_spawner = \<lparr>rng = (), nextID = 14\<rparr>"

lemma sample_enrolled: "enrolled 100 (sample, sample_spawner)"
proof -
  have "registry_ok sample 14"
    unfolding registry_ok_def
  proof (intro conjI allI impI ballI)
    show "SettlementAgents sample i = filter (\<lambda>p. HomeSettID (agent sample p) = Some i) (Agents sample)" for i
      by (simp add: sample_roster sample_people_def sample_agent_def)
  qed (auto simp: sample_agent_index sample_people_def sample_agent_def split: if_splits)
  then show ?thesis by (simp add: enrolled_def sample_spawner_def)
qed

end
