(* ===== verification/Spec2Isabelle.thy ===== *)
theory Spec2Isabelle
  imports Sample_World
begin

text \<open>
  \<^bold>\<open>A world simulation in Go, and its closed economy.\<close>

  The program under \<^verbatim>\<open>src/\<close> simulates a world of hexes, settlements and agents in
  ticks of one simulated minute.  \<^verbatim>\<open>Engine.Run\<close> (\<^verbatim>\<open>engine/tick.go\<close>)
  advances the tick and calls the layers that are due: agents decide and act every minute, markets
  clear, merchants travel and weather strikes every hour, taxes, wages, births, crime and
  governance run every day, factions, relations between settlements, trade routes, diplomacy and
  peace every week, harvest and hardship every season.  Crowns are meant to be conserved: the code
  documents almost every phase as a closed transfer.

  \<^bold>\<open>State.\<close> Go's pointers to agents, settlements and factions are addresses in the three heaps
  of the record \<^typ>\<open>Sim\<close>; its slices and maps are lists and functions of addresses, so aliasing
  between the agent slice, the rosters and the indices is explicit.  Floating point is exact:
  \<^verbatim>\<open>float64\<close> and \<^verbatim>\<open>float32\<close> are rationals rounded to nearest even
  after every operation (no infinities, NaN or overflow).  Crowns, identifiers, ticks and levels are
  words that wrap; Go's \<^verbatim>\<open>int\<close> counters, quantities of goods and hex coordinates are
  unbounded integers.  Go ranges over a map in any order: where the order matters it is an
  argument, with the keys it must list as a hypothesis.  Random draws, \<^verbatim>\<open>sort.Slice\<close>,
  \<^verbatim>\<open>math.Log2\<close>, \<^verbatim>\<open>math.Log1p\<close>, \<^verbatim>\<open>math.Exp\<close> and
  the fetched weather are arguments too, with the contract the code relies on.

  \<^bold>\<open>Theories.\<close>
  \<^item> \<open>Prelude\<close>: widths, heap update, loops with \<^verbatim>\<open>break\<close>, contracts of sorting routines.
  \<^item> \<open>Go_Float\<close>, \<open>Phi\<close>: Go's floating point; \<^verbatim>\<open>internal/phi\<close>.
  \<^item> \<open>Ledger\<close>: the abstract specification of money: accounts and solvent payments, with the
    locales whose clients show that a loop of payments conserves the total.
  \<^item> \<open>Hex_Grid\<close>: \<^verbatim>\<open>internal/world/hex.go\<close>, \<^verbatim>\<open>map.go\<close> and the travel costs of
    \<^verbatim>\<open>engine/market.go\<close>.
  \<^item> \<open>Agent_Types\<close>, \<open>Soul_Coherence\<close>, \<open>Agent_Memory\<close>, \<open>Behavior\<close>: \<^verbatim>\<open>internal/agents\<close>:
    data, coherence and contemplation, the memory stream, needs, decisions, actions, archetypes.
  \<^item> \<open>Economy\<close>: \<^verbatim>\<open>internal/economy\<close>, \<^verbatim>\<open>internal/social\<close>.
  \<^item> \<open>Sim_State\<close>: \<^verbatim>\<open>Simulation\<close>, its events and subscribers, its ledger.
  \<^item> \<open>Market_Model\<close>, \<open>Market_Laws\<close>, \<open>Merchant\<close>, \<open>Merchant_Laws\<close>, \<open>Fiscal\<close>, \<open>Fiscal_Laws\<close>:
    \<^verbatim>\<open>engine/market.go\<close>: the hourly market, merchant trade, the fiscal day.
  \<^item> \<open>Lifecycle\<close>, \<open>Lifecycle_Laws\<close>: construction, statistics, deaths, rosters and neighbours of
    \<^verbatim>\<open>engine/simulation.go\<close>.
  \<^item> \<open>Relations_Model\<close>, \<open>Relations_Laws\<close>: \<^verbatim>\<open>engine/relations.go\<close>,
    \<^verbatim>\<open>trade_routes.go\<close>, \<^verbatim>\<open>diplomacy.go\<close>, \<^verbatim>\<open>peace.go\<close>; the
    weekly loops are refined to one state machine per pair of settlements.
  \<^item> \<open>Land\<close>, \<open>Land_Laws\<close>: \<^verbatim>\<open>engine/production.go\<close>, \<^verbatim>\<open>land_governance.go\<close>
    and the choice of a production hex.
  \<^item> \<open>Seasons\<close>: \<^verbatim>\<open>engine/seasons.go\<close> and the mapping of \<^verbatim>\<open>weather/weather.go\<close>.
  \<^item> \<open>Ticks\<close>, \<open>Ticks_Laws\<close>: \<^verbatim>\<open>TickMinute\<close>, \<^verbatim>\<open>TickHour\<close> and
    \<^verbatim>\<open>TickSeason\<close> as wholes.
  \<^item> \<open>Intervention\<close>, \<open>Intervention_Laws\<close>: \<^verbatim>\<open>engine/intervention.go\<close>.
  \<^item> \<open>Clock\<close>: \<^verbatim>\<open>engine/tick.go\<close>: the engine loop against an environment of other
    goroutines, and the displayed time.
  \<^item> \<open>Factions\<close>, \<open>Faction_Laws\<close>: \<^verbatim>\<open>engine/factions.go\<close>.
  \<^item> \<open>Society\<close>, \<open>Society_Laws\<close>, \<open>Bond_Laws\<close>: \<^verbatim>\<open>engine/relationships.go\<close>,
    \<^verbatim>\<open>narrative_memories.go\<close>, \<^verbatim>\<open>crime.go\<close>, \<^verbatim>\<open>governance.go\<close>,
    \<^verbatim>\<open>trauma_decay.go\<close>, \<^verbatim>\<open>reincarnation.go\<close>, \<^verbatim>\<open>monastic.go\<close>.
  \<^item> \<open>Spawner\<close>, \<open>Population\<close>, \<open>Population_Laws\<close>: \<^verbatim>\<open>agents/spawner.go\<close> as a state
    monad, \<^verbatim>\<open>engine/population.go\<close>.
  \<^item> \<open>Perpetuation\<close>: \<^verbatim>\<open>engine/perpetuation.go\<close> (definitions).
  \<^item> \<open>Sample_World\<close>: small worlds on which hypotheses are shown to hold.

  \<^bold>\<open>What is shown.\<close> Money: a minute, the hourly market, the fiscal day, deaths, births, crime,
  governance and the factions' week conserve crowns; an hour with merchants loses exactly the
  consignment debt it creates.  Indices and rosters: established by construction, kept by the
  ticks, compaction and births.  Goods and prices: conserved by matching, kept in their band.
  Relations, routes, pacts, treaties: exact per-pair refinements for every iteration order, and what
  follows over many weeks.  Land: health and resources stay in range, harvests are exact to the unit,
  producers spread in proportion.  Agents: ranges of needs, coherence and memory.  Engine: when the
  loop ends and when it does not, and the clock's round trip.

  \<^bold>\<open>Where code and documentation part.\<close> The theorems also settle some divergences: work mints
  nothing although \<^verbatim>\<open>README.md\<close> and \<^verbatim>\<open>docs/08\<close> list mints; drought never
  degrades land; a provision never reaches a price; an alliance needs sentiment 1.0, not 0.764; small
  stocks never spoil; a self-submitting loop task keeps the engine from stopping.

  \<^bold>\<open>Loops.\<close> Loops over slices and bounded loops are recursion on lists or numbers.
  \<^verbatim>\<open>routeCost\<close> terminates by the distance left.  \<^verbatim>\<open>drainLoopTasks\<close> and the loop
  of \<^verbatim>\<open>Run\<close> may run for ever: they are partial functions whose value \<open>None\<close> is not
  returning, and their termination is a theorem, not an assumption.  No definition uses fuel.

  \<^bold>\<open>Not modelled.\<close> HTTP, storage, language model and entropy clients, the gardener and sentinel
  processes and the command line programs (input and output); \<^verbatim>\<open>engine/cognition.go\<close>, whose
  decisions come from a language model; \<^verbatim>\<open>engine/warfare.go\<close> and
  \<^verbatim>\<open>settlement_lifecycle.go\<close>; world generation; \<^verbatim>\<open>TickDay\<close> and
  \<^verbatim>\<open>TickWeek\<close> as wholes, since they interleave the modelled phases with those.  Logging,
  event metadata and wall-clock time are left out of the modelled functions.
\<close>

section \<open>The closed economy\<close>

subsection \<open>The hourly market\<close>

text \<open>
  C3: \<^verbatim>\<open>resolveMarkets\<close>, run over every settlement with whatever correct
  sorting routine and in whatever order a market's goods are visited, neither mints nor
  destroys a crown, never overdraws a purse (its effect on the ledger is a sequence of
  solvent payments) and changes no home, occupation, population or index.
\<close>

theorem market_hour_closed:
  assumes "slice_sort ss (\<lambda>x y. OPrice x < OPrice y)" "slice_sort sb (\<lambda>x y. OPrice y < OPrice x)"
    and "sim_ok s" "fits (accts s) (led s)"
  shows "pays (accts s) (led s) (led (resolveMarkets ss sb goods s))
    \<and> crowns_in (accts s) (led (resolveMarkets ss sb goods s)) = crowns_in (accts s) (led s)
    \<and> same_frame s (resolveMarkets ss sb goods s)"
  using resolveMarkets_pays_frame [OF assms(1-3)] pays_conserves assms(4) by auto

theorem market_hour_closed_witness:
  "crowns_in (accts sample) (led (resolveMarkets (sort_by OPrice) (sort_desc OPrice) (\<lambda>_. all_goods) sample)) = 945"
  using market_hour_closed [OF sort_by_slice_sort sort_desc_slice_sort sample_ok sample_fits] sample_crowns by simp

text \<open>
  C17: In one settlement's market the units of every good among the participants are the
  same after the matching as before, and no trade takes an agent below the smaller of what
  they had and what \<^verbatim>\<open>surplusThreshold\<close> lets them keep.
\<close>

theorem market_goods_kept:
  assumes "slice_sort ss (\<lambda>x y. OPrice x < OPrice y)" "slice_sort sb (\<lambda>x y. OPrice y < OPrice x)"
    and "distinct settAgents" "distinct goods"
  shows "goods_in (set settAgents) g (fst (resolve_market ss sb goods season sett settAgents h market))
      = goods_in (set settAgents) g h
    \<and> min (Inventory (h p) g) (surplusThreshold (h p) g)
      \<le> Inventory (fst (resolve_market ss sb goods season sett settAgents h market) p) g"
proof
  show "goods_in (set settAgents) g (fst (resolve_market ss sb goods season sett settAgents h market))
      = goods_in (set settAgents) g h"
    using goods_traded.resolve_market_R [where ps = settAgents and h = h,
        OF slice_sort.set_srt [OF assms(1)] slice_sort.set_srt [OF assms(2)] order_refl] by blast
  show "min (Inventory (h p) g) (surplusThreshold (h p) g)
      \<le> Inventory (fst (resolve_market ss sb goods season sett settAgents h market) p) g"
    by (rule resolve_market_keeps [OF assms(3,4,1)])
qed

theorem market_goods_kept_witness:
  "goods_in {0, 1} GoodGrain (fst (resolve_market (sort_by OPrice) (sort_desc OPrice) all_goods 0
      (sample_town 1 0 2 500) [0, 1] sample_people (NewMarket 1))) = 40"
proof -
  have "distinct all_goods" by (simp add: all_goods_def)
  from market_goods_kept [OF sort_by_slice_sort sort_desc_slice_sort _ this, of "[0, 1]" GoodGrain 0
      "sample_town 1 0 2 500" sample_people "NewMarket 1"]
  show ?thesis by (simp add: goods_in_def sample_people_def sample_agent_def)
qed

text \<open>
  C18: Every entry price stays between \<open>Agnosis\<close> and \<open>Totality\<close> times its base price through
  a whole market resolution: aggregation, matching, the blend with traded prices and the
  decay of surplus prices.
\<close>

theorem market_prices_in_band:
  assumes "market_ok market"
  shows "market_ok (snd (resolve_market ss sb goods season sett ps h market))"
  by (rule resolve_market_prices [OF assms])

theorem market_prices_in_band_witness:
  "market_ok (snd (resolve_market (sort_by OPrice) (sort_desc OPrice) all_goods 0
      (sample_town 1 0 2 500) [0, 1] sample_people (NewMarket 1)))"
  by (rule market_prices_in_band [OF NewMarket_ok])

subsection \<open>Taxes, wages, stipends and the decay of fortunes\<close>

text \<open>
  C4: The daily fiscal phases \<^verbatim>\<open>collectTaxes\<close> (with its public works),
  \<^verbatim>\<open>decayWealth\<close>, \<^verbatim>\<open>paySettlementWages\<close> and
  \<^verbatim>\<open>payGarrisonStipends\<close>, run in the order of \<^verbatim>\<open>TickDay\<close>, only move
  crowns between purses and treasuries that have them, as long as every living agent has an
  indexed home: the total is the same after the day.  \<^verbatim>\<open>math.Log2\<close> enters with its
  range alone.
\<close>

theorem fiscal_day_closed:
  assumes "log2_range log2" "sim_ok s" "homed s" "fits (accts s) (led s)"
  shows "pays (accts s) (led s) (led (payGarrisonStipends (paySettlementWages (decayWealth log2 (collectTaxes s)))))
    \<and> crowns_in (accts s) (led (payGarrisonStipends (paySettlementWages (decayWealth log2 (collectTaxes s)))))
        = crowns_in (accts s) (led s)"
proof -
  let ?a = "collectTaxes s"
  let ?b = "decayWealth log2 ?a"
  let ?c = "paySettlementWages ?b"
  have a: "pays (accts s) (led s) (led ?a)" "same_frame s ?a" using collectTaxes_pays assms(2) by auto
  have "sim_ok ?a" "homed ?a" "accts ?a = accts s"
    using sim_ok_frame [OF a(2) assms(2)] homed_frame [OF a(2) assms(3)] accts_frame [OF a(2)] by auto
  then have b: "pays (accts s) (led ?a) (led ?b)" "same_frame s ?b"
    using decayWealth_pays [OF assms(1), of ?a] a(2) by (auto intro: same_frame_trans)
  have "sim_ok ?b" "accts ?b = accts s" using sim_ok_frame [OF b(2) assms(2)] accts_frame [OF b(2)] by auto
  then have c: "pays (accts s) (led ?b) (led ?c)" "same_frame s ?c"
    using paySettlementWages_pays [of ?b] b(2) by (auto intro: same_frame_trans)
  have "sim_ok ?c" "accts ?c = accts s" using sim_ok_frame [OF c(2) assms(2)] accts_frame [OF c(2)] by auto
  then have "pays (accts s) (led ?c) (led (payGarrisonStipends ?c))" using payGarrisonStipends_pays(1) [of ?c] by simp
  then have "pays (accts s) (led s) (led (payGarrisonStipends ?c))"
    using a(1) b(1) c(1) by (blast intro: pays_trans)
  then show ?thesis using pays_conserves [OF _ accts_finite assms(4)] by simp
qed

theorem fiscal_day_closed_witness:
  "crowns_in (accts sample)
     (led (payGarrisonStipends (paySettlementWages (decayWealth floor_log2 (collectTaxes sample))))) = 945"
  using fiscal_day_closed [OF floor_log2.log2_range_axioms sample_ok sample_homed sample_fits] sample_crowns by simp

text \<open>
  C33: One settlement's garrison stipends never take more than the fraction \<open>Agnosis\<close> of its
  treasury (\<^verbatim>\<open>maxPayout\<close>), however many soldiers it has.
\<close>

theorem stipends_within_cap:
  "unat (Treasury (settl s sp)) \<le> unat (Treasury (settl (stipends_of sp s) sp))
     + unat (word_of_flt (flt_of_word (Treasury (settl s sp)) * Agnosis) :: uint64)"
  by (rule stipends_cap)

text \<open>
  C28: A member of a settlement with a market who buys food pays the price of the cheaper of
  grain and fish, rounded to whole crowns and at least one, from their own purse into the
  treasury of that settlement, and gets one unit of that food; who cannot afford it pays
  nothing and forages one unit of grain.  No other purse, treasury or agent changes, so no
  crown is made or lost (the unit of food itself comes from no seller).
\<close>

theorem buy_food_paid:
  assumes "sim_ok s" "p \<in> set (Agents s)" "fits (accts s) (led s)"
    and "HomeSettID (agent s p) = Some i" "SettlementIndex s i = Some sp" "SMarket (settl s sp) = Some m"
    and "Entries m GoodGrain = Some grain" "cheapest_food m = (good, price)"
  shows "led (resolveBuyFood p s) =
      (if whole_crowns price \<le> Wealth (agent s p) then transfer (Purse p) (Chest sp) (whole_crowns price) (led s) else led s)
    \<and> crowns_in (accts s) (led (resolveBuyFood p s)) = crowns_in (accts s) (led s)
    \<and> Inventory (agent (resolveBuyFood p s) p) =
      (let g = (if whole_crowns price \<le> Wealth (agent s p) then good else GoodGrain) in
        (Inventory (agent s p))(g := Inventory (agent s p) g + 1))
    \<and> (\<forall>q. q \<noteq> p \<longrightarrow> agent (resolveBuyFood p s) q = agent s q)
    \<and> (\<exists>e. Entries m good = Some e \<and> price = Price e)
    \<and> (\<forall>g e. g \<in> {GoodGrain, GoodFish} \<longrightarrow> Entries m g = Some e \<longrightarrow> 0 < Price e \<longrightarrow> price \<le> Price e)"
  using buy_food_effect [OF assms(4-6,8)] cheapest_food_least [of _ m] cheapest_food_entry [OF assms(7)]
    resolveBuyFood_pays [OF assms(1,2)] pays_conserves [OF _ accts_finite assms(3)] assms(8) by auto

theorem buy_food_paid_witness:
  "led (resolveBuyFood 0 sample) = transfer (Purse 0) (Chest 0) 2 (led sample)
    \<and> Inventory (agent (resolveBuyFood 0 sample) 0) GoodGrain = 21"
proof -
  have home: "HomeSettID (agent sample 0) = Some 1" "SettlementIndex sample 1 = Some 0" "SMarket (settl sample 0) = Some (NewMarket 1)"
    by (simp_all add: sample_index sample_people_def sample_agent_def sample_towns_def sample_town_def)
  have cf: "cheapest_food (NewMarket 1) = (GoodGrain, lit 2)" "whole_crowns (lit 2) = 2" by code_simp+
  obtain grain where g: "Entries (NewMarket 1) GoodGrain = Some grain" using NewMarket_complete [of 1 GoodGrain] by blast
  from buy_food_paid [OF sample_ok _ sample_fits home g cf(1)] show ?thesis
    by (simp add: cf(2)) (simp add: sample_people_def sample_agent_def)
qed

subsection \<open>Deaths\<close>

text \<open>
  C7: A death (\<^verbatim>\<open>handleAgentDeath\<close>) in a settlement pays the whole purse of the
  deceased out: half, rounded down, to the treasury, the rest to the first living other
  member of the roster or, without one, to the treasury too.  No crown is lost.
\<close>

theorem death_closed:
  assumes "sim_ok s" "p \<in> set (Agents s)" "fits (accts s) (led s)"
    and "HomeSettID (agent s p) = Some i" "SettlementIndex s i = Some sp"
  shows "pays (accts s) (led s) (led (handleAgentDeath p tick s))
    \<and> crowns_in (accts s) (led (handleAgentDeath p tick s)) = crowns_in (accts s) (led s)
    \<and> led (inheritWealth p s) =
        transfer (Purse p) (case heir_of s p sp of Some h \<Rightarrow> Purse h | None \<Rightarrow> Chest sp)
          (Wealth (agent s p) - Wealth (agent s p) div 2)
          (transfer (Purse p) (Chest sp) (Wealth (agent s p) div 2) (led s))"
proof -
  have home: "Option.bind (HomeSettID (agent s p)) (SettlementIndex s) = Some sp" using assms(4,5) by simp
  show ?thesis
    using handleAgentDeath_pays [OF assms(1,2) home] led_inheritWealth [OF home] pays_conserves [OF _ accts_finite assms(3)]
    by blast
qed

theorem death_closed_witness: "crowns_in (accts sample) (led (handleAgentDeath 0 77 sample)) = 945"
proof -
  have "HomeSettID (agent sample 0) = Some 1" "SettlementIndex sample 1 = Some 0"
    by (simp_all add: sample_index sample_people_def sample_agent_def)
  from death_closed [OF sample_ok _ sample_fits this] show ?thesis using sample_crowns by simp
qed

subsection \<open>Merchants\<close>

text \<open>
  C5: An hour of \<^verbatim>\<open>resolveMerchantTrade\<close> never mints a crown, and what disappears
  from all purses and treasuries together is exactly the consignment debt that merchants took
  on in that hour: sales, commissions, provisions and repayments are closed transfers, while a
  purchase on consignment charges the home treasury and credits nobody.  It changes no home,
  occupation, population or index.
\<close>

theorem merchant_hour_books:
  assumes "sim_ok s" "rosters_home s" "\<And>p. p \<in> set (Agents s) \<Longrightarrow> room (accts s) s p"
  shows "crowns_in (accts s) (led (resolveMerchantTrade goods tick s))
      + (\<Sum>p\<in>set (Agents s). debt (resolveMerchantTrade goods tick s) p - debt s p) = crowns_in (accts s) (led s)
    \<and> same_frame s (resolveMerchantTrade goods tick s)"
  using resolveMerchantTrade_books [OF assms] by blast

theorem merchant_hour_books_witness:
  "crowns_in (accts sample) (led (resolveMerchantTrade (\<lambda>_ _ _. all_goods) 60 sample))
      + (\<Sum>p\<in>{0, 1, 2}. debt (resolveMerchantTrade (\<lambda>_ _ _. all_goods) 60 sample) p - debt sample p) = 945"
  using merchant_hour_books [OF sample_ok sample_rosters_home sample_room, of "\<lambda>_ _ _. all_goods" 60] sample_crowns by simp

section \<open>The world's indices\<close>

text \<open>
  C30: \<^verbatim>\<open>NewSimulation\<close> establishes the well-formedness every later operation relies
  on: the settlement index and the rosters are exact, and every settlement has a market
  that prices every good within its band.
\<close>

theorem new_simulation_ok:
  assumes "distinct ag" "distinct (map (\<lambda>p. SID (sh p)) setts)"
  shows "sim_ok (NewSimulation m ah ag sh setts fh)
    \<and> (\<forall>i. SettlementAgents (NewSimulation m ah ag sh setts fh) i = filter (\<lambda>p. HomeSettID (ah p) = Some i) ag)
    \<and> list_all (\<lambda>p. case SMarket (settl (NewSimulation m ah ag sh setts fh) p) of None \<Rightarrow> False
         | Some mk \<Rightarrow> market_ok mk \<and> (\<forall>g. Entries mk g \<noteq> None)) setts"
  using NewSimulation_ok [OF assms]
  by (simp add: NewSimulation_fields residents_filter list_all_iff NewMarket_ok NewMarket_complete)

theorem new_simulation_ok_witness: "sim_ok (NewSimulation (NewMap 5) sample_people [0, 1, 2] sample_towns [0, 1] (\<lambda>_. no_faction))"
  using new_simulation_ok [of "[0, 1, 2]" sample_towns "[0, 1]"] by (simp add: sample_towns_def sample_town_def)

text \<open>
  C16: The weekly compaction keeps exactly the living agents in slice order, and if it removed
  anybody the agent index finds exactly those left, the rosters list the living by home, and
  every survivor keeps exactly the relationships to them, in order.
\<close>

theorem compaction_exact:
  assumes "sim_ok s" "distinct (map (\<lambda>p. AID (agent s p)) (Agents s))"
    and "Agents (compactDeadAgents s) \<noteq> Agents s"
  shows "Agents (compactDeadAgents s) = filter (\<lambda>p. Alive (agent s p)) (Agents s)
    \<and> sim_ok (compactDeadAgents s)
    \<and> (\<forall>i p. AgentIndex (compactDeadAgents s) i = Some p \<longleftrightarrow>
          p \<in> set (Agents (compactDeadAgents s)) \<and> AID (agent s p) = i)
    \<and> (\<forall>i. SettlementAgents (compactDeadAgents s) i =
          filter (\<lambda>p. HomeSettID (agent s p) = Some i) (Agents (compactDeadAgents s)))
    \<and> (\<forall>p r. p \<in> set (Agents (compactDeadAgents s)) \<longrightarrow> r \<in> set (Relationships (agent (compactDeadAgents s) p)) \<longrightarrow>
          AgentIndex (compactDeadAgents s) (TargetID r) \<noteq> None)
    \<and> (\<forall>p. p \<in> set (Agents (compactDeadAgents s)) \<longrightarrow> Relationships (agent (compactDeadAgents s) p) =
          filter (\<lambda>r. AgentIndex (compactDeadAgents s) (TargetID r) \<noteq> None) (Relationships (agent s p)))"
proof -
  have d: "distinct (Agents s)" using assms(1) by (simp add: sim_ok_def)
  let ?alive = "filter (\<lambda>p. Alive (agent s p)) (Agents s)"
  note ch = compactDeadAgents_changed [OF assms(3) d]
  have dm: "distinct (map (\<lambda>p. AID (agent s p)) ?alive)" using assms(2) by (rule distinct_map_filter)
  have "AgentIndex (compactDeadAgents s) i = Some p \<longleftrightarrow> p \<in> set ?alive \<and> AID (agent s p) = i" for i p
    unfolding ch(1) using index_by_Some [of _ ?alive i p] index_by_distinct [OF dm, of p] by auto
  moreover have "AgentIndex (compactDeadAgents s) (TargetID r) \<noteq> None"
    if "p \<in> set ?alive" "r \<in> set (Relationships (agent (compactDeadAgents s) p))" for p r
    using that unfolding ch(1,2) by (simp add: prune_relationships_def)
  moreover have "Relationships (agent (compactDeadAgents s) p) =
      filter (\<lambda>r. AgentIndex (compactDeadAgents s) (TargetID r) \<noteq> None) (Relationships (agent s p))" if "p \<in> set ?alive" for p
    using that unfolding ch(1,2) by (simp add: prune_relationships_def)
  ultimately show ?thesis using compactDeadAgents_ok [OF assms(1)] ch(3) by (simp add: compactDeadAgents_Agents)
qed

theorem compaction_exact_witness:
  "Agents (compactDeadAgents bereaved) = [0, 2] \<and> AgentIndex (compactDeadAgents bereaved) 13 = Some 2
    \<and> AgentIndex (compactDeadAgents bereaved) 12 = None"
proof -
  have ch: "Agents (compactDeadAgents bereaved) \<noteq> Agents bereaved"
    by (simp add: compactDeadAgents_Agents bereaved_agents)
  have ids: "distinct (map (\<lambda>p. AID (agent bereaved p)) (Agents bereaved))"
    by (simp add: bereaved_agents sample_people_def sample_agent_def)
  note w = compaction_exact [OF bereaved_ok ids ch]
  have ag: "Agents (compactDeadAgents bereaved) = [0, 2]" using w by (simp add: bereaved_agents)
  have idx: "AgentIndex (compactDeadAgents bereaved) i = Some p \<longleftrightarrow> p \<in> {0, 2} \<and> AID (sample_people p) = i" for i p
    using w by (simp add: ag bereaved_agents)
  have "AgentIndex (compactDeadAgents bereaved) 12 \<noteq> Some p" for p
    using idx [of 12 p] by (auto simp: sample_people_def sample_agent_def)
  then show ?thesis using ag idx [of 13 2] by (auto simp: sample_people_def sample_agent_def)
qed

text \<open>
  C31: \<^verbatim>\<open>BuildSettlementNeighbors\<close>: the neighbours of a settlement are exactly the
  other settlements such that both are inhabited and at most ten hexes apart, so the
  relation is symmetric; its trade neighbours are those of them within five hexes that have
  a market.
\<close>

theorem neighbors_exact:
  assumes "sim_ok s" "p \<in> set (Settlements s)"
  shows "set (SettlementNeighbors (BuildSettlementNeighbors s) (SID (settl s p))) =
      {q \<in> set (Settlements s). q \<noteq> p \<and> near s p q}
    \<and> set (SettlementTradeNeighbors (BuildSettlementNeighbors s) (SID (settl s p))) =
      {q \<in> set (Settlements s). q \<noteq> p \<and> near s p q \<and> SMarket (settl s q) \<noteq> None
         \<and> Distance (SPosition (settl s p)) (SPosition (settl s q)) \<le> 5}"
proof -
  have idx: "SettlementIndex s (SID (settl s q)) = Some q" if "q \<in> set (Settlements s)" for q
    using assms(1) that by (simp add: sim_okD(5))
  have "inj_on (\<lambda>p. SID (settl s p)) (set (Settlements s))" by (rule inj_onI) (metis idx option.inject)
  moreover have "distinct (Settlements s)" using assms(1) by (simp add: sim_ok_def)
  ultimately have d: "distinct (map (\<lambda>p. SID (settl s p)) (Settlements s))" by (simp add: distinct_map)
  have same: "q = p" if "q \<in> set (Settlements s)" "SID (settl s q) = SID (settl s p)" for q
    using idx [OF that(1)] idx [OF assms(2)] that(2) by (metis option.inject)
  have nb: "set (neighbor_pass s (Settlements s) (\<lambda>_. []) (SID (settl s p))) =
      {q \<in> set (Settlements s). q \<noteq> p \<and> near s p q}"
    unfolding neighbor_pass_set [OF d] using same assms(2) by (intro set_eqI iffI) (simp_all, metis+)
  show ?thesis
    by (simp add: BuildSettlementNeighbors_def Let_def idx [OF assms(2)] nb) blast
qed

theorem neighbors_exact_witness:
  "set (SettlementNeighbors (BuildSettlementNeighbors sample) 1) = {1}"
proof -
  have "SID (settl sample 0) = 1" by (simp add: sample_towns_def sample_town_def)
  moreover have "near sample 0 1" by (simp add: near_def sample_towns_def sample_town_def Distance_max)
  ultimately show ?thesis using neighbors_exact [OF sample_ok, of 0] by auto
qed

section \<open>Relations between settlements\<close>

text \<open>
  C15: \<^verbatim>\<open>computeSettlementRelations\<close> gives every pair of inhabited neighbours, from
  whichever side the loop meets it first, the relation computed from the scores of that pair and
  its old sentiment (the scores are symmetric), drops it when it is stale, keeps every other
  relation that is not stale, and leaves all sentiments in [-1, 1].
\<close>

theorem relations_computed:
  assumes "inj_on (\<lambda>p. SID (settl s p)) (Domain (inhabited_pairs s) \<union> Range (inhabited_pairs s))"
    and "sentiments_ok s"
  shows "(\<forall>p q. (p, q) \<in> inhabited_pairs s \<longrightarrow>
      Relations (computeSettlementRelations log2 s) (pair_key s p q) =
        (if stale_relation (renewed log2 s p q) then None else Some (renewed log2 s p q))
      \<and> renewed log2 s p q = renewed log2 s q p)
    \<and> (\<forall>k. (\<forall>p q. (p, q) \<in> inhabited_pairs s \<longrightarrow> pair_key s p q \<noteq> k) \<longrightarrow>
      Relations (computeSettlementRelations log2 s) k =
        (case Relations s k of None \<Rightarrow> None | Some r \<Rightarrow> if stale_relation r then None else Some r))
    \<and> sentiments_ok (computeSettlementRelations log2 s)"
proof -
  have "renewed log2 s p q = renewed log2 s q p" for p q
    by (simp add: renewed_def pair_key_def sentiment_delta_sym [of log2 s p] settRelKey_sym [of "SID (settl s p)"])
  then show ?thesis
    using computeSettlementRelations_value [OF assms(1), of _ _ log2] computeSettlementRelations_other [of s _ log2]
      computeSettlementRelations_ok [OF assms(2)] by (simp add: Let_def)
qed

theorem relations_computed_witness:
  "sentiments_ok (computeSettlementRelations floor_log2 (BuildSettlementNeighbors sample))"
proof -
  let ?s = "BuildSettlementNeighbors sample"
  have fields: "settl ?s = settl sample" "Settlements ?s = [0, 1]" "Relations ?s = Map.empty"
    by (simp_all add: BuildSettlementNeighbors_def Let_def)
  have sub: "Domain (inhabited_pairs ?s) \<union> Range (inhabited_pairs ?s) \<subseteq> {0, 1}"
    by (auto simp: inhabited_pairs_def fields BuildSettlementNeighbors_def link_def Let_def split: if_splits)
  have "inj_on (\<lambda>p. SID (settl ?s p)) {0, 1}"
    by (simp add: fields sample_towns_def sample_town_def)
  then have "inj_on (\<lambda>p. SID (settl ?s p)) (Domain (inhabited_pairs ?s) \<union> Range (inhabited_pairs ?s))"
    using sub by (rule inj_on_subset)
  from relations_computed [OF this] show ?thesis by (simp add: sentiments_ok_def fields)
qed

text \<open>
  C12: \<^verbatim>\<open>processTradeRoutes\<close>, whatever the order in which Go ranges over its two
  maps, acts on every pair of settlements as the state machine \<open>route_week\<close>: the outcome
  of a pair depends on that pair's trade and route alone.  Levels stay within 0 to 3 and the
  week counters stay nonnegative; a level grows by exactly one, only in a week with four
  trades or more, and never in the first week of a route.
\<close>

theorem trade_routes_week:
  assumes "distinct ks" "set ks = dom (TradeTracker s)"
    and "distinct rs" "set rs = dom (TradeRoutes (fold (route_traded tick) ks s))"
    and ok: "\<And>r. TradeRoutes s key = Some r \<Longrightarrow> route_ok r"
  defines "after \<equiv> TradeRoutes (processTradeRoutes ks rs tick s) key"
  shows "after = route_week (route_view s key)
    \<and> (\<forall>r. after = Some r \<longrightarrow> route_ok r)
    \<and> (route_level (TradeRoutes s key) < route_level after \<longrightarrow>
        route_level after = route_level (TradeRoutes s key) + 1
        \<and> (\<exists>vol r. TradeTracker s key = Some vol \<and> lit 4 \<le> vol \<and> TradeRoutes s key = Some r \<and> 1 \<le> RSustainedWeeks r))"
proof -
  have a: "after = route_week (route_view s key)"
    unfolding after_def by (rule processTradeRoutes_week [OF assms(1-4)])
  then show ?thesis
    using route_week_ok [OF ok, of s key] route_week_growth [OF ok, of s key]
    by (auto simp: routeEstablishThreshold_def)
qed

theorem trade_routes_week_witness:
  "route_level (TradeRoutes (processTradeRoutes [sample_key] [sample_key] 10080 trading) sample_key) = 1"
proof -
  have d: "dom (TradeTracker trading) = {sample_key}" by (simp add: trading_def)
  have le: "lit 4 \<le> (lit 5 :: f64)" by (rule lit_mono) simp
  have "TradeRoutes (processTradeRoutes [sample_key] [sample_key] 10080 trading) sample_key
      = route_week (route_view trading sample_key)"
    using trade_routes_week [of "[sample_key]" trading "[sample_key]" 10080 sample_key]
    by (simp add: d) (simp add: trading_def route_traded_def route_ok_def Let_def le routeEstablishThreshold_def
        emitRouteEvent_def emit_def EmitEvent_def route_grown_def split: if_splits)
  also have "\<dots> = Some \<lparr>Level = 1, RouteName = [], RSustainedWeeks = 2, DormantWeeks = 0, WeeklyTrade = lit 5\<rparr>"
    by (simp add: route_week_def route_view_def trading_def Let_def le routeEstablishThreshold_def route_grown_def)
  finally show ?thesis by (simp add: route_level_def)
qed

text \<open>
  C25: A route that is no longer used disappears: in any history of a world, whatever else
  happens between the weeks, a pair without trade in \<open>4 * level + 4\<close> consecutive runs of
  \<^verbatim>\<open>processTradeRoutes\<close>, each ranging over its maps in whatever order, has no
  route left.
\<close>

theorem idle_route_gone:
  fixes S :: "nat \<Rightarrow> Sim"
  assumes "\<And>i. i < n \<Longrightarrow> route_orders (ks i) (rs i) (tick i) (S i) \<and> TradeTracker (S i) key = None
      \<and> TradeRoutes (S (Suc i)) key = TradeRoutes (processTradeRoutes (ks i) (rs i) (tick i) (S i)) key"
    and "\<And>r. TradeRoutes (S 0) key = Some r \<Longrightarrow> route_ok r \<and> 4 * unat (Level r) + 4 \<le> n"
  shows "TradeRoutes (S n) key = None"
  using assms by (rule idle_routes_gone)

theorem idle_route_gone_witness: "TradeRoutes (idle_world 0) sample_key \<noteq> None \<and> TradeRoutes (idle_world 16) sample_key = None"
proof -
  have "TradeRoutes (idle_world 16) sample_key = None"
  proof (rule idle_route_gone)
    show "route_orders [] (present (TradeRoutes (idle_world i))) 10080 (idle_world i) \<and> TradeTracker (idle_world i) sample_key = None
      \<and> TradeRoutes (idle_world (Suc i)) sample_key =
        TradeRoutes (processTradeRoutes [] (present (TradeRoutes (idle_world i))) 10080 (idle_world i)) sample_key" for i
      using idle_world_orders idle_world_inv by simp
  qed (auto simp: route_ok_def)
  then show ?thesis by simp
qed

text \<open>
  C13: \<^verbatim>\<open>processDiplomacy\<close> acts on every pair as the state machine \<open>pact_week\<close>
  followed by the removal of agreements without a relation; every agreement left has a type of
  at most 3, so the threshold tables are never indexed out of range, and belongs to a pair
  that has a relation.
\<close>

theorem diplomacy_week:
  assumes "distinct ks" "set ks = dom (Relations s)"
    and "distinct as" "set as = dom (Agreements (fold (pact_review tick) ks s))"
    and ok: "\<And>k a. Agreements s k = Some a \<Longrightarrow> pact_ok a"
  shows "pact_view (processDiplomacy ks as tick s) key = orphan_week (pact_week tick (pact_view s key))
    \<and> (\<forall>b. Agreements (processDiplomacy ks as tick s) key = Some b \<longrightarrow> pact_ok b \<and> Relations s key \<noteq> None)"
  using processDiplomacy_week [OF assms(1-4)] processDiplomacy_ok [OF assms(1-4) ok] by auto

theorem diplomacy_week_witness:
  "pact_view (processDiplomacy [sample_key] [sample_key] 10080 friendly) sample_key
    = orphan_week (pact_week 10080 (pact_view friendly sample_key))"
proof -
  let ?a = "\<lparr>AgType = 1, SustainedWeeks = 2, FormedAtTick = 5\<rparr> :: Agreement"
  have rel: "Relations friendly = [sample_key \<mapsto> \<lparr>RSentiment = Matter, RTrade = 0\<rparr>]"
    and ag: "Agreements friendly = [sample_key \<mapsto> ?a]" by (simp_all add: friendly_def)
  have "Agreements (pact_review 10080 sample_key friendly) = [sample_key \<mapsto> warm_week 10080 Matter ?a]"
    by (simp only: pact_review_def rel ag fun_upd_same option.case SettlementRelation.select_convs phi_le if_True
        pact_warm_view fun_upd_upd)
  then have "set [sample_key] = dom (Agreements (fold (pact_review 10080) [sample_key] friendly))" by simp
  moreover have "pact_ok a" if "Agreements friendly k = Some a" for k a
    using that by (auto simp: ag pact_ok_def agreement_types split: if_splits)
  ultimately show ?thesis
    using diplomacy_week [of "[sample_key]" friendly "[sample_key]" 10080 sample_key] by (simp add: rel)
qed

text \<open>
  C27: In a week of \<^verbatim>\<open>processDiplomacy\<close> an agreement below an alliance becomes one only
  at sentiment exactly 1.0, the top of the range, with its counter of weeks at four and the
  week's tick as its date: the threshold \<^verbatim>\<open>Psyche + Matter\<close> is 1.0 in \<^verbatim>\<open>float64\<close>
  (the head of \<^verbatim>\<open>diplomacy.go\<close> says 0.764).  While sentiment is at least
  \<open>Psyche\<close> an agreement never steps down.
\<close>

theorem alliance_needs_full_sentiment:
  assumes "pact_orders ks as tick s" "Relations s key = Some rel" "RSentiment rel \<le> 1"
    and "Agreements s key = Some a" "AgType a < AgreementAlliance"
    and "Agreements (processDiplomacy ks as tick s) key = Some b"
  shows "(AgType b = AgreementAlliance \<longrightarrow> RSentiment rel = 1 \<and> 4 \<le> SustainedWeeks a + 1 \<and> FormedAtTick b = tick)
    \<and> (Psyche \<le> RSentiment rel \<longrightarrow> AgType a \<le> AgType b)"
proof (cases "Psyche \<le> RSentiment rel")
  case True
  then have b: "b = warm_week tick (RSentiment rel) a"
    using processDiplomacy_Agreements [OF assms(1,2)] assms(4,6) by simp
  have "RSentiment rel = 1 \<and> 4 \<le> SustainedWeeks a + 1 \<and> FormedAtTick b = tick" if "AgType b = AgreementAlliance"
    using warm_week_earned [of tick "RSentiment rel" a] that assms(3,5) alliance_threshold
    by (auto simp: b [symmetric] agreementFormWeeks_def agreement_types)
  then show ?thesis using warm_week_grows [of a tick "RSentiment rel"] by (simp add: b)
next
  case False
  then have "cold_week (RSentiment rel) (Some a) = Some b"
    using processDiplomacy_Agreements [OF assms(1,2)] assms(4,6) by simp
  then have "AgType b \<noteq> AgreementAlliance" using assms(5) by (rule cold_week_below)
  then show ?thesis using False by simp
qed

theorem alliance_needs_full_sentiment_witness:
  "AgType (the (Agreements (processDiplomacy [sample_key] [sample_key] 9 beloved) sample_key)) = AgreementAlliance"
proof -
  let ?a = "\<lparr>AgType = 2, SustainedWeeks = 3, FormedAtTick = 5\<rparr> :: Agreement"
  let ?b = "warm_week 9 1 ?a"
  have b: "Agreements (processDiplomacy [sample_key] [sample_key] 9 beloved) sample_key = Some ?b"
    using processDiplomacy_Agreements [OF beloved_orders, of sample_key] by (simp add: beloved_def)
  have "AgType ?a \<le> AgType ?b"
    using alliance_needs_full_sentiment [OF beloved_orders, of sample_key _ ?a ?b] b by (simp add: beloved_def agreement_types)
  moreover have "AgType ?b = 3"
    by (simp add: warm_week_def pact_target_def agreementFormThreshold_def agreementFormWeeks_def agreement_types
        Psyche_plus_Matter Let_def)
  ultimately show ?thesis using b by (simp add: agreement_types)
qed

text \<open>
  C26: In any history of a world, a pair whose sentiment is below \<open>Agnosis\<close> in three consecutive
  runs of \<^verbatim>\<open>processDiplomacy\<close> has no agreement left, not even an alliance.
\<close>

theorem cold_pact_gone:
  fixes S :: "nat \<Rightarrow> Sim"
  assumes "\<And>i. i < 3 \<Longrightarrow> pact_orders (ks i) (as i) (tick i) (S i)
      \<and> (\<exists>rel. Relations (S i) key = Some rel \<and> RSentiment rel < Agnosis)
      \<and> Agreements (S (Suc i)) key = Agreements (processDiplomacy (ks i) (as i) (tick i) (S i)) key"
    and "\<And>a. Agreements (S 0) key = Some a \<Longrightarrow> pact_ok a"
  shows "Agreements (S 3) key = None"
  using assms by (rule cold_pacts_gone)

theorem cold_pact_gone_witness:
  "Agreements (cold_world 0) sample_key \<noteq> None \<and> Agreements (cold_world 3) sample_key = None"
proof -
  have "Agreements (cold_world 3) sample_key = None"
  proof (rule cold_pact_gone)
    show "pact_orders [sample_key] (present (Agreements (pact_review 10080 sample_key (cold_world i)))) 10080 (cold_world i)
      \<and> (\<exists>rel. Relations (cold_world i) sample_key = Some rel \<and> RSentiment rel < Agnosis)
      \<and> Agreements (cold_world (Suc i)) sample_key = Agreements (processDiplomacy [sample_key]
          (present (Agreements (pact_review 10080 sample_key (cold_world i)))) 10080 (cold_world i)) sample_key" for i
      using cold_world_orders cold_world_inv by simp
  qed (simp add: pact_ok_def agreement_types)
  then show ?thesis by simp
qed

text \<open>
  C14: \<^verbatim>\<open>processPeace\<close> acts on every pair as: three raids or more and no treaty
  start one of eight weeks and reset the raid counter, then every treaty loses a week and a
  treaty at its last week ends.  Under a treaty hostile sentiment never falls and never rises
  above neutral.
\<close>

theorem peace_week:
  assumes "distinct ks" "set ks = dom (RaidCounts s)"
    and "distinct ts" "set ts = dom (PeaceTreaties (fold (peace_form tick) ks s))"
  shows "peace_view (processPeace ks ts tick s) key = treaty_week (exhausted_week tick (peace_view s key))
    \<and> (\<forall>rel rel'. Relations s key = Some rel \<longrightarrow> Relations (processPeace ks ts tick s) key = Some rel' \<longrightarrow>
        (rel' = rel \<or> RSentiment rel' \<le> 0) \<and> (RSentiment rel \<le> 0 \<longrightarrow> RSentiment rel \<le> RSentiment rel'))"
proof -
  have w: "peace_view (processPeace ks ts tick s) key = treaty_week (exhausted_week tick (peace_view s key))"
    by (rule processPeace_week [OF assms])
  have keep: "snd (snd (exhausted_week tick v)) = snd (snd v)" for v
    by (cases "(tick, v)" rule: exhausted_week.cases) auto
  have "rel' = rel \<or> rel' = peace_heal rel"
    if "Relations s key = Some rel" "Relations (processPeace ks ts tick s) key = Some rel'" for rel rel'
  proof -
    obtain rc po ro where e: "exhausted_week tick (peace_view s key) = (rc, po, ro)"
      by (cases "exhausted_week tick (peace_view s key)")
    have "snd (snd (exhausted_week tick (peace_view s key))) = Some rel"
      using that(1) unfolding keep by (simp add: peace_view_def)
    then have ro: "ro = Some rel" by (simp add: e)
    have "snd (snd (peace_view (processPeace ks ts tick s) key)) = Some rel'" using that(2) by (simp add: peace_view_def)
    then have "snd (snd (treaty_week (rc, po, ro))) = Some rel'" unfolding w e .
    then show ?thesis by (cases po) (simp_all add: ro)
  qed
  then show ?thesis using w peace_heal_bounds by blast
qed

theorem peace_week_witness:
  "peace_view (processPeace [sample_key] [sample_key] 10080 raided) sample_key
    = (Some 0, Some \<lparr>RemainingWeeks = 7, RaidCount = 3, PFormedAtTick = 10080\<rparr>,
       Some (peace_heal \<lparr>RSentiment = - 1, RTrade = 0\<rparr>))"
proof -
  have f: "Relations raided = [sample_key \<mapsto> \<lparr>RSentiment = - 1, RTrade = 0\<rparr>]" "RaidCounts raided = [sample_key \<mapsto> 3]"
    "PeaceTreaties raided = Map.empty" by (simp_all add: raided_def sample_treaties)
  have "dom (PeaceTreaties (peace_form 10080 sample_key raided)) = {sample_key}"
    by (simp add: peace_form_def f peaceRaidThreshold_def)
  then show ?thesis
    using peace_week [of "[sample_key]" raided "[sample_key]" 10080 sample_key] by (simp add: f peace_view_def)
qed

section \<open>Agents\<close>

subsection \<open>Souls\<close>

text \<open>
  C34: Coherence stays in [0, 1] with its state of being in step under every adjustment; gains
  through \<^verbatim>\<open>AdjustCoherence\<close> never lift it above \<open>Matter\<close> (or above what it was),
  losses never raise it, and no such adjustment liberates a soul that was not.
\<close>

theorem adjust_coherence_laws:
  assumes "soul_ok s"
  shows "soul_ok (AdjustCoherence d s)
    \<and> (0 < d \<longrightarrow> CittaCoherence s \<le> CittaCoherence (AdjustCoherence d s)
        \<and> CittaCoherence (AdjustCoherence d s) \<le> max (CittaCoherence s) (float32 Matter))
    \<and> (d \<le> 0 \<longrightarrow> CittaCoherence (AdjustCoherence d s) \<le> CittaCoherence s)
    \<and> (SoulState s \<noteq> Liberated \<longrightarrow> SoulState (AdjustCoherence d s) \<noteq> Liberated)"
  using assms AdjustCoherence_ok AdjustCoherence_increase AdjustCoherence_cap AdjustCoherence_decrease
    AdjustCoherence_not_Liberated by blast

theorem adjust_coherence_laws_witness:
  "SoulState (AdjustCoherence (lit 0.9) (Soul (sample_people 0))) \<noteq> Liberated"
proof -
  have ok: "soul_ok (Soul (sample_people 0))" by (simp add: sample_people_def sample_agent_def sample_soul_ok)
  then show ?thesis using adjust_coherence_laws [OF ok, of "lit 0.9"] by (simp add: sample_people_def sample_agent_def)
qed

text \<open>
  C35: Whatever an agent does in a tick (\<^verbatim>\<open>ApplyAction\<close>), work included, it moves no
  crowns (\<^verbatim>\<open>README.md\<close> and \<^verbatim>\<open>docs/08\<close> still list wages minted by it), keeps a
  nonnegative inventory nonnegative and the soul well formed; only the action Contemplate can
  bring liberation.
\<close>

theorem action_laws:
  assumes "soul_ok (Soul (fst ac))" "inv_ok (fst ac)"
  shows "Wealth (fst (ApplyAction fd ax tick ac)) = Wealth (fst ac)
    \<and> inv_ok (fst (ApplyAction fd ax tick ac)) \<and> soul_ok (Soul (fst (ApplyAction fd ax tick ac)))
    \<and> (SoulState (Soul (fst ac)) \<noteq> Liberated \<and> SoulState (Soul (fst (ApplyAction fd ax tick ac))) = Liberated
        \<longrightarrow> Kind ax = ActionContemplate)"
  using assms ApplyAction_Wealth ApplyAction_inv_ok ApplyAction_soul_ok ApplyAction_not_Liberated by blast

theorem action_laws_witness:
  "inv_ok (fst (ApplyAction (\<lambda>_. 0) (act (sample_people 0) ActionWork []) 5 (sample_people 0, \<lambda>_. 0)))"
proof -
  have "soul_ok (Soul (fst (sample_people 0, \<lambda>_. 0)))" "inv_ok (fst (sample_people 0, \<lambda>_. 0))"
    by (simp_all add: sample_people_def sample_agent_def sample_soul_ok inv_ok_iff)
  from action_laws [OF this] show ?thesis by blast
qed

subsection \<open>Needs, goods and memory\<close>

text \<open>
  C36: A minute of need decay leaves all five needs in [0, 1], satisfaction and mood in their
  ranges and alignment in [0, 1], from any starting values, and touches neither purse, nor
  inventory, nor soul; it can kill but never revive.
\<close>

theorem decay_needs_ranges:
  "needs_ok (Needs (DecayNeeds a)) \<and> wellbeing_ok (Wellbeing (DecayNeeds a))
    \<and> Wealth (DecayNeeds a) = Wealth a \<and> Inventory (DecayNeeds a) = Inventory a \<and> Soul (DecayNeeds a) = Soul a
    \<and> (Alive (DecayNeeds a) \<longrightarrow> Alive a)"
  using DecayNeeds_ok DecayNeeds_Alive by simp

theorem decay_needs_ranges_witness: "needs_ok (Needs (DecayNeeds (sample_people 0)))"
  using decay_needs_ranges by blast

text \<open>
  C37: Spoilage removes exactly the whole part of quantity times rate (and so nothing at all,
  ever, from small stocks, where the comments of \<^verbatim>\<open>decayGood\<close> speak of a chance or of
  one unit every so many hours) for every quantity a \<^verbatim>\<open>float64\<close> represents, never makes a
  stock negative, and durable goods outside the six decaying kinds are untouched.
\<close>

theorem spoilage_exact:
  assumes "0 \<le> r" "r \<le> 1" "0 \<le> Inventory a g" "Inventory a g \<le> 2 ^ 53"
  shows "Inventory (decayGood g r a) g = Inventory a g - int_of_flt (flt_of_int (Inventory a g) * r)
    \<and> 0 \<le> Inventory (decayGood g r a) g
    \<and> (\<forall>h. \<not> perishable h \<longrightarrow> Inventory (DecayInventory a) h = Inventory a h)
    \<and> (\<forall>h. Inventory (DecayInventory a) h \<le> Inventory a h)"
  using assms decayGood_exact decayGood_bounds DecayInventory_durable DecayInventory_bounds by blast

theorem spoilage_exact_witness:
  "Inventory (decayGood GoodGrain (lit 0.5) (sample_people 0)) GoodGrain = 10"
proof -
  have "Inventory (decayGood GoodGrain (lit 0.5) (sample_people 0)) GoodGrain
      = Inventory (sample_people 0) GoodGrain - int_of_flt (flt_of_int (Inventory (sample_people 0) GoodGrain) * lit 0.5 :: f64)"
    using spoilage_exact [of "lit 0.5" "sample_people 0" GoodGrain]
    by (simp add: zero_le_lit lit_le_one) (simp add: sample_people_def sample_agent_def)
  also have "\<dots> = 20 - int_of_flt (flt_of_int 20 * lit 0.5 :: f64)" by (simp add: sample_people_def sample_agent_def)
  also have "\<dots> = 10" by code_simp
  finally show ?thesis .
qed

text \<open>
  C38: A memory stream never exceeds \<^verbatim>\<open>MaxMemories\<close>.  With room, a new memory is
  added to the (possibly faded) old ones; when full, exactly one of the old and new memories is
  dropped, and none that stays is less important than it.
\<close>

theorem add_memory_keeps_best:
  assumes "length (Memories a) \<le> MaxMemories"
  shows "length (Memories (AddMemory tick content importance a)) \<le> MaxMemories
    \<and> (if length (Memories a) < MaxMemories
       then mset (Memories (AddMemory tick content importance a)) = incoming tick content importance a
       else \<exists>d. add_mset d (mset (Memories (AddMemory tick content importance a))) = incoming tick content importance a
         \<and> (\<forall>x. x \<in> set (Memories (AddMemory tick content importance a)) \<longrightarrow> Importance d \<le> Importance x))"
  using AddMemory_bounded [OF assms] AddMemory_room [of a] AddMemory_full [of a tick content importance]
  by (simp add: not_less Ball_def)

theorem add_memory_keeps_best_witness:
  "length (Memories (AddMemory 9 ''x'' 1 (sample_people 0))) \<le> MaxMemories"
  using add_memory_keeps_best [of "sample_people 0"] by (simp add: sample_people_def sample_agent_def MaxMemories_def)

text \<open>
  C39: Asked for a count that is not negative, \<^verbatim>\<open>RecentMemories\<close> and
  \<^verbatim>\<open>ImportantMemories\<close> return, in order, as many memories as asked for or there are,
  and no memory left out is later (more important) than one returned, with any correct sorting
  routine.  Asked for a negative count of a memory that is not empty they panic.
\<close>

theorem memory_queries_top:
  assumes "slice_sort (ss later) later" "slice_sort (ss weightier) weightier" "0 \<le> cnt" "0 < bad" "Memories b \<noteq> []"
  shows "(\<exists>ys. RecentMemories ss a cnt = Some ys
      \<and> int (length ys) = min cnt (int (length (Memories a))) \<and> mset ys \<subseteq># mset (Memories a)
      \<and> sorted_wrt (\<lambda>x y. MTick y \<le> MTick x) ys
      \<and> (\<forall>x y. x \<in> set ys \<longrightarrow> y \<in># mset (Memories a) - mset ys \<longrightarrow> MTick y \<le> MTick x))
    \<and> (\<exists>zs. ImportantMemories ss a cnt = Some zs
      \<and> int (length zs) = min cnt (int (length (Memories a))) \<and> mset zs \<subseteq># mset (Memories a)
      \<and> sorted_wrt (\<lambda>x y. Importance y \<le> Importance x) zs
      \<and> (\<forall>x y. x \<in> set zs \<longrightarrow> y \<in># mset (Memories a) - mset zs \<longrightarrow> Importance y \<le> Importance x))
    \<and> RecentMemories ss b (- bad) = None \<and> ImportantMemories ss b (- bad) = None"
  using queries_top(1) [where ss = ss and a = a, OF assms(3,1)] queries_top(2) [where ss = ss and a = a, OF assms(3,2)]
    queries_negative [of "- bad" b ss] assms(4,5)
  unfolding top_memories_def later_def weightier_def not_less by simp

theorem memory_queries_top_witness:
  "\<exists>ys. RecentMemories (\<lambda>before. if before = later then sort_desc MTick else sort_desc Importance)
      (AddMemory 9 ''x'' 1 (sample_people 0)) 3 = Some ys \<and> length ys = 1"
proof -
  let ?ss = "\<lambda>before. if before = later then sort_desc MTick else sort_desc Importance"
  let ?a = "AddMemory 9 ''x'' 1 (sample_people 0)"
  have m: "length (Memories ?a) = 1"
    by (simp add: AddMemory_def Let_def MaxMemories_def sample_people_def sample_agent_def is_vision_def has_prefix_def)
  have "later \<noteq> weightier"
  proof
    assume "later = weightier"
    from fun_cong [OF fun_cong [OF this], of "\<lparr>MTick = 1, Content = [], Importance = 0\<rparr>" "\<lparr>MTick = 0, Content = [], Importance = 0\<rparr>"]
    show False by (simp add: later_def weightier_def)
  qed
  then have s: "slice_sort (?ss later) later" "slice_sort (?ss weightier) weightier" using later_sort weightier_sort by simp_all
  have "Memories ?a \<noteq> []" using m by auto
  from memory_queries_top [where ss = ?ss and cnt = 3 and bad = 1 and a = ?a, OF s _ _ this] show ?thesis by (fastforce simp: m)
qed

section \<open>Land, prices and fields\<close>

text \<open>
  C32: \<^verbatim>\<open>routeCost\<close> terminates for all hexes and is the cost of a shortest walk of
  adjacent hexes from source to target (as many steps as their distance), so it lies between
  3 and 999 per hex of distance.
\<close>

theorem route_cost_walk:
  "\<exists>ds. walk src ds \<and> last (src # ds) = dst \<and> int (length ds) = Distance src dst
    \<and> routeCost src dst m = sum_list (map (step_cost m) ds)
    \<and> 3 * Distance src dst \<le> routeCost src dst m \<and> routeCost src dst m \<le> 999 * Distance src dst"
proof -
  obtain ds where ds: "walk src ds" "last (src # ds) = dst" "int (length ds) = Distance src dst"
    "routeCost src dst m = sum_list (map (step_cost m) ds)"
    using route_loop_walk [of src dst m 0] by (auto simp: routeCost_def)
  have "3 * Distance src dst \<le> routeCost src dst m \<and> routeCost src dst m \<le> 999 * Distance src dst"
    unfolding ds(4) ds(3) [symmetric] using sum_step_cost_bounds by auto
  with ds show ?thesis by blast
qed

text \<open>
  C40: \<^verbatim>\<open>ResolvePrice\<close> stays within [\<open>Agnosis\<close>, \<open>Totality\<close>] times the base price
  for every supply, demand and modifier, and is monotone: more demand or less supply never
  lowers the price, rounding included.
\<close>

theorem resolve_price_laws:
  assumes "BasePrice e = BasePrice e'" "0 \<le> BasePrice e" "0 \<le> seasonalMod" "0 \<le> regionalMod"
    and "0 \<le> Demand e" "Demand e \<le> Demand e'" "Supply e' \<le> Supply e"
  shows "BasePrice e * Agnosis \<le> ResolvePrice e seasonalMod regionalMod
    \<and> ResolvePrice e seasonalMod regionalMod \<le> ResolvePrice e' seasonalMod regionalMod
    \<and> ResolvePrice e' seasonalMod regionalMod \<le> BasePrice e * Totality"
  using ResolvePrice_bounds [OF assms(2)] ResolvePrice_bounds [of e'] assms(1,2) ResolvePrice_mono [OF assms] by metis

theorem resolve_price_laws_witness:
  "ResolvePrice \<lparr>Good = GoodGrain, Supply = 1, Demand = 1, Price = 1, BasePrice = 1\<rparr> 1 1
    \<le> ResolvePrice \<lparr>Good = GoodGrain, Supply = 0, Demand = 1, Price = 1, BasePrice = 1\<rparr> 1 1"
  using resolve_price_laws [of "\<lparr>Good = GoodGrain, Supply = 1, Demand = 1, Price = 1, BasePrice = 1\<rparr>"
      "\<lparr>Good = GoodGrain, Supply = 0, Demand = 1, Price = 1, BasePrice = 1\<rparr>" 1 1] by simp

section \<open>Minutes and hours\<close>

text \<open>
  C2: A minute of the whole world (\<^verbatim>\<open>TickMinute\<close>: decay of needs, decisions, buying
  food, work on the land, deaths with their inheritance) only moves crowns between purses and
  treasuries that have them, whatever the agents draw and in whatever order they are shuffled;
  indices, rosters and homes stay well formed.  In particular work mints nothing: the throttled
  mints that \<^verbatim>\<open>README.md\<close> and \<^verbatim>\<open>docs/08\<close> still describe are gone from
  the code.
\<close>

theorem minute_closed:
  assumes "sim_ok s" "homed s" "mset (shuffle env tick (Agents s)) = mset (Agents s)" "fits (accts s) (led s)"
  shows "pays (accts s) (led s) (led (TickMinute env tick s))
    \<and> crowns_in (accts s) (led (TickMinute env tick s)) = crowns_in (accts s) (led s)
    \<and> sim_ok (TickMinute env tick s) \<and> homed (TickMinute env tick s)"
  using TickMinute_pays [OF assms(1-3)] pays_conserves [OF _ accts_finite assms(4)] by blast

theorem minute_closed_witness: "crowns_in (accts sample) (led (TickMinute sample_env 60 sample)) = 945"
  using minute_closed [OF sample_ok sample_homed _ sample_fits, of sample_env 60] sample_crowns by (simp add: sample_env_def)

text \<open>
  C1: An hour of the whole world (\<^verbatim>\<open>TickHour\<close>: markets, merchants, spoilage, weather,
  regrowth, crop failure, storms, erosion) mints nothing; what is missing from all purses and
  treasuries together afterwards is exactly the consignment debt merchants took on.
\<close>

theorem hour_books:
  assumes "slice_sort (sort_sells env) (\<lambda>x y. OPrice x < OPrice y)" "slice_sort (sort_buys env) (\<lambda>x y. OPrice y < OPrice x)"
    and "sim_ok s" "rosters_home s" "\<And>p. p \<in> set (Agents s) \<Longrightarrow> room (accts s) s p" "fits (accts s) (led s)"
  shows "crowns_in (accts s) (led (TickHour env tick s))
      + (\<Sum>p\<in>set (Agents s). debt (TickHour env tick s) p - debt s p) = crowns_in (accts s) (led s)
    \<and> same_frame s (TickHour env tick s)"
  using TickHour_books [OF assms] by blast

theorem hour_books_witness:
  "crowns_in (accts sample) (led (TickHour sample_env 60 sample))
      + (\<Sum>p\<in>{0, 1, 2}. debt (TickHour sample_env 60 sample) p - debt sample p) = 945"
  using hour_books [OF sample_sorts sample_ok sample_rosters_home sample_room sample_fits] sample_crowns by simp

text \<open>
  C9: Through every hour each hex keeps its health in [0, 1] and no resource goes negative, the
  weather stays in its range, and the heat streak never reaches 72 at the end of
  \<^verbatim>\<open>checkCropFailure\<close>.  So \<^verbatim>\<open>applyWeatherHexDamage\<close>, which runs after it in the
  hour, never degrades land by drought, although its comments announce that: the streak falls
  back to 48 in the very hour it reaches 72.  Only storms can damage land.
\<close>

theorem land_hour:
  assumes "log2_sign (math_log2 env)" "land_ok s" "weather_ok s" "HeatStreakHours s \<le> 71"
  shows "land_ok (TickHour env tick s) \<and> weather_ok (TickHour env tick s) \<and> HeatStreakHours (TickHour env tick s) \<le> 71
    \<and> TickHour env tick s = (let u = hour_before_damage env tick s in
        if lit 2 \<le> TravelPenalty (CurrentWeather u) then applyStormErosion tick u else u)"
proof -
  note h = hour_before_damage_ok [OF assms, of tick]
  show ?thesis
    using h applyWeatherHexDamage_ok [OF h(1), of tick] unfolding TickHour_split
    by (simp add: weather_ok_def damage_fields storm_erosion_fields applyWeatherHexDamage_def Let_def)
qed

theorem land_hour_witness: "land_ok (TickHour sample_env 60 farmland) \<and> HeatStreakHours (TickHour sample_env 60 farmland) \<le> 71"
proof -
  have "log2_sign (math_log2 sample_env)" by (simp add: sample_env_def floor_log2_sign.log2_sign_axioms)
  from land_hour [OF this farmland_ok, of 60] show ?thesis by blast
qed

section \<open>The land\<close>

text \<open>
  C22: A harvest that takes place credits the worker with exactly the whole units of old progress
  plus output, and keeps exactly the fraction, although progress is a \<^verbatim>\<open>float32\<close>; the
  hex keeps its health in [0, 1] and no resource goes negative.
\<close>

theorem harvest_units:
  assumes "0 \<le> ProductionProgress a" "0 \<le> boostMul" "hex_ok h" "0 \<le> cm" "0 \<le> km" "lit 0.01 \<le> resource h r"
    and "full = (if 1 < boostMul then flt_of_int (productionAmount a) * boostMul else flt_of_int (productionAmount a))"
    and "lit 0.01 \<le> math_Min full (resource h r)"
    and "p = rat_of_flt (ProductionProgress a + float32 (math_Min full (resource h r)))"
    and "(a', h') = harvest r tick boostMul cm km a h"
  shows "Inventory a' (occupationGood (AOccupation a)) = Inventory a (occupationGood (AOccupation a)) + \<lfloor>p\<rfloor>
    \<and> rat_of_flt (ProductionProgress a') = frac p \<and> hex_ok h'"
proof -
  have eq: "a' = fst (harvest r tick boostMul cm km a h)" "h' = snd (harvest r tick boostMul cm km a h)"
    using assms(10) [symmetric] by simp_all
  show ?thesis unfolding eq
    using harvest_exact [OF assms(1,2,6) assms(8) [unfolded assms(7)]] harvest_hex_ok [OF assms(3-5)]
    by (simp only: assms(7,9) simp_thms)
qed

theorem harvest_units_witness:
  "Inventory (fst (harvest ResourceGrain 60 1 1 1 (sample_people 0) sample_hex)) GoodGrain = 21"
proof -
  have a: "productionAmount (sample_people 0) = 1" "ProductionProgress (sample_people 0) = 0" "AOccupation (sample_people 0) = OccupationFarmer"
      "Inventory (sample_people 0) GoodGrain = 20"
    by (code_simp, simp_all add: sample_people_def sample_agent_def)
  have r: "resource sample_hex ResourceGrain = lit 50" by (simp add: resource_def sample_hex_def)
  have m: "math_Min (flt_of_int 1) (lit 50) = (1 :: f64)" "lit 0.01 \<le> (1 :: f64)" "lit 0.01 \<le> (lit 50 :: f64)"
      "rat_of_flt (0 + float32 (1 :: f64)) = 1" by code_simp+
  from harvest_units [of "sample_people 0" 1 sample_hex 1 1 ResourceGrain "flt_of_int 1" 1
      "fst (harvest ResourceGrain 60 1 1 1 (sample_people 0) sample_hex)" "snd (harvest ResourceGrain 60 1 1 1 (sample_people 0) sample_hex)" 60]
  show ?thesis using m sample_hex_ok by (simp add: a r)
qed

text \<open>
  C21: The producers of a settlement are spread over its hex and the six around it in proportion to
  the weights: of producers whose numbers fill \<open>k\<close> whole rounds of \<^verbatim>\<open>totalWt\<close>
  consecutive numbers, \<^verbatim>\<open>bestProductionHex\<close> sends exactly \<open>k\<close> times its
  \<^verbatim>\<open>weight\<close> to each hex of the neighbourhood that is not ocean, as long as the cached
  distribution is that of the current land.
\<close>

theorem producers_in_proportion:
  fixes s home r
  defines "d \<equiv> computeHexDistribution home r s"
  assumes "SettlementIndex s home = Some sp" "map_Get (WorldMap s) c = Some h" "HexTerrain h \<noteq> TerrainOcean"
    and "c \<in> set (SPosition (settl s sp) # Neighbors (SPosition (settl s sp)))"
    and "\<And>p. p \<in> P \<Longrightarrow> HomeSettID (agent s p) = Some home \<and> occupationResource (AOccupation (agent s p)) = Some r
            \<and> cache_fresh s home (AOccupation (agent s p)) r"
    and "bij_betw (\<lambda>p. uint (AID (agent s p))) P {n ..< n + int k * totalWt d}" "totalWt d < 2 ^ 64"
  shows "card {p \<in> P. fst (bestProductionHex p s) = c} = k * nat (hex_weight r h)"
  using assms(2-8) unfolding d_def by (rule producers_by_number)

theorem producers_in_proportion_witness:
  "card {p \<in> {0, 1}. fst (bestProductionHex p barren) = \<lparr>coordQ = 1, coordR = 0\<rparr>} = 1"
proof -
  let ?c = "\<lparr>coordQ = 1, coordR = 0\<rparr>"
  let ?h = "sample_hex\<lparr>HexHealth := 0\<rparr>"
  have "card {p \<in> {0, 1}. fst (bestProductionHex p barren) = ?c} = 1 * nat (hex_weight ResourceGrain ?h)"
  proof (rule producers_in_proportion [where home = 1 and sp = 0 and n = 11])
    show "SettlementIndex barren 1 = Some 0" by (simp add: barren_def farmland_def sample_index)
    show "map_Get (WorldMap barren) ?c = Some ?h" by (simp add: barren_def map_Get_def)
    show "HexTerrain ?h \<noteq> TerrainOcean" by (simp add: sample_hex_def)
    show "?c \<in> set (SPosition (settl barren 0) # Neighbors (SPosition (settl barren 0)))"
      by (simp add: barren_def farmland_def sample_towns_def sample_town_def Neighbors_def HexNeighborDirections_def)
    show "HomeSettID (agent barren p) = Some 1 \<and> occupationResource (AOccupation (agent barren p)) = Some ResourceGrain
      \<and> cache_fresh barren 1 (AOccupation (agent barren p)) ResourceGrain" if "p \<in> {0, 1}" for p
      using that by (auto simp: barren_workers barren_workers [unfolded One_nat_def])
    show "bij_betw (\<lambda>p. uint (AID (agent barren p))) {0, 1} {11 ..< 11 + int 1 * totalWt (computeHexDistribution 1 ResourceGrain barren)}"
      by (auto simp: barren_total barren_workers barren_workers [unfolded One_nat_def] bij_betw_def inj_on_def)
  qed (simp add: barren_total)
  then show ?thesis by (simp add: barren_weight)
qed

section \<open>The engine and the clock\<close>

text \<open>
  C10: \<^verbatim>\<open>Run\<close> returns after a stop: if a stop is requested before the loop's \<open>k\<close>-th read of
  its shared state, and every callback and every task returns, no task submits another one and
  from some point on nobody else does, then the loop ends, not running, after at most
  \<open>k / 3 + 1\<close> ticks, each of which has advanced the clock by one.  Callbacks may themselves
  stop the engine, change its speed and submit tasks.
\<close>

theorem run_terminates:
  fixes e :: "('t, 'w) Engine"
  assumes "\<And>fn. modest (call fn)" "\<And>m. N \<le> m \<Longrightarrow> taskless (env m)" "ReqStop \<in> set (env k)" "layers_return e"
  shows "\<exists>m e' w' j. Run call env (e, w) = Some (m, e', w') \<and> \<not> IsRunning e'
    \<and> ETickNo e' = ETickNo e + of_nat j \<and> 3 * j \<le> k + 3"
proof -
  have l: "layers_return (e\<lparr>running := True\<rparr>)" using assms(4) by (simp add: layers_return_def)
  show ?thesis using run_loop_returns [where n = 0 and w = w and call = call and N = N and env = env and k = k and e = "e\<lparr>running := True\<rparr>", OF assms(1-3) l]
    by (simp add: Run_def IsRunning_def)
qed

theorem run_terminates_witness:
  "\<exists>m e' w' j. Run (\<lambda>fn w. Some (fn + w, [ReqSpeed 0]))
      (\<lambda>n. if n = 7 then [ReqTask 5, ReqStop] else []) (NewEngine\<lparr>OnTick := Some (\<lambda>t w. Some (w + 1, [ReqTask 2]))\<rparr>, 0 :: int)
    = Some (m, e', w') \<and> \<not> IsRunning e' \<and> ETickNo e' = of_nat j \<and> 3 * j \<le> 10"
proof -
  let ?e = "NewEngine\<lparr>OnTick := Some (\<lambda>t w. Some (w + 1, [ReqTask 2]))\<rparr> :: (int, int) Engine"
  let ?env = "\<lambda>n :: nat. if n = 7 then [ReqTask 5, ReqStop] else [] :: int Request list"
  have 1: "modest (\<lambda>w. Some (fn + w, [ReqSpeed 0]))" for fn :: int by (simp add: modest_def taskless_def)
  have 2: "taskless (?env m)" if "8 \<le> m" for m using that by (simp add: taskless_def)
  have 3: "ReqStop \<in> set (?env 7)" by simp
  have 4: "layers_return ?e" by (simp add: layers_return_def returns_def NewEngine_def SetSpeed_def)
  show ?thesis
    using run_terminates [where call = "\<lambda>fn w. Some (fn + w, [ReqSpeed 0])" and env = ?env and N = 8 and k = 7 and e = ?e and w = 0,
        OF 1 2 3 4] by (simp add: NewEngine_def SetSpeed_def)
qed



text \<open>
  C29: The displayed time determines the tick: reading season, day, hour, minute and year back gives
  the tick they were computed from, although a season is not a whole number of days; and the
  season shown is the one \<^verbatim>\<open>processSeason\<close> sets.
\<close>

theorem time_roundtrip:
  "tick_of_clock (sim_clock t) = unat t \<and> uint (CSeason (sim_clock t)) = uint (CurrentSeason (TickSeason t s))"
proof -
  have "CurrentSeason (autumnHarvest t u) = CurrentSeason u" "CurrentSeason (winterHardship u) = CurrentSeason u"
    "CurrentSeason (regenerateResources u) = CurrentSeason u" for u
    by (rule season_of_autumn, rule season_of_winter, simp add: regenerateResources_def each_hex_def)
  then have "CurrentSeason (TickSeason t s) = ucast (t div TicksPerSimSeason mod 4)"
    by (simp add: TickSeason_def processSeason_def Let_def)
  moreover have "uint (t div TicksPerSimSeason mod 4) < 4" by (simp add: uint_mod)
  ultimately have "uint (CurrentSeason (TickSeason t s)) = uint (t div TicksPerSimSeason mod 4)"
    by (simp add: unsigned_ucast_eq take_bit_int_eq_self)
  then show ?thesis using clock_roundtrip by (simp add: sim_clock_def Let_def)
qed

section \<open>Interventions\<close>

text \<open>
  C19: A provision that fails changes nothing; one that succeeds adds the quantity to the supply of
  one good, and announces it.  In a town with people an hour's tick then gives the same
  world as after the announcement alone: \<^verbatim>\<open>resolveMarkets\<close>, the first thing an hour
  does, resets supply and demand to what the inventories give before it forms a price, so the
  provision relieves no scarcity.  Only a town whose roster is empty keeps the supply.
\<close>

theorem provision_outcome:
  "(\<forall>err. fst (ProvisionSettlement name good q s) = Inl err \<longrightarrow> snd (ProvisionSettlement name good q s) = s)
   \<and> (\<forall>desc. fst (ProvisionSettlement name good q s) = Inr desc \<longrightarrow>
        (\<exists>sp m g. findSettlementByName name s = Some sp \<and> SMarket (settl s sp) = Some m \<and> GoodTypeFromString good = Some g
          \<and> snd (ProvisionSettlement name good q s) = emit (LastTick s) desc CategoryGardener
              (upd_settl sp (\<lambda>t. t\<lparr>SMarket := Some (provision_supply g q m)\<rparr>) s)
          \<and> (if SettlementAgents s (SID (settl s sp)) \<noteq> []
             then TickHour env tick (snd (ProvisionSettlement name good q s)) =
               TickHour env tick (emit (LastTick s) desc CategoryGardener s)
             else SMarket (settl (resolveMarkets ss sb goods (snd (ProvisionSettlement name good q s))) sp) =
               Some (provision_supply g q m))))"
proof (intro conjI allI impI)
  fix desc assume ok: "fst (ProvisionSettlement name good q s) = Inr desc"
  then obtain sp m g where f: "findSettlementByName name s = Some sp" "SMarket (settl s sp) = Some m" "GoodTypeFromString good = Some g"
    "snd (ProvisionSettlement name good q s) = emit (LastTick s) desc CategoryGardener
       (upd_settl sp (\<lambda>t. t\<lparr>SMarket := Some (provision_supply g q m)\<rparr>) s)"
    by (auto simp: ProvisionSettlement_def Let_def split: option.splits if_splits)
  have pv: "upd_settl sp (\<lambda>t. t\<lparr>SMarket := Some (provision_supply g q m)\<rparr>) s = provisioned sp g q s"
    by (simp add: provisioned_def upd_settl_def upd_def f(2))
  have "TickHour env tick (emit (LastTick s) desc CategoryGardener (provisioned sp g q s)) =
      TickHour env tick (emit (LastTick s) desc CategoryGardener s)" if "SettlementAgents s (SID (settl s sp)) \<noteq> []"
    using resolveMarkets_provision [OF _ that f(2)] findSettlementByName_Some [OF f(1)] by (simp add: TickHour_def)
  moreover have "settl (resolveMarkets ss sb goods (provisioned sp g q s)) sp = settl (provisioned sp g q s) sp"
    if "SettlementAgents s (SID (settl s sp)) = []" using that by (intro deserted_market) simp
  ultimately show "\<exists>sp m g. findSettlementByName name s = Some sp \<and> SMarket (settl s sp) = Some m \<and> GoodTypeFromString good = Some g
          \<and> snd (ProvisionSettlement name good q s) = emit (LastTick s) desc CategoryGardener
              (upd_settl sp (\<lambda>t. t\<lparr>SMarket := Some (provision_supply g q m)\<rparr>) s)
          \<and> (if SettlementAgents s (SID (settl s sp)) \<noteq> []
             then TickHour env tick (snd (ProvisionSettlement name good q s)) =
               TickHour env tick (emit (LastTick s) desc CategoryGardener s)
             else SMarket (settl (resolveMarkets ss sb goods (snd (ProvisionSettlement name good q s))) sp) =
               Some (provision_supply g q m))"
    using f by (intro exI [of _ sp] exI [of _ m] exI [of _ g])
      (simp add: pv resolveMarkets_emit, simp add: provisioned_def upd_settl_def upd_def)
qed (rule ProvisionSettlement_error)

theorem provision_outcome_witness:
  "snd (ProvisionSettlement ''Nowhere'' ''grain'' 5 sample) = sample
   \<and> (\<exists>desc. TickHour sample_env 60 (snd (ProvisionSettlement ''Oakford'' ''grain'' 5 sample)) =
        TickHour sample_env 60 (emit (LastTick sample) desc CategoryGardener sample))"
proof -
  have n: "findSettlementByName ''Nowhere'' sample = None" "findSettlementByName ''Oakford'' sample = Some 0"
    by (simp_all add: findSettlementByName_def sample_towns_def sample_town_def)
  have "fst (ProvisionSettlement ''Nowhere'' ''grain'' 5 sample) = Inl (SettlementNotFound ''Nowhere'')"
    by (simp add: ProvisionSettlement_def n)
  then have a: "snd (ProvisionSettlement ''Nowhere'' ''grain'' 5 sample) = sample" using provision_outcome by blast
  have g: "GoodTypeFromString ''grain'' = Some GoodGrain" by (simp add: GoodTypeFromString_def good_names_def)
  have m: "SMarket (settl sample 0) = Some (NewMarket 1)" by (simp add: sample_towns_def sample_town_def)
  obtain e where e: "Entries (NewMarket 1) GoodGrain = Some e" using NewMarket_complete [of 1 GoodGrain] by blast
  obtain desc where "fst (ProvisionSettlement ''Oakford'' ''grain'' 5 sample) = Inr desc"
    using ProvisionSettlement_ok [OF n(2) m g e, of 5] by (metis fst_conv)
  moreover have "SettlementAgents sample (SID (settl sample 0)) \<noteq> []" by (simp add: sample_roster sample_towns_def sample_town_def)
  ultimately show ?thesis
    using provision_outcome [of "''Oakford''" "''grain''" 5 sample sample_env 60] a n(2) by (metis option.inject)
qed

text \<open>
  C20: A consolidation moves at most the requested number of living agents, the first of the roster,
  to the nearest settlement of at least fifty within eight hexes, and nobody else; without one, or
  with nobody alive to move, it reports an error and changes no agent.
\<close>

theorem consolidation:
  fixes limit :: int
  assumes "sim_ok s" "findSettlementByName name s = Some source"
  defines "movers \<equiv> first_living s (nat limit) (SettlementAgents s (SID (settl s source)))"
  shows "case refuge s source of
      None \<Rightarrow> ConsolidateSettlement name limit s = (Inl (NoViableTarget name), s)
        \<and> (\<forall>q\<in>set (Settlements s). \<not> eligible s source q)
    | Some t \<Rightarrow> (\<forall>q\<in>set (Settlements s). eligible s source q \<longrightarrow>
          Distance (SPosition (settl s source)) (SPosition (settl s t)) \<le> Distance (SPosition (settl s source)) (SPosition (settl s q)))
        \<and> eligible s source t
        \<and> agent (snd (ConsolidateSettlement name limit s)) = (\<lambda>p. if p \<in> set movers then resettle s t (agent s p) else agent s p)
        \<and> (movers = [] \<longleftrightarrow> fst (ConsolidateSettlement name limit s) = Inl (NoAgentsToMove name))"
proof (cases "refuge s source")
  case None
  then show ?thesis using refuge_nearest [of s source] by (simp add: ConsolidateSettlement_def assms(2))
next
  case (Some t)
  have d: "distinct (SettlementAgents s (SID (settl s source)))" using assms(1) by (simp add: sim_ok_def)
  then have dm: "distinct movers" by (simp add: movers_def first_living_def)
  have mv: "for_break (move_refugee t limit) (SettlementAgents s (SID (settl s source))) (s, 0) =
      (fold (\<lambda>p. upd_agent p (resettle s t)) movers s, int (length movers))"
    using move_refugees [where u = s and s = s and moved = 0 and limit = limit and t = t, OF d] by (simp add: movers_def)
  have ag: "agent (fold (\<lambda>p. upd_agent p (resettle s t)) movers s) = (\<lambda>p. if p \<in> set movers then resettle s t (agent s p) else agent s p)"
    by (rule ext) (rule fold_upd_agent_value [OF dm])
  have e: "agent (emit tick x c u) = agent u" for tick x c u by (simp add: emit_def)
  show ?thesis
    using refuge_nearest [of s source] mv ag
    by (auto simp: ConsolidateSettlement_def assms(2) Some Let_def e)
qed

theorem consolidation_witness:
  "ConsolidateSettlement ''Oakford'' 1 sample = (Inl (NoViableTarget ''Oakford''), sample)
   \<and> HomeSettID (agent (snd (ConsolidateSettlement ''Oakford'' 1 grown)) 0) = Some 2
   \<and> HomeSettID (agent (snd (ConsolidateSettlement ''Oakford'' 1 grown)) 1) = Some 1"
proof -
  have n: "findSettlementByName ''Oakford'' sample = Some 0" "findSettlementByName ''Oakford'' grown = Some 0"
    by (simp_all add: findSettlementByName_def grown_def upd_settl_def sample_towns_def sample_town_def)
  have r: "refuge sample 0 = None" "refuge grown 0 = Some 1"
    by (simp_all add: refuge_def nearer_target_def grown_def upd_settl_def upd_def sample_towns_def sample_town_def Let_def Distance_max)
  have "first_living grown 1 (SettlementAgents grown (SID (settl grown 0))) = [0]"
    by (simp add: first_living_def grown_def upd_settl_def upd_def sample_roster sample_towns_def sample_town_def
        sample_people_def sample_agent_def)
  then have "agent (snd (ConsolidateSettlement ''Oakford'' 1 grown)) = (\<lambda>p. if p = 0 then resettle grown (Suc 0) (agent grown p) else agent grown p)"
    using consolidation [OF grown_ok n(2), of 1] r(2) by simp
  then show ?thesis
    using consolidation [OF sample_ok n(1), of 1] r(1)
    by (simp add: resettle_def grown_def upd_settl_def upd_def sample_towns_def sample_town_def sample_people_def sample_agent_def)
qed

section \<open>Society and population\<close>

text \<open>
  C6: Relationships, crime with its thefts and fines, governance with its revolutions, and the
  week of the factions (influence, dues, patronage, policies, tensions) only move crowns between
  purses and treasuries that have them, and change no home, occupation, population or roster.
\<close>

theorem society_closed:
  assumes "sim_ok s" "fits (accts s) (led s)"
    and "phase \<in> {processRelationships tick, processCrime tick, processGovernance tick, processFactionMaintenance log1p tick}"
  shows "pays (accts s) (led s) (led (phase s)) \<and> crowns_in (accts s) (led (phase s)) = crowns_in (accts s) (led s)
    \<and> same_frame s (phase s)"
proof -
  have "civic s (phase s)"
    using assms(3) quiet_civic [OF processRelationships_quiet] processCrime_civic [OF assms(1)] processGovernance_civic
      processFactionMaintenance_civic by auto
  then show ?thesis using pays_conserves [OF _ accts_finite assms(2)] by (simp add: civic_def)
qed

theorem society_closed_witness: "crowns_in (accts sample) (led (processCrime 1440 sample)) = 945"
  using society_closed [OF sample_ok sample_fits, of "processCrime 1440" 1440 id] sample_crowns by simp

text \<open>
  C23: With living adults in a settlement \<^verbatim>\<open>ensureLeader\<close> leaves it with a living leader.
  A living leader stays and nothing changes; otherwise the new one is an adult whom the form of
  government calls for: in a monarchy the richest of the top tier, or the most coherent if there
  are none, in a council the most coherent, in a merchant republic the richest, in a commune the
  one the tick selects.
\<close>

theorem leaders_seated:
  fixes sp :: ptr and tick :: uint64
  assumes "alive \<noteq> []" "\<And>p. p \<in> set alive \<Longrightarrow> Alive (agent s p) \<and> AgentIndex s (AID (agent s p)) = Some p"
  defines "t \<equiv> ensureLeader sp alive tick s"
  shows "\<exists>l. living_leader t (settl t sp) = Some l
    \<and> (if living_leader s (settl s sp) = None
       then rightful tick (Governance (settl s sp)) (agent s) alive l \<and> Role (agent t l) = RoleLeader
       else t = s)"
  unfolding t_def by (rule ensureLeader_leads [OF assms(1,2)])

theorem leaders_seated_witness:
  "\<exists>l. living_leader (ensureLeader 0 [0, 1] 1440 sample) (settl (ensureLeader 0 [0, 1] 1440 sample) 0) = Some l
    \<and> rightful 1440 GovCouncil sample_people [0, 1] l"
proof -
  have "Alive (agent sample p) \<and> AgentIndex sample (AID (agent sample p)) = Some p" if "p \<in> set [0, 1]" for p
    using that by (auto simp: sample_agent_index sample_people_def sample_agent_def)
  from leaders_seated [OF _ this, of "[0, 1]" 0 1440] obtain l where
    l: "living_leader (ensureLeader 0 [0, 1] 1440 sample) (settl (ensureLeader 0 [0, 1] 1440 sample) 0) = Some l"
      "if living_leader sample (settl sample 0) = None then rightful 1440 (Governance (settl sample 0)) (agent sample) [0, 1] l
        \<and> Role (agent (ensureLeader 0 [0, 1] 1440 sample) l) = RoleLeader else ensureLeader 0 [0, 1] 1440 sample = sample"
    by fastforce
  have "living_leader sample (settl sample 0) = None" "Governance (settl sample 0) = GovCouncil" "agent sample = sample_people"
    by (simp_all add: living_leader_def sample_towns_def sample_town_def)
  then show ?thesis using l by auto
qed



text \<open>
  C8: A day of births keeps the registry of agents exact (the index finds everybody by a number
  that is theirs alone and below the spawner's next, the rosters list everybody by home), adds at
  most three newborns per settlement after those who are there, and changes no sum of crowns,
  for any generator of random numbers, as long as the numbers last.
\<close>

theorem births_enrol:
  assumes "enrolled (3 * length (Settlements s) + k) (s, spw)"
    and "processBirths mexp log1p R newRand tick (s, Some spw) = (t, Some spw')"
  shows "enrolled k (t, spw') \<and> crowns_in (accts t) (led t) = crowns_in (accts s) (led s)
    \<and> (\<exists>newborns. Agents t = Agents s @ newborns \<and> length newborns \<le> 3 * length (Settlements s))"
  using processBirths_enrols [OF assms] processBirths_appends [of mexp log1p R newRand tick s "Some spw"] assms(2)
  by (simp add: hoard_def)

theorem births_enrol_witness:
  "\<exists>t spw'. processBirths (\<lambda>_. 0) (\<lambda>_. 1) still_rand (\<lambda>_. ()) 14400 (sample, Some sample_spawner) = (t, Some spw')
    \<and> enrolled 94 (t, spw') \<and> crowns_in (accts t) (led t) = 945"
proof -
  obtain t spw' where p: "processBirths (\<lambda>_. 0) (\<lambda>_. 1) still_rand (\<lambda>_. ()) 14400 (sample, Some sample_spawner) = (t, Some spw')"
    using processBirths_spawner by blast
  have "enrolled (3 * length (Settlements sample) + 94) (sample, sample_spawner)" using sample_enrolled by simp
  from births_enrol [OF this p] show ?thesis using p sample_crowns by auto
qed

end
